(* ===== verification/Prelude.thy ===== *)
theory Prelude
  imports Main "HOL-Library.Sublist" "HOL-Library.Char_ord" "HOL-Library.List_Lexorder"
begin

text \<open>
  Shared ground of the development: the program type of the model (an effectful Go function
  as a function of the history of external calls), its rules, the part of Go's
  \<^verbatim>\<open>strings\<close> and \<^verbatim>\<open>strconv\<close> packages the controller uses, and the lemmas on them that
  the component theories rely on.
\<close>

named_theorems prog_simps \<open>equations that run a program one step\<close>
named_theorems trace_intros \<open>introduction rules for what a program may emit\<close>

section \<open>Effectful programs\<close>

text \<open>
  A Go function that talks to the outside is a function of the history of the external calls
  made so far (newest first). It returns a value, or the goroutine panics, and in both cases
  the longer history. \<^verbatim>\<open>'e\<close> is the type of external calls.
\<close>

datatype 'a go = Ret 'a | Panic

type_synonym ('e, 'a) prog = "'e list \<Rightarrow> 'a go \<times> 'e list"

definition ret :: "'a \<Rightarrow> ('e, 'a) prog" where
  "ret x = (\<lambda>h. (Ret x, h))"

definition panic :: "('e, 'a) prog" where
  "panic = (\<lambda>h. (Panic, h))"

definition bnd :: "('e, 'a) prog \<Rightarrow> ('a \<Rightarrow> ('e, 'b) prog) \<Rightarrow> ('e, 'b) prog" where
  "bnd m f = (\<lambda>h. case m h of (Ret x, h') \<Rightarrow> f x h' | (Panic, h') \<Rightarrow> (Panic, h'))"

text \<open>One external call: the environment answers from the history, the call is recorded.\<close>

definition call :: "('e list \<Rightarrow> 'a) \<Rightarrow> ('a \<Rightarrow> 'e) \<Rightarrow> ('e, 'a) prog" where
  "call ask ev = (\<lambda>h. let x = ask h in (Ret x, ev x # h))"

lemma run_ret [prog_simps]: "ret x h = (Ret x, h)"
  by (simp add: ret_def)

lemma run_panic [prog_simps]: "panic h = (Panic, h)"
  by (simp add: panic_def)

lemma run_call [prog_simps]: "call ask ev h = (Ret (ask h), ev (ask h) # h)"
  by (simp add: call_def Let_def)

lemma run_bnd [prog_simps]:
  "bnd m f h = (case m h of (Ret x, h') \<Rightarrow> f x h' | (Panic, h') \<Rightarrow> (Panic, h'))"
  by (simp add: bnd_def)

lemma bnd_Ret:
  "bnd m f h = (Ret y, h') \<longleftrightarrow> (\<exists>x h1. m h = (Ret x, h1) \<and> f x h1 = (Ret y, h'))"
  by (auto simp: bnd_def split: prod.splits go.splits)

lemma bnd_ret [simp]: "bnd (ret x) f = f x"
  by (simp add: bnd_def ret_def)

lemma bnd_panic [simp]: "bnd panic f = panic"
  by (simp add: bnd_def panic_def)

lemma bnd_assoc: "bnd (bnd m f) g = bnd m (\<lambda>x. bnd (f x) g)"
  by (rule ext) (simp add: bnd_def split: prod.split go.split)

text \<open>\<open>for_each\<close> is Go's \<^verbatim>\<open>for ... range\<close> with an early return: the body answers
  \<open>Some e\<close> to leave the loop with \<open>e\<close>.\<close>

fun for_each :: "'x list \<Rightarrow> ('x \<Rightarrow> ('e, 'err option) prog) \<Rightarrow> ('e, 'err option) prog" where
  "for_each [] body = ret None"
| "for_each (x # xs) body =
     bnd (body x) (\<lambda>r. case r of Some e \<Rightarrow> ret (Some e) | None \<Rightarrow> for_each xs body)"

text \<open>Go's \<^verbatim>\<open>if err != nil { return ..., err }\<close> after a call that answers a value and an error
  (\<open>attempt\<close>) or only an error (\<open>check\<close>).\<close>

definition attempt :: "('e, 'err + 'a) prog \<Rightarrow> ('a \<Rightarrow> ('e, 'err + 'b) prog) \<Rightarrow> ('e, 'err + 'b) prog" where
  "attempt m f = bnd m (\<lambda>r. case r of Inl e \<Rightarrow> ret (Inl e) | Inr x \<Rightarrow> f x)"

definition check :: "('e, 'err option) prog \<Rightarrow> ('e, 'err + 'b) prog \<Rightarrow> ('e, 'err + 'b) prog" where
  "check m k = bnd m (\<lambda>r. case r of Some e \<Rightarrow> ret (Inl e) | None \<Rightarrow> k)"

definition check_err :: "('e, 'err option) prog \<Rightarrow> ('e, 'err option) prog \<Rightarrow> ('e, 'err option) prog" where
  "check_err m k = bnd m (\<lambda>r. case r of Some e \<Rightarrow> ret (Some e) | None \<Rightarrow> k)"

definition attempt_err :: "('e, 'err + 'a) prog \<Rightarrow> ('a \<Rightarrow> ('e, 'err option) prog) \<Rightarrow> ('e, 'err option) prog" where
  "attempt_err m f = bnd m (\<lambda>r. case r of Inl e \<Rightarrow> ret (Some e) | Inr x \<Rightarrow> f x)"

lemmas [prog_simps] = attempt_def check_def check_err_def attempt_err_def

text \<open>Runs that end without an error: every part of them did.\<close>

lemma ok_run:
  "check_err m k h = (Ret None, h') \<longleftrightarrow> (\<exists>h1. m h = (Ret None, h1) \<and> k h1 = (Ret None, h'))"
  "attempt_err m2 f h = (Ret None, h') \<longleftrightarrow> (\<exists>x h1. m2 h = (Ret (Inr x), h1) \<and> f x h1 = (Ret None, h'))"
  "for_each (x1 # xs) body h = (Ret None, h') \<longleftrightarrow> (\<exists>h1. body x1 h = (Ret None, h1) \<and> for_each xs body h1 = (Ret None, h'))"
  "(case e of Some y \<Rightarrow> ret (Some y) | None \<Rightarrow> l) h = (Ret None, h') \<longleftrightarrow> e = None \<and> l h = (Ret None, h')"
  by (auto simp: check_err_def attempt_err_def bnd_def run_ret split: prod.splits go.splits option.splits sum.splits)

subsection \<open>What a program may emit\<close>

text \<open>\<open>emits P m\<close>: whatever the environment does, \<open>m\<close> only adds calls that satisfy \<open>P\<close>
  to the history, whether it returns or panics.\<close>

definition emits :: "('e \<Rightarrow> bool) \<Rightarrow> ('e, 'a) prog \<Rightarrow> bool" where
  "emits P m \<longleftrightarrow> (\<forall>h. \<exists>es. snd (m h) = es @ h \<and> list_all P es)"

lemma emits_ret [trace_intros]: "emits P (ret x)"
  by (simp add: emits_def ret_def)

lemma emits_panic [trace_intros]: "emits P panic"
  by (simp add: emits_def panic_def)

lemma emits_call [trace_intros]: "(\<And>x. P (ev x)) \<Longrightarrow> emits P (call ask ev)"
  by (auto simp: emits_def call_def Let_def intro: exI [of _ "[ev (ask h)]" for h])

lemma emits_bnd [trace_intros]:
  assumes m: "emits P m" and f: "\<And>x. emits P (f x)"
  shows "emits P (bnd m f)"
  unfolding emits_def
proof (intro allI)
  fix h
  obtain r h1 where r: "m h = (r, h1)" by (cases "m h")
  from m r obtain es where es: "h1 = es @ h" "list_all P es"
    by (auto simp: emits_def dest!: spec [of _ h])
  show "\<exists>es. snd (bnd m f h) = es @ h \<and> list_all P es"
  proof (cases r)
    case (Ret x)
    from f [of x] obtain es' where "snd (f x h1) = es' @ h1" "list_all P es'"
      by (auto simp: emits_def dest!: spec [of _ h1])
    with Ret r es show ?thesis
      by (intro exI [of _ "es' @ es"]) (simp add: bnd_def)
  next
    case Panic
    with r es show ?thesis by (auto simp: bnd_def)
  qed
qed

lemma emits_if [trace_intros]: "emits P m \<Longrightarrow> emits P n \<Longrightarrow> emits P (if b then m else n)"
  by simp

lemma emits_option [trace_intros]:
  "emits P m \<Longrightarrow> (\<And>x. emits P (f x)) \<Longrightarrow> emits P (case v of None \<Rightarrow> m | Some x \<Rightarrow> f x)"
  by (cases v) simp_all

lemma emits_sum [trace_intros]:
  "(\<And>e. emits P (f e)) \<Longrightarrow> (\<And>x. emits P (g x)) \<Longrightarrow>
   emits P (case v of Inl e \<Rightarrow> f e | Inr x \<Rightarrow> g x)"
  by (cases v) simp_all

lemma emits_prod [trace_intros]:
  "(\<And>x y. emits P (f x y)) \<Longrightarrow> emits P (case v of (x, y) \<Rightarrow> f x y)"
  by (cases v) simp

lemma emits_Let [trace_intros]: "(\<And>x. emits P (f x)) \<Longrightarrow> emits P (Let v f)"
  by (simp add: Let_def)

lemma emits_attempt [trace_intros]:
  "emits P m \<Longrightarrow> (\<And>x. emits P (f x)) \<Longrightarrow> emits P (attempt m f)"
  "emits P m \<Longrightarrow> (\<And>x. emits P (g x)) \<Longrightarrow> emits P (attempt_err m g)"
  unfolding attempt_def attempt_err_def by (intro emits_bnd emits_sum emits_ret; assumption)+

lemma emits_check [trace_intros]:
  "emits P m \<Longrightarrow> emits P k \<Longrightarrow> emits P (check m k)"
  "emits P m \<Longrightarrow> emits P l \<Longrightarrow> emits P (check_err m l)"
  unfolding check_def check_err_def by (intro emits_bnd emits_option emits_ret; assumption)+

lemma emits_for_each [trace_intros]:
  "(\<And>x. emits P (body x)) \<Longrightarrow> emits P (for_each xs body)"
  by (induction xs) (auto intro!: trace_intros)

lemma emits_mono: "emits P m \<Longrightarrow> (\<And>e. P e \<Longrightarrow> Q e) \<Longrightarrow> emits Q m"
  by (fastforce simp: emits_def list_all_iff)

lemma emits_run:
  assumes "emits P m" and "m h = (r, h')"
  obtains es where "h' = es @ h" and "\<And>e. e \<in> set es \<Longrightarrow> P e"
proof -
  from assms obtain es where "h' = es @ h" "list_all P es"
    unfolding emits_def by (metis snd_conv)
  then show thesis using that by (auto simp: list_all_iff)
qed

lemma emits_extends: "emits P m \<Longrightarrow> m h = (r, h') \<Longrightarrow> \<exists>es. h' = es @ h"
  by (erule emits_run) auto

subsection \<open>Postconditions\<close>

text \<open>\<open>wp m Q h\<close>: run from the history \<open>h\<close>, the program ends (returning or panicking) with a
  result and a history that satisfy \<open>Q\<close>. The equations compute it through the structure of a
  program.\<close>

definition wp :: "('e, 'a) prog \<Rightarrow> ('a go \<Rightarrow> 'e list \<Rightarrow> bool) \<Rightarrow> 'e list \<Rightarrow> bool" where
  "wp m Q h = (case m h of (r, h') \<Rightarrow> Q r h')"

lemma wpI: "(\<And>r h'. m h = (r, h') \<Longrightarrow> Q r h') \<Longrightarrow> wp m Q h"
  by (cases "m h") (simp add: wp_def)

lemma wpD: "wp m Q h \<Longrightarrow> m h = (r, h') \<Longrightarrow> Q r h'"
  by (simp add: wp_def)

lemma wp_mono: "wp m Q h \<Longrightarrow> (\<And>r h'. Q r h' \<Longrightarrow> Q' r h') \<Longrightarrow> wp m Q' h"
  by (simp add: wp_def split: prod.splits)

lemma wp_conj: "wp m Q h \<Longrightarrow> wp m Q' h \<Longrightarrow> wp m (\<lambda>r h'. Q r h' \<and> Q' r h') h"
  by (simp add: wp_def split: prod.splits)

named_theorems wp_simps \<open>equations for postconditions of programs\<close>

lemma wp_ret [wp_simps]: "wp (ret x) Q h = Q (Ret x) h"
  by (simp add: wp_def ret_def)

lemma wp_panic [wp_simps]: "wp panic Q h = Q Panic h"
  by (simp add: wp_def panic_def)

lemma wp_call [wp_simps]: "wp (call ask ev) Q h = Q (Ret (ask h)) (ev (ask h) # h)"
  by (simp add: wp_def call_def Let_def)

lemma wp_bnd [wp_simps]:
  "wp (bnd m f) Q h = wp m (\<lambda>r h'. case r of Ret x \<Rightarrow> wp (f x) Q h' | Panic \<Rightarrow> Q Panic h') h"
  by (simp add: wp_def bnd_def split: prod.split go.split)

lemma wp_attempt [wp_simps]:
  "wp (attempt m f) Q h = wp m (\<lambda>r h'. case r of
     Ret (Inr x) \<Rightarrow> wp (f x) Q h' | Ret (Inl e) \<Rightarrow> Q (Ret (Inl e)) h' | Panic \<Rightarrow> Q Panic h') h"
  "wp (attempt_err m g) Q' h = wp m (\<lambda>r h'. case r of
     Ret (Inr x) \<Rightarrow> wp (g x) Q' h' | Ret (Inl e) \<Rightarrow> Q' (Ret (Some e)) h' | Panic \<Rightarrow> Q' Panic h') h"
  by (simp_all add: wp_def attempt_def attempt_err_def bnd_def ret_def split: prod.split go.split sum.split)

lemma wp_check [wp_simps]:
  "wp (check m k) Q h = wp m (\<lambda>r h'. case r of
     Ret None \<Rightarrow> wp k Q h' | Ret (Some e) \<Rightarrow> Q (Ret (Inl e)) h' | Panic \<Rightarrow> Q Panic h') h"
  "wp (check_err m l) Q' h = wp m (\<lambda>r h'. case r of
     Ret None \<Rightarrow> wp l Q' h' | Ret (Some e) \<Rightarrow> Q' (Ret (Some e)) h' | Panic \<Rightarrow> Q' Panic h') h"
  by (simp_all add: wp_def check_def check_err_def bnd_def ret_def split: prod.split go.split option.split)

lemma wp_if [wp_simps]: "wp (if b then m else n) Q h = (if b then wp m Q h else wp n Q h)"
  by simp

lemma wp_option [wp_simps]:
  "wp (case v of None \<Rightarrow> m | Some x \<Rightarrow> f x) Q h = (case v of None \<Rightarrow> wp m Q h | Some x \<Rightarrow> wp (f x) Q h)"
  by (cases v) simp_all

lemma wp_sum [wp_simps]:
  "wp (case v of Inl e \<Rightarrow> f e | Inr x \<Rightarrow> g x) Q h = (case v of Inl e \<Rightarrow> wp (f e) Q h | Inr x \<Rightarrow> wp (g x) Q h)"
  by (cases v) simp_all

lemma wp_prod [wp_simps]: "wp (case v of (x, y) \<Rightarrow> f x y) Q h = (case v of (x, y) \<Rightarrow> wp (f x y) Q h)"
  by (cases v) simp

lemma wp_Let [wp_simps]: "wp (Let v f) Q h = wp (f v) Q h"
  by (simp add: Let_def)

lemma emits_wp: "emits P m \<longleftrightarrow> (\<forall>h. wp m (\<lambda>r h'. \<exists>es. h' = es @ h \<and> list_all P es) h)"
  by (simp add: emits_def wp_def case_prod_beta)

text \<open>\<open>returns P m\<close>: whatever \<open>m\<close> returns satisfies \<open>P\<close>.\<close>

definition returns :: "('a \<Rightarrow> bool) \<Rightarrow> ('e, 'a) prog \<Rightarrow> bool" where
  "returns P m \<longleftrightarrow> (\<forall>h x h'. m h = (Ret x, h') \<longrightarrow> P x)"

lemma returnsD: "returns P m \<Longrightarrow> m h = (Ret x, h') \<Longrightarrow> P x"
  unfolding returns_def by blast

lemma returns_ret: "P x \<Longrightarrow> returns P (ret x)"
  by (simp add: returns_def ret_def)

lemma returns_panic: "returns P panic"
  by (simp add: returns_def run_panic)

lemma returns_mono: "returns P m \<Longrightarrow> (\<And>x. P x \<Longrightarrow> Q x) \<Longrightarrow> returns Q m"
  by (auto simp: returns_def)

lemma returns_bnd: "(\<And>x. returns P (f x)) \<Longrightarrow> returns P (bnd m f)"
  unfolding returns_def bnd_def by (auto split: prod.splits go.splits)

lemma returns_attempt: "(\<And>e. P (Inl e)) \<Longrightarrow> (\<And>x. returns P (f x)) \<Longrightarrow> returns P (attempt m f)"
  unfolding attempt_def by (rule returns_bnd) (auto intro: returns_ret split: sum.split)

lemma returns_check: "(\<And>e. P (Inl e)) \<Longrightarrow> returns P k \<Longrightarrow> returns P (check m k)"
  unfolding check_def by (rule returns_bnd) (auto intro: returns_ret split: option.split)

lemma returns_bnd_of:
  "returns Q m \<Longrightarrow> (\<And>x. Q x \<Longrightarrow> returns P (f x)) \<Longrightarrow> returns P (bnd m f)"
  unfolding returns_def bnd_def by (auto split: prod.splits go.splits) blast

lemma emits_bnd_of:
  assumes m: "emits P m" and Q: "returns Q m" and f: "\<And>x. Q x \<Longrightarrow> emits P (f x)"
  shows "emits P (bnd m f)"
  unfolding emits_wp
proof
  fix h
  obtain r h1 where run: "m h = (r, h1)" by fastforce
  from emits_run [OF m run] obtain es where es: "h1 = es @ h" "list_all P es" by (metis list_all_iff)
  show "wp (bnd m f) (\<lambda>r h'. \<exists>es. h' = es @ h \<and> list_all P es) h"
  proof (cases r)
    case (Ret x)
    obtain r2 h2 where run2: "f x h1 = (r2, h2)" by fastforce
    from emits_run [OF f [OF returnsD [OF Q run [unfolded Ret]]] run2]
    obtain es2 where "h2 = es2 @ h1" "list_all P es2" by (metis list_all_iff)
    with es run run2 Ret show ?thesis by (auto simp: wp_def bnd_def intro!: exI [of _ "es2 @ es"])
  qed (use run es in \<open>auto simp: wp_def bnd_def\<close>)
qed

lemmas returns_cases = returns_ret returns_attempt returns_check returns_bnd

section \<open>Go strings\<close>

text \<open>
  A Go string is a sequence of bytes, as is HOL's \<^typ>\<open>string\<close>. \<^verbatim>\<open>strings.ToLower\<close> is
  modelled on ASCII letters, the only ones Kubernetes names and the compared literals have.
\<close>

definition HasPrefix :: "string \<Rightarrow> string \<Rightarrow> bool" where
  "HasPrefix s p = prefix p s"

definition HasSuffix :: "string \<Rightarrow> string \<Rightarrow> bool" where
  "HasSuffix s p = suffix p s"

definition TrimSuffix :: "string \<Rightarrow> string \<Rightarrow> string" where
  "TrimSuffix s p = (if HasSuffix s p then take (length s - length p) s else s)"

text \<open>\<^verbatim>\<open>strings.Split(s, sep)\<close> for a separator of one byte: never empty.\<close>

fun Split :: "string \<Rightarrow> char \<Rightarrow> string list" where
  "Split [] c = [[]]"
| "Split (x # xs) c =
     (if x = c then [] # Split xs c
      else (case Split xs c of [] \<Rightarrow> [[x]] | y # ys \<Rightarrow> (x # y) # ys))"

text \<open>\<^verbatim>\<open>strings.Cut(s, sep)\<close> for one byte: what precedes it, what follows it, whether it occurs.\<close>

fun Cut :: "string \<Rightarrow> char \<Rightarrow> string \<times> string \<times> bool" where
  "Cut [] c = ([], [], False)"
| "Cut (x # xs) c =
     (if x = c then ([], xs, True)
      else (case Cut xs c of (a, b, f) \<Rightarrow> (x # a, b, f)))"

fun Contains :: "string \<Rightarrow> string \<Rightarrow> bool" where
  "Contains [] p = (p = [])"
| "Contains (x # xs) p = (HasPrefix (x # xs) p \<or> Contains xs p)"

text \<open>\<^verbatim>\<open>strings.Replace(s, old, new, -1)\<close> for a non-empty \<open>old\<close>.\<close>

function ReplaceAll :: "string \<Rightarrow> string \<Rightarrow> string \<Rightarrow> string" where
  "ReplaceAll [] old new = []"
| "ReplaceAll (x # xs) old new =
     (if old \<noteq> [] \<and> HasPrefix (x # xs) old then new @ ReplaceAll (drop (length old) (x # xs)) old new
      else x # ReplaceAll xs old new)"
  by pat_completeness auto
termination
  by (relation "measure (\<lambda>(s, old, new). length s)") (auto simp: diff_less_Suc)

definition ToLower_char :: "char \<Rightarrow> char" where
  "ToLower_char c =
     (let n = of_char c :: nat in if 65 \<le> n \<and> n \<le> 90 then char_of (n + 32) else c)"

definition ToLower :: "string \<Rightarrow> string" where
  "ToLower = map ToLower_char"

fun JoinWith :: "string \<Rightarrow> string list \<Rightarrow> string" where
  "JoinWith sep [] = []"
| "JoinWith sep [x] = x"
| "JoinWith sep (x # y # xs) = x @ sep @ JoinWith sep (y # xs)"

subsection \<open>Lemmas\<close>

lemma HasSuffix_append [simp]: "HasSuffix (s @ p) p"
  by (simp add: HasSuffix_def suffixI)

lemma TrimSuffix_append [simp]: "TrimSuffix (s @ p) p = s"
  by (simp add: TrimSuffix_def)

lemma TrimSuffix_other: "\<not> HasSuffix s p \<Longrightarrow> TrimSuffix s p = s"
  by (simp add: TrimSuffix_def)

lemma HasSuffix_same_length:
  assumes "length p = length q"
  shows "HasSuffix (s @ q) p \<longleftrightarrow> p = q"
  using assms by (auto simp: HasSuffix_def suffix_def)

lemma Split_nonempty [simp]: "Split s c \<noteq> []"
  by (induction s) (auto split: list.split)

lemma Split_no_sep: "c \<notin> set s \<Longrightarrow> Split s c = [s]"
  by (induction s) auto

lemma Split_append: "c \<notin> set a \<Longrightarrow> Split (a @ c # b) c = a # Split b c"
  by (induction a) auto

lemma hd_Split: "hd (Split s c) = takeWhile (\<lambda>x. x \<noteq> c) s"
  by (induction s) (auto split: list.split)

lemma Cut_found: "c \<notin> set a \<Longrightarrow> Cut (a @ c # b) c = (a, b, True)"
  by (induction a) auto

lemma Cut_absent: "c \<notin> set s \<Longrightarrow> Cut s c = (s, [], False)"
  by (induction s) auto

lemma Cut_fst: "fst (Cut s c) = takeWhile (\<lambda>x. x \<noteq> c) s"
  by (induction s) (auto split: prod.split)

lemma takeWhile_until: "c \<notin> set a \<Longrightarrow> takeWhile (\<lambda>x. x \<noteq> c) (a @ c # b) = a"
  by (induction a) auto

lemma dropWhile_until: "c \<notin> set a \<Longrightarrow> dropWhile (\<lambda>x. x \<noteq> c) (a @ c # b) = c # b"
  by (induction a) auto

lemma Contains_append [simp]: "Contains (a @ p @ b) p"
proof (induction a)
  case Nil
  have "HasPrefix (p @ b) p" by (simp add: HasPrefix_def)
  then show ?case by (cases "p @ b") auto
next
  case (Cons x a)
  then show ?case by simp
qed

section \<open>Go integers\<close>

text \<open>\<^verbatim>\<open>strconv.Atoi\<close>: an optional sign and at least one decimal digit; the result has to fit
  a 64-bit integer.\<close>

definition digit_val :: "char \<Rightarrow> int option" where
  "digit_val c = (let n = of_char c :: nat in if 48 \<le> n \<and> n \<le> 57 then Some (int n - 48) else None)"

fun decimal :: "int \<Rightarrow> string \<Rightarrow> int option" where
  "decimal acc [] = Some acc"
| "decimal acc (c # cs) =
     (case digit_val c of None \<Rightarrow> None | Some d \<Rightarrow> decimal (10 * acc + d) cs)"

definition unsigned_decimal :: "string \<Rightarrow> int option" where
  "unsigned_decimal s = (if s = [] then None else decimal 0 s)"

definition fits :: "nat \<Rightarrow> int \<Rightarrow> bool" where
  "fits bits n \<longleftrightarrow> - (2 ^ (bits - 1)) \<le> n \<and> n < 2 ^ (bits - 1)"

definition ParseInt :: "string \<Rightarrow> nat \<Rightarrow> int option" where
  "ParseInt s bits =
     (let v = (case s of
         [] \<Rightarrow> None
       | c # cs \<Rightarrow> if c = CHR ''-'' then map_option uminus (unsigned_decimal cs)
                  else if c = CHR ''+'' then unsigned_decimal cs
                  else unsigned_decimal (c # cs))
      in case v of None \<Rightarrow> None | Some n \<Rightarrow> if fits bits n then Some n else None)"

definition Atoi :: "string \<Rightarrow> int option" where
  "Atoi s = ParseInt s 64"

text \<open>\<^verbatim>\<open>strconv.Itoa\<close>: the decimal digits of an integer, with its sign.\<close>

fun nat_digits :: "nat \<Rightarrow> string" where
  "nat_digits n =
     (if n < 10 then [char_of (48 + n)] else nat_digits (n div 10) @ [char_of (48 + n mod 10)])"

declare nat_digits.simps [simp del]

definition Itoa :: "int \<Rightarrow> string" where
  "Itoa i = (if i < 0 then CHR ''-'' # nat_digits (nat (- i)) else nat_digits (nat i))"

text \<open>\<^verbatim>\<open>strings.TrimSpace\<close>, for ASCII.\<close>

definition is_space :: "char \<Rightarrow> bool" where
  "is_space c = (c \<in> set [CHR '' '', CHR 0x09, CHR 0x0A, CHR 0x0B, CHR 0x0C, CHR 0x0D])"

definition TrimSpace :: "string \<Rightarrow> string" where
  "TrimSpace s = rev (dropWhile is_space (rev (dropWhile is_space s)))"

lemma digit_val_bounds: "digit_val c = Some d \<Longrightarrow> 0 \<le> d \<and> d \<le> 9"
  by (auto simp: digit_val_def Let_def split: if_splits)

lemma decimal_nonneg: "decimal acc s = Some n \<Longrightarrow> 0 \<le> acc \<Longrightarrow> acc \<le> n"
proof (induction s arbitrary: acc)
  case Nil
  then show ?case by simp
next
  case (Cons c cs)
  then obtain d where d: "digit_val c = Some d" and n: "decimal (10 * acc + d) cs = Some n"
    by (auto split: option.splits)
  from digit_val_bounds [OF d] Cons.IH [OF n] Cons.prems show ?case by linarith
qed

lemma ParseInt_fits: "ParseInt s bits = Some n \<Longrightarrow> fits bits n"
  by (auto simp: ParseInt_def Let_def split: option.splits if_splits list.splits)

section \<open>Codecs\<close>

text \<open>
  The interface of a textual representation: what is decoded from an encoded value is the
  value again, for the values the code encodes. Two such values never share a representation.
\<close>

locale codec =
  fixes enc :: "'a \<Rightarrow> 'b" and dec :: "'b \<Rightarrow> 'c + 'a" and ok :: "'a \<Rightarrow> bool"
  assumes dec_enc: "ok x \<Longrightarrow> dec (enc x) = Inr x"
begin

lemma enc_inj: "ok x \<Longrightarrow> ok y \<Longrightarrow> enc x = enc y \<longleftrightarrow> x = y"
  using dec_enc by (metis Inr_inject)

lemma dec_stable: "ok x \<Longrightarrow> map_sum id enc (dec (enc x)) = Inr (enc x)"
  by (simp add: dec_enc)

end

end
