(* ===== verification/GoUrl.thy ===== *)
theory GoUrl
  imports Prelude
begin

text \<open>
  The part of Go's \<^verbatim>\<open>net/url\<close> package the controller relies on to build and to read
  database connection strings: percent-encoding in its modes, \<^verbatim>\<open>Parse\<close>, \<^verbatim>\<open>URL.String\<close>,
  \<^verbatim>\<open>Hostname\<close>, \<^verbatim>\<open>Port\<close>, \<^verbatim>\<open>Userinfo\<close> and \<^verbatim>\<open>ParseQuery\<close>, with the lemmas that decoding
  undoes encoding. IPv6 zone identifiers, which no connection string here has, are left out.
\<close>

section \<open>Percent-encoding\<close>

datatype encoding = EncodePath | EncodeHost | EncodeUserPassword | EncodeQuery

datatype url_error =
    UrlControlChar | UrlMissingScheme | UrlColonInFirstSegment | UrlInvalidUserinfo
  | UrlInvalidPort | UrlMissingBracket | UrlEscapeError | UrlInvalidHost

definition is_alnum :: "char \<Rightarrow> bool" where
  "is_alnum c = (let n = of_char c :: nat in
     (48 \<le> n \<and> n \<le> 57) \<or> (65 \<le> n \<and> n \<le> 90) \<or> (97 \<le> n \<and> n \<le> 122))"

definition is_digit :: "char \<Rightarrow> bool" where
  "is_digit c = (let n = of_char c :: nat in 48 \<le> n \<and> n \<le> 57)"

definition is_letter :: "char \<Rightarrow> bool" where
  "is_letter c = (let n = of_char c :: nat in (65 \<le> n \<and> n \<le> 90) \<or> (97 \<le> n \<and> n \<le> 122))"

definition shouldEscape :: "encoding \<Rightarrow> char \<Rightarrow> bool" where
  "shouldEscape mode c =
     (if is_alnum c then False
      else if mode = EncodeHost \<and>
              c \<in> set [CHR ''!'', CHR ''$'', CHR ''&'', CHR 0x27, CHR ''('', CHR '')'', CHR ''*'',
                      CHR ''+'', CHR '','', CHR '';'', CHR ''='', CHR '':'', CHR ''['', CHR '']'',
                      CHR ''<'', CHR ''>'', CHR 0x22] then False
      else if c \<in> set [CHR ''-'', CHR ''_'', CHR ''.'', CHR ''~''] then False
      else if c \<in> set [CHR ''$'', CHR ''&'', CHR ''+'', CHR '','', CHR ''/'', CHR '':'', CHR '';'',
                      CHR ''='', CHR ''?'', CHR ''@''] then
        (case mode of
           EncodePath \<Rightarrow> c = CHR ''?''
         | EncodeUserPassword \<Rightarrow> c \<in> set [CHR ''@'', CHR ''/'', CHR ''?'', CHR '':'']
         | _ \<Rightarrow> True)
      else True)"

definition upperhex :: "nat \<Rightarrow> char" where
  "upperhex n = char_of (if n < 10 then n + 48 else n + 55)"

definition unhex :: "char \<Rightarrow> nat option" where
  "unhex c = (let n = of_char c :: nat in
     if 48 \<le> n \<and> n \<le> 57 then Some (n - 48)
     else if 97 \<le> n \<and> n \<le> 102 then Some (n - 87)
     else if 65 \<le> n \<and> n \<le> 70 then Some (n - 55) else None)"

definition escape_char :: "encoding \<Rightarrow> char \<Rightarrow> string" where
  "escape_char mode c =
     (if mode = EncodeQuery \<and> c = CHR '' '' then ''+''
      else if shouldEscape mode c then
        [CHR ''%'', upperhex (of_char c div 16), upperhex (of_char c mod 16)]
      else [c])"

definition escape :: "encoding \<Rightarrow> string \<Rightarrow> string" where
  "escape mode s = concat (map (escape_char mode) s)"

abbreviation QueryEscape :: "string \<Rightarrow> string" where
  "QueryEscape \<equiv> escape EncodeQuery"

text \<open>What \<^verbatim>\<open>unescape\<close> does with the byte \<open>v\<close> that an escape sequence stands for: a host
  accepts only \<^verbatim>\<open>%25\<close> and non-ASCII bytes.\<close>

definition unescape_byte_ok :: "encoding \<Rightarrow> nat \<Rightarrow> bool" where
  "unescape_byte_ok mode v =
     (case mode of
        EncodeHost \<Rightarrow> v = 37 \<or> 128 \<le> v
      | _ \<Rightarrow> True)"

fun unescape :: "encoding \<Rightarrow> string \<Rightarrow> url_error + string" where
  "unescape mode [] = Inr []"
| "unescape mode (c # cs) =
     (if c = CHR ''%'' then
        (case cs of
           a # b # rest \<Rightarrow>
             (case (unhex a, unhex b) of
                (Some x, Some y) \<Rightarrow>
                  if unescape_byte_ok mode (16 * x + y)
                  then map_sum id (Cons (char_of (16 * x + y))) (unescape mode rest)
                  else Inl UrlEscapeError
              | _ \<Rightarrow> Inl UrlEscapeError)
         | _ \<Rightarrow> Inl UrlEscapeError)
      else if c = CHR ''+'' then
        map_sum id (Cons (if mode = EncodeQuery then CHR '' '' else c)) (unescape mode cs)
      else if mode = EncodeHost \<and> (of_char c :: nat) < 128 \<and> shouldEscape mode c
      then Inl UrlInvalidHost
      else map_sum id (Cons c) (unescape mode cs))"

subsection \<open>Decoding undoes encoding\<close>

lemma unhex_upperhex [simp]: "n < 16 \<Longrightarrow> unhex (upperhex n) = Some n"
  by (auto simp: unhex_def upperhex_def Let_def)

lemma upperhex_alnum: "n < 16 \<Longrightarrow> is_alnum (upperhex n)"
  by (auto simp: is_alnum_def upperhex_def Let_def)

lemma byte_of_nibbles: "char_of (16 * (of_char c div 16) + of_char c mod 16 :: nat) = c"
  by (simp add: mult_div_mod_eq)

lemma of_char_nibbles: "(of_char c :: nat) div 16 < 16" "(of_char c :: nat) mod 16 < 16"
  by (simp_all add: less_mult_imp_div_less)

lemma map_sum_comp_Cons [simp]: "map_sum id (Cons c) (map_sum id f x) = map_sum id (\<lambda>s. c # f s) x"
  by (cases x) simp_all

lemma unescape_escape_char:
  assumes "mode = EncodeQuery \<or> (mode \<in> {EncodePath, EncodeUserPassword} \<and> c \<noteq> CHR '' '')"
  shows "unescape mode (escape_char EncodeQuery c @ t) = map_sum id (Cons c) (unescape mode t)"
proof (cases "c = CHR '' ''")
  case True
  with assms show ?thesis by (simp add: escape_char_def)
next
  case False
  show ?thesis
  proof (cases "shouldEscape EncodeQuery c")
    case True
    have "unescape_byte_ok mode n" for n
      using assms by (auto simp: unescape_byte_ok_def)
    with True False show ?thesis
      by (simp add: escape_char_def of_char_nibbles byte_of_nibbles)
  next
    case False': False
    then have "c \<noteq> CHR ''%''" "c \<noteq> CHR ''+''"
      by (auto simp: shouldEscape_def is_alnum_def Let_def)
    with False False' assms show ?thesis by (auto simp: escape_char_def)
  qed
qed

lemma unescape_escape:
  assumes "mode = EncodeQuery \<or> (mode \<in> {EncodePath, EncodeUserPassword} \<and> CHR '' '' \<notin> set s)"
  shows "unescape mode (QueryEscape s) = Inr s"
  using assms
proof (induction s)
  case Nil
  then show ?case by (simp add: escape_def)
next
  case (Cons c s)
  then have "unescape mode (escape_char EncodeQuery c @ QueryEscape s) =
      map_sum id (Cons c) (unescape mode (QueryEscape s))"
    by (intro unescape_escape_char) auto
  with Cons show ?case by (auto simp: escape_def)
qed

text \<open>The bytes an escaped query component consists of: no delimiter of a URL among them.\<close>

definition query_safe :: "char \<Rightarrow> bool" where
  "query_safe c = (is_alnum c \<or> c \<in> set [CHR ''-'', CHR ''_'', CHR ''.'', CHR ''~'', CHR ''%'', CHR ''+''])"

lemma escape_char_safe: "x \<in> set (escape_char EncodeQuery c) \<Longrightarrow> query_safe x"
  using upperhex_alnum [OF of_char_nibbles(1) [of c]] upperhex_alnum [OF of_char_nibbles(2) [of c]]
  by (auto simp: escape_char_def query_safe_def shouldEscape_def split: if_splits)

lemma QueryEscape_safe: "x \<in> set (QueryEscape s) \<Longrightarrow> query_safe x"
  by (auto simp: escape_def dest: escape_char_safe)

lemma query_safe_not_delim:
  "query_safe c \<Longrightarrow> c \<noteq> CHR '':'' \<and> c \<noteq> CHR ''@'' \<and> c \<noteq> CHR ''/'' \<and> c \<noteq> CHR ''?'' \<and> c \<noteq> CHR ''#'' \<and>
     c \<noteq> CHR ''['' \<and> c \<noteq> CHR '' ''"
  by (auto simp: query_safe_def is_alnum_def Let_def)

lemma QueryEscape_no_delim:
  "CHR '':'' \<notin> set (QueryEscape s)" "CHR ''@'' \<notin> set (QueryEscape s)"
  "CHR ''/'' \<notin> set (QueryEscape s)" "CHR ''?'' \<notin> set (QueryEscape s)"
  "CHR ''#'' \<notin> set (QueryEscape s)"
  using QueryEscape_safe [of _ s] query_safe_not_delim by blast+

section \<open>URLs\<close>

text \<open>\<^verbatim>\<open>*url.Userinfo\<close>: a user name and, after a colon, a password. \<open>None\<close> is the nil
  pointer, on which \<^verbatim>\<open>Username\<close> and \<^verbatim>\<open>Password\<close> answer the empty string.\<close>

type_synonym userinfo = "(string \<times> string option) option"

record url =
  Scheme :: string
  Opaque :: string
  User :: userinfo
  HostPort :: string
  Path :: string
  RawPath :: string
  RawQuery :: string
  ForceQuery :: bool
  OmitHost :: bool
  Fragment :: string

definition Username :: "userinfo \<Rightarrow> string" where
  "Username u = (case u of None \<Rightarrow> [] | Some (n, _) \<Rightarrow> n)"

definition Password :: "userinfo \<Rightarrow> string \<times> bool" where
  "Password u = (case u of Some (_, Some p) \<Rightarrow> (p, True) | _ \<Rightarrow> ([], False))"

definition validOptionalPort :: "string \<Rightarrow> bool" where
  "validOptionalPort p = (case p of [] \<Rightarrow> True | c # cs \<Rightarrow> c = CHR '':'' \<and> list_all is_digit cs)"

text \<open>\<open>split_last s c\<close>: \<open>s\<close> around the last \<open>c\<close>, if there is one.\<close>

fun split_last :: "string \<Rightarrow> char \<Rightarrow> (string \<times> string) option" where
  "split_last [] c = None"
| "split_last (x # xs) c =
     (case split_last xs c of
        Some (a, b) \<Rightarrow> Some (x # a, b)
      | None \<Rightarrow> if x = c then Some ([], xs) else None)"

fun getScheme_at :: "string \<Rightarrow> string \<Rightarrow> string \<Rightarrow> url_error + (string \<times> string)" where
  "getScheme_at acc [] raw = Inr ([], raw)"
| "getScheme_at acc (c # cs) raw =
     (if is_letter c then getScheme_at (acc @ [c]) cs raw
      else if is_digit c \<or> c \<in> set [CHR ''+'', CHR ''-'', CHR ''.'']
        then (if acc = [] then Inr ([], raw) else getScheme_at (acc @ [c]) cs raw)
      else if c = CHR '':'' then (if acc = [] then Inl UrlMissingScheme else Inr (acc, cs))
      else Inr ([], raw))"

definition getScheme :: "string \<Rightarrow> url_error + (string \<times> string)" where
  "getScheme raw = getScheme_at [] raw raw"

definition parseHost :: "string \<Rightarrow> url_error + string" where
  "parseHost host =
     (if HasPrefix host ''['' then
        (case split_last host (CHR '']'') of
           None \<Rightarrow> Inl UrlMissingBracket
         | Some (inner, colonPort) \<Rightarrow>
             if \<not> validOptionalPort colonPort then Inl UrlInvalidPort
             else unescape EncodeHost host)
      else (case split_last host (CHR '':'') of
              Some (_, port) \<Rightarrow>
                if validOptionalPort (CHR '':'' # port) then unescape EncodeHost host
                else Inl UrlInvalidPort
            | None \<Rightarrow> unescape EncodeHost host))"

definition validUserinfo_char :: "char \<Rightarrow> bool" where
  "validUserinfo_char c = (is_alnum c \<or>
     c \<in> set [CHR ''-'', CHR ''.'', CHR ''_'', CHR '':'', CHR ''~'', CHR ''!'', CHR ''$'', CHR ''&'', CHR 0x27,
             CHR ''('', CHR '')'', CHR ''*'', CHR ''+'', CHR '','', CHR '';'', CHR ''='', CHR ''%'', CHR ''@''])"

definition parseUserinfo :: "string \<Rightarrow> url_error + (string \<times> string option)" where
  "parseUserinfo info =
     (if \<not> list_all validUserinfo_char info then Inl UrlInvalidUserinfo
      else case Cut info (CHR '':'') of
        (u, p, found) \<Rightarrow>
          (case unescape EncodeUserPassword u of
             Inl e \<Rightarrow> Inl e
           | Inr u' \<Rightarrow>
               if \<not> found then Inr (u', None)
               else (case unescape EncodeUserPassword p of
                       Inl e \<Rightarrow> Inl e
                     | Inr p' \<Rightarrow> Inr (u', Some p'))))"

definition parseAuthority :: "string \<Rightarrow> url_error + (userinfo \<times> string)" where
  "parseAuthority authority =
     (case split_last authority (CHR ''@'') of
        None \<Rightarrow> map_sum id (\<lambda>h. (None, h)) (parseHost authority)
      | Some (info, host) \<Rightarrow>
          (case parseHost host of
             Inl e \<Rightarrow> Inl e
           | Inr h \<Rightarrow> map_sum id (\<lambda>ui. (Some ui, h)) (parseUserinfo info)))"

definition setPath :: "string \<Rightarrow> url \<Rightarrow> url_error + url" where
  "setPath p u =
     map_sum id (\<lambda>path. u\<lparr>Path := path, RawPath := (if p = escape EncodePath path then [] else p)\<rparr>)
       (unescape EncodePath p)"

definition empty_url :: url where
  "empty_url = \<lparr>Scheme = [], Opaque = [], User = None, HostPort = [], Path = [], RawPath = [],
     RawQuery = [], ForceQuery = False, OmitHost = False, Fragment = []\<rparr>"

definition is_ctl :: "char \<Rightarrow> bool" where
  "is_ctl c = (let n = of_char c :: nat in n < 32 \<or> n = 127)"

text \<open>\<open>split_query\<close>: the query string after the first question mark; a single trailing question mark
  is only remembered.\<close>

definition split_query :: "string \<Rightarrow> string \<times> string \<times> bool" where
  "split_query rest =
     (if HasSuffix rest ''?'' \<and> count_list rest (CHR ''?'') = 1 then (butlast rest, [], True)
      else case Cut rest (CHR ''?'') of (r, q, _) \<Rightarrow> (r, q, False))"

definition parse_hier :: "string \<Rightarrow> url \<Rightarrow> url_error + url" where
  "parse_hier rest u =
     (if (Scheme u \<noteq> [] \<or> \<not> HasPrefix rest ''///'') \<and> HasPrefix rest ''//'' then
        (let authority = takeWhile (\<lambda>c. c \<noteq> CHR ''/'') (drop 2 rest);
             path = dropWhile (\<lambda>c. c \<noteq> CHR ''/'') (drop 2 rest)
         in case parseAuthority authority of
              Inl e \<Rightarrow> Inl e
            | Inr (ui, h) \<Rightarrow> setPath path (u\<lparr>User := ui, HostPort := h\<rparr>))
      else setPath rest (if Scheme u \<noteq> [] \<and> HasPrefix rest ''/'' then u\<lparr>OmitHost := True\<rparr> else u))"

definition parse_nofrag :: "string \<Rightarrow> url_error + url" where
  "parse_nofrag raw =
     (if list_ex is_ctl raw then Inl UrlControlChar
      else if raw = ''*'' then Inr (empty_url\<lparr>Path := ''*''\<rparr>)
      else case getScheme raw of
        Inl e \<Rightarrow> Inl e
      | Inr (scheme, rest0) \<Rightarrow>
          (case split_query rest0 of (rest, q, force) \<Rightarrow>
             let u = empty_url\<lparr>Scheme := ToLower scheme, RawQuery := q, ForceQuery := force\<rparr>
             in if \<not> HasPrefix rest ''/'' \<and> scheme \<noteq> [] then Inr (u\<lparr>Opaque := rest\<rparr>)
                else if \<not> HasPrefix rest ''/'' \<and> CHR '':'' \<in> set (takeWhile (\<lambda>c. c \<noteq> CHR ''/'') rest)
                  then Inl UrlColonInFirstSegment
                else parse_hier rest u))"

definition Parse :: "string \<Rightarrow> url_error + url" where
  "Parse raw =
     (case Cut raw (CHR ''#'') of (r, frag, _) \<Rightarrow>
        (case parse_nofrag r of
           Inl e \<Rightarrow> Inl e
         | Inr u \<Rightarrow>
             if frag = [] then Inr u
             else map_sum id (\<lambda>f. u\<lparr>Fragment := f\<rparr>) (unescape EncodePath frag)))"

definition splitHostPort :: "string \<Rightarrow> string \<times> string" where
  "splitHostPort hp =
     (let (h, p) = (case split_last hp (CHR '':'') of
           Some (a, b) \<Rightarrow> if validOptionalPort (CHR '':'' # b) then (a, b) else (hp, [])
         | None \<Rightarrow> (hp, []))
      in (if HasPrefix h ''['' \<and> HasSuffix h '']'' then butlast (tl h) else h, p))"

definition Hostname :: "url \<Rightarrow> string" where
  "Hostname u = fst (splitHostPort (HostPort u))"

definition PortOf :: "url \<Rightarrow> string" where
  "PortOf u = snd (splitHostPort (HostPort u))"

text \<open>\<^verbatim>\<open>url.ParseQuery\<close> as the callers use it: ill-formed settings are skipped, the error is
  ignored; \<^verbatim>\<open>Values.Get\<close> answers the first value or the empty string.\<close>

definition parse_setting :: "string \<Rightarrow> (string \<times> string) list" where
  "parse_setting kv =
     (if CHR '';'' \<in> set kv \<or> kv = [] then []
      else case Cut kv (CHR ''='') of (k, v, _) \<Rightarrow>
        (case (unescape EncodeQuery k, unescape EncodeQuery v) of
           (Inr k', Inr v') \<Rightarrow> [(k', v')]
         | _ \<Rightarrow> []))"

definition ParseQuery :: "string \<Rightarrow> (string \<times> string) list" where
  "ParseQuery q = concat (map parse_setting (Split q (CHR ''&'')))"

definition ValuesGet :: "(string \<times> string) list \<Rightarrow> string \<Rightarrow> string" where
  "ValuesGet vs k = (case map_of vs k of None \<Rightarrow> [] | Some v \<Rightarrow> v)"

definition userinfo_String :: "string \<times> string option \<Rightarrow> string" where
  "userinfo_String ui = (case ui of (u, p) \<Rightarrow>
     escape EncodeUserPassword u @
       (case p of None \<Rightarrow> [] | Some pw \<Rightarrow> '':'' @ escape EncodeUserPassword pw))"

definition EscapedPath :: "url \<Rightarrow> string" where
  "EscapedPath u =
     (if RawPath u \<noteq> [] \<and> unescape EncodePath (RawPath u) = Inr (Path u) then RawPath u
      else if Path u = ''*'' then ''*'' else escape EncodePath (Path u))"

text \<open>\<^verbatim>\<open>URL.String\<close> for URLs with a scheme (every database connection string has one).\<close>

definition url_String :: "url \<Rightarrow> string" where
  "url_String u =
     (if Scheme u \<noteq> [] then Scheme u @ '':'' else []) @
     (if Opaque u \<noteq> [] then Opaque u
      else
        (if OmitHost u \<and> HostPort u = [] \<and> User u = None then []
         else (if HostPort u \<noteq> [] \<or> Path u \<noteq> [] \<or> User u \<noteq> None then ''//'' else []) @
              (case User u of None \<Rightarrow> [] | Some ui \<Rightarrow> userinfo_String ui @ ''@'') @
              (if HostPort u = [] then [] else escape EncodeHost (HostPort u))) @
        (if EscapedPath u \<noteq> [] \<and> hd (EscapedPath u) \<noteq> CHR ''/'' \<and> HostPort u \<noteq> [] then ''/'' else []) @
        EscapedPath u) @
     (if ForceQuery u \<or> RawQuery u \<noteq> [] then ''?'' @ RawQuery u else []) @
     (if Fragment u \<noteq> [] then ''#'' @ escape EncodePath (Fragment u) else [])"

section \<open>Parsing a connection string of the controller's own format\<close>

text \<open>Bytes of a host name (and of an SSL mode) that stand for themselves everywhere in a URL.\<close>

definition plain_char :: "char \<Rightarrow> bool" where
  "plain_char c = (is_alnum c \<or> c \<in> set [CHR ''-'', CHR ''_'', CHR ''.''])"

lemma plain_char_query_safe: "plain_char c \<Longrightarrow> query_safe c"
  by (auto simp: plain_char_def query_safe_def)

lemma is_digit_plain: "is_digit c \<Longrightarrow> plain_char c"
  by (auto simp: plain_char_def is_digit_def is_alnum_def Let_def)

lemma plain_char_not_delim:
  "plain_char c \<Longrightarrow> c \<noteq> CHR '':'' \<and> c \<noteq> CHR ''@'' \<and> c \<noteq> CHR ''/'' \<and> c \<noteq> CHR ''?'' \<and> c \<noteq> CHR ''#'' \<and>
     c \<noteq> CHR ''['' \<and> c \<noteq> CHR ''%'' \<and> c \<noteq> CHR ''+'' \<and> c \<noteq> CHR ''&'' \<and> c \<noteq> CHR '';'' \<and> c \<noteq> CHR ''=''"
  by (auto simp: plain_char_def is_alnum_def Let_def)

lemma query_safe_not_ctl: "query_safe c \<Longrightarrow> \<not> is_ctl c"
  by (auto simp: query_safe_def is_ctl_def is_alnum_def Let_def)

lemma QueryEscape_not_ctl: "\<not> list_ex is_ctl (QueryEscape s)"
  using QueryEscape_safe query_safe_not_ctl by (auto simp: list_ex_iff)

lemma plain_not_ctl: "list_all plain_char s \<Longrightarrow> \<not> list_ex is_ctl s"
  using plain_char_query_safe query_safe_not_ctl by (auto simp: list_ex_iff list_all_iff)

lemma query_safe_userinfo: "query_safe c \<Longrightarrow> validUserinfo_char c"
  by (auto simp: query_safe_def validUserinfo_char_def)

lemma split_last_found: "c \<notin> set b \<Longrightarrow> split_last (a @ c # b) c = Some (a, b)"
proof -
  have none: "c \<notin> set b \<Longrightarrow> split_last b c = None" by (induction b) auto
  show "c \<notin> set b \<Longrightarrow> ?thesis" by (induction a) (auto simp: none)
qed

lemma unescape_host_plain:
  "list_all (\<lambda>c. plain_char c \<or> c = CHR '':'') s \<Longrightarrow> unescape EncodeHost s = Inr s"
proof (induction s)
  case Nil
  then show ?case by simp
next
  case (Cons c s)
  then have c: "c \<noteq> CHR ''%''" "c \<noteq> CHR ''+''" "\<not> shouldEscape EncodeHost c"
    by (auto simp: plain_char_def shouldEscape_def is_alnum_def Let_def)
  with Cons show ?case by simp
qed

lemma unescape_query_plain: "list_all plain_char s \<Longrightarrow> unescape EncodeQuery s = Inr s"
proof (induction s)
  case Nil
  then show ?case by simp
next
  case (Cons c s)
  then have "c \<noteq> CHR ''%''" "c \<noteq> CHR ''+''" by (auto dest: plain_char_not_delim)
  with Cons show ?case by simp
qed

lemma plain_not_in:
  assumes "list_all plain_char s"
  shows "CHR '':'' \<notin> set s" "CHR ''@'' \<notin> set s" "CHR ''/'' \<notin> set s" "CHR ''?'' \<notin> set s"
    "CHR ''#'' \<notin> set s" "CHR ''&'' \<notin> set s" "CHR '';'' \<notin> set s" "CHR ''='' \<notin> set s" "CHR ''['' \<notin> set s"
  using assms by (auto simp: list_all_iff dest: plain_char_not_delim)

lemma parseHost_plain:
  assumes h: "list_all plain_char host" and p: "list_all is_digit port"
  shows "parseHost (host @ CHR '':'' # port) = Inr (host @ CHR '':'' # port)"
proof -
  have "list_all plain_char port" using p by (auto simp: list_all_iff is_digit_plain)
  note port = plain_not_in [OF this] this
  have "split_last (host @ CHR '':'' # port) (CHR '':'') = Some (host, port)"
    using port by (intro split_last_found) simp
  moreover have "\<not> HasPrefix (host @ CHR '':'' # port) ''[''"
    using plain_not_in(9) [OF h] by (cases host) (auto simp: HasPrefix_def)
  moreover have "unescape EncodeHost (host @ CHR '':'' # port) = Inr (host @ CHR '':'' # port)"
    using h port by (intro unescape_host_plain) (auto simp: list_all_iff)
  ultimately show ?thesis using p by (simp add: parseHost_def validOptionalPort_def)
qed

lemma parseUserinfo_escaped:
  assumes "CHR '' '' \<notin> set u" and "CHR '' '' \<notin> set p"
  shows "parseUserinfo (QueryEscape u @ CHR '':'' # QueryEscape p) = Inr (u, Some p)"
proof -
  have "list_all validUserinfo_char (QueryEscape s)" for s
    unfolding list_all_iff using QueryEscape_safe query_safe_userinfo by blast
  then have "list_all validUserinfo_char (QueryEscape u @ CHR '':'' # QueryEscape p)"
    by (simp add: validUserinfo_char_def)
  with assms show ?thesis
    by (simp add: parseUserinfo_def Cut_found QueryEscape_no_delim unescape_escape)
qed

lemma parseAuthority_plain:
  assumes "list_all plain_char host" and "list_all is_digit port"
    and "CHR '' '' \<notin> set u" and "CHR '' '' \<notin> set p"
  shows "parseAuthority (QueryEscape u @ CHR '':'' # QueryEscape p @ CHR ''@'' # host @ CHR '':'' # port) =
    Inr (Some (u, Some p), host @ CHR '':'' # port)"
proof -
  have "list_all plain_char port" using assms(2) by (auto simp: list_all_iff is_digit_plain)
  with assms(1) have "CHR ''@'' \<notin> set (host @ CHR '':'' # port)" by (simp add: plain_not_in)
  from split_last_found [OF this, of "QueryEscape u @ CHR '':'' # QueryEscape p"]
  show ?thesis
    by (simp add: parseAuthority_def parseHost_plain [OF assms(1,2)] parseUserinfo_escaped [OF assms(3,4)])
qed

lemma split_query_found:
  assumes "CHR ''?'' \<notin> set a" and "q \<noteq> []"
  shows "split_query (a @ CHR ''?'' # q) = (a, q, False)"
proof -
  have "count_list a (CHR ''?'') = 0" using assms(1) by (simp add: count_list_0_iff)
  moreover have "HasSuffix (a @ CHR ''?'' # q) ''?'' \<Longrightarrow> CHR ''?'' \<in> set q"
  proof -
    assume "HasSuffix (a @ CHR ''?'' # q) ''?''"
    then obtain zs where "a @ CHR ''?'' # q = zs @ ''?''" unfolding HasSuffix_def suffix_def by blast
    from arg_cong [OF this, of last] assms(2) have "last q = CHR ''?''" by simp
    then show ?thesis using last_in_set [OF assms(2)] by simp
  qed
  moreover have "CHR ''?'' \<in> set q \<Longrightarrow> count_list q (CHR ''?'') \<noteq> 0" by (simp add: count_list_0_iff)
  ultimately show ?thesis using assms by (auto simp: split_query_def Cut_found)
qed

text \<open>The URL that a connection string of the controller denotes.\<close>

definition postgres_url :: "string \<Rightarrow> string \<Rightarrow> string \<Rightarrow> string \<Rightarrow> string \<Rightarrow> string \<Rightarrow> url" where
  "postgres_url u p host port d ssl = empty_url\<lparr>Scheme := ''postgres'', User := Some (u, Some p),
     HostPort := host @ '':'' @ port, Path := ''/'' @ d,
     RawPath := (if ''/'' @ QueryEscape d = escape EncodePath (''/'' @ d) then [] else ''/'' @ QueryEscape d),
     RawQuery := ''sslmode='' @ ssl\<rparr>"

lemma Parse_postgres:
  assumes host: "list_all plain_char host" and port: "list_all is_digit port"
    and user: "CHR '' '' \<notin> set u" and pw: "CHR '' '' \<notin> set p" and db: "CHR '' '' \<notin> set d"
    and ssl: "list_all plain_char ssl"
  shows "Parse (''postgres://'' @ QueryEscape u @ '':'' @ QueryEscape p @ ''@'' @ host @ '':'' @ port @
      ''/'' @ QueryEscape d @ ''?sslmode='' @ ssl) = Inr (postgres_url u p host port d ssl)"
proof -
  let ?auth = "QueryEscape u @ CHR '':'' # QueryEscape p @ CHR ''@'' # host @ CHR '':'' # port"
  let ?rest = "''//'' @ ?auth @ CHR ''/'' # QueryEscape d"
  let ?raw = "''postgres:'' @ ?rest @ CHR ''?'' # ''sslmode='' @ ssl"
  have port': "list_all plain_char port" using port by (auto simp: list_all_iff is_digit_plain)
  note nots = plain_not_in [OF host] plain_not_in [OF port'] plain_not_in [OF ssl] QueryEscape_no_delim
  have ctl: "\<not> list_ex is_ctl ?raw"
    using QueryEscape_not_ctl plain_not_ctl [OF host] plain_not_ctl [OF port'] plain_not_ctl [OF ssl]
    by (simp add: is_ctl_def)
  have scheme: "getScheme ?raw = Inr (''postgres'', ?rest @ CHR ''?'' # ''sslmode='' @ ssl)"
    by (simp add: getScheme_def is_letter_def is_digit_def)
  have query: "split_query (?rest @ CHR ''?'' # ''sslmode='' @ ssl) = (?rest, ''sslmode='' @ ssl, False)"
    using nots by (intro split_query_found) auto
  have slash: "CHR ''/'' \<notin> set ?auth" using nots by auto
  have auth: "takeWhile (\<lambda>c. c \<noteq> CHR ''/'') (drop 2 ?rest) = ?auth"
    "dropWhile (\<lambda>c. c \<noteq> CHR ''/'') (drop 2 ?rest) = CHR ''/'' # QueryEscape d"
    using takeWhile_until [OF slash, of "QueryEscape d"] dropWhile_until [OF slash, of "QueryEscape d"]
    by simp_all
  have lower: "ToLower ''postgres'' = ''postgres''"
    by (simp add: ToLower_def ToLower_char_def)
  let ?u = "empty_url\<lparr>Scheme := ''postgres'', RawQuery := ''sslmode='' @ ssl, ForceQuery := False\<rparr>"
  let ?r = "if CHR ''/'' # QueryEscape d = escape EncodePath (CHR ''/'' # d) then [] else CHR ''/'' # QueryEscape d"
  have cut: "Cut ?raw (CHR ''#'') = (?raw, [], False)"
    using nots by (intro Cut_absent) auto
  have nofrag: "parse_nofrag ?raw = parse_hier ?rest
      (empty_url\<lparr>Scheme := ''postgres'', RawQuery := ''sslmode='' @ ssl, ForceQuery := False\<rparr>)"
    unfolding parse_nofrag_def using ctl
    by (simp only: scheme query lower Let_def sum.case prod.case if_False) (simp add: HasPrefix_def)
  have "HasPrefix ?rest ''//''" by (simp add: HasPrefix_def)
  then have hier: "parse_hier ?rest ?u =
      Inr (?u\<lparr>User := Some (u, Some p), HostPort := host @ '':'' @ port, Path := CHR ''/'' # d, RawPath := ?r\<rparr>)"
    unfolding parse_hier_def Let_def auth parseAuthority_plain [OF host port user pw]
    by (simp add: setPath_def unescape_escape db)
  have "Parse ?raw =
      Inr (?u\<lparr>User := Some (u, Some p), HostPort := host @ '':'' @ port, Path := CHR ''/'' # d, RawPath := ?r\<rparr>)"
    unfolding Parse_def cut prod.case nofrag hier sum.case by simp
  then show ?thesis
    by (simp add: postgres_url_def empty_url_def)
qed

lemma Hostname_plain:
  assumes "list_all plain_char host" and "list_all is_digit port" and "HostPort u = host @ '':'' @ port"
  shows "Hostname u = host" and "PortOf u = port"
proof -
  have "list_all plain_char port" using assms(2) by (auto simp: list_all_iff is_digit_plain)
  then have "split_last (host @ CHR '':'' # port) (CHR '':'') = Some (host, port)"
    by (intro split_last_found) (simp add: plain_not_in)
  moreover have "\<not> HasPrefix host ''[''"
    using plain_not_in(9) [OF assms(1)] by (cases host) (auto simp: HasPrefix_def)
  ultimately show "Hostname u = host" "PortOf u = port"
    using assms by (simp_all add: Hostname_def PortOf_def splitHostPort_def validOptionalPort_def)
qed

lemma ParseQuery_sslmode:
  assumes "list_all plain_char ssl"
  shows "ValuesGet (ParseQuery (''sslmode='' @ ssl)) ''sslmode'' = ssl"
proof -
  have "CHR ''&'' \<notin> set (''sslmode='' @ ssl)" using plain_not_in [OF assms] by auto
  then have "ParseQuery (''sslmode='' @ ssl) = parse_setting (''sslmode'' @ CHR ''='' # ssl)"
    by (simp add: ParseQuery_def Split_no_sep)
  also have "\<dots> = [(''sslmode'', ssl)]"
    using plain_not_in [OF assms] unescape_query_plain [OF assms]
    by (simp add: parse_setting_def)
  finally show ?thesis by (simp add: ValuesGet_def)
qed

end
