(* ===== verification/Api_Types.thy ===== *)
theory Api_Types
  imports GoUrl
begin

text \<open>
  The API types of the controller (\<^verbatim>\<open>api/v1\<close>): the spec and the status of a DatabaseClaim,
  connection information with its URI form, conditions, and the errors the controller's
  functions return. Pointers that may be nil are options; integers are Go's 64-bit
  \<^verbatim>\<open>int\<close>/\<^verbatim>\<open>int64\<close>, on which these types do no arithmetic; a time is a number of
  nanoseconds since Go's zero time.
\<close>

section \<open>Errors\<close>

text \<open>
  An error is what the callers can tell apart: \<^verbatim>\<open>apierrors.IsNotFound\<close>, \<^verbatim>\<open>IsConflict\<close> and
  \<^verbatim>\<open>IsAlreadyExists\<close>, \<^verbatim>\<open>errors.Is\<close> against the sentinels below through \<^verbatim>\<open>%w\<close> wrapping,
  the type \<^verbatim>\<open>*managedErr\<close>, and the text.
\<close>

datatype sentinel =
    ErrDoNotUpdateStatus
  | ErrInvalidDBType | ErrInvalidDBVersion
  | ErrMaxNameLen | ErrInvalidDSNName | ErrMaxStorageReduced | ErrMaxStorageLesser | ErrEngineVersionNotSpecified
  | ErrInvalidCredentialsPasswordMissing | ErrDuplicateWrite

datatype goerror =
    NotFound string
  | Conflict string
  | AlreadyExists string
  | UrlError url_error
  | Sentinel sentinel
  | ErrMsg string
  | Wrapped string goerror string
  | ManagedErr goerror

primrec sentinel_text :: "sentinel \<Rightarrow> string" where
  "sentinel_text ErrDoNotUpdateStatus = ''do not update status for this error''"
| "sentinel_text ErrInvalidDBType = ''invalid database type''"
| "sentinel_text ErrInvalidDBVersion = ''invalid database version''"
| "sentinel_text ErrMaxNameLen = ''dbclaim name is too long. max length is 44 characters''"
| "sentinel_text ErrInvalidDSNName = ''dsn name must be: dsn.txt''"
| "sentinel_text ErrMaxStorageReduced =
     ''reducing .spec.maxStorageGB value is not allowed (Also not spacifying maxStorageGB if specified earlier is not allowed.)''"
| "sentinel_text ErrMaxStorageLesser = ''.spec.maxStorageGB should always be greater than spec.minStorageGB''"
| "sentinel_text ErrEngineVersionNotSpecified = ''.spec.dbVersion is a mandatory field and cannot be empty''"
| "sentinel_text ErrInvalidCredentialsPasswordMissing = ''invalid_credentials_password_missing''"
| "sentinel_text ErrDuplicateWrite = ''duplicate write''"

text \<open>\<^verbatim>\<open>err.Error()\<close>. The texts of \<^verbatim>\<open>net/url\<close> are not spelled out.\<close>

primrec ErrorText :: "goerror \<Rightarrow> string" where
  "ErrorText (NotFound s) = s"
| "ErrorText (Conflict s) = s"
| "ErrorText (AlreadyExists s) = s"
| "ErrorText (UrlError e) = ''parse error''"
| "ErrorText (Sentinel e) = sentinel_text e"
| "ErrorText (ErrMsg s) = s"
| "ErrorText (Wrapped pre e post) = pre @ ErrorText e @ post"
| "ErrorText (ManagedErr e) = ErrorText e"

text \<open>\<^verbatim>\<open>errors.Is(err, sentinel)\<close>: \<^verbatim>\<open>*managedErr\<close> has no \<^verbatim>\<open>Unwrap\<close> method.\<close>

fun errors_Is :: "goerror \<Rightarrow> sentinel \<Rightarrow> bool" where
  "errors_Is (Sentinel e) s = (e = s)"
| "errors_Is (Wrapped _ e _) s = errors_Is e s"
| "errors_Is _ s = False"

text \<open>\<^verbatim>\<open>apierrors.IsNotFound\<close> and its siblings use \<^verbatim>\<open>errors.As\<close>, which unwraps as well.\<close>

fun IsNotFound :: "goerror \<Rightarrow> bool" where
  "IsNotFound (NotFound _) = True"
| "IsNotFound (Wrapped _ e _) = IsNotFound e"
| "IsNotFound _ = False"

fun IsConflict :: "goerror \<Rightarrow> bool" where
  "IsConflict (Conflict _) = True"
| "IsConflict (Wrapped _ e _) = IsConflict e"
| "IsConflict _ = False"

fun IsAlreadyExists :: "goerror \<Rightarrow> bool" where
  "IsAlreadyExists (AlreadyExists _) = True"
| "IsAlreadyExists (Wrapped _ e _) = IsAlreadyExists e"
| "IsAlreadyExists _ = False"

section \<open>Spec\<close>

abbreviation DSNKey :: string where "DSNKey \<equiv> ''dsn.txt''"
abbreviation DSNURIKey :: string where "DSNURIKey \<equiv> ''uri_dsn.txt''"
abbreviation ReplicaDSNURIKey :: string where "ReplicaDSNURIKey \<equiv> ''ro_uri_dsn.txt''"

abbreviation Postgres :: string where "Postgres \<equiv> ''postgres''"
abbreviation AuroraPostgres :: string where "AuroraPostgres \<equiv> ''aurora-postgresql''"

abbreviation DeleteDeletionPolicy :: string where "DeleteDeletionPolicy \<equiv> ''Delete''"
abbreviation OrphanDeletionPolicy :: string where "OrphanDeletionPolicy \<equiv> ''Orphan''"

type_synonym time = int

record SecretRef =
  sr_Namespace :: string
  sr_Name :: string

record Database =
  db_DSN :: string
  db_SecretRef :: "SecretRef option"

record SourceDataFrom =
  sdf_Type :: string
  sdf_Database :: "Database option"

record Tag =
  tag_Key :: string
  tag_Value :: string

record DatabaseClaimSpec =
  spec_Class :: "string option"
  spec_SourceDataFrom :: "SourceDataFrom option"
  spec_UseExistingSource :: "bool option"
  spec_AppID :: string
  spec_Type :: string
  spec_DeletionPolicy :: string
  spec_MaxStorageGB :: int
  spec_SecretName :: string
  spec_Username :: string
  spec_DatabaseName :: string
  spec_DBVersion :: string
  spec_DSNName :: string
  spec_Shape :: string
  spec_MinStorageGB :: int
  spec_BackupPolicy :: string
  spec_RestoreFrom :: string
  spec_EnableReplicationRole :: "bool option"
  spec_EnableSuperUser :: "bool option"
  spec_Tags :: "Tag list"
  spec_PreferredMaintenanceWindow :: "string option"

section \<open>Connection information\<close>

record ConnInfo =
  ci_Host :: string
  ci_Port :: string
  ci_DatabaseName :: string
  ci_Username :: string
  ci_Password :: string
  ci_SSLMode :: string

definition empty_ConnInfo :: ConnInfo where
  "empty_ConnInfo = \<lparr>ci_Host = [], ci_Port = [], ci_DatabaseName = [], ci_Username = [],
     ci_Password = [], ci_SSLMode = []\<rparr>"

definition Validate :: "ConnInfo \<Rightarrow> goerror option" where
  "Validate c =
     (if ci_Host c = [] then Some (ErrMsg ''dsn has an empty host'')
      else if ci_Username c = [] then Some (ErrMsg ''dsn has an empty user'')
      else if ci_Password c = [] then Some (ErrMsg ''dsn has an empty password'')
      else if ci_DatabaseName c = [] then Some (ErrMsg ''dsn has an empty database name'')
      else None)"

definition Uri :: "ConnInfo option \<Rightarrow> string" where
  "Uri cp = (case cp of
     None \<Rightarrow> []
   | Some c \<Rightarrow> ''postgres://'' @ QueryEscape (ci_Username c) @ '':'' @ QueryEscape (ci_Password c) @ ''@'' @
       ci_Host c @ '':'' @ ci_Port c @ ''/'' @ QueryEscape (ci_DatabaseName c) @ ''?sslmode='' @ ci_SSLMode c)"

definition ParseUri :: "string \<Rightarrow> goerror + ConnInfo" where
  "ParseUri dsn = (case Parse dsn of
     Inl e \<Rightarrow> Inl (UrlError e)
   | Inr u \<Rightarrow>
       (let c = empty_ConnInfo\<lparr>ci_Host := Hostname u, ci_Port := PortOf u,
              ci_Username := Username (User u), ci_Password := fst (Password (User u))\<rparr>;
            db = Split (Path u) (CHR ''/'')
        in if length db \<le> 1 then Inr c
           else Inr (c\<lparr>ci_DatabaseName := db ! 1,
                  ci_SSLMode := ValuesGet (ParseQuery (RawQuery u)) ''sslmode''\<rparr>)))"

section \<open>Status\<close>

abbreviation Ready :: string where "Ready \<equiv> ''ready''"
abbreviation InProgress :: string where "InProgress \<equiv> ''in-progress''"
abbreviation UsingExistingDB :: string where "UsingExistingDB \<equiv> ''using-existing-db''"
abbreviation UsingSharedHost :: string where "UsingSharedHost \<equiv> ''using-shared-host''"
abbreviation PostMigrationInProgress :: string where
  "PostMigrationInProgress \<equiv> ''post-migration-in-progress''"

record Status =
  st_DbCreatedAt :: "time option"
  st_ConnectionInfo :: "ConnInfo option"
  st_DBVersion :: string
  st_Shape :: string
  st_MinStorageGB :: int
  st_MaxStorageGB :: int
  st_Type :: string
  st_ConnectionInfoUpdatedAt :: "time option"
  st_UserUpdatedAt :: "time option"
  st_DbState :: string
  st_SourceDataFrom :: "SourceDataFrom option"

definition empty_Status :: Status where
  "empty_Status = \<lparr>st_DbCreatedAt = None, st_ConnectionInfo = None, st_DBVersion = [], st_Shape = [],
     st_MinStorageGB = 0, st_MaxStorageGB = 0, st_Type = [], st_ConnectionInfoUpdatedAt = None,
     st_UserUpdatedAt = None, st_DbState = [], st_SourceDataFrom = None\<rparr>"

record StatusForOldDB =
  old_ConnectionInfo :: "ConnInfo option"
  old_DBVersion :: string
  old_Shape :: string
  old_Type :: string
  old_PostMigrationActionStartedAt :: "time option"
  old_DbState :: string
  old_MinStorageGB :: int

definition empty_StatusForOldDB :: StatusForOldDB where
  "empty_StatusForOldDB = \<lparr>old_ConnectionInfo = None, old_DBVersion = [], old_Shape = [], old_Type = [],
     old_PostMigrationActionStartedAt = None, old_DbState = [], old_MinStorageGB = 0\<rparr>"

record Condition =
  cond_Type :: string
  cond_Status :: string
  cond_ObservedGeneration :: int
  cond_LastTransitionTime :: time
  cond_Reason :: string
  cond_Message :: string

record DatabaseClaimStatus =
  s_Error :: string
  s_NewDB :: Status
  s_ActiveDB :: Status
  s_MigrationState :: string
  s_OldDB :: StatusForOldDB
  s_Conditions :: "Condition list"

text \<open>\<^verbatim>\<open>metav1.ObjectMeta\<close>, as far as the controller reads or writes it.\<close>

record ObjectMeta =
  m_Name :: string
  m_Namespace :: string
  m_Generation :: int
  m_ResourceVersion :: string
  m_UID :: string
  m_DeletionTimestamp :: "time option"
  m_Finalizers :: "string list"
  m_Labels :: "(string \<times> string) list"
  m_Annotations :: "(string \<times> string) list"

record DatabaseClaim =
  dc_Meta :: ObjectMeta
  dc_Spec :: DatabaseClaimSpec
  dc_Status :: DatabaseClaimStatus

abbreviation dc_Name :: "DatabaseClaim \<Rightarrow> string" where "dc_Name c \<equiv> m_Name (dc_Meta c)"
abbreviation dc_Namespace :: "DatabaseClaim \<Rightarrow> string" where "dc_Namespace c \<equiv> m_Namespace (dc_Meta c)"
abbreviation dc_ActiveDB :: "DatabaseClaim \<Rightarrow> Status" where "dc_ActiveDB c \<equiv> s_ActiveDB (dc_Status c)"
abbreviation dc_NewDB :: "DatabaseClaim \<Rightarrow> Status" where "dc_NewDB c \<equiv> s_NewDB (dc_Status c)"
abbreviation dc_OldDB :: "DatabaseClaim \<Rightarrow> StatusForOldDB" where "dc_OldDB c \<equiv> s_OldDB (dc_Status c)"

text \<open>The updates the controller makes to one part of a claim.\<close>

definition upd_status :: "(DatabaseClaimStatus \<Rightarrow> DatabaseClaimStatus) \<Rightarrow> DatabaseClaim \<Rightarrow> DatabaseClaim" where
  "upd_status f c = c\<lparr>dc_Status := f (dc_Status c)\<rparr>"

definition upd_active :: "(Status \<Rightarrow> Status) \<Rightarrow> DatabaseClaim \<Rightarrow> DatabaseClaim" where
  "upd_active f = upd_status (\<lambda>s. s\<lparr>s_ActiveDB := f (s_ActiveDB s)\<rparr>)"

definition upd_new :: "(Status \<Rightarrow> Status) \<Rightarrow> DatabaseClaim \<Rightarrow> DatabaseClaim" where
  "upd_new f = upd_status (\<lambda>s. s\<lparr>s_NewDB := f (s_NewDB s)\<rparr>)"

definition upd_old :: "(StatusForOldDB \<Rightarrow> StatusForOldDB) \<Rightarrow> DatabaseClaim \<Rightarrow> DatabaseClaim" where
  "upd_old f = upd_status (\<lambda>s. s\<lparr>s_OldDB := f (s_OldDB s)\<rparr>)"

definition upd_spec :: "(DatabaseClaimSpec \<Rightarrow> DatabaseClaimSpec) \<Rightarrow> DatabaseClaim \<Rightarrow> DatabaseClaim" where
  "upd_spec f c = c\<lparr>dc_Spec := f (dc_Spec c)\<rparr>"

definition upd_meta :: "(ObjectMeta \<Rightarrow> ObjectMeta) \<Rightarrow> DatabaseClaim \<Rightarrow> DatabaseClaim" where
  "upd_meta f c = c\<lparr>dc_Meta := f (dc_Meta c)\<rparr>"

lemmas claim_upds = upd_status_def upd_active_def upd_new_def upd_old_def upd_spec_def upd_meta_def

section \<open>Conditions\<close>

abbreviation ConditionReady :: string where "ConditionReady \<equiv> ''Ready''"
abbreviation ConditionSync :: string where "ConditionSync \<equiv> ''Synced''"
abbreviation ConditionTrue :: string where "ConditionTrue \<equiv> ''True''"
abbreviation ConditionFalse :: string where "ConditionFalse \<equiv> ''False''"
abbreviation ReasonAvailable :: string where "ReasonAvailable \<equiv> ''Available''"
abbreviation ReasonNeedsMigrate :: string where "ReasonNeedsMigrate \<equiv> ''NeedsMigrate''"

definition CreateCondition :: "string \<Rightarrow> string \<Rightarrow> string \<Rightarrow> string \<Rightarrow> Condition" where
  "CreateCondition t st reason msg = \<lparr>cond_Type = t, cond_Status = st, cond_ObservedGeneration = 0,
     cond_LastTransitionTime = 0, cond_Reason = reason, cond_Message = msg\<rparr>"

definition ProvisioningCondition :: Condition where
  "ProvisioningCondition = CreateCondition ConditionSync ConditionFalse ''Provisioning''
     ''Database provisioning is in progress''"

definition DeletingCondition :: Condition where
  "DeletingCondition = CreateCondition ConditionSync ConditionFalse ''Deleting''
     ''Database deletion is in progress''"

definition MigratingCondition :: Condition where
  "MigratingCondition = CreateCondition ConditionSync ConditionFalse ''Migrating''
     ''Database migration is underway''"

definition DatabaseReadyCondition :: Condition where
  "DatabaseReadyCondition = CreateCondition ConditionSync ConditionTrue ReasonAvailable
     ''Database is provisioned''"

definition ConnectionIssueCondition :: "goerror \<Rightarrow> Condition" where
  "ConnectionIssueCondition err = CreateCondition ConditionReady ConditionFalse ''ConnectionIssue''
     (''Database connection error: '' @ ErrorText err)"

definition ReconcileErrorCondition :: "goerror \<Rightarrow> Condition" where
  "ReconcileErrorCondition err = CreateCondition ConditionReady ConditionFalse ''Unavailable''
     (''Reconciliation encountered an issue: '' @ ErrorText err)"

definition ReconcileSuccessCondition :: Condition where
  "ReconcileSuccessCondition = CreateCondition ConditionReady ConditionTrue ReasonAvailable
     ''Database successfully synchronized and ready for use''"

definition NoDbVersionStatus :: Condition where
  "NoDbVersionStatus = CreateCondition ReasonNeedsMigrate ConditionTrue ReasonAvailable
     ''No database version specified''"

section \<open>A connection string names the connection it was made from\<close>

text \<open>The connection information whose URI can be read back: a host and an SSL mode of plain
  characters, a port of digits, no space in the escaped parts and no slash in the database name.\<close>

definition uri_safe :: "ConnInfo \<Rightarrow> bool" where
  "uri_safe c \<longleftrightarrow> list_all plain_char (ci_Host c) \<and> list_all is_digit (ci_Port c) \<and>
     CHR '' '' \<notin> set (ci_Username c) \<and> CHR '' '' \<notin> set (ci_Password c) \<and>
     CHR '' '' \<notin> set (ci_DatabaseName c) \<and> CHR ''/'' \<notin> set (ci_DatabaseName c) \<and>
     list_all plain_char (ci_SSLMode c)"

lemma Parse_Uri:
  assumes "uri_safe c"
  shows "Parse (Uri (Some c)) = Inr (postgres_url (ci_Username c) (ci_Password c) (ci_Host c)
    (ci_Port c) (ci_DatabaseName c) (ci_SSLMode c))"
  unfolding Uri_def option.case
  by (rule Parse_postgres) (use assms in \<open>simp_all add: uri_safe_def\<close>)

interpretation uri_codec: codec "\<lambda>c. Uri (Some c)" ParseUri uri_safe
proof
  fix c assume "uri_safe c"
  then have safe: "list_all plain_char (ci_Host c)" "list_all is_digit (ci_Port c)"
    "CHR '' '' \<notin> set (ci_Username c)" "CHR '' '' \<notin> set (ci_Password c)"
    "CHR '' '' \<notin> set (ci_DatabaseName c)" "list_all plain_char (ci_SSLMode c)"
    and slash: "CHR ''/'' \<notin> set (ci_DatabaseName c)"
    by (simp_all add: uri_safe_def)
  have parse: "Parse (Uri (Some c)) = Inr (postgres_url (ci_Username c) (ci_Password c) (ci_Host c)
      (ci_Port c) (ci_DatabaseName c) (ci_SSLMode c))" (is "_ = Inr ?u")
    by (rule Parse_Uri) fact
  have db: "Split (Path ?u) (CHR ''/'') = [[], ci_DatabaseName c]"
    using slash by (simp add: postgres_url_def Split_no_sep)
  have "HostPort ?u = ci_Host c @ '':'' @ ci_Port c" by (simp add: postgres_url_def)
  note host = Hostname_plain [OF safe(1,2) this]
  have q: "ValuesGet (ParseQuery (RawQuery ?u)) ''sslmode'' = ci_SSLMode c"
    using ParseQuery_sslmode [OF safe(6)] by (simp add: postgres_url_def)
  show "ParseUri (Uri (Some c)) = Inr c"
    unfolding ParseUri_def parse sum.case Let_def db host q
    by (simp add: postgres_url_def Username_def Password_def empty_ConnInfo_def)
qed

interpretation query_codec: codec QueryEscape "unescape EncodeQuery" "\<lambda>_. True"
  by unfold_locales (simp add: unescape_escape)

text \<open>
  C30: connection information survives its trip through the URI form that the controller stores
  in secrets: \<^verbatim>\<open>ParseUri\<close> of \<^verbatim>\<open>Uri()\<close> is the connection information again, whatever characters
  the user name and the password have besides spaces.
\<close>

theorem ParseUri_Uri: "uri_safe c \<Longrightarrow> ParseUri (Uri (Some c)) = Inr c"
  by (rule uri_codec.dec_enc)

theorem ParseUri_Uri_witness:
  "uri_safe \<lparr>ci_Host = ''db-1.example.com'', ci_Port = ''5432'', ci_DatabaseName = ''app'',
     ci_Username = ''app_a'', ci_Password = ''p@ss:/?#w%d'', ci_SSLMode = ''require''\<rparr> \<and>
   ParseUri (Uri (Some \<lparr>ci_Host = ''db-1.example.com'', ci_Port = ''5432'', ci_DatabaseName = ''app'',
     ci_Username = ''app_a'', ci_Password = ''p@ss:/?#w%d'', ci_SSLMode = ''require''\<rparr>)) =
   Inr \<lparr>ci_Host = ''db-1.example.com'', ci_Port = ''5432'', ci_DatabaseName = ''app'',
     ci_Username = ''app_a'', ci_Password = ''p@ss:/?#w%d'', ci_SSLMode = ''require''\<rparr>"
proof -
  let ?c = "\<lparr>ci_Host = ''db-1.example.com'', ci_Port = ''5432'', ci_DatabaseName = ''app'',
     ci_Username = ''app_a'', ci_Password = ''p@ss:/?#w%d'', ci_SSLMode = ''require''\<rparr>"
  have "uri_safe ?c"
    by (simp add: uri_safe_def plain_char_def is_alnum_def is_digit_def)
  with ParseUri_Uri [of ?c] show ?thesis by blast
qed

end
