(* ===== verification/Basefunctions.thy ===== *)
theory Basefunctions
  imports Api_Types "HOL-Library.Word"
begin

text \<open>
  Configuration and small helpers (\<^verbatim>\<open>pkg/basefunctions\<close>). The configuration is the external
  package viper: a record of its typed getters, over which every theorem quantifies. Password
  generation, also external, is an argument. A \<^verbatim>\<open>float64\<close> is only passed on and stands as its
  64-bit pattern.
\<close>

section \<open>Configuration\<close>

record viper =
  GetString :: "string \<Rightarrow> string"
  GetInt :: "string \<Rightarrow> int"
  GetInt64 :: "string \<Rightarrow> int"
  GetBool :: "string \<Rightarrow> bool"
  GetDuration :: "string \<Rightarrow> int"
  GetFloat64 :: "string \<Rightarrow> 64 word"
  GetStringMapString :: "string \<Rightarrow> (string \<times> string) list"

abbreviation time_Minute :: int where "time_Minute \<equiv> 60000000000"

definition GetMaxWaitTime :: int where
  "GetMaxWaitTime = 10 * time_Minute"

definition GetDefaultPassLen :: int where "GetDefaultPassLen = 32"
definition GetDefaultNumDig :: int where "GetDefaultNumDig = 10"
definition GetDefaultNumSimb :: int where "GetDefaultNumSimb = 10"

definition GetMinPasswordLength :: "viper \<Rightarrow> int" where
  "GetMinPasswordLength v = GetInt v ''passwordconfig::minPasswordLength''"
definition GetDefaultMasterUser :: "viper \<Rightarrow> string" where
  "GetDefaultMasterUser v = GetString v ''defaultMasterUsername''"
definition GetDefaultMasterPort :: "viper \<Rightarrow> string" where
  "GetDefaultMasterPort v = GetString v ''defaultMasterPort''"
definition GetDefaultSSLMode :: "viper \<Rightarrow> string" where
  "GetDefaultSSLMode v = GetString v ''defaultSslMode''"
definition GetSuperUserElevation :: "viper \<Rightarrow> bool" where
  "GetSuperUserElevation v = GetBool v ''supportSuperUserElevation''"
definition GetPasswordRotationPeriod :: "viper \<Rightarrow> int" where
  "GetPasswordRotationPeriod v = GetDuration v ''passwordconfig::passwordRotationPeriod''"
definition GetBackupRetentionDays :: "viper \<Rightarrow> int" where
  "GetBackupRetentionDays v = GetInt64 v ''backupRetentionDays''"
definition GetDefaultBackupPolicy :: "viper \<Rightarrow> string" where
  "GetDefaultBackupPolicy v = GetString v ''defaultBackupPolicyValue''"
definition GetCaCertificateIdentifier :: "viper \<Rightarrow> string" where
  "GetCaCertificateIdentifier v = GetString v ''caCertificateIdentifier''"
definition GetEnablePerfInsight :: "viper \<Rightarrow> bool" where
  "GetEnablePerfInsight v = GetBool v ''enablePerfInsight''"
definition GetEnableCloudwatchLogsExport :: "viper \<Rightarrow> string" where
  "GetEnableCloudwatchLogsExport v = GetString v ''enableCloudwatchLogsExport''"
definition GetPgTempFolder :: "viper \<Rightarrow> string" where
  "GetPgTempFolder v = GetString v ''pgTemp''"
definition GetDefaultReclaimPolicy :: "viper \<Rightarrow> string" where
  "GetDefaultReclaimPolicy v = GetString v ''defaultReclaimPolicy''"
definition GetIsPasswordComplexity :: "viper \<Rightarrow> bool" where
  "GetIsPasswordComplexity v = (GetString v ''passwordconfig::passwordComplexity'' = ''enabled'')"
definition GetCloud :: "viper \<Rightarrow> string" where
  "GetCloud v = GetString v ''cloud''"
definition GetRegion :: "viper \<Rightarrow> string" where
  "GetRegion v = GetString v ''region''"
definition GetProject :: "viper \<Rightarrow> string" where
  "GetProject v = GetString v ''project''"
definition GetNetwork :: "viper \<Rightarrow> string" where
  "GetNetwork v = ''projects/'' @ GetProject v @ ''/global/networks/'' @ GetString v ''network''"
definition GetSubNetwork :: "viper \<Rightarrow> string" where
  "GetSubNetwork v = ''projects/'' @ GetProject v @ ''/regions/'' @ GetRegion v @ ''/subnetworks/'' @
     GetString v ''subnetwork''"
definition GetNumBackupsToRetain :: "viper \<Rightarrow> 64 word" where
  "GetNumBackupsToRetain v = GetFloat64 v ''numbackupstoretain''"
definition GetMultiAZEnabled :: "viper \<Rightarrow> bool" where
  "GetMultiAZEnabled v = GetBool v ''dbMultiAZEnabled''"
definition GetVpcSecurityGroupIDRefs :: "viper \<Rightarrow> string" where
  "GetVpcSecurityGroupIDRefs v = GetString v ''vpcSecurityGroupIDRefs''"
definition GetProviderConfig :: "viper \<Rightarrow> string" where
  "GetProviderConfig v = GetString v ''providerConfig''"
definition GetDbSubnetGroupNameRef :: "viper \<Rightarrow> string" where
  "GetDbSubnetGroupNameRef v = GetString v ''dbSubnetGroupNameRef''"
definition GetSystemFunctions :: "viper \<Rightarrow> (string \<times> string) list" where
  "GetSystemFunctions v = GetStringMapString v ''systemFunctions''"
definition GetDefaultMajorVersion :: "viper \<Rightarrow> string" where
  "GetDefaultMajorVersion v = GetString v ''defaultMajorVersion''"
definition GetDBIdentifierPrefix :: "viper \<Rightarrow> string" where
  "GetDBIdentifierPrefix v = GetString v ''env''"

text \<open>A duration is a signed 64-bit integer: the product wraps around.\<close>

definition wrap64 :: "int \<Rightarrow> int" where
  "wrap64 n = sint (word_of_int n :: 64 word)"

definition GetDynamicHostWaitTime :: "viper \<Rightarrow> int" where
  "GetDynamicHostWaitTime v =
     (let t = wrap64 (GetInt v ''dynamicHostWaitTimeMin'' * time_Minute)
      in if t > GetMaxWaitTime then time_Minute else t)"

section \<open>Helpers\<close>

definition IsClassPermitted :: "string \<Rightarrow> string \<Rightarrow> bool" where
  "IsClassPermitted claimClass controllerClass =
     ((if claimClass = [] then ''default'' else claimClass) =
      (if controllerClass = [] then ''default'' else controllerClass))"

definition ValidateConnectionParameters :: "ConnInfo option \<Rightarrow> goerror option" where
  "ValidateConnectionParameters cp = (case cp of
     None \<Rightarrow> Some (ErrMsg ''invalid connection info'')
   | Some c \<Rightarrow>
       if ci_Host c = [] then Some (ErrMsg ''invalid host name'')
       else if ci_Port c = [] then Some (ErrMsg ''cannot get master port'')
       else if ci_Username c = [] then Some (ErrMsg ''invalid credentials (username)'')
       else if ci_SSLMode c = [] then Some (ErrMsg ''invalid sslMode'')
       else if ci_Password c = [] then Some (ErrMsg ''invalid credentials (password)'')
       else None)"

text \<open>\<^verbatim>\<open>gen\<close> stands for the password generator: length, number of digits, number of symbols.\<close>

definition GeneratePassword :: "(int \<Rightarrow> int \<Rightarrow> int \<Rightarrow> goerror + string) \<Rightarrow> viper \<Rightarrow> goerror + string" where
  "GeneratePassword gen v =
     (let minPasswordLength = GetMinPasswordLength v
      in if GetIsPasswordComplexity v
         then (let count = (if minPasswordLength < 0 then - (- minPasswordLength div 4) else minPasswordLength div 4)
               in gen minPasswordLength count count)
         else gen GetDefaultPassLen GetDefaultNumDig GetDefaultNumSimb)"

definition GenerateMasterPassword :: "(int \<Rightarrow> int \<Rightarrow> int \<Rightarrow> goerror + string) \<Rightarrow> goerror + string" where
  "GenerateMasterPassword gen = gen 30 3 0"

definition SanitizeDsn :: "string \<Rightarrow> string" where
  "SanitizeDsn dsn = (case Parse dsn of
     Inl _ \<Rightarrow> []
   | Inr u \<Rightarrow> url_String (u\<lparr>User := Some (Username (User u), Some ''redacted'')\<rparr>))"

section \<open>Properties\<close>

lemma EscapedPath_postgres:
  "CHR '' '' \<notin> set d \<Longrightarrow> EscapedPath (postgres_url u p host port d ssl) = ''/'' @ QueryEscape d"
  by (auto simp: EscapedPath_def postgres_url_def empty_url_def unescape_escape)

lemma escape_host_plain:
  "list_all (\<lambda>c. plain_char c \<or> c = CHR '':'') s \<Longrightarrow> escape EncodeHost s = s"
proof (induction s)
  case Nil
  then show ?case by (simp add: escape_def)
next
  case (Cons c s)
  then have "escape_char EncodeHost c = [c]"
    by (auto simp: escape_char_def plain_char_def shouldEscape_def is_alnum_def Let_def)
  with Cons show ?case by (simp add: escape_def)
qed

text \<open>
  C31: the sanitized form of a connection's URI is the URI with \<^verbatim>\<open>redacted\<close> in the place of the password:
  it names the user, the host, the port, the database and the SSL mode of the connection, each
  escaped for its place, and nothing of the password. It is said of the URIs of connections whose host,
  port and SSL mode are plain and whose other fields have no space; whether a caller sanitizes what it
  logs is not its subject.
\<close>

theorem SanitizeDsn_hides_password:
  assumes "uri_safe c"
  shows "SanitizeDsn (Uri (Some c)) = ''postgres://'' @ escape EncodeUserPassword (ci_Username c) @
    '':redacted@'' @ ci_Host c @ '':'' @ ci_Port c @ ''/'' @ QueryEscape (ci_DatabaseName c) @
    ''?sslmode='' @ ci_SSLMode c"
proof -
  from assms have safe: "list_all plain_char (ci_Host c)" "list_all is_digit (ci_Port c)"
    "CHR '' '' \<notin> set (ci_DatabaseName c)" by (simp_all add: uri_safe_def)
  from safe have "escape EncodeHost (ci_Host c @ '':'' @ ci_Port c) = ci_Host c @ '':'' @ ci_Port c"
    by (intro escape_host_plain) (auto simp: list_all_iff is_digit_plain)
  moreover have "escape EncodeUserPassword ''redacted'' = ''redacted''"
    by (simp add: escape_def escape_char_def shouldEscape_def is_alnum_def)
  ultimately show ?thesis using EscapedPath_postgres [OF safe(3)]
    unfolding SanitizeDsn_def Parse_Uri [OF assms] sum.case
    by (simp add: postgres_url_def Username_def empty_url_def url_String_def userinfo_String_def)
qed

theorem SanitizeDsn_hides_password_witness:
  "SanitizeDsn (Uri (Some \<lparr>ci_Host = ''h'', ci_Port = ''1'', ci_DatabaseName = ''d'', ci_Username = ''u'',
     ci_Password = ''p@ss:word'', ci_SSLMode = ''require''\<rparr>)) =
   ''postgres://u:redacted@h:1/d?sslmode=require''"
proof -
  have "uri_safe \<lparr>ci_Host = ''h'', ci_Port = ''1'', ci_DatabaseName = ''d'', ci_Username = ''u'',
     ci_Password = ''p@ss:word'', ci_SSLMode = ''require''\<rparr>"
    by (simp add: uri_safe_def plain_char_def is_alnum_def is_digit_def)
  from SanitizeDsn_hides_password [OF this] show ?thesis
    by (simp add: escape_def escape_char_def shouldEscape_def is_alnum_def)
qed

text \<open>The wait between two looks at a host never exceeds ten minutes, also where the product
  overflows.\<close>

lemma GetDynamicHostWaitTime_bounded: "GetDynamicHostWaitTime v \<le> GetMaxWaitTime"
  by (simp add: GetDynamicHostWaitTime_def GetMaxWaitTime_def Let_def)

end
