(* ===== verification/Crc32.thy ===== *)
theory Crc32
  imports Prelude "HOL-Library.Word"
begin

text \<open>
  Go's \<^verbatim>\<open>hash/crc32\<close> for a table made by \<^verbatim>\<open>MakeTable\<close>, the checksum that names database
  hosts. The table-driven update is shown equal to the bit-serial one, from which follows that
  changing one byte of the input always changes the checksum.
\<close>

unbundle bit_operations_syntax

section \<open>The table-driven checksum\<close>

definition crc_bit :: "32 word \<Rightarrow> 32 word \<Rightarrow> 32 word" where
  "crc_bit poly crc = (if bit crc 0 then drop_bit 1 crc XOR poly else drop_bit 1 crc)"

definition table_entry :: "32 word \<Rightarrow> 32 word \<Rightarrow> 32 word" where
  "table_entry poly i = (crc_bit poly ^^ 8) i"

definition MakeTable :: "32 word \<Rightarrow> 32 word list" where
  "MakeTable poly = map (\<lambda>i. table_entry poly (word_of_nat i)) [0..<256]"

definition byte :: "char \<Rightarrow> 32 word" where
  "byte c = word_of_nat (of_char c)"

definition simpleUpdate :: "32 word list \<Rightarrow> 32 word \<Rightarrow> char \<Rightarrow> 32 word" where
  "simpleUpdate tab crc v = tab ! unat ((crc AND 0xFF) XOR byte v) XOR drop_bit 8 crc"

definition Checksum :: "string \<Rightarrow> 32 word list \<Rightarrow> 32 word" where
  "Checksum data tab = NOT (foldl (simpleUpdate tab) (NOT 0) data)"

section \<open>The bit-serial step\<close>

lemma xor_cancel: "a XOR c = b XOR c \<longleftrightarrow> a = b" for a b c :: "32 word"
proof
  assume "a XOR c = b XOR c"
  then have "(a XOR c) XOR c = (b XOR c) XOR c" by simp
  then show "a = b" by (simp add: xor.assoc)
qed simp

lemma low_mask: "(0xFF :: 32 word) = mask 8" "(0xF :: 32 word) = mask 4"
  by (simp_all add: mask_eq_exp_minus_1)

lemma of_char_byte: "(of_char c :: nat) < 256"
  by simp

lemma crc_bit_low: "bit (crc_bit poly x) 31 = bit x 0" if "bit poly 31"
  using that bit_imp_le_length [of x 32] by (auto simp: crc_bit_def bit_simps)

lemma crc_bit_inj:
  assumes "bit poly 31" and "crc_bit poly x = crc_bit poly y"
  shows "x = y"
proof -
  from assms have b: "bit x 0 = bit y 0" by (metis crc_bit_low)
  with assms(2) have d: "drop_bit 1 x = drop_bit 1 y"
    by (simp add: crc_bit_def xor_cancel split: if_splits)
  show ?thesis
  proof (rule bit_eqI)
    fix n
    show "bit x n = bit y n"
    proof (cases n)
      case (Suc m)
      from d have "bit (drop_bit 1 x) m = bit (drop_bit 1 y) m" by simp
      with Suc show ?thesis by (simp add: bit_drop_bit_eq)
    qed (use b in simp)
  qed
qed

lemma crc_bit_xor: "crc_bit poly (x XOR y) = crc_bit poly x XOR crc_bit poly y"
  by (rule bit_eqI) (auto simp: crc_bit_def bit_simps)

lemma table_entry_xor: "table_entry poly (x XOR y) = table_entry poly x XOR table_entry poly y"
proof -
  have "(crc_bit poly ^^ n) (x XOR y) = (crc_bit poly ^^ n) x XOR (crc_bit poly ^^ n) y" for n
    by (induction n) (simp_all add: crc_bit_xor)
  then show ?thesis by (simp add: table_entry_def)
qed

lemma table_entry_inj:
  assumes "bit poly 31" and "table_entry poly x = table_entry poly y"
  shows "x = y"
proof -
  have "(crc_bit poly ^^ n) x = (crc_bit poly ^^ n) y \<Longrightarrow> x = y" for n
    using crc_bit_inj [OF assms(1)] by (induction n) auto
  with assms(2) show ?thesis by (simp add: table_entry_def)
qed

lemma crc_bit_shift:
  assumes "\<And>i. i < n \<Longrightarrow> \<not> bit x i"
  shows "(crc_bit poly ^^ n) x = drop_bit n x"
  using assms
proof (induction n)
  case (Suc n)
  then have "(crc_bit poly ^^ n) x = drop_bit n x" by simp
  moreover have "crc_bit poly (drop_bit n x) = drop_bit (Suc n) x"
    using Suc.prems [of n] by (simp add: crc_bit_def bit_simps)
  ultimately show ?case by simp
qed simp

lemma table_entry_high: "table_entry poly (push_bit 8 (drop_bit 8 x)) = drop_bit 8 x"
  unfolding table_entry_def
  by (subst crc_bit_shift)
    (use bit_imp_le_length [of x] in \<open>force simp: bit_simps intro!: bit_eqI\<close>)+

lemma split_low_byte: "x = (x AND 0xFF) XOR push_bit 8 (drop_bit 8 x)" for x :: "32 word"
  unfolding low_mask
  by (rule bit_eqI) (auto simp: bit_simps dest: bit_imp_le_length)

lemma unat_byte: "unat (byte c) = of_char c"
proof -
  have "(of_char c :: nat) < 2 ^ 32" by (rule order_less_trans [OF of_char_byte]) simp
  then show ?thesis unfolding byte_def unat_of_nat by (intro mod_less) simp
qed

lemma byte_small: "take_bit 8 (byte c) = byte c"
proof -
  have "unat (take_bit 8 (byte c)) = take_bit 8 (unat (byte c))" by (rule unsigned_take_bit_eq)
  also have "\<dots> = unat (byte c)"
    unfolding unat_byte by (rule take_bit_nat_eq_self) (simp add: of_char_byte)
  finally show ?thesis by (simp only: word_unat_eq_iff)
qed

lemma low_byte_bound: "unat ((x AND 0xFF) XOR byte c) < 256"
proof -
  have "(x AND 0xFF) XOR byte c = take_bit 8 (x XOR byte c)"
    by (simp add: low_mask(1) take_bit_eq_mask [symmetric] take_bit_xor byte_small)
  then have "unat ((x AND 0xFF) XOR byte c) = take_bit 8 (unat (x XOR byte c))"
    by (simp only: unsigned_take_bit_eq)
  also have "\<dots> < 2 ^ 8" by (rule take_bit_nat_less_exp)
  finally show ?thesis by simp
qed

text \<open>One table-driven update is eight bit-serial steps on the checksum combined with the byte.\<close>

lemma simpleUpdate_bitwise: "simpleUpdate (MakeTable poly) crc v = table_entry poly (crc XOR byte v)"
proof -
  let ?i = "(crc AND 0xFF) XOR byte v"
  have "MakeTable poly ! unat ?i = table_entry poly ?i"
    using low_byte_bound by (simp add: MakeTable_def)
  then have "simpleUpdate (MakeTable poly) crc v =
      table_entry poly ?i XOR table_entry poly (push_bit 8 (drop_bit 8 crc))"
    by (simp add: simpleUpdate_def table_entry_high)
  also have "\<dots> = table_entry poly (((crc AND 0xFF) XOR push_bit 8 (drop_bit 8 crc)) XOR byte v)"
    by (simp add: table_entry_xor [symmetric] xor.assoc xor.left_commute xor.commute)
  finally show ?thesis by (simp flip: split_low_byte)
qed

lemma byte_inj: "byte a = byte b \<Longrightarrow> a = b"
proof -
  assume "byte a = byte b"
  then have "unat (byte a) = unat (byte b)" by simp
  then have "(of_char a :: nat) = of_char b" by (simp only: unat_byte)
  then show "a = b" by simp
qed

lemma foldl_update_inj:
  assumes "bit poly 31" and "foldl (simpleUpdate (MakeTable poly)) x s = foldl (simpleUpdate (MakeTable poly)) y s"
  shows "x = y"
  using assms(2)
proof (induction s arbitrary: x y)
  case (Cons c s)
  then have "simpleUpdate (MakeTable poly) x c = simpleUpdate (MakeTable poly) y c" by auto
  then have "x XOR byte c = y XOR byte c"
    using table_entry_inj [OF assms(1)] by (simp add: simpleUpdate_bitwise)
  then show ?case by (simp add: xor_cancel)
qed simp

lemma Checksum_one_byte:
  assumes "bit poly 31" and "a \<noteq> b"
  shows "Checksum (u @ a # v) (MakeTable poly) \<noteq> Checksum (u @ b # v) (MakeTable poly)"
proof
  let ?f = "foldl (simpleUpdate (MakeTable poly))"
  assume "Checksum (u @ a # v) (MakeTable poly) = Checksum (u @ b # v) (MakeTable poly)"
  then have "?f (NOT 0) (u @ a # v) = ?f (NOT 0) (u @ b # v)"
    unfolding Checksum_def by (metis bit.double_compl)
  then have "simpleUpdate (MakeTable poly) (?f (NOT 0) u) a = simpleUpdate (MakeTable poly) (?f (NOT 0) u) b"
    using foldl_update_inj [OF assms(1)] by simp
  then have "?f (NOT 0) u XOR byte a = ?f (NOT 0) u XOR byte b"
    using table_entry_inj [OF assms(1)] by (simp add: simpleUpdate_bitwise)
  then have "byte a = byte b" using xor_cancel [of "byte a" "?f (NOT 0) u" "byte b"] by (simp only: xor.commute)
  with assms(2) byte_inj show False by blast
qed

section \<open>Hexadecimal output\<close>

definition lowerhex :: "nat \<Rightarrow> char" where
  "lowerhex n = char_of (if n < 10 then n + 48 else n + 87)"

text \<open>\<^verbatim>\<open>fmt.Sprintf("%08x", w)\<close>.\<close>

definition hex8 :: "32 word \<Rightarrow> string" where
  "hex8 w = map (\<lambda>i. lowerhex (unat (drop_bit (4 * i) w AND 0xF))) (rev [0..<8])"

lemma length_hex8 [simp]: "length (hex8 w) = 8"
  by (simp add: hex8_def)

lemma lowerhex_inj:
  assumes "m < 16" and "n < 16"
  shows "lowerhex m = lowerhex n \<longleftrightarrow> m = n"
proof
  have val: "of_char (lowerhex k) = (if k < 10 then k + 48 else k + 87)" if "k < 16" for k :: nat
    using that by (simp add: lowerhex_def)
  assume "lowerhex m = lowerhex n"
  then have "(of_char (lowerhex m) :: nat) = of_char (lowerhex n)" by simp
  then show "m = n" using assms by (simp add: val split: if_splits)
qed simp

lemma hex8_inj: "hex8 x = hex8 y \<Longrightarrow> x = y"
proof (rule bit_eqI)
  fix n assume eq: "hex8 x = hex8 y" and n: "possible_bit TYPE(32 word) n"
  let ?k = "n div 4"
  have k: "?k < 8" using n by (simp add: possible_bit_word)
  have nib: "drop_bit (4 * ?k) w AND 0xF = take_bit 4 (drop_bit (4 * ?k) w)" for w :: "32 word"
    by (simp add: low_mask(2) take_bit_eq_mask)
  have small: "unat (take_bit 4 w) < 16" for w :: "32 word"
    using take_bit_nat_less_exp [of 4 "unat w"] by (simp add: unsigned_take_bit_eq)
  have "lowerhex (unat (drop_bit (4 * ?k) x AND 0xF)) = lowerhex (unat (drop_bit (4 * ?k) y AND 0xF))"
    using eq k by (auto simp: hex8_def)
  then have "take_bit 4 (drop_bit (4 * ?k) x) = take_bit 4 (drop_bit (4 * ?k) y)"
    unfolding nib lowerhex_inj [OF small small] by (simp only: word_unat_eq_iff)
  then have "bit (take_bit 4 (drop_bit (4 * ?k) x)) (n mod 4) = bit (take_bit 4 (drop_bit (4 * ?k) y)) (n mod 4)"
    by simp
  moreover have "4 * ?k + n mod 4 = n" by simp
  ultimately show "bit x n = bit y n" by (simp add: bit_simps)
qed

end
