(* ===== verification/Hostparams.thy ===== *)
theory Hostparams
  imports Basefunctions Crc32
begin

text \<open>
  Host parameters (\<^verbatim>\<open>pkg/hostparams\<close>): what a claim asks of the host of its database, the
  defaults, the checksum that goes into the host's name and the decision whether a change of the
  claim asks for an upgrade. \<^verbatim>\<open>golang.org/x/text/cases\<close>, used to spell the deletion policy, is the
  argument \<open>title\<close>.
\<close>

abbreviation defaultAuroraPostgresStr :: string where "defaultAuroraPostgresStr \<equiv> ''aurora-postgresql''"
abbreviation defaultShape :: string where "defaultShape \<equiv> ''db.t4g.medium''"
abbreviation defaultMajorVersion :: string where "defaultMajorVersion \<equiv> ''15''"
abbreviation shapeDelimiter :: char where "shapeDelimiter \<equiv> CHR ''!''"

record HostParams =
  hp_Type :: string
  hp_Shape :: string
  hp_MinStorageGB :: int
  hp_MaxStorageGB :: int
  hp_DBVersion :: string
  hp_MasterUsername :: string
  hp_InstanceClass :: string
  hp_StorageType :: string
  hp_SkipFinalSnapshotBeforeDeletion :: bool
  hp_PubliclyAccessible :: bool
  hp_EnableIAMDatabaseAuthentication :: bool
  hp_DeletionPolicy :: string
  hp_Port :: int
  hp_isDefaultEngine :: bool
  hp_isDefaultShape :: bool
  hp_isDefaultInstanceClass :: bool
  hp_isDefaultStorage :: bool
  hp_IsDefaultVersion :: bool

definition empty_HostParams :: HostParams where
  "empty_HostParams = \<lparr>hp_Type = [], hp_Shape = [], hp_MinStorageGB = 0, hp_MaxStorageGB = 0,
     hp_DBVersion = [], hp_MasterUsername = [], hp_InstanceClass = [], hp_StorageType = [],
     hp_SkipFinalSnapshotBeforeDeletion = False, hp_PubliclyAccessible = False,
     hp_EnableIAMDatabaseAuthentication = False, hp_DeletionPolicy = [], hp_Port = 0,
     hp_isDefaultEngine = False, hp_isDefaultShape = False, hp_isDefaultInstanceClass = False,
     hp_isDefaultStorage = False, hp_IsDefaultVersion = False\<rparr>"

definition HostParams_String :: "HostParams \<Rightarrow> string" where
  "HostParams_String p = hp_Type p @ ''-'' @ hp_InstanceClass p @ ''-'' @ hp_DBVersion p"

definition Hash :: "HostParams \<Rightarrow> string" where
  "Hash p = hex8 (Checksum (HostParams_String p) (MakeTable 0xD5828281))"

definition HasShapeChanged :: "HostParams \<Rightarrow> string \<Rightarrow> bool" where
  "HasShapeChanged p activeShape = (if hp_isDefaultShape p then False else activeShape \<noteq> hp_Shape p)"

definition HasInstanceClassChanged :: "HostParams \<Rightarrow> string \<Rightarrow> bool" where
  "HasInstanceClassChanged p activeInstanceClass =
     (if hp_isDefaultInstanceClass p then False else activeInstanceClass \<noteq> hp_InstanceClass p)"

definition HasStorageChanged :: "HostParams \<Rightarrow> int \<Rightarrow> bool" where
  "HasStorageChanged p activeStorage =
     (if hp_Type p = defaultAuroraPostgresStr then False
      else if hp_isDefaultStorage p then False
      else activeStorage \<noteq> hp_MinStorageGB p)"

definition HasEngineChanged :: "HostParams \<Rightarrow> string \<Rightarrow> bool" where
  "HasEngineChanged p activeEngine = (if hp_isDefaultEngine p then False else activeEngine \<noteq> hp_Type p)"

definition HasVersionChanged :: "HostParams \<Rightarrow> string \<Rightarrow> bool" where
  "HasVersionChanged p activeVersion =
     (if hp_IsDefaultVersion p then False
      else Split activeVersion (CHR ''.'') ! 0 \<noteq> Split (hp_DBVersion p) (CHR ''.'') ! 0)"

definition IsUpgradeRequested :: "HostParams \<Rightarrow> HostParams \<Rightarrow> bool" where
  "IsUpgradeRequested p active =
     (HasEngineChanged p (hp_Type active) \<or>
      HasInstanceClassChanged p (hp_InstanceClass active) \<or>
      HasVersionChanged p (hp_DBVersion active))"

definition getInstanceClass :: "string \<Rightarrow> string" where
  "getInstanceClass shape = Split shape shapeDelimiter ! 0"

definition getStorageType :: "viper \<Rightarrow> string \<Rightarrow> string \<Rightarrow> goerror + string" where
  "getStorageType config engine shape =
     (if engine = defaultAuroraPostgresStr then
        (let shapeParts = Split shape shapeDelimiter
         in if length shapeParts > 1 then
              (let t = ToLower (shapeParts ! 1)
               in if t = ''io1'' then Inr ''aurora-iopt1''
                  else if t = ''io-optimized'' then Inr ''aurora-iopt1''
                  else if t = ''standard'' then Inr ''aurora''
                  else if t = ''aurora'' then Inr ''aurora''
                  else if t = [] then Inr ''aurora''
                  else Inl (ErrMsg ''invalid shape''))
            else Inr ''aurora'')
      else Inr (GetString config ''storageType''))"

text \<open>\<open>max_storage_error\<close>: the checks on the maximum storage at the end of \<^verbatim>\<open>New\<close>.\<close>

definition max_storage_error :: "HostParams \<Rightarrow> int \<Rightarrow> goerror option" where
  "max_storage_error hp activeMax =
     (if hp_Type hp = Postgres then
        (if hp_MaxStorageGB hp = 0 then
           (if activeMax \<noteq> 0 then Some (Sentinel ErrMaxStorageReduced) else None)
         else if hp_MaxStorageGB hp < activeMax then Some (Sentinel ErrMaxStorageReduced)
         else if hp_MaxStorageGB hp \<le> hp_MinStorageGB hp then Some (Sentinel ErrMaxStorageLesser)
         else None)
      else None)"

text \<open>The defaults that \<^verbatim>\<open>New\<close> fills in, one definition per conditional of the code.\<close>

definition default_version :: "Status \<Rightarrow> HostParams \<Rightarrow> HostParams" where
  "default_version active hp =
     (if hp_DBVersion hp = [] then
        (if st_DBVersion active \<noteq> [] then hp\<lparr>hp_DBVersion := st_DBVersion active\<rparr>
         else hp\<lparr>hp_IsDefaultVersion := True, hp_DBVersion := defaultMajorVersion\<rparr>)
      else hp)"

definition default_shape :: "HostParams \<Rightarrow> HostParams" where
  "default_shape hp =
     (if hp_Shape hp = []
      then hp\<lparr>hp_isDefaultShape := True, hp_isDefaultInstanceClass := True, hp_Shape := defaultShape\<rparr>
      else hp)"

definition default_engine :: "HostParams \<Rightarrow> HostParams" where
  "default_engine hp =
     (if hp_Type hp = [] then hp\<lparr>hp_isDefaultEngine := True, hp_Type := Postgres\<rparr> else hp)"

definition default_storage :: "viper \<Rightarrow> HostParams \<Rightarrow> HostParams" where
  "default_storage config hp =
     (if hp_MinStorageGB hp = 0
      then hp\<lparr>hp_isDefaultStorage := True, hp_MinStorageGB := GetInt config ''defaultMinStorageGB''\<rparr>
      else hp)"

definition default_deletion_policy :: "viper \<Rightarrow> HostParams \<Rightarrow> HostParams" where
  "default_deletion_policy config hp =
     (if hp_DeletionPolicy hp = [] then
        (if GetString config ''defaultDeletionPolicy'' = ''delete''
         then hp\<lparr>hp_DeletionPolicy := DeleteDeletionPolicy\<rparr>
         else hp\<lparr>hp_DeletionPolicy := OrphanDeletionPolicy\<rparr>)
      else hp)"

definition New :: "(string \<Rightarrow> string) \<Rightarrow> viper \<Rightarrow> DatabaseClaim \<Rightarrow> goerror + HostParams" where
  "New title config dbClaim =
     (let spec = dc_Spec dbClaim; active = dc_ActiveDB dbClaim;
          hp = empty_HostParams\<lparr>hp_DeletionPolicy := title (spec_DeletionPolicy spec),
                 hp_Type := spec_Type spec, hp_DBVersion := spec_DBVersion spec,
                 hp_Shape := spec_Shape spec, hp_MinStorageGB := spec_MinStorageGB spec,
                 hp_MaxStorageGB := spec_MaxStorageGB spec\<rparr>
      in case Atoi (GetString config ''defaultMasterPort'') of
           None \<Rightarrow> Inl (ErrMsg ''invalid master port'')
         | Some iport \<Rightarrow>
             (let hp = hp\<lparr>hp_Port := iport, hp_MasterUsername := GetString config ''defaultMasterUsername''\<rparr>;
                  hp = default_storage config (default_engine (default_shape (default_version active hp)));
                  hp = hp\<lparr>hp_SkipFinalSnapshotBeforeDeletion :=
                             GetBool config ''defaultSkipFinalSnapshotBeforeDeletion'',
                           hp_PubliclyAccessible := GetBool config ''defaultPubliclyAccessible''\<rparr>;
                  hp = default_deletion_policy config hp;
                  hp = hp\<lparr>hp_EnableIAMDatabaseAuthentication := False,
                           hp_InstanceClass := getInstanceClass (hp_Shape hp)\<rparr>
              in case getStorageType config (hp_Type hp) (hp_Shape hp) of
                   Inl e \<Rightarrow> Inl e
                 | Inr storageType \<Rightarrow>
                     (let hp = hp\<lparr>hp_StorageType := storageType\<rparr>
                      in case max_storage_error hp (st_MaxStorageGB active) of
                           Some e \<Rightarrow> Inl e
                         | None \<Rightarrow> Inr hp)))"

definition GetActiveHostParams :: "DatabaseClaim \<Rightarrow> HostParams" where
  "GetActiveHostParams dbClaim =
     (let active = dc_ActiveDB dbClaim
      in empty_HostParams\<lparr>hp_Type := st_Type active, hp_DBVersion := st_DBVersion active,
           hp_Shape := st_Shape active, hp_InstanceClass := getInstanceClass (st_Shape active),
           hp_MinStorageGB := st_MinStorageGB active\<rparr>)"

section \<open>The host parameters of a claim\<close>

text \<open>The parameters before the checks, field by field.\<close>

definition requested :: "(string \<Rightarrow> string) \<Rightarrow> viper \<Rightarrow> DatabaseClaim \<Rightarrow> int \<Rightarrow> string \<Rightarrow> HostParams" where
  "requested title config c iport storageType =
     (let spec = dc_Spec c; active = dc_ActiveDB c;
          shape = (if spec_Shape spec = [] then defaultShape else spec_Shape spec)
      in \<lparr>hp_Type = (if spec_Type spec = [] then Postgres else spec_Type spec),
          hp_Shape = shape,
          hp_MinStorageGB = (if spec_MinStorageGB spec = 0 then GetInt config ''defaultMinStorageGB''
                             else spec_MinStorageGB spec),
          hp_MaxStorageGB = spec_MaxStorageGB spec,
          hp_DBVersion = (if spec_DBVersion spec \<noteq> [] then spec_DBVersion spec
                          else if st_DBVersion active \<noteq> [] then st_DBVersion active
                          else defaultMajorVersion),
          hp_MasterUsername = GetString config ''defaultMasterUsername'',
          hp_InstanceClass = getInstanceClass shape,
          hp_StorageType = storageType,
          hp_SkipFinalSnapshotBeforeDeletion = GetBool config ''defaultSkipFinalSnapshotBeforeDeletion'',
          hp_PubliclyAccessible = GetBool config ''defaultPubliclyAccessible'',
          hp_EnableIAMDatabaseAuthentication = False,
          hp_DeletionPolicy = (if title (spec_DeletionPolicy spec) \<noteq> [] then title (spec_DeletionPolicy spec)
                               else if GetString config ''defaultDeletionPolicy'' = ''delete''
                               then DeleteDeletionPolicy else OrphanDeletionPolicy),
          hp_Port = iport,
          hp_isDefaultEngine = (spec_Type spec = []),
          hp_isDefaultShape = (spec_Shape spec = []),
          hp_isDefaultInstanceClass = (spec_Shape spec = []),
          hp_isDefaultStorage = (spec_MinStorageGB spec = 0),
          hp_IsDefaultVersion = (spec_DBVersion spec = [] \<and> st_DBVersion active = [])\<rparr>)"

lemma defaults_fieldwise:
  "default_version active hp = hp\<lparr>hp_IsDefaultVersion :=
       (hp_DBVersion hp = [] \<and> st_DBVersion active = [] \<or> hp_IsDefaultVersion hp),
     hp_DBVersion := (if hp_DBVersion hp \<noteq> [] then hp_DBVersion hp
                      else if st_DBVersion active \<noteq> [] then st_DBVersion active else defaultMajorVersion)\<rparr>"
  "default_shape hp = hp\<lparr>hp_isDefaultShape := (hp_Shape hp = [] \<or> hp_isDefaultShape hp),
     hp_isDefaultInstanceClass := (hp_Shape hp = [] \<or> hp_isDefaultInstanceClass hp),
     hp_Shape := (if hp_Shape hp = [] then defaultShape else hp_Shape hp)\<rparr>"
  "default_engine hp = hp\<lparr>hp_isDefaultEngine := (hp_Type hp = [] \<or> hp_isDefaultEngine hp),
     hp_Type := (if hp_Type hp = [] then Postgres else hp_Type hp)\<rparr>"
  "default_storage config hp = hp\<lparr>hp_isDefaultStorage := (hp_MinStorageGB hp = 0 \<or> hp_isDefaultStorage hp),
     hp_MinStorageGB := (if hp_MinStorageGB hp = 0 then GetInt config ''defaultMinStorageGB'' else hp_MinStorageGB hp)\<rparr>"
  "default_deletion_policy config hp = hp\<lparr>hp_DeletionPolicy :=
     (if hp_DeletionPolicy hp \<noteq> [] then hp_DeletionPolicy hp
      else if GetString config ''defaultDeletionPolicy'' = ''delete'' then DeleteDeletionPolicy
      else OrphanDeletionPolicy)\<rparr>"
  by (simp_all add: default_version_def default_shape_def default_engine_def default_storage_def
      default_deletion_policy_def)

lemma New_requested:
  "New title config c =
     (case Atoi (GetString config ''defaultMasterPort'') of
        None \<Rightarrow> Inl (ErrMsg ''invalid master port'')
      | Some iport \<Rightarrow>
          (case getStorageType config (if spec_Type (dc_Spec c) = [] then Postgres else spec_Type (dc_Spec c))
                  (if spec_Shape (dc_Spec c) = [] then defaultShape else spec_Shape (dc_Spec c)) of
             Inl e \<Rightarrow> Inl e
           | Inr storageType \<Rightarrow>
               (case max_storage_error (requested title config c iport storageType)
                       (st_MaxStorageGB (dc_ActiveDB c)) of
                  Some e \<Rightarrow> Inl e
                | None \<Rightarrow> Inr (requested title config c iport storageType))))"
  by (simp add: New_def defaults_fieldwise empty_HostParams_def requested_def Let_def
      split del: if_split cong: if_cong option.case_cong sum.case_cong)

lemma New_ok:
  assumes "New title config c = Inr hp"
  obtains iport storageType where "hp = requested title config c iport storageType"
    and "max_storage_error hp (st_MaxStorageGB (dc_ActiveDB c)) = None"
  using assms by (auto simp: New_requested split: option.splits sum.splits)

lemma New_fields:
  assumes "New title config c = Inr hp"
  shows "hp_Type hp = (if spec_Type (dc_Spec c) = [] then Postgres else spec_Type (dc_Spec c))"
    and "hp_isDefaultEngine hp = (spec_Type (dc_Spec c) = [])"
    and "hp_Shape hp = (if spec_Shape (dc_Spec c) = [] then defaultShape else spec_Shape (dc_Spec c))"
    and "hp_isDefaultInstanceClass hp = (spec_Shape (dc_Spec c) = [])"
    and "hp_InstanceClass hp = getInstanceClass (hp_Shape hp)"
    and "hp_DBVersion hp = (if spec_DBVersion (dc_Spec c) \<noteq> [] then spec_DBVersion (dc_Spec c)
           else if st_DBVersion (dc_ActiveDB c) \<noteq> [] then st_DBVersion (dc_ActiveDB c)
           else defaultMajorVersion)"
    and "hp_IsDefaultVersion hp = (spec_DBVersion (dc_Spec c) = [] \<and> st_DBVersion (dc_ActiveDB c) = [])"
    and "hp_MaxStorageGB hp = spec_MaxStorageGB (dc_Spec c)"
  by (rule New_ok [OF assms], simp add: requested_def Let_def)+

lemma Split_hd: "Split s c ! 0 = takeWhile (\<lambda>x. x \<noteq> c) s"
  by (metis hd_Split hd_conv_nth Split_nonempty)

lemma getInstanceClass_takeWhile: "getInstanceClass s = takeWhile (\<lambda>c. c \<noteq> CHR ''!'') s"
  by (simp add: getInstanceClass_def Split_hd)

lemma Hash_one_char:
  assumes "hp_Type p = hp_Type q" and "hp_InstanceClass p = hp_InstanceClass q"
    and "hp_DBVersion p = u @ a # v" and "hp_DBVersion q = u @ b # v" and "a \<noteq> b"
  shows "Hash p \<noteq> Hash q"
proof
  assume "Hash p = Hash q"
  then have eq: "Checksum (HostParams_String p) (MakeTable 0xD5828281) =
      Checksum (HostParams_String q) (MakeTable 0xD5828281)"
    unfolding Hash_def by (rule hex8_inj)
  have "bit (0xD5828281 :: 32 word) 31" by simp
  from Checksum_one_byte [OF this assms(5), of "hp_Type q @ ''-'' @ hp_InstanceClass q @ ''-'' @ u" v]
  show False using eq assms(1-4) by (simp add: HostParams_String_def)
qed

text \<open>
  An upgrade is requested exactly when the claim names an engine, a shape or a version that
  the active database does not have; versions count by what precedes their first dot, shapes by
  what precedes the exclamation mark, and a claim that leaves a field empty never asks for a
  change of it.
\<close>

theorem upgrade_requested_iff:
  assumes "New title config c = Inr hp"
  shows "IsUpgradeRequested hp (GetActiveHostParams c) \<longleftrightarrow>
    (spec_Type (dc_Spec c) \<noteq> [] \<and> spec_Type (dc_Spec c) \<noteq> st_Type (dc_ActiveDB c)) \<or>
    (spec_Shape (dc_Spec c) \<noteq> [] \<and>
       takeWhile (\<lambda>x. x \<noteq> CHR ''!'') (spec_Shape (dc_Spec c)) \<noteq>
       takeWhile (\<lambda>x. x \<noteq> CHR ''!'') (st_Shape (dc_ActiveDB c))) \<or>
    (spec_DBVersion (dc_Spec c) \<noteq> [] \<and>
       takeWhile (\<lambda>x. x \<noteq> CHR ''.'') (spec_DBVersion (dc_Spec c)) \<noteq>
       takeWhile (\<lambda>x. x \<noteq> CHR ''.'') (st_DBVersion (dc_ActiveDB c)))"
  unfolding IsUpgradeRequested_def HasEngineChanged_def HasInstanceClassChanged_def HasVersionChanged_def
    New_fields [OF assms] GetActiveHostParams_def Let_def
  by (auto simp: Split_hd getInstanceClass_takeWhile)

text \<open>
  A change of the minor version alone is no upgrade and yet names another host: for host
  parameters that agree on engine and instance class and whose versions differ in one character
  after the first dot, no upgrade is requested, but the checksum in the host name differs.
\<close>

theorem minor_version_renames_host:
  assumes "hp_Type p = hp_Type q" and "hp_InstanceClass p = hp_InstanceClass q"
    and "hp_DBVersion p = major @ ''.'' @ u @ a # v" and "hp_DBVersion q = major @ ''.'' @ u @ b # v"
    and "CHR ''.'' \<notin> set major" and "a \<noteq> b"
  shows "\<not> IsUpgradeRequested p q \<and> Hash p \<noteq> Hash q"
proof
  show "\<not> IsUpgradeRequested p q"
    using assms(5) by (simp add: IsUpgradeRequested_def HasEngineChanged_def
      HasInstanceClassChanged_def HasVersionChanged_def Split_append assms(1-4))
  show "Hash p \<noteq> Hash q"
    using Hash_one_char [OF assms(1,2), of "major @ ''.'' @ u" a v b] assms(3-6) by simp
qed

definition hp_15_3 :: HostParams where
  "hp_15_3 = empty_HostParams\<lparr>hp_Type := Postgres, hp_InstanceClass := defaultShape, hp_DBVersion := ''15.3''\<rparr>"

theorem minor_version_renames_host_witness:
  "\<not> IsUpgradeRequested (hp_15_3\<lparr>hp_DBVersion := ''15.5''\<rparr>) hp_15_3 \<and>
   Hash (hp_15_3\<lparr>hp_DBVersion := ''15.5''\<rparr>) \<noteq> Hash hp_15_3"
  by (rule minor_version_renames_host [where major = "''15''" and u = "[]" and v = "[]" and
        a = "CHR ''5''" and b = "CHR ''3''"]) (simp_all add: hp_15_3_def)

section \<open>Sample configuration and claim\<close>

definition sample_viper :: viper where
  "sample_viper = \<lparr>
     GetString = (\<lambda>k. if k = ''defaultMasterPort'' then ''5432''
                      else if k = ''defaultMasterUsername'' then ''root''
                      else if k = ''env'' then ''box-1''
                      else if k = ''cloud'' then ''aws''
                      else if k = ''defaultSslMode'' then ''require''
                      else if k = ''storageType'' then ''gp3'' else []),
     GetInt = (\<lambda>k. if k = ''defaultMinStorageGB'' then 20 else 0),
     GetInt64 = (\<lambda>k. 0), GetBool = (\<lambda>k. False),
     GetDuration = (\<lambda>k. 60 * time_Minute),
     GetFloat64 = (\<lambda>k. 0), GetStringMapString = (\<lambda>k. [])\<rparr>"

definition sample_claim :: DatabaseClaim where
  "sample_claim = \<lparr>
     dc_Meta = \<lparr>m_Name = ''orders'', m_Namespace = ''shop'', m_Generation = 1, m_ResourceVersion = ''7'',
       m_UID = ''u1'', m_DeletionTimestamp = None, m_Finalizers = [], m_Labels = [], m_Annotations = []\<rparr>,
     dc_Spec = \<lparr>spec_Class = Some ''default'', spec_SourceDataFrom = None, spec_UseExistingSource = Some False,
       spec_AppID = ''orders'', spec_Type = Postgres, spec_DeletionPolicy = [], spec_MaxStorageGB = 0,
       spec_SecretName = ''orders-secret'', spec_Username = ''app'', spec_DatabaseName = ''orders'',
       spec_DBVersion = ''15.5'', spec_DSNName = DSNKey, spec_Shape = ''db.r6g.large!io1'',
       spec_MinStorageGB = 0, spec_BackupPolicy = [], spec_RestoreFrom = [],
       spec_EnableReplicationRole = Some False, spec_EnableSuperUser = Some False, spec_Tags = [],
       spec_PreferredMaintenanceWindow = None\<rparr>,
     dc_Status = \<lparr>s_Error = [], s_NewDB = empty_Status,
       s_ActiveDB = empty_Status\<lparr>st_Type := Postgres, st_DBVersion := ''14.1'', st_Shape := ''db.r6g.large'',
         st_DbState := Ready, st_MinStorageGB := 20\<rparr>,
       s_MigrationState = [], s_OldDB = empty_StatusForOldDB, s_Conditions = []\<rparr>\<rparr>"

lemma sample_port: "Atoi ''5432'' = Some 5432"
  by (simp add: Atoi_def ParseInt_def unsigned_decimal_def digit_val_def fits_def)

lemma sample_New_ok: "\<exists>hp. New id sample_viper sample_claim = Inr hp"
  by (simp add: New_requested requested_def sample_viper_def sample_claim_def sample_port Let_def
      getStorageType_def max_storage_error_def empty_Status_def)

theorem upgrade_requested_iff_witness:
  "\<exists>hp. New id sample_viper sample_claim = Inr hp \<and>
     IsUpgradeRequested hp (GetActiveHostParams sample_claim)"
proof -
  from sample_New_ok obtain hp where hp: "New id sample_viper sample_claim = Inr hp" by blast
  from upgrade_requested_iff [OF hp] have "IsUpgradeRequested hp (GetActiveHostParams sample_claim)"
    by (simp add: sample_claim_def)
  with hp show ?thesis by blast
qed

end
