(* ===== verification/Requestinfo.thy ===== *)
theory Requestinfo
  imports Hostparams
begin

text \<open>
  What a reconciliation asks for (\<^verbatim>\<open>pkg/databaseclaim/requestinfo.go\<close>), with the names of hosts and
  parameter groups that follow from it. A nil pointer dereference is \<open>Panic\<close>.
\<close>

abbreviation maxNameLen :: nat where "maxNameLen \<equiv> 44"

record requestInfo =
  ri_DbType :: string
  ri_SharedDBHost :: bool
  ri_MasterConnInfo :: ConnInfo
  ri_TempSecret :: string
  ri_HostParams :: HostParams
  ri_EnableReplicationRole :: bool
  ri_EnableSuperUser :: bool
  ri_EnablePerfInsight :: bool
  ri_EnableCloudwatchLogsExport :: "string list"
  ri_BackupRetentionDays :: int
  ri_CACertificateIdentifier :: string

definition cloudwatch_exports :: "string \<Rightarrow> string list" where
  "cloudwatch_exports s =
     (if s = ''all'' then [''postgresql'', ''upgrade''] else if s = ''none'' then [] else [s])"

definition NewRequestInfo ::
  "(string \<Rightarrow> string) \<Rightarrow> viper \<Rightarrow> DatabaseClaim \<Rightarrow> (goerror + requestInfo) go" where
  "NewRequestInfo title cfg dbClaim =
     (case New title cfg dbClaim of
        Inl e \<Rightarrow> Ret (Inl (Wrapped ''error creating host params: '' e []))
      | Inr hostParams \<Rightarrow>
          if length (dc_Name dbClaim) > maxNameLen then Ret (Inl (Sentinel ErrMaxNameLen))
          else
            (case (if GetSuperUserElevation cfg then spec_EnableSuperUser (dc_Spec dbClaim) else Some False) of
               None \<Rightarrow> Panic
             | Some enableSuperUser \<Rightarrow>
                 (case (if enableSuperUser then Some False else spec_EnableReplicationRole (dc_Spec dbClaim)) of
                    None \<Rightarrow> Panic
                  | Some enableReplicationRole \<Rightarrow>
                      Ret (Inr \<lparr>ri_DbType = spec_Type (dc_Spec dbClaim),
                        ri_SharedDBHost = False,
                        ri_MasterConnInfo = empty_ConnInfo\<lparr>ci_DatabaseName := spec_DatabaseName (dc_Spec dbClaim)\<rparr>,
                        ri_TempSecret = [],
                        ri_HostParams = hostParams,
                        ri_EnableReplicationRole = enableReplicationRole,
                        ri_EnableSuperUser = enableSuperUser,
                        ri_EnablePerfInsight = GetEnablePerfInsight cfg,
                        ri_EnableCloudwatchLogsExport = cloudwatch_exports (GetEnableCloudwatchLogsExport cfg),
                        ri_BackupRetentionDays = GetBackupRetentionDays cfg,
                        ri_CACertificateIdentifier = GetCaCertificateIdentifier cfg\<rparr>))))"

definition getDynamicHostName :: "viper \<Rightarrow> string \<Rightarrow> DatabaseClaim \<Rightarrow> string" where
  "getDynamicHostName v hash dbClaim =
     (if GetDBIdentifierPrefix v \<noteq> [] then GetDBIdentifierPrefix v @ ''-'' else []) @
     dc_Name dbClaim @ ''-'' @ hash"

definition getParameterGroupName :: "viper \<Rightarrow> HostParams \<Rightarrow> DatabaseClaim \<Rightarrow> string \<Rightarrow> string" where
  "getParameterGroupName v hostParams dbClaim dbType =
     (let hostName = getDynamicHostName v (Hash hostParams) dbClaim;
          major = Split (hp_DBVersion hostParams) (CHR ''.'') ! 0
      in if dbType = Postgres then hostName @ ''-'' @ major
         else if dbType = AuroraPostgres then hostName @ ''-a-'' @ major
         else hostName @ ''-'' @ major)"

definition getEngineVersion :: "HostParams \<Rightarrow> viper \<Rightarrow> string" where
  "getEngineVersion params v =
     (if hp_IsDefaultVersion params then GetDefaultMajorVersion v else hp_DBVersion params)"

section \<open>Properties\<close>

lemma NewRequestInfo_ok:
  assumes "NewRequestInfo title cfg c = Ret (Inr ri)"
  shows "\<not> ri_SharedDBHost ri" and "New title cfg c = Inr (ri_HostParams ri)"
    and "length (dc_Name c) \<le> 44" and "ri_TempSecret ri = []"
    and "\<not> (ri_EnableSuperUser ri \<and> ri_EnableReplicationRole ri)"
    and "ri_EnableSuperUser ri \<Longrightarrow> GetSuperUserElevation cfg \<and> spec_EnableSuperUser (dc_Spec c) = Some True"
  using assms by (auto simp: NewRequestInfo_def split: sum.splits if_splits option.splits)

lemma Hash_length: "length (Hash p) = 8"
  by (simp add: Hash_def)

text \<open>
  Privileges asked for are privileges granted by the configuration. A request for superuser
  rights is honoured only where elevation is switched on and the claim asks for it, replication is
  never requested beside it, and the claim's name leaves room for the generated host name: at most
  53 characters beyond the environment's prefix.
\<close>

theorem NewRequestInfo_privileges:
  assumes "NewRequestInfo title cfg c = Ret (Inr ri)"
  shows "(ri_EnableSuperUser ri \<longrightarrow> GetSuperUserElevation cfg \<and> spec_EnableSuperUser (dc_Spec c) = Some True) \<and>
    \<not> (ri_EnableSuperUser ri \<and> ri_EnableReplicationRole ri) \<and> \<not> ri_SharedDBHost ri \<and>
    (GetDBIdentifierPrefix cfg = [] \<longrightarrow>
       length (getDynamicHostName cfg (Hash (ri_HostParams ri)) c) \<le> 53)"
  using NewRequestInfo_ok [OF assms] by (auto simp: getDynamicHostName_def Hash_length)

definition sample_reqInfo :: "HostParams \<Rightarrow> requestInfo" where
  "sample_reqInfo hp = \<lparr>ri_DbType = ''postgres'', ri_SharedDBHost = False, ri_MasterConnInfo = empty_ConnInfo,
     ri_TempSecret = [], ri_HostParams = hp, ri_EnableReplicationRole = False, ri_EnableSuperUser = False,
     ri_EnablePerfInsight = True, ri_EnableCloudwatchLogsExport = [], ri_BackupRetentionDays = 7,
     ri_CACertificateIdentifier = ''rds-ca''\<rparr>"

theorem NewRequestInfo_privileges_witness:
  "\<exists>ri. NewRequestInfo id sample_viper sample_claim = Ret (Inr ri) \<and> \<not> ri_EnableSuperUser ri"
proof -
  from sample_New_ok obtain hp where "New id sample_viper sample_claim = Inr hp" by blast
  then have "\<exists>ri. NewRequestInfo id sample_viper sample_claim = Ret (Inr ri)"
    by (simp add: NewRequestInfo_def sample_claim_def sample_viper_def GetSuperUserElevation_def)
  then obtain ri where ri: "NewRequestInfo id sample_viper sample_claim = Ret (Inr ri)" by blast
  with NewRequestInfo_privileges [OF ri] show ?thesis
    by (auto simp: GetSuperUserElevation_def sample_viper_def)
qed

end
