(* ===== verification/Keyed_List.thy ===== *)
theory Keyed_List
  imports Main
begin

text \<open>
  Lists that stand for maps: the contract of an update that replaces the first entry with the same
  key and appends otherwise. The status conditions of a claim and the tags of a cloud resource are
  updated this way.
\<close>

locale keyed_list =
  fixes key :: "'a \<Rightarrow> 'k" and put :: "'a \<Rightarrow> 'a list \<Rightarrow> 'a list"
  assumes put_keys: "map key (put x xs) = (if key x \<in> key ` set xs then map key xs else map key xs @ [key x])"
    and put_others: "k \<noteq> key x \<Longrightarrow> filter (\<lambda>y. key y = k) (put x xs) = filter (\<lambda>y. key y = k) xs"
begin

definition entries :: "'k \<Rightarrow> 'a list \<Rightarrow> 'a list" where
  "entries k xs = filter (\<lambda>y. key y = k) xs"

lemma put_distinct: "distinct (map key xs) \<Longrightarrow> distinct (map key (put x xs))"
  by (simp add: put_keys)

lemma put_key_set: "key ` set (put x xs) = insert (key x) (key ` set xs)"
  using arg_cong [OF put_keys [of x xs], of set] by (auto split: if_splits)

lemma put_has_key: "\<exists>y \<in> set (put x xs). key y = key x"
  using put_key_set [of x xs] by (metis imageE insertI1)

lemma put_length: "length (put x xs) = (if key x \<in> key ` set xs then length xs else Suc (length xs))"
  using arg_cong [OF put_keys [of x xs], of length] by simp

lemma put_commutes_lookup: "k \<noteq> key x \<Longrightarrow> entries k (put x xs) = entries k xs"
  by (simp add: entries_def put_others)

end

text \<open>The generic shape of such an update: \<open>merge old new\<close> is what replaces the old entry.\<close>

fun put_with :: "('a \<Rightarrow> 'k) \<Rightarrow> ('a \<Rightarrow> 'a \<Rightarrow> 'a) \<Rightarrow> 'a \<Rightarrow> 'a list \<Rightarrow> 'a list" where
  "put_with key merge x [] = [x]"
| "put_with key merge x (y # ys) =
     (if key y = key x then merge y x # ys else y # put_with key merge x ys)"

lemma put_with_keys:
  "(\<And>y. key (merge y x) = key x) \<Longrightarrow>
   map key (put_with key merge x xs) = (if key x \<in> key ` set xs then map key xs else map key xs @ [key x])"
  by (induction xs) auto

lemma put_with_others:
  "(\<And>y. key (merge y x) = key x) \<Longrightarrow> k \<noteq> key x \<Longrightarrow>
   filter (\<lambda>y. key y = k) (put_with key merge x xs) = filter (\<lambda>y. key y = k) xs"
  by (induction xs) auto

end
