(* ===== verification/World.thy ===== *)
theory World
  imports Basefunctions
begin

text \<open>
  The outside of the controller: Kubernetes objects other than claims, SQL statements and queries,
  and the calls the controller makes. Every call is answered by an environment, a record of
  functions of the history so far, and recorded as an event with its answer; the theorems quantify
  over all environments, so every failure pattern and interleaving with other clients is covered.
\<close>

section \<open>Kubernetes objects\<close>

text \<open>A secret's data may be the nil map, on which an assignment panics. Of the references to its owners
  the controllers set the kind, the name and the UID; the version and the two flags are the same everywhere.\<close>

record OwnerReference =
  or_Kind :: string
  or_Name :: string
  or_UID :: string

record Secret =
  sec_Namespace :: string
  sec_Name :: string
  sec_Labels :: "(string \<times> string) list"
  sec_Owner :: "OwnerReference list"
  sec_ResourceVersion :: string
  sec_Data :: "(string \<rightharpoonup> string) option"

definition data_get :: "Secret \<Rightarrow> string \<Rightarrow> string" where
  "data_get s k = (case sec_Data s of None \<Rightarrow> [] | Some d \<Rightarrow> (case d k of None \<Rightarrow> [] | Some v \<Rightarrow> v))"

record DbRoleClaimSpec =
  rcs_Class :: "string option"
  rcs_SourceDatabaseClaim :: "(string \<times> string) option"
  rcs_SecretName :: string
  rcs_SchemaRoleMap :: "(string \<times> string) list"

record DbRoleClaimStatus =
  rct_Error :: string
  rct_MatchedSourceClaim :: string
  rct_SourceSecret :: string
  rct_SourceSecretResourceVersion :: string
  rct_SecretUpdatedAt :: "time option"
  rct_SchemaStatus :: "(string \<times> string) list"
  rct_RoleStatus :: "(string \<times> string) list"
  rct_SchemasRolesUpdatedAt :: "time option"
  rct_Username :: string
  rct_Conditions :: "Condition list"

definition empty_DbRoleClaimStatus :: DbRoleClaimStatus where
  "empty_DbRoleClaimStatus = \<lparr>rct_Error = [], rct_MatchedSourceClaim = [], rct_SourceSecret = [],
     rct_SourceSecretResourceVersion = [], rct_SecretUpdatedAt = None, rct_SchemaStatus = [],
     rct_RoleStatus = [], rct_SchemasRolesUpdatedAt = None, rct_Username = [], rct_Conditions = []\<rparr>"

record DbRoleClaim =
  rc_Meta :: ObjectMeta
  rc_Spec :: DbRoleClaimSpec
  rc_Status :: DbRoleClaimStatus

subsection \<open>Crossplane resources\<close>

text \<open>The custom resources through which cloud databases are requested, with the fields the
  controller sets or reads. Tags are key/value pairs whose pointers are never nil.\<close>

record CRMeta =
  cr_Name :: string
  cr_Labels :: "(string \<times> string) list"
  cr_DeletionTimestamp :: "time option"

record ResourceCondition =
  xc_Type :: string
  xc_Status :: string
  xc_Reason :: string
  xc_Message :: string

record SecretKeySelector =
  sk_Namespace :: string
  sk_Name :: string
  sk_Key :: string

record DBInstanceParameters =
  di_CACertificateIdentifier :: "string option"
  di_Region :: string
  di_ApplyImmediately :: "bool option"
  di_SkipFinalSnapshot :: bool
  di_VPCSecurityGroupIDRefs :: "string list"
  di_DBSubnetGroupNameRef :: "string option"
  di_DBParameterGroupNameRef :: "string option"
  di_DBParameterGroupName :: "string option"
  di_AutogeneratePassword :: bool
  di_MasterUserPasswordSecretRef :: "SecretKeySelector option"
  di_EngineVersion :: "string option"
  di_RestoreFrom :: "(string \<times> string) option"
  di_Engine :: "string option"
  di_MultiAZ :: "bool option"
  di_DBInstanceClass :: "string option"
  di_AllocatedStorage :: "int option"
  di_MaxAllocatedStorage :: "int option"
  di_Tags :: "Tag list"
  di_MasterUsername :: "string option"
  di_PubliclyAccessible :: "bool option"
  di_EnableIAMDatabaseAuthentication :: "bool option"
  di_EnablePerformanceInsights :: "bool option"
  di_EnableCloudwatchLogsExports :: "string list"
  di_BackupRetentionPeriod :: "int option"
  di_StorageEncrypted :: "bool option"
  di_StorageType :: "string option"
  di_Port :: "int option"
  di_PreferredMaintenanceWindow :: "string option"
  di_DBClusterIdentifier :: "string option"

record ResourceSpec =
  rs_WriteConnectionSecretToReference :: "(string \<times> string) option"
  rs_ProviderConfigReference :: string
  rs_DeletionPolicy :: string

record DBInstance =
  ins_Meta :: CRMeta
  ins_ForProvider :: DBInstanceParameters
  ins_Resource :: ResourceSpec
  ins_AtProviderTags :: "Tag list"
  ins_Conditions :: "ResourceCondition list"

record DBClusterParameters =
  cl_Region :: string
  cl_BackupRetentionPeriod :: "int option"
  cl_SkipFinalSnapshot :: bool
  cl_VPCSecurityGroupIDRefs :: "string list"
  cl_DBSubnetGroupNameRef :: "string option"
  cl_AutogeneratePassword :: bool
  cl_MasterUserPasswordSecretRef :: "SecretKeySelector option"
  cl_DBClusterParameterGroupNameRef :: "string option"
  cl_EngineVersion :: "string option"
  cl_RestoreFrom :: "(string \<times> string) option"
  cl_Engine :: "string option"
  cl_Tags :: "Tag list"
  cl_MasterUsername :: "string option"
  cl_EnableIAMDatabaseAuthentication :: "bool option"
  cl_StorageEncrypted :: "bool option"
  cl_StorageType :: "string option"
  cl_Port :: "int option"
  cl_EnableCloudwatchLogsExports :: "string list"
  cl_PreferredMaintenanceWindow :: "string option"

record DBCluster =
  clu_Meta :: CRMeta
  clu_ForProvider :: DBClusterParameters
  clu_Resource :: ResourceSpec
  clu_Conditions :: "ResourceCondition list"

record CustomParameter =
  cp_Name :: string
  cp_Value :: string
  cp_ApplyMethod :: string

text \<open>\<^verbatim>\<open>DBParameterGroup\<close> and \<^verbatim>\<open>DBClusterParameterGroup\<close> have the same fields.\<close>

record ParameterGroup =
  pg_Meta :: CRMeta
  pg_Region :: string
  pg_Description :: string
  pg_Engine :: string
  pg_EngineVersion :: string
  pg_Parameters :: "CustomParameter list"
  pg_Tags :: "Tag list"
  pg_Resource :: ResourceSpec

text \<open>\<open>gi_AtProviderPsc\<close> is the observed \<^verbatim>\<open>PscInstanceConfig\<close>: its DNS name and service attachment.\<close>

record GcpInstance =
  gi_Meta :: CRMeta
  gi_AvailabilityType :: string
  gi_SSLMode :: string
  gi_ClusterRef :: string
  gi_DisplayName :: string
  gi_GceZone :: string
  gi_InstanceType :: string
  gi_EnablePublicIP :: bool
  gi_AllowedConsumerProjects :: "string list"
  gi_DatabaseFlags :: "(string \<times> string) list"
  gi_Resource :: ResourceSpec
  gi_AtProviderPsc :: "(string option \<times> string option) option"
  gi_Conditions :: "ResourceCondition list"

record GcpCluster =
  gc_Meta :: CRMeta
  gc_AutomatedBackup :: bool
  gc_QuantityBasedRetention :: "64 word option"
  gc_DatabaseVersion :: string
  gc_DeletionPolicy :: string
  gc_DisplayName :: string
  gc_InitialUser :: "SecretKeySelector \<times> string"
  gc_Location :: string
  gc_PscEnabled :: bool
  gc_Resource :: ResourceSpec
  gc_Conditions :: "ResourceCondition list"

record XNetworkRecord =
  nr_Name :: string
  nr_Namespace :: string
  nr_PSCDNSName :: string
  nr_ServiceAttachmentLink :: string
  nr_Region :: string
  nr_Subnetwork :: string
  nr_Network :: string

section \<open>SQL\<close>

text \<open>One constructor per statement and per query of the source; the identifiers are those before
  quoting, which \<^verbatim>\<open>pq.QuoteIdentifier\<close> and \<^verbatim>\<open>pq.QuoteLiteral\<close> keep intact.\<close>

datatype sql =
    CREATE_DATABASE string
  | CREATE_EXTENSION string
  | CREATE_PG_CRON string
  | CREATE_PG_PARTMAN string
  | CREATE_IB_SCHEMA
  | CREATE_FUNCTION string string string
  | CREATE_SCHEMA string
  | CREATE_ROLE_NOLOGIN string
  | GRANT_ALL_ON_DATABASE string string
  | GRANT_ALL_ON_SCHEMA string string
  | GRANT_ALL_TABLES string string
  | GRANT_ALL_SEQUENCES string string
  | GRANT_ADMIN string string string
  | GRANT_REGULAR string string string
  | GRANT_READONLY string string string
  | SET_AND_GRANT_ROLE string string
  | DROP_USER string string string
  | CREATE_ROLE_LOGIN string string string
  | CREATE_USER string string
  | RENAME_USER string string
  | ALTER_PASSWORD string string
  | ALTER_CREATEROLE string bool
  | ALTER_REPLICATION string bool
  | GRANT_ROLE string string
  | REVOKE_ROLE string string
  | CREATE_PUBLICATION string
  | CREATE_SUBSCRIPTION string string string
  | ENABLE_SUBSCRIPTION string
  | DISABLE_SUBSCRIPTION string
  | DROP_SUBSCRIPTION string
  | DROP_PUBLICATION string
  | SETVAL string int
  | REVOKE_WRITES string

datatype query =
    Q_DatabaseExists string
  | Q_ExtensionExists string
  | Q_SchemaExists string
  | Q_RoleExists string
  | Q_UserExists string
  | Q_HasCreateRole string
  | Q_FunctionValue string string
  | Q_UserRoles string
  | Q_PublicationExists string
  | Q_SubscriptionExists string
  | Q_TemporarySlots string
  | Q_UnsyncedRelations string
  | Q_IsSuperuser
  | Q_SessionUser
  | Q_AdminRoles string
  | Q_WalLogical
  | Q_Sequences
  | Q_SequenceNext string
  | Q_SourceTableCounts
  | Q_TableCount string

section \<open>Calls and their answers\<close>

text \<open>How an external command ends: a command that cannot be started at all has no exit code.\<close>

datatype exec_result = ExecOk | ExecExit string | ExecNotStarted string

datatype sys_event =
    EvNow time
  | EvGeneratePassword "goerror + string"
  | EvApplyMetrics string string "goerror option"
  | EvPgDump "string list" exec_result
  | EvSed string string "goerror option"
  | EvPsqlRestore "string list" "goerror option"
  | EvPsqlDropSchemas string "goerror option"
  | EvMapOrder nat
  | EvLoadAwsConfig "goerror + string"
  | EvBuildAuthToken string string string "string \<times> goerror option"

datatype k8s_event =
    EvGetClaim string string "goerror + DatabaseClaim"
  | EvUpdateClaim DatabaseClaim "goerror option"
  | EvUpdateClaimStatus DatabaseClaim "goerror option"
  | EvGetSecret string string "goerror + Secret"
  | EvCreateSecret Secret "goerror option"
  | EvUpdateSecret Secret "goerror option"
  | EvDeleteSecret string string "goerror option"
  | EvListRoleClaims string "goerror + DbRoleClaim list"
  | EvGetRoleClaim string string "goerror + DbRoleClaim"
  | EvCreateRoleClaim DbRoleClaim "goerror option"
  | EvUpdateRoleClaim DbRoleClaim "goerror option"
  | EvUpdateRoleClaimStatus DbRoleClaim "goerror option"

datatype aws_event =
    EvGetInstance string "goerror + DBInstance"
  | EvCreateInstance DBInstance "goerror + DBInstance"
  | EvPatchInstance DBInstance "goerror + DBInstance"
  | EvDeleteInstance string "goerror option"
  | EvGetCluster string "goerror + DBCluster"
  | EvCreateCluster DBCluster "goerror + DBCluster"
  | EvPatchCluster DBCluster "goerror + DBCluster"
  | EvDeleteCluster string "goerror option"
  | EvGetParamGroup string "goerror + ParameterGroup"
  | EvCreateParamGroup ParameterGroup "goerror option"
  | EvPatchParamGroup ParameterGroup "goerror option"
  | EvDeleteParamGroup string "goerror option"
  | EvGetClusterParamGroup string "goerror + ParameterGroup"
  | EvCreateClusterParamGroup ParameterGroup "goerror option"
  | EvPatchClusterParamGroup ParameterGroup "goerror option"
  | EvDeleteClusterParamGroup string "goerror option"

datatype gcp_event =
    EvGetGcpInstance string "goerror + GcpInstance"
  | EvCreateGcpInstance GcpInstance "goerror + GcpInstance"
  | EvDeleteGcpInstance string "goerror option"
  | EvGetGcpCluster string "goerror + GcpCluster"
  | EvCreateGcpCluster GcpCluster "goerror + GcpCluster"
  | EvPatchGcpCluster GcpCluster "goerror + GcpCluster"
  | EvDeleteGcpCluster string "goerror option"
  | EvGetNetworkRecord string "goerror option"
  | EvCreateNetworkRecord XNetworkRecord "goerror option"

datatype sql_event =
    EvOpen string "goerror option"
  | EvPing string "goerror option"
  | EvExec string sql "goerror option"
  | EvQueryBool string query "goerror + bool"
  | EvQueryInt string query "goerror + int"
  | EvQueryString string query "goerror + string"
  | EvQueryStrings string query "goerror + (string list \<times> goerror option)"
  | EvQueryCounts string query "goerror + ((string \<times> int) list \<times> goerror option)"

datatype event =
    Sys sys_event
  | K8s k8s_event
  | Aws aws_event
  | Gcp gcp_event
  | Sql sql_event

type_synonym history = "event list"
type_synonym 'a go_prog = "(event, 'a) prog"

record sys_api =
  e_Now :: "history \<Rightarrow> time"
  e_GeneratePassword :: "history \<Rightarrow> int \<Rightarrow> int \<Rightarrow> int \<Rightarrow> goerror + string"
  e_ApplyMetrics :: "history \<Rightarrow> string \<Rightarrow> string \<Rightarrow> goerror option"
  e_PgDump :: "history \<Rightarrow> string list \<Rightarrow> exec_result"
  e_Sed :: "history \<Rightarrow> string \<Rightarrow> string \<Rightarrow> goerror option"
  e_PsqlRestore :: "history \<Rightarrow> string list \<Rightarrow> goerror option"
  e_PsqlDropSchemas :: "history \<Rightarrow> string \<Rightarrow> goerror option"
  e_MapOrder :: "history \<Rightarrow> nat"
  e_LoadAwsConfig :: "history \<Rightarrow> goerror + string"
  e_BuildAuthToken :: "history \<Rightarrow> string \<Rightarrow> string \<Rightarrow> string \<Rightarrow> string \<times> goerror option"

record k8s_api =
  e_GetClaim :: "history \<Rightarrow> string \<Rightarrow> string \<Rightarrow> goerror + DatabaseClaim"
  e_UpdateClaim :: "history \<Rightarrow> DatabaseClaim \<Rightarrow> goerror + string"
  e_UpdateClaimStatus :: "history \<Rightarrow> DatabaseClaim \<Rightarrow> goerror + string"
  e_GetSecret :: "history \<Rightarrow> string \<Rightarrow> string \<Rightarrow> goerror + Secret"
  e_CreateSecret :: "history \<Rightarrow> Secret \<Rightarrow> goerror option"
  e_UpdateSecret :: "history \<Rightarrow> Secret \<Rightarrow> goerror option"
  e_DeleteSecret :: "history \<Rightarrow> string \<Rightarrow> string \<Rightarrow> goerror option"
  e_ListRoleClaims :: "history \<Rightarrow> string \<Rightarrow> goerror + DbRoleClaim list"
  e_GetRoleClaim :: "history \<Rightarrow> string \<Rightarrow> string \<Rightarrow> goerror + DbRoleClaim"
  e_CreateRoleClaim :: "history \<Rightarrow> DbRoleClaim \<Rightarrow> goerror option"
  e_UpdateRoleClaim :: "history \<Rightarrow> DbRoleClaim \<Rightarrow> goerror + string"
  e_UpdateRoleClaimStatus :: "history \<Rightarrow> DbRoleClaim \<Rightarrow> goerror + string"

record aws_api =
  e_GetInstance :: "history \<Rightarrow> string \<Rightarrow> goerror + DBInstance"
  e_CreateInstance :: "history \<Rightarrow> DBInstance \<Rightarrow> goerror + DBInstance"
  e_PatchInstance :: "history \<Rightarrow> DBInstance \<Rightarrow> goerror + DBInstance"
  e_DeleteInstance :: "history \<Rightarrow> string \<Rightarrow> goerror option"
  e_GetCluster :: "history \<Rightarrow> string \<Rightarrow> goerror + DBCluster"
  e_CreateCluster :: "history \<Rightarrow> DBCluster \<Rightarrow> goerror + DBCluster"
  e_PatchCluster :: "history \<Rightarrow> DBCluster \<Rightarrow> goerror + DBCluster"
  e_DeleteCluster :: "history \<Rightarrow> string \<Rightarrow> goerror option"
  e_GetParamGroup :: "history \<Rightarrow> string \<Rightarrow> goerror + ParameterGroup"
  e_CreateParamGroup :: "history \<Rightarrow> ParameterGroup \<Rightarrow> goerror option"
  e_PatchParamGroup :: "history \<Rightarrow> ParameterGroup \<Rightarrow> goerror option"
  e_DeleteParamGroup :: "history \<Rightarrow> string \<Rightarrow> goerror option"
  e_GetClusterParamGroup :: "history \<Rightarrow> string \<Rightarrow> goerror + ParameterGroup"
  e_CreateClusterParamGroup :: "history \<Rightarrow> ParameterGroup \<Rightarrow> goerror option"
  e_PatchClusterParamGroup :: "history \<Rightarrow> ParameterGroup \<Rightarrow> goerror option"
  e_DeleteClusterParamGroup :: "history \<Rightarrow> string \<Rightarrow> goerror option"

record gcp_api =
  e_GetGcpInstance :: "history \<Rightarrow> string \<Rightarrow> goerror + GcpInstance"
  e_CreateGcpInstance :: "history \<Rightarrow> GcpInstance \<Rightarrow> goerror + GcpInstance"
  e_DeleteGcpInstance :: "history \<Rightarrow> string \<Rightarrow> goerror option"
  e_GetGcpCluster :: "history \<Rightarrow> string \<Rightarrow> goerror + GcpCluster"
  e_CreateGcpCluster :: "history \<Rightarrow> GcpCluster \<Rightarrow> goerror + GcpCluster"
  e_PatchGcpCluster :: "history \<Rightarrow> GcpCluster \<Rightarrow> goerror + GcpCluster"
  e_DeleteGcpCluster :: "history \<Rightarrow> string \<Rightarrow> goerror option"
  e_GetNetworkRecord :: "history \<Rightarrow> string \<Rightarrow> goerror option"
  e_CreateNetworkRecord :: "history \<Rightarrow> XNetworkRecord \<Rightarrow> goerror option"

record sql_api =
  e_Open :: "history \<Rightarrow> string \<Rightarrow> goerror option"
  e_Ping :: "history \<Rightarrow> string \<Rightarrow> goerror option"
  e_Exec :: "history \<Rightarrow> string \<Rightarrow> sql \<Rightarrow> goerror option"
  e_QueryBool :: "history \<Rightarrow> string \<Rightarrow> query \<Rightarrow> goerror + bool"
  e_QueryInt :: "history \<Rightarrow> string \<Rightarrow> query \<Rightarrow> goerror + int"
  e_QueryString :: "history \<Rightarrow> string \<Rightarrow> query \<Rightarrow> goerror + string"
  e_QueryStrings :: "history \<Rightarrow> string \<Rightarrow> query \<Rightarrow> goerror + (string list \<times> goerror option)"
  e_QueryCounts :: "history \<Rightarrow> string \<Rightarrow> query \<Rightarrow> goerror + ((string \<times> int) list \<times> goerror option)"

record env =
  e_sys :: sys_api
  e_k8s :: k8s_api
  e_aws :: aws_api
  e_gcp :: gcp_api
  e_sql :: sql_api

section \<open>The calls as programs\<close>

definition now :: "env \<Rightarrow> time go_prog" where
  "now E = call (e_Now (e_sys E)) (\<lambda>t. Sys (EvNow t))"

text \<open>\<^verbatim>\<open>gen.Generate(length, digits, symbols, ...)\<close> of the external password generator.\<close>

definition generate :: "env \<Rightarrow> int \<Rightarrow> int \<Rightarrow> int \<Rightarrow> (goerror + string) go_prog" where
  "generate E n d s = call (\<lambda>h. e_GeneratePassword (e_sys E) h n d s) (\<lambda>r. Sys (EvGeneratePassword r))"

definition applyMetrics :: "env \<Rightarrow> string \<Rightarrow> string \<Rightarrow> goerror option go_prog" where
  "applyMetrics E ns n = call (\<lambda>h. e_ApplyMetrics (e_sys E) h ns n) (\<lambda>r. Sys (EvApplyMetrics ns n r))"

definition pg_dump :: "env \<Rightarrow> string list \<Rightarrow> exec_result go_prog" where
  "pg_dump E args = call (\<lambda>h. e_PgDump (e_sys E) h args) (\<lambda>r. Sys (EvPgDump args r))"

definition sed :: "env \<Rightarrow> string \<Rightarrow> string \<Rightarrow> goerror option go_prog" where
  "sed E script file = call (\<lambda>h. e_Sed (e_sys E) h script file) (\<lambda>r. Sys (EvSed script file r))"

definition psql_restore :: "env \<Rightarrow> string list \<Rightarrow> goerror option go_prog" where
  "psql_restore E args = call (\<lambda>h. e_PsqlRestore (e_sys E) h args) (\<lambda>r. Sys (EvPsqlRestore args r))"

definition psql_drop_schemas :: "env \<Rightarrow> string \<Rightarrow> goerror option go_prog" where
  "psql_drop_schemas E dsn =
     call (\<lambda>h. e_PsqlDropSchemas (e_sys E) h dsn) (\<lambda>r. Sys (EvPsqlDropSchemas dsn r))"

text \<open>Go leaves the order of iteration over a map open: here a permutation of a list of its entries,
  chosen by a number. Every permutation has one.\<close>

fun permute :: "nat \<Rightarrow> 'a list \<Rightarrow> 'a list" where
  "permute n [] = []"
| "permute n (x # xs) =
     (let k = n mod length (x # xs)
      in (x # xs) ! k # permute (n div length (x # xs)) (take k (x # xs) @ drop (Suc k) (x # xs)))"

definition map_order :: "env \<Rightarrow> 'a list \<Rightarrow> 'a list go_prog" where
  "map_order E ks = bnd (call (e_MapOrder (e_sys E)) (\<lambda>n. Sys (EvMapOrder n))) (\<lambda>n. ret (permute n ks))"

text \<open>The AWS SDK: the default configuration, of which the region is used, and an authentication
  token for an endpoint, a region and a user.\<close>

definition loadDefaultConfig :: "env \<Rightarrow> (goerror + string) go_prog" where
  "loadDefaultConfig E = call (e_LoadAwsConfig (e_sys E)) (\<lambda>r. Sys (EvLoadAwsConfig r))"

definition buildAuthToken :: "env \<Rightarrow> string \<Rightarrow> string \<Rightarrow> string \<Rightarrow> (string \<times> goerror option) go_prog" where
  "buildAuthToken E endpoint region user =
     call (\<lambda>h. e_BuildAuthToken (e_sys E) h endpoint region user) (\<lambda>r. Sys (EvBuildAuthToken endpoint region user r))"

subsection \<open>SQL\<close>

text \<open>A connection pool is named by its connection string; opening one does not connect.\<close>

definition sql_open :: "env \<Rightarrow> string \<Rightarrow> goerror option go_prog" where
  "sql_open E dsn = call (\<lambda>h. e_Open (e_sql E) h dsn) (\<lambda>r. Sql (EvOpen dsn r))"

definition sql_ping :: "env \<Rightarrow> string \<Rightarrow> goerror option go_prog" where
  "sql_ping E dsn = call (\<lambda>h. e_Ping (e_sql E) h dsn) (\<lambda>r. Sql (EvPing dsn r))"

definition sql_exec :: "env \<Rightarrow> string \<Rightarrow> sql \<Rightarrow> goerror option go_prog" where
  "sql_exec E dsn q = call (\<lambda>h. e_Exec (e_sql E) h dsn q) (\<lambda>r. Sql (EvExec dsn q r))"

definition sql_bool :: "env \<Rightarrow> string \<Rightarrow> query \<Rightarrow> (goerror + bool) go_prog" where
  "sql_bool E dsn q = call (\<lambda>h. e_QueryBool (e_sql E) h dsn q) (\<lambda>r. Sql (EvQueryBool dsn q r))"

definition sql_int :: "env \<Rightarrow> string \<Rightarrow> query \<Rightarrow> (goerror + int) go_prog" where
  "sql_int E dsn q = call (\<lambda>h. e_QueryInt (e_sql E) h dsn q) (\<lambda>r. Sql (EvQueryInt dsn q r))"

definition sql_string :: "env \<Rightarrow> string \<Rightarrow> query \<Rightarrow> (goerror + string) go_prog" where
  "sql_string E dsn q = call (\<lambda>h. e_QueryString (e_sql E) h dsn q) (\<lambda>r. Sql (EvQueryString dsn q r))"

definition sql_strings :: "env \<Rightarrow> string \<Rightarrow> query \<Rightarrow> (goerror + (string list \<times> goerror option)) go_prog" where
  "sql_strings E dsn q = call (\<lambda>h. e_QueryStrings (e_sql E) h dsn q) (\<lambda>r. Sql (EvQueryStrings dsn q r))"

definition sql_counts ::
  "env \<Rightarrow> string \<Rightarrow> query \<Rightarrow> (goerror + ((string \<times> int) list \<times> goerror option)) go_prog" where
  "sql_counts E dsn q = call (\<lambda>h. e_QueryCounts (e_sql E) h dsn q) (\<lambda>r. Sql (EvQueryCounts dsn q r))"

lemma set_take_nth_drop: "k < length ys \<Longrightarrow> insert (ys ! k) (set (take k ys) \<union> set (drop (Suc k) ys)) = set ys"
  by (subst (4) id_take_nth_drop [of k]) auto

lemma set_permute [simp]: "set (permute n xs) = set xs"
proof (induction n xs rule: permute.induct)
  case (2 n x xs)
  have "n mod length (x # xs) < length (x # xs)" by simp
  from 2 set_take_nth_drop [OF this] show ?case by (simp add: Let_def)
qed simp

lemmas sys_calls = now_def generate_def applyMetrics_def pg_dump_def sed_def psql_restore_def
  psql_drop_schemas_def map_order_def loadDefaultConfig_def buildAuthToken_def
lemmas sql_calls = sql_open_def sql_ping_def sql_exec_def sql_bool_def sql_int_def sql_string_def
  sql_strings_def sql_counts_def

subsection \<open>Claims and secrets\<close>

definition as_error :: "goerror + 'a \<Rightarrow> goerror option" where
  "as_error r = (case r of Inl e \<Rightarrow> Some e | Inr _ \<Rightarrow> None)"

definition getClaim :: "env \<Rightarrow> string \<Rightarrow> string \<Rightarrow> (goerror + DatabaseClaim) go_prog" where
  "getClaim E ns n = call (\<lambda>h. e_GetClaim (e_k8s E) h ns n) (\<lambda>r. K8s (EvGetClaim ns n r))"

text \<open>
  A write answers the claim that was written with the resource version of the server; after an error
  the claim is unchanged. The client decodes the answer of the server, a JSON document, into the claim
  it sent, so this rests on what the server stores: a write that succeeds stored the object that was
  sent, since one that is based on an older version is refused with a conflict, and what the object
  has in memory only (fields that a write of the status does not store) is absent from the answer and
  stays as it is. The server also raises the generation when the update that adds the finalizer stores
  the default class with it; the model does not, and only the observed generation that conditions carry
  for the rest of that reconciliation depends on it.
\<close>

definition written :: "DatabaseClaim \<Rightarrow> goerror + string \<Rightarrow> DatabaseClaim \<times> goerror option" where
  "written c r = (case r of
     Inl e \<Rightarrow> (c, Some e)
   | Inr rv \<Rightarrow> (upd_meta (\<lambda>m. m\<lparr>m_ResourceVersion := rv\<rparr>) c, None))"

definition updateClaim :: "env \<Rightarrow> DatabaseClaim \<Rightarrow> (DatabaseClaim \<times> goerror option) go_prog" where
  "updateClaim E c = bnd (call (\<lambda>h. e_UpdateClaim (e_k8s E) h c) (\<lambda>r. K8s (EvUpdateClaim c (as_error r))))
     (\<lambda>r. ret (written c r))"

definition updateClaimStatus :: "env \<Rightarrow> DatabaseClaim \<Rightarrow> (DatabaseClaim \<times> goerror option) go_prog" where
  "updateClaimStatus E c =
     bnd (call (\<lambda>h. e_UpdateClaimStatus (e_k8s E) h c) (\<lambda>r. K8s (EvUpdateClaimStatus c (as_error r))))
       (\<lambda>r. ret (written c r))"

definition getSecret :: "env \<Rightarrow> string \<Rightarrow> string \<Rightarrow> (goerror + Secret) go_prog" where
  "getSecret E ns n = call (\<lambda>h. e_GetSecret (e_k8s E) h ns n) (\<lambda>r. K8s (EvGetSecret ns n r))"

definition createSecretObj :: "env \<Rightarrow> Secret \<Rightarrow> goerror option go_prog" where
  "createSecretObj E s = call (\<lambda>h. e_CreateSecret (e_k8s E) h s) (\<lambda>r. K8s (EvCreateSecret s r))"

definition updateSecretObj :: "env \<Rightarrow> Secret \<Rightarrow> goerror option go_prog" where
  "updateSecretObj E s = call (\<lambda>h. e_UpdateSecret (e_k8s E) h s) (\<lambda>r. K8s (EvUpdateSecret s r))"

definition deleteSecretObj :: "env \<Rightarrow> string \<Rightarrow> string \<Rightarrow> goerror option go_prog" where
  "deleteSecretObj E ns n = call (\<lambda>h. e_DeleteSecret (e_k8s E) h ns n) (\<lambda>r. K8s (EvDeleteSecret ns n r))"

definition listRoleClaims :: "env \<Rightarrow> string \<Rightarrow> (goerror + DbRoleClaim list) go_prog" where
  "listRoleClaims E ns = call (\<lambda>h. e_ListRoleClaims (e_k8s E) h ns) (\<lambda>r. K8s (EvListRoleClaims ns r))"

definition getRoleClaim :: "env \<Rightarrow> string \<Rightarrow> string \<Rightarrow> (goerror + DbRoleClaim) go_prog" where
  "getRoleClaim E ns n = call (\<lambda>h. e_GetRoleClaim (e_k8s E) h ns n) (\<lambda>r. K8s (EvGetRoleClaim ns n r))"

definition createRoleClaim :: "env \<Rightarrow> DbRoleClaim \<Rightarrow> goerror option go_prog" where
  "createRoleClaim E c = call (\<lambda>h. e_CreateRoleClaim (e_k8s E) h c) (\<lambda>r. K8s (EvCreateRoleClaim c r))"

definition updateRoleClaim :: "env \<Rightarrow> DbRoleClaim \<Rightarrow> (goerror + string) go_prog" where
  "updateRoleClaim E c =
     call (\<lambda>h. e_UpdateRoleClaim (e_k8s E) h c) (\<lambda>r. K8s (EvUpdateRoleClaim c (as_error r)))"

definition updateRoleClaimStatus :: "env \<Rightarrow> DbRoleClaim \<Rightarrow> (goerror + string) go_prog" where
  "updateRoleClaimStatus E c =
     call (\<lambda>h. e_UpdateRoleClaimStatus (e_k8s E) h c) (\<lambda>r. K8s (EvUpdateRoleClaimStatus c (as_error r)))"

lemmas k8s_calls = getClaim_def updateClaim_def updateClaimStatus_def getSecret_def createSecretObj_def
  updateSecretObj_def deleteSecretObj_def listRoleClaims_def getRoleClaim_def createRoleClaim_def
  updateRoleClaim_def updateRoleClaimStatus_def

subsection \<open>Cloud resources\<close>

text \<open>A patch is sent as the difference to the object that was read; its call records the whole object that the
  difference leads to, and what the server makes of it is the environment's answer.\<close>

definition getInstance :: "env \<Rightarrow> string \<Rightarrow> (goerror + DBInstance) go_prog" where
  "getInstance E x = call (\<lambda>h. e_GetInstance (e_aws E) h x) (\<lambda>r. Aws (EvGetInstance x r))"

definition createInstance :: "env \<Rightarrow> DBInstance \<Rightarrow> (goerror + DBInstance) go_prog" where
  "createInstance E x = call (\<lambda>h. e_CreateInstance (e_aws E) h x) (\<lambda>r. Aws (EvCreateInstance x r))"

definition patchInstance :: "env \<Rightarrow> DBInstance \<Rightarrow> (goerror + DBInstance) go_prog" where
  "patchInstance E x = call (\<lambda>h. e_PatchInstance (e_aws E) h x) (\<lambda>r. Aws (EvPatchInstance x r))"

definition deleteInstance :: "env \<Rightarrow> string \<Rightarrow> goerror option go_prog" where
  "deleteInstance E x = call (\<lambda>h. e_DeleteInstance (e_aws E) h x) (\<lambda>r. Aws (EvDeleteInstance x r))"

definition getCluster :: "env \<Rightarrow> string \<Rightarrow> (goerror + DBCluster) go_prog" where
  "getCluster E x = call (\<lambda>h. e_GetCluster (e_aws E) h x) (\<lambda>r. Aws (EvGetCluster x r))"

definition createCluster :: "env \<Rightarrow> DBCluster \<Rightarrow> (goerror + DBCluster) go_prog" where
  "createCluster E x = call (\<lambda>h. e_CreateCluster (e_aws E) h x) (\<lambda>r. Aws (EvCreateCluster x r))"

definition patchCluster :: "env \<Rightarrow> DBCluster \<Rightarrow> (goerror + DBCluster) go_prog" where
  "patchCluster E x = call (\<lambda>h. e_PatchCluster (e_aws E) h x) (\<lambda>r. Aws (EvPatchCluster x r))"

definition deleteCluster :: "env \<Rightarrow> string \<Rightarrow> goerror option go_prog" where
  "deleteCluster E x = call (\<lambda>h. e_DeleteCluster (e_aws E) h x) (\<lambda>r. Aws (EvDeleteCluster x r))"

definition getParamGroup :: "env \<Rightarrow> string \<Rightarrow> (goerror + ParameterGroup) go_prog" where
  "getParamGroup E x = call (\<lambda>h. e_GetParamGroup (e_aws E) h x) (\<lambda>r. Aws (EvGetParamGroup x r))"

definition createParamGroup :: "env \<Rightarrow> ParameterGroup \<Rightarrow> goerror option go_prog" where
  "createParamGroup E x = call (\<lambda>h. e_CreateParamGroup (e_aws E) h x) (\<lambda>r. Aws (EvCreateParamGroup x r))"

definition patchParamGroup :: "env \<Rightarrow> ParameterGroup \<Rightarrow> goerror option go_prog" where
  "patchParamGroup E x = call (\<lambda>h. e_PatchParamGroup (e_aws E) h x) (\<lambda>r. Aws (EvPatchParamGroup x r))"

definition deleteParamGroup :: "env \<Rightarrow> string \<Rightarrow> goerror option go_prog" where
  "deleteParamGroup E x = call (\<lambda>h. e_DeleteParamGroup (e_aws E) h x) (\<lambda>r. Aws (EvDeleteParamGroup x r))"

definition getClusterParamGroup :: "env \<Rightarrow> string \<Rightarrow> (goerror + ParameterGroup) go_prog" where
  "getClusterParamGroup E x = call (\<lambda>h. e_GetClusterParamGroup (e_aws E) h x) (\<lambda>r. Aws (EvGetClusterParamGroup x r))"

definition createClusterParamGroup :: "env \<Rightarrow> ParameterGroup \<Rightarrow> goerror option go_prog" where
  "createClusterParamGroup E x = call (\<lambda>h. e_CreateClusterParamGroup (e_aws E) h x) (\<lambda>r. Aws (EvCreateClusterParamGroup x r))"

definition patchClusterParamGroup :: "env \<Rightarrow> ParameterGroup \<Rightarrow> goerror option go_prog" where
  "patchClusterParamGroup E x = call (\<lambda>h. e_PatchClusterParamGroup (e_aws E) h x) (\<lambda>r. Aws (EvPatchClusterParamGroup x r))"

definition deleteClusterParamGroup :: "env \<Rightarrow> string \<Rightarrow> goerror option go_prog" where
  "deleteClusterParamGroup E x = call (\<lambda>h. e_DeleteClusterParamGroup (e_aws E) h x) (\<lambda>r. Aws (EvDeleteClusterParamGroup x r))"

definition getGcpInstance :: "env \<Rightarrow> string \<Rightarrow> (goerror + GcpInstance) go_prog" where
  "getGcpInstance E x = call (\<lambda>h. e_GetGcpInstance (e_gcp E) h x) (\<lambda>r. Gcp (EvGetGcpInstance x r))"

definition createGcpInstance :: "env \<Rightarrow> GcpInstance \<Rightarrow> (goerror + GcpInstance) go_prog" where
  "createGcpInstance E x = call (\<lambda>h. e_CreateGcpInstance (e_gcp E) h x) (\<lambda>r. Gcp (EvCreateGcpInstance x r))"

definition deleteGcpInstance :: "env \<Rightarrow> string \<Rightarrow> goerror option go_prog" where
  "deleteGcpInstance E x = call (\<lambda>h. e_DeleteGcpInstance (e_gcp E) h x) (\<lambda>r. Gcp (EvDeleteGcpInstance x r))"

definition getGcpCluster :: "env \<Rightarrow> string \<Rightarrow> (goerror + GcpCluster) go_prog" where
  "getGcpCluster E x = call (\<lambda>h. e_GetGcpCluster (e_gcp E) h x) (\<lambda>r. Gcp (EvGetGcpCluster x r))"

definition createGcpCluster :: "env \<Rightarrow> GcpCluster \<Rightarrow> (goerror + GcpCluster) go_prog" where
  "createGcpCluster E x = call (\<lambda>h. e_CreateGcpCluster (e_gcp E) h x) (\<lambda>r. Gcp (EvCreateGcpCluster x r))"

definition patchGcpCluster :: "env \<Rightarrow> GcpCluster \<Rightarrow> (goerror + GcpCluster) go_prog" where
  "patchGcpCluster E x = call (\<lambda>h. e_PatchGcpCluster (e_gcp E) h x) (\<lambda>r. Gcp (EvPatchGcpCluster x r))"

definition deleteGcpCluster :: "env \<Rightarrow> string \<Rightarrow> goerror option go_prog" where
  "deleteGcpCluster E x = call (\<lambda>h. e_DeleteGcpCluster (e_gcp E) h x) (\<lambda>r. Gcp (EvDeleteGcpCluster x r))"

definition getNetworkRecord :: "env \<Rightarrow> string \<Rightarrow> goerror option go_prog" where
  "getNetworkRecord E x = call (\<lambda>h. e_GetNetworkRecord (e_gcp E) h x) (\<lambda>r. Gcp (EvGetNetworkRecord x r))"

definition createNetworkRecord :: "env \<Rightarrow> XNetworkRecord \<Rightarrow> goerror option go_prog" where
  "createNetworkRecord E x = call (\<lambda>h. e_CreateNetworkRecord (e_gcp E) h x) (\<lambda>r. Gcp (EvCreateNetworkRecord x r))"

lemmas aws_calls = getInstance_def createInstance_def patchInstance_def deleteInstance_def
  getCluster_def createCluster_def patchCluster_def deleteCluster_def getParamGroup_def
  createParamGroup_def patchParamGroup_def deleteParamGroup_def getClusterParamGroup_def
  createClusterParamGroup_def patchClusterParamGroup_def deleteClusterParamGroup_def
lemmas gcp_calls = getGcpInstance_def createGcpInstance_def deleteGcpInstance_def getGcpCluster_def
  createGcpCluster_def patchGcpCluster_def deleteGcpCluster_def getNetworkRecord_def
  createNetworkRecord_def

section \<open>A sample environment\<close>

text \<open>An environment for concrete runs: commands and statements succeed, lookups find nothing,
  writes are accepted.\<close>

definition sample_sql :: sql_api where
  "sample_sql = \<lparr>e_Open = (\<lambda>h d. None), e_Ping = (\<lambda>h d. None), e_Exec = (\<lambda>h d q. None),
     e_QueryBool = (\<lambda>h d q. Inr (case q of Q_TemporarySlots _ \<Rightarrow> False | _ \<Rightarrow> True)),
     e_QueryInt = (\<lambda>h d q. Inr (case q of Q_TableCount _ \<Rightarrow> 7 | _ \<Rightarrow> 0)),
     e_QueryString = (\<lambda>h d q. Inr []), e_QueryStrings = (\<lambda>h d q. Inr ([''seq''], None)),
     e_QueryCounts = (\<lambda>h d q. Inr ([(''orders'', 7)], None))\<rparr>"

definition sample_sys :: sys_api where
  "sample_sys = \<lparr>e_Now = (\<lambda>h. 1000000000), e_GeneratePassword = (\<lambda>h n d s. Inr ''pw''),
     e_ApplyMetrics = (\<lambda>h ns n. None), e_PgDump = (\<lambda>h a. ExecOk), e_Sed = (\<lambda>h s f. None),
     e_PsqlRestore = (\<lambda>h a. None), e_PsqlDropSchemas = (\<lambda>h d. None),
     e_MapOrder = (\<lambda>h. 0), e_LoadAwsConfig = (\<lambda>h. Inr ''us-east-1''),
     e_BuildAuthToken = (\<lambda>h e r u. (''token'', None))\<rparr>"

definition sample_k8s :: k8s_api where
  "sample_k8s = \<lparr>e_GetClaim = (\<lambda>h ns n. Inl (NotFound n)), e_UpdateClaim = (\<lambda>h c. Inr ''8''),
     e_UpdateClaimStatus = (\<lambda>h c. Inr ''8''), e_GetSecret = (\<lambda>h ns n. Inl (NotFound n)),
     e_CreateSecret = (\<lambda>h s. None), e_UpdateSecret = (\<lambda>h s. None), e_DeleteSecret = (\<lambda>h ns n. None),
     e_ListRoleClaims = (\<lambda>h ns. Inr []), e_GetRoleClaim = (\<lambda>h ns n. Inl (NotFound n)),
     e_CreateRoleClaim = (\<lambda>h c. None), e_UpdateRoleClaim = (\<lambda>h c. Inr ''8''),
     e_UpdateRoleClaimStatus = (\<lambda>h c. Inr ''8'')\<rparr>"

definition sample_aws :: aws_api where
  "sample_aws = \<lparr>e_GetInstance = (\<lambda>h n. Inl (NotFound n)), e_CreateInstance = (\<lambda>h i. Inr i),
     e_PatchInstance = (\<lambda>h i. Inr i), e_DeleteInstance = (\<lambda>h n. None),
     e_GetCluster = (\<lambda>h n. Inl (NotFound n)), e_CreateCluster = (\<lambda>h i. Inr i),
     e_PatchCluster = (\<lambda>h i. Inr i), e_DeleteCluster = (\<lambda>h n. None),
     e_GetParamGroup = (\<lambda>h n. Inl (NotFound n)), e_CreateParamGroup = (\<lambda>h g. None),
     e_PatchParamGroup = (\<lambda>h g. None), e_DeleteParamGroup = (\<lambda>h n. None),
     e_GetClusterParamGroup = (\<lambda>h n. Inl (NotFound n)), e_CreateClusterParamGroup = (\<lambda>h g. None),
     e_PatchClusterParamGroup = (\<lambda>h g. None), e_DeleteClusterParamGroup = (\<lambda>h n. None)\<rparr>"

definition sample_gcp :: gcp_api where
  "sample_gcp = \<lparr>e_GetGcpInstance = (\<lambda>h n. Inl (NotFound n)), e_CreateGcpInstance = (\<lambda>h i. Inr i),
     e_DeleteGcpInstance = (\<lambda>h n. None), e_GetGcpCluster = (\<lambda>h n. Inl (NotFound n)),
     e_CreateGcpCluster = (\<lambda>h i. Inr i), e_PatchGcpCluster = (\<lambda>h i. Inr i),
     e_DeleteGcpCluster = (\<lambda>h n. None), e_GetNetworkRecord = (\<lambda>h n. Some (NotFound n)),
     e_CreateNetworkRecord = (\<lambda>h r. None)\<rparr>"

definition sample_env :: env where
  "sample_env = \<lparr>e_sys = sample_sys, e_k8s = sample_k8s, e_aws = sample_aws, e_gcp = sample_gcp,
     e_sql = sample_sql\<rparr>"

lemmas sample_defs = sample_env_def sample_sys_def sample_k8s_def sample_aws_def sample_gcp_def sample_sql_def

end
