(* ===== verification/Claimstatus.thy ===== *)
theory Claimstatus
  imports Requestinfo Keyed_List World
begin

text \<open>
  The status manager (\<^verbatim>\<open>pkg/databaseclaim/claimstatus.go\<close>): conditions of a claim, its error, the
  partial updates of the status of a database, and what a reconciliation answers.
\<close>

record Result =
  Requeue :: bool
  RequeueAfter :: int

definition empty_Result :: Result where
  "empty_Result = \<lparr>Requeue = False, RequeueAfter = 0\<rparr>"

text \<open>What a reconciliation step answers: the claim as it is in memory, the result, the error.\<close>

type_synonym answer = "DatabaseClaim \<times> Result \<times> goerror option"

text \<open>The manager keeps the rotation period that the configuration had when it was made.\<close>

record StatusManager =
  sm_passwordRotationTime :: int

definition NewStatusManager :: "viper \<Rightarrow> StatusManager" where
  "NewStatusManager v = \<lparr>sm_passwordRotationTime = GetPasswordRotationPeriod v\<rparr>"

definition UpdateStatus :: "env \<Rightarrow> DatabaseClaim \<Rightarrow> (DatabaseClaim \<times> goerror option) go_prog" where
  "UpdateStatus E c = updateClaimStatus E c"

section \<open>Conditions\<close>

text \<open>The condition that replaces an old one keeps its transition time unless the status changes.\<close>

definition merge_condition :: "Condition \<Rightarrow> Condition \<Rightarrow> Condition" where
  "merge_condition cond condition =
     (if cond_Status condition = cond_Status cond \<and> cond_LastTransitionTime condition \<noteq> 0
      then condition\<lparr>cond_LastTransitionTime := cond_LastTransitionTime cond\<rparr> else condition)"

definition put_condition :: "Condition \<Rightarrow> Condition list \<Rightarrow> Condition list" where
  "put_condition = put_with cond_Type merge_condition"

definition SetStatusCondition :: "env \<Rightarrow> DatabaseClaim \<Rightarrow> Condition \<Rightarrow> DatabaseClaim go_prog" where
  "SetStatusCondition E c condition = bnd (now E) (\<lambda>t.
     let condition' = condition\<lparr>cond_LastTransitionTime := t,
           cond_ObservedGeneration := m_Generation (dc_Meta c)\<rparr>
     in ret (upd_status (\<lambda>s. s\<lparr>s_Conditions := put_condition condition' (s_Conditions s)\<rparr>) c))"

definition RemoveConditionByType :: "DatabaseClaim \<Rightarrow> string \<Rightarrow> DatabaseClaim" where
  "RemoveConditionByType c conditionType =
     upd_status (\<lambda>s. s\<lparr>s_Conditions := filter (\<lambda>cond. cond_Type cond \<noteq> conditionType) (s_Conditions s)\<rparr>) c"

definition SetConditionAndUpdateStatus ::
  "env \<Rightarrow> DatabaseClaim \<Rightarrow> Condition \<Rightarrow> (DatabaseClaim \<times> goerror option) go_prog" where
  "SetConditionAndUpdateStatus E c condition =
     bnd (SetStatusCondition E c condition) (\<lambda>c'. UpdateStatus E c')"

section \<open>Errors and success\<close>

definition managed :: "goerror \<Rightarrow> goerror" where
  "managed e = (case e of ManagedErr _ \<Rightarrow> e | _ \<Rightarrow> ManagedErr e)"

definition SetError :: "env \<Rightarrow> DatabaseClaim \<Rightarrow> goerror \<Rightarrow> answer go_prog" where
  "SetError E c inErr =
     (if errors_Is inErr ErrDoNotUpdateStatus then ret (c, empty_Result, None)
      else bnd (SetConditionAndUpdateStatus E c (ReconcileErrorCondition inErr)) (\<lambda>(c', err).
        case err of Some e \<Rightarrow> ret (c', empty_Result, Some e)
        | None \<Rightarrow>
            let wrappedErr = managed inErr
            in bnd (getClaim E (dc_Namespace c') (dc_Name c')) (\<lambda>r. case r of
                 Inl _ \<Rightarrow> ret (c', empty_Result, Some wrappedErr)
               | Inr refreshed \<Rightarrow>
                   bnd (UpdateStatus E (upd_status (\<lambda>s. s\<lparr>s_Error := ErrorText wrappedErr\<rparr>) refreshed))
                     (\<lambda>_. ret (c', empty_Result, Some wrappedErr)))))"

definition ClearError :: "env \<Rightarrow> DatabaseClaim \<Rightarrow> (DatabaseClaim \<times> goerror option) go_prog" where
  "ClearError E c =
     (if s_Error (dc_Status c) \<noteq> [] then UpdateStatus E (upd_status (\<lambda>s. s\<lparr>s_Error := []\<rparr>) c)
      else ret (c, None))"

definition SuccessAndUpdateCondition :: "env \<Rightarrow> StatusManager \<Rightarrow> DatabaseClaim \<Rightarrow> answer go_prog" where
  "SuccessAndUpdateCondition E m c =
     bnd (ClearError E c) (\<lambda>(c1, err). case err of Some e \<Rightarrow> ret (c1, empty_Result, Some e) | None \<Rightarrow>
       if m_DeletionTimestamp (dc_Meta c1) \<noteq> None then ret (c1, empty_Result\<lparr>Requeue := True\<rparr>, None)
       else bnd (SetStatusCondition E c1 ReconcileSuccessCondition) (\<lambda>c2.
         bnd (SetStatusCondition E c2 DatabaseReadyCondition) (\<lambda>c3.
         bnd (UpdateStatus E c3) (\<lambda>(c4, err). case err of Some e \<Rightarrow> ret (c4, empty_Result, Some e) | None \<Rightarrow>
           if old_DbState (dc_OldDB c4) = PostMigrationInProgress
           then ret (c4, empty_Result\<lparr>RequeueAfter := time_Minute\<rparr>, None)
           else ret (c4, empty_Result\<lparr>RequeueAfter := sm_passwordRotationTime m\<rparr>, None)))))"

definition MigrationInProgressStatus :: "env \<Rightarrow> DatabaseClaim \<Rightarrow> (DatabaseClaim \<times> Result \<times> goerror option) go_prog"
  where "MigrationInProgressStatus E c =
     bnd (SetStatusCondition E
            (upd_status (\<lambda>s. s\<lparr>s_MigrationState := ''migration_in_progress''\<rparr>) c) MigratingCondition) (\<lambda>c1.
     bnd (UpdateStatus E c1) (\<lambda>(c2, err). ret (c2, empty_Result\<lparr>Requeue := True\<rparr>, err)))"

definition ActiveDBSuccessReconcile :: "env \<Rightarrow> StatusManager \<Rightarrow> DatabaseClaim \<Rightarrow> answer go_prog" where
  "ActiveDBSuccessReconcile E m c =
     bnd (SuccessAndUpdateCondition E m c) (\<lambda>(c1, result, err).
       case err of Some e \<Rightarrow> ret (c1, empty_Result, Some e) | None \<Rightarrow>
       if st_DbState (dc_ActiveDB c1) = Ready \<and> spec_DBVersion (dc_Spec c1) = [] then
         bnd (SetConditionAndUpdateStatus E c1 NoDbVersionStatus) (\<lambda>(c2, err). ret (c2, result, err))
       else ret (RemoveConditionByType c1 (cond_Type NoDbVersionStatus), result, None))"

section \<open>Partial updates of the status of a database\<close>

definition UpdateClusterStatus :: "HostParams \<Rightarrow> Status \<Rightarrow> Status" where
  "UpdateClusterStatus hp st =
     (let st' = st\<lparr>st_DBVersion := hp_DBVersion hp, st_Type := hp_Type hp, st_Shape := hp_Shape hp,
           st_MinStorageGB := hp_MinStorageGB hp\<rparr>
      in if hp_Type hp = Postgres then st'\<lparr>st_MaxStorageGB := hp_MaxStorageGB hp\<rparr> else st')"

definition conn_or_empty :: "Status \<Rightarrow> ConnInfo" where
  "conn_or_empty st = (case st_ConnectionInfo st of None \<Rightarrow> empty_ConnInfo | Some ci \<Rightarrow> ci)"

definition UpdateDBStatus :: "env \<Rightarrow> string \<Rightarrow> Status \<Rightarrow> Status go_prog" where
  "UpdateDBStatus E dbName st = bnd (now E) (\<lambda>t.
     let st1 = (if st_DbCreatedAt st = None then st\<lparr>st_DbCreatedAt := Some t\<rparr> else st);
         ci = conn_or_empty st1
     in ret (if ci_DatabaseName ci = []
             then st1\<lparr>st_ConnectionInfo := Some (ci\<lparr>ci_DatabaseName := dbName\<rparr>), st_ConnectionInfoUpdatedAt := Some t\<rparr>
             else st1\<lparr>st_ConnectionInfo := Some ci\<rparr>))"

definition UpdateHostPortStatus :: "env \<Rightarrow> string \<Rightarrow> string \<Rightarrow> string \<Rightarrow> Status \<Rightarrow> Status go_prog" where
  "UpdateHostPortStatus E host port sslMode st = bnd (now E) (\<lambda>t.
     ret (st\<lparr>st_ConnectionInfo := Some ((conn_or_empty st)\<lparr>ci_Host := host, ci_Port := port, ci_SSLMode := sslMode\<rparr>),
       st_ConnectionInfoUpdatedAt := Some t\<rparr>))"

definition UpdateUserStatus ::
  "env \<Rightarrow> string \<Rightarrow> string \<Rightarrow> Status \<times> requestInfo \<Rightarrow> (Status \<times> requestInfo) go_prog" where
  "UpdateUserStatus E userName userPassword = (\<lambda>(st, ri). bnd (now E) (\<lambda>t.
     ret (st\<lparr>st_ConnectionInfo := Some ((conn_or_empty st)\<lparr>ci_Username := userName\<rparr>),
             st_UserUpdatedAt := Some t, st_ConnectionInfoUpdatedAt := Some t\<rparr>,
          ri\<lparr>ri_TempSecret := userPassword\<rparr>)))"

section \<open>Properties\<close>

lemma merge_condition_type [simp]: "cond_Type (merge_condition old new) = cond_Type new"
  by (simp add: merge_condition_def)

interpretation conditions: keyed_list cond_Type put_condition
  by unfold_locales (simp_all add: put_condition_def put_with_keys put_with_others)

text \<open>At most one condition of a type: the invariant of the list of conditions.\<close>

definition conditions_ok :: "DatabaseClaim \<Rightarrow> bool" where
  "conditions_ok c = distinct (map cond_Type (s_Conditions (dc_Status c)))"

lemma SetStatusCondition_ok:
  "conditions_ok c \<Longrightarrow> returns conditions_ok (SetStatusCondition E c condition)"
  unfolding SetStatusCondition_def Let_def
  by (intro returns_bnd returns_ret) (simp add: conditions_ok_def claim_upds conditions.put_distinct)

lemma put_condition_time:
  assumes "distinct (map cond_Type cs)" and "old \<in> set cs" and "cond_Type old = cond_Type new"
    and "cond_LastTransitionTime new \<noteq> 0"
  shows "\<exists>new' \<in> set (put_condition new cs). cond_Type new' = cond_Type new \<and>
    cond_Status new' = cond_Status new \<and>
    cond_LastTransitionTime new' =
      (if cond_Status old = cond_Status new then cond_LastTransitionTime old else cond_LastTransitionTime new)"
  using assms
proof (induction cs)
  case (Cons c cs)
  show ?case
  proof (cases "cond_Type c = cond_Type new")
    case True
    with Cons.prems have "old = c"
      by (metis image_eqI image_set distinct.simps(2) list.simps(9) set_ConsD)
    with True Cons.prems(4) show ?thesis
      by (auto simp: put_condition_def merge_condition_def)
  next
    case False
    with Cons show ?thesis by (auto simp: put_condition_def)
  qed
qed simp

text \<open>
  C29: conditions of a claim are a map from types to conditions. Setting a condition keeps at most
  one condition per type, leaves every other condition alone, and the transition time of the new
  one is the clock's unless the status stays the same, in which case it is that of the condition it
  replaces.
\<close>

theorem SetStatusCondition_map:
  assumes "conditions_ok c" and "e_Now (e_sys E) h \<noteq> 0"
  shows "\<exists>c' h'. SetStatusCondition E c condition h = (Ret c', h') \<and> conditions_ok c' \<and>
    (\<forall>k. k \<noteq> cond_Type condition \<longrightarrow>
       filter (\<lambda>x. cond_Type x = k) (s_Conditions (dc_Status c')) =
       filter (\<lambda>x. cond_Type x = k) (s_Conditions (dc_Status c))) \<and>
    (\<forall>old \<in> set (s_Conditions (dc_Status c)). cond_Type old = cond_Type condition \<longrightarrow>
       (\<exists>new \<in> set (s_Conditions (dc_Status c')). cond_Type new = cond_Type condition \<and>
          cond_Status new = cond_Status condition \<and>
          cond_LastTransitionTime new = (if cond_Status old = cond_Status condition
             then cond_LastTransitionTime old else e_Now (e_sys E) h)))"
proof -
  let ?new = "condition\<lparr>cond_LastTransitionTime := e_Now (e_sys E) h,
    cond_ObservedGeneration := m_Generation (dc_Meta c)\<rparr>"
  let ?cs = "s_Conditions (dc_Status c)"
  let ?c' = "upd_status (\<lambda>s. s\<lparr>s_Conditions := put_condition ?new (s_Conditions s)\<rparr>) c"
  have run: "SetStatusCondition E c condition h = (Ret ?c', Sys (EvNow (e_Now (e_sys E) h)) # h)"
    by (simp add: SetStatusCondition_def sys_calls prog_simps Let_def)
  have cs: "s_Conditions (dc_Status ?c') = put_condition ?new ?cs" by (simp add: claim_upds)
  have "conditions_ok ?c'"
    using assms(1) conditions.put_distinct unfolding conditions_ok_def cs by blast
  moreover have "filter (\<lambda>x. cond_Type x = k) (put_condition ?new ?cs) = filter (\<lambda>x. cond_Type x = k) ?cs"
    if "k \<noteq> cond_Type condition" for k
    using conditions.put_others [of k ?new ?cs] that by simp
  moreover have "\<exists>new \<in> set (put_condition ?new ?cs). cond_Type new = cond_Type condition \<and>
      cond_Status new = cond_Status condition \<and>
      cond_LastTransitionTime new = (if cond_Status old = cond_Status condition
        then cond_LastTransitionTime old else e_Now (e_sys E) h)"
    if "old \<in> set ?cs" "cond_Type old = cond_Type condition" for old
    using put_condition_time [of ?cs old ?new] assms that
    by (simp add: conditions_ok_def cong: if_cong)
  ultimately show ?thesis unfolding run cs [symmetric] by blast
qed

theorem SetStatusCondition_map_witness:
  "\<exists>c' h'. SetStatusCondition sample_env sample_claim ReconcileSuccessCondition [] = (Ret c', h') \<and> conditions_ok c'"
proof -
  have "conditions_ok sample_claim" "e_Now (e_sys sample_env) [] \<noteq> 0"
    by (simp_all add: conditions_ok_def sample_claim_def sample_defs)
  from SetStatusCondition_map [OF this, of ReconcileSuccessCondition] show ?thesis by blast
qed

subsection \<open>Errors\<close>

lemma managed_idem [simp]: "managed (managed e) = managed e"
  by (simp add: managed_def split: goerror.split)

lemma managed_text [simp]: "ErrorText (managed e) = ErrorText e"
  by (simp add: managed_def split: goerror.split)

lemma put_condition_mem:
  "\<exists>x \<in> set (put_condition new cs). cond_Type x = cond_Type new \<and> cond_Status x = cond_Status new \<and>
     cond_Message x = cond_Message new"
  by (induction cs) (auto simp: put_condition_def merge_condition_def)

text \<open>The claim says that it is not ready, and why.\<close>

definition says_not_ready :: "goerror \<Rightarrow> DatabaseClaim \<Rightarrow> bool" where
  "says_not_ready err c \<longleftrightarrow> (\<exists>x \<in> set (s_Conditions (dc_Status c)). cond_Type x = ''Ready'' \<and>
     cond_Status x = ''False'' \<and> cond_Message x = ''Reconciliation encountered an issue: '' @ ErrorText err)"

lemma SetStatusCondition_error:
  "\<exists>cs. SetStatusCondition E c (ReconcileErrorCondition err) h =
     (Ret (upd_status (\<lambda>s. s\<lparr>s_Conditions := cs\<rparr>) c), Sys (EvNow (e_Now (e_sys E) h)) # h) \<and>
   says_not_ready err (upd_status (\<lambda>s. s\<lparr>s_Conditions := cs\<rparr>) c)"
proof -
  let ?cond = "(ReconcileErrorCondition err)\<lparr>cond_LastTransitionTime := e_Now (e_sys E) h,
     cond_ObservedGeneration := m_Generation (dc_Meta c)\<rparr>"
  let ?cs = "put_condition ?cond (s_Conditions (dc_Status c))"
  have "SetStatusCondition E c (ReconcileErrorCondition err) h =
     (Ret (upd_status (\<lambda>s. s\<lparr>s_Conditions := ?cs\<rparr>) c), Sys (EvNow (e_Now (e_sys E) h)) # h)"
    by (simp add: SetStatusCondition_def sys_calls prog_simps Let_def claim_upds)
  moreover have "says_not_ready err (upd_status (\<lambda>s. s\<lparr>s_Conditions := ?cs\<rparr>) c)"
    using put_condition_mem [of ?cond "s_Conditions (dc_Status c)"]
    by (simp add: says_not_ready_def claim_upds ReconcileErrorCondition_def CreateCondition_def)
  ultimately show ?thesis by blast
qed

text \<open>
  C19: no error is swallowed, and the cluster is told. Unless the error is the one that asks not to be
  reported, reporting it begins with a write of the claim's status in which nothing but the conditions
  is changed and these say that the claim is not ready and why. If the write fails, its error is handed
  to the queue and nothing else is called. Otherwise the error itself is handed to the queue, marked as
  managed exactly once, and the claim is read again: where that succeeds, a second write records the
  text of the error in the \<^verbatim>\<open>Error\<close> field of the status just read. These are all the calls (newest first).
\<close>

theorem SetError_reports:
  assumes "\<not> errors_Is inErr ErrDoNotUpdateStatus"
  shows "\<exists>c' e es sent cs t. SetError E c inErr h = (Ret (c', empty_Result, Some e), es @ h) \<and>
    sent = upd_status (\<lambda>s. s\<lparr>s_Conditions := cs\<rparr>) c \<and> says_not_ready inErr sent \<and> says_not_ready inErr c' \<and>
    (es = [K8s (EvUpdateClaimStatus sent (Some e)), Sys (EvNow t)] \<or>
     e = managed inErr \<and> (\<exists>err. es = [K8s (EvGetClaim (dc_Namespace c) (dc_Name c) (Inl err)),
       K8s (EvUpdateClaimStatus sent None), Sys (EvNow t)]) \<or>
     e = managed inErr \<and> (\<exists>found r. es =
       [K8s (EvUpdateClaimStatus (upd_status (\<lambda>s. s\<lparr>s_Error := ErrorText inErr\<rparr>) found) r),
        K8s (EvGetClaim (dc_Namespace c) (dc_Name c) (Inr found)),
        K8s (EvUpdateClaimStatus sent None), Sys (EvNow t)]))"
proof -
  let ?t = "e_Now (e_sys E) h"
  obtain cs where set: "SetStatusCondition E c (ReconcileErrorCondition inErr) h =
      (Ret (upd_status (\<lambda>s. s\<lparr>s_Conditions := cs\<rparr>) c), Sys (EvNow ?t) # h)"
    and says: "says_not_ready inErr (upd_status (\<lambda>s. s\<lparr>s_Conditions := cs\<rparr>) c)"
    using SetStatusCondition_error by blast
  let ?sent = "upd_status (\<lambda>s. s\<lparr>s_Conditions := cs\<rparr>) c"
  have keeps: "says_not_ready inErr (fst (written ?sent v))" for v
    using says by (simp add: says_not_ready_def written_def claim_upds split: sum.split)
  define e where "e = e_UpdateClaimStatus (e_k8s E) (Sys (EvNow ?t) # h) ?sent"
  have first: "SetConditionAndUpdateStatus E c (ReconcileErrorCondition inErr) h =
      (Ret (written ?sent e), K8s (EvUpdateClaimStatus ?sent (as_error e)) # Sys (EvNow ?t) # h)"
    by (simp add: SetConditionAndUpdateStatus_def UpdateStatus_def bnd_def set k8s_calls ret_def call_def e_def Let_def)
  show ?thesis
  proof (cases e)
    case (Inl err)
    with assms says first show ?thesis
      by (auto simp: SetError_def bnd_def ret_def written_def as_error_def)
  next
    case (Inr rv)
    let ?c' = "upd_meta (\<lambda>m. m\<lparr>m_ResourceVersion := rv\<rparr>) ?sent"
    have "SetConditionAndUpdateStatus E c (ReconcileErrorCondition inErr) h =
      (Ret (?c', None), K8s (EvUpdateClaimStatus ?sent None) # Sys (EvNow ?t) # h)"
      using first Inr by (simp add: written_def as_error_def)
    moreover have "says_not_ready inErr ?c'" using keeps [of e] Inr by (simp add: written_def)
    ultimately show ?thesis using assms says
      by (cases "e_GetClaim (e_k8s E) (K8s (EvUpdateClaimStatus ?sent None) # Sys (EvNow ?t) # h)
            (dc_Namespace c) (dc_Name c)")
        (force simp: SetError_def bnd_def ret_def UpdateStatus_def k8s_calls call_def claim_upds Let_def)+
  qed
qed

theorem SetError_reports_witness:
  "\<exists>c' sent cs t. SetError sample_env sample_claim (ErrMsg ''boom'') [] =
     (Ret (c', empty_Result, Some (ManagedErr (ErrMsg ''boom''))),
      [K8s (EvGetClaim (dc_Namespace sample_claim) (dc_Name sample_claim) (Inl (NotFound (dc_Name sample_claim)))),
       K8s (EvUpdateClaimStatus sent None), Sys (EvNow t)]) \<and>
     sent = upd_status (\<lambda>s. s\<lparr>s_Conditions := cs\<rparr>) sample_claim \<and> says_not_ready (ErrMsg ''boom'') sent"
proof -
  have "\<exists>c' sent t. SetError sample_env sample_claim (ErrMsg ''boom'') [] =
     (Ret (c', empty_Result, Some (ManagedErr (ErrMsg ''boom''))),
      [K8s (EvGetClaim (dc_Namespace sample_claim) (dc_Name sample_claim) (Inl (NotFound (dc_Name sample_claim)))),
       K8s (EvUpdateClaimStatus sent None), Sys (EvNow t)])"
    by (simp add: SetError_def SetConditionAndUpdateStatus_def SetStatusCondition_def UpdateStatus_def
        k8s_calls sys_calls prog_simps written_def sample_defs managed_def as_error_def claim_upds Let_def)
  then show ?thesis
    using SetError_reports [of "ErrMsg ''boom''" sample_env sample_claim "[]"] by fastforce
qed

subsection \<open>A provisioned claim is stable\<close>

lemma UpdateClusterStatus_fields:
  "st_DBVersion (UpdateClusterStatus hp st) = hp_DBVersion hp"
  "st_Type (UpdateClusterStatus hp st) = hp_Type hp"
  "st_Shape (UpdateClusterStatus hp st) = hp_Shape hp"
  "hp_Type hp = Postgres \<Longrightarrow> st_MaxStorageGB (UpdateClusterStatus hp st) = hp_MaxStorageGB hp"
  by (simp_all add: UpdateClusterStatus_def Let_def)

text \<open>
  C12: once a database is provisioned, the claim that asked for it asks for the same host. If the
  active database carries the parameters that a claim resolved to, the parameters resolve again,
  no upgrade is requested and the checksum in the host's name is the same, so that a further
  reconciliation provisions nothing new.
\<close>

theorem provisioned_claim_stable:
  assumes "New title config c = Inr hp"
  defines "c' \<equiv> upd_active (UpdateClusterStatus hp) c"
  shows "\<exists>hp'. New title config c' = Inr hp' \<and> \<not> IsUpgradeRequested hp' (GetActiveHostParams c') \<and>
    Hash hp' = Hash hp"
proof -
  note hp = New_fields [OF assms(1)]
  have version: "hp_DBVersion hp \<noteq> []" by (auto simp: hp)
  from assms(1) obtain iport storageType where
    atoi: "Atoi (GetString config ''defaultMasterPort'') = Some iport" and
    st: "getStorageType config (if spec_Type (dc_Spec c) = [] then Postgres else spec_Type (dc_Spec c))
      (if spec_Shape (dc_Spec c) = [] then defaultShape else spec_Shape (dc_Spec c)) = Inr storageType" and
    max: "max_storage_error hp (st_MaxStorageGB (dc_ActiveDB c)) = None" and
    hp_eq: "hp = requested title config c iport storageType"
    by (auto simp: New_requested split: option.splits sum.splits)
  have active: "dc_ActiveDB c' = UpdateClusterStatus hp (dc_ActiveDB c)" and spec: "dc_Spec c' = dc_Spec c"
    by (simp_all add: c'_def claim_upds)
  let ?hp' = "requested title config c' iport storageType"
  have fields: "hp_Type ?hp' = hp_Type hp" "hp_Shape ?hp' = hp_Shape hp" "hp_DBVersion ?hp' = hp_DBVersion hp"
    "hp_InstanceClass ?hp' = hp_InstanceClass hp" "hp_MaxStorageGB ?hp' = hp_MaxStorageGB hp"
    "hp_MinStorageGB ?hp' = hp_MinStorageGB hp"
    using version by (auto simp: requested_def Let_def spec active UpdateClusterStatus_fields hp_eq)
  have "max_storage_error ?hp' (st_MaxStorageGB (dc_ActiveDB c')) = None"
    using max by (auto simp: max_storage_error_def fields active UpdateClusterStatus_fields split: if_splits)
  then have "New title config c' = Inr ?hp'"
    unfolding New_requested spec atoi option.case st sum.case by simp
  moreover have "\<not> IsUpgradeRequested ?hp' (GetActiveHostParams c')"
    using hp by (simp add: IsUpgradeRequested_def HasEngineChanged_def HasInstanceClassChanged_def
        HasVersionChanged_def GetActiveHostParams_def fields active UpdateClusterStatus_fields Let_def)
  moreover have "Hash ?hp' = Hash hp" by (simp add: Hash_def HostParams_String_def fields)
  ultimately show ?thesis by blast
qed

theorem provisioned_claim_stable_witness:
  "\<exists>hp hp'. New id sample_viper sample_claim = Inr hp \<and>
     New id sample_viper (upd_active (UpdateClusterStatus hp) sample_claim) = Inr hp' \<and> Hash hp' = Hash hp"
proof -
  from sample_New_ok obtain hp where hp: "New id sample_viper sample_claim = Inr hp" by blast
  from provisioned_claim_stable [OF hp] hp show ?thesis by blast
qed

end
