(* ===== verification/Dbclient.thy ===== *)
theory Dbclient
  imports World
begin

text \<open>
  The database client (\<^verbatim>\<open>pkg/dbclient\<close>): connection strings, databases, extensions, roles, users
  and passwords, over the SQL interface. Metrics and logging are left out, as is the closing of
  connection pools. A \<^verbatim>\<open>Prepare\<close> is part of the query it precedes: both failures are returned
  alike.
\<close>

section \<open>Connection strings\<close>

definition escapeValue_char :: "char \<Rightarrow> string" where
  "escapeValue_char c =
     (if c = CHR '' '' \<or> c = CHR 0x5C \<or> c = CHR 0x27 \<or> c = CHR 0x60 \<or> c = CHR ''$'' \<or> c = CHR ''!''
      then [CHR 0x5C, c] else [c])"

text \<open>The loop is over runes, but only single-byte ones are escaped.\<close>

definition escapeValue :: "string \<Rightarrow> string" where
  "escapeValue s = concat (map escapeValue_char s)"

definition PostgresConnectionString ::
  "string \<Rightarrow> string \<Rightarrow> string \<Rightarrow> string \<Rightarrow> string \<Rightarrow> string \<Rightarrow> string" where
  "PostgresConnectionString host port user password dbname sslmode =
     ''host='' @ host @ '' port='' @ port @ '' user='' @ escapeValue user @ '' password='' @
     escapeValue password @ '' dbname='' @ escapeValue dbname @ '' sslmode='' @ sslmode"

definition PostgresURI :: "string \<Rightarrow> string \<Rightarrow> string \<Rightarrow> string \<Rightarrow> string \<Rightarrow> string \<Rightarrow> string" where
  "PostgresURI host port user password dbname sslmode =
     ''postgres://'' @ QueryEscape user @ '':'' @ QueryEscape password @ ''@'' @ host @ '':'' @ port @
     ''/'' @ QueryEscape dbname @ ''?sslmode='' @ sslmode"

section \<open>Clients\<close>

abbreviation PostgresType :: string where "PostgresType \<equiv> ''postgres''"
abbreviation IBSchema :: string where "IBSchema \<equiv> ''ib''"

record client =
  pc_cloud :: string
  pc_dbType :: string
  pc_dbURL :: string
  pc_DB :: string
  pc_adminDB :: string

record client_Config =
  cc_Cloud :: string
  cc_DBType :: string
  cc_DSN :: string
  cc_UseIAM :: bool

definition awsAuthBuilderWithConfig :: "env \<Rightarrow> string \<Rightarrow> string \<Rightarrow> (goerror + string) go_prog" where
  "awsAuthBuilderWithConfig E dsn region = (case Parse dsn of
     Inl e \<Rightarrow> ret (Inl (UrlError e))
   | Inr parsed \<Rightarrow>
       bnd (buildAuthToken E (HostPort parsed @ '':'' @ PortOf parsed) region (Username (User parsed)))
         (\<lambda>(authToken, err). case err of
            Some e \<Rightarrow> ret (Inl e)
          | None \<Rightarrow> ret (Inr (url_String (parsed\<lparr>User := Some (Username (User parsed), Some authToken)\<rparr>)))))"

definition awsAuthBuilder :: "env \<Rightarrow> string \<Rightarrow> (goerror + string) go_prog" where
  "awsAuthBuilder E dsn =
     attempt (loadDefaultConfig E) (\<lambda>region. awsAuthBuilderWithConfig E dsn region)"

definition newPostgresClient :: "env \<Rightarrow> client_Config \<Rightarrow> (goerror + client) go_prog" where
  "newPostgresClient E cfg0 =
     (let cfg = (if cc_Cloud cfg0 = [] then cfg0\<lparr>cc_Cloud := ''aws''\<rparr> else cfg0) in
      attempt (if cc_UseIAM cfg then awsAuthBuilder E (cc_DSN cfg) else ret (Inr (cc_DSN cfg))) (\<lambda>authedDSN.
      check (sql_open E authedDSN)
        (case Parse authedDSN of
           Inl e \<Rightarrow> ret (Inl (Wrapped ''could not parse DSN: '' (UrlError e) []))
         | Inr dsnURL \<Rightarrow>
             (let adminDB = url_String (dsnURL\<lparr>Path := ''/postgres''\<rparr>) in
              check (sql_open E adminDB)
                (bnd (sql_ping E adminDB) (\<lambda>r. case r of
                   Some e \<Rightarrow> ret (Inl (Wrapped ''could not connect to admin database: '' e []))
                 | None \<Rightarrow> ret (Inr \<lparr>pc_cloud = cc_Cloud cfg, pc_dbType = PostgresType,
                     pc_dbURL = cc_DSN cfg, pc_DB = authedDSN, pc_adminDB = adminDB\<rparr>)))))))"

text \<open>\<^verbatim>\<open>dbclient.New\<close> as the reconciler calls it: no cloud, no IAM.\<close>

definition dbclient_New :: "env \<Rightarrow> string \<Rightarrow> (goerror + client) go_prog" where
  "dbclient_New E dsn = newPostgresClient E
     \<lparr>cc_Cloud = [], cc_DBType = ''postgres'', cc_DSN = dsn, cc_UseIAM = False\<rparr>"

definition SanitizeDSN :: "client \<Rightarrow> string" where
  "SanitizeDSN pc = (case Parse (pc_dbURL pc) of
     Inl _ \<Rightarrow> []
   | Inr u \<Rightarrow> url_String (case User u of Some (n, Some _) \<Rightarrow> u\<lparr>User := Some (n, Some ''xxxxx'')\<rparr> | _ \<Rightarrow> u))"

definition Ping :: "env \<Rightarrow> client \<Rightarrow> goerror option go_prog" where
  "Ping E p = bnd (sql_ping E (pc_DB p)) (\<lambda>r. case r of
     Some e \<Rightarrow> ret (Some (Wrapped (''ping_failed: '' @ SanitizeDSN p @ '' '') e []))
   | None \<Rightarrow> ret None)"

text \<open>\<^verbatim>\<open>getDB\<close>: a pool on another database of the same server.\<close>

definition client_getDB :: "env \<Rightarrow> client \<Rightarrow> string \<Rightarrow> (goerror + string) go_prog" where
  "client_getDB E p dbname = (case Parse (pc_dbURL p) of
     Inl e \<Rightarrow> ret (Inl (UrlError e))
   | Inr u \<Rightarrow> (let dsn = url_String (u\<lparr>Path := ''/'' @ dbname\<rparr>) in check (sql_open E dsn) (ret (Inr dsn))))"

section \<open>Databases and extensions\<close>

definition createDatabase :: "env \<Rightarrow> client \<Rightarrow> string \<Rightarrow> (goerror + bool) go_prog" where
  "createDatabase E pc dbName =
     check (sql_exec E (pc_adminDB pc) (CREATE_DATABASE dbName))
       (check (sql_ping E (pc_DB pc)) (ret (Inr True)))"

definition CreateDatabase :: "env \<Rightarrow> client \<Rightarrow> string \<Rightarrow> (goerror + bool) go_prog" where
  "CreateDatabase E pc dbName = bnd (sql_bool E (pc_adminDB pc) (Q_DatabaseExists dbName)) (\<lambda>r. case r of
     Inl e \<Rightarrow> if Contains (ErrorText e) ''does not exist'' then createDatabase E pc dbName else ret (Inl e)
   | Inr exists \<Rightarrow> if exists then ret (Inr False) else createDatabase E pc dbName)"

definition CheckExtension :: "env \<Rightarrow> client \<Rightarrow> string \<Rightarrow> (goerror + bool) go_prog" where
  "CheckExtension E pc extName = sql_bool E (pc_DB pc) (Q_ExtensionExists extName)"

abbreviation defaultExtensions :: "string list" where
  "defaultExtensions \<equiv> [''citext'', ''uuid-ossp'', ''pgcrypto'', ''hstore'', ''pg_stat_statements'', ''plpgsql'']"

definition CreateDefaultExtensions :: "env \<Rightarrow> client \<Rightarrow> string \<Rightarrow> goerror option go_prog" where
  "CreateDefaultExtensions E pc dbName =
     attempt_err (client_getDB E pc dbName) (\<lambda>db.
       for_each defaultExtensions (\<lambda>s. bnd (sql_exec E db (CREATE_EXTENSION s)) (\<lambda>r. case r of
         Some e \<Rightarrow> ret (Some (ErrMsg (''could not create extension '' @ s @ '': '' @ ErrorText e)))
       | None \<Rightarrow> ret None)))"

definition CreatePgCronExtension :: "env \<Rightarrow> client \<Rightarrow> string \<Rightarrow> string \<Rightarrow> goerror option go_prog" where
  "CreatePgCronExtension E pc dbName role =
     attempt_err (client_getDB E pc dbName) (\<lambda>db.
       bnd (sql_exec E db (CREATE_PG_CRON role)) (\<lambda>r. case r of
         Some e \<Rightarrow> ret (Some (Wrapped ''failed to create extension pg_cron and grant usage on schema cron to public: '' e []))
       | None \<Rightarrow> ret None))"

definition CreatePgPartmanExtension :: "env \<Rightarrow> client \<Rightarrow> string \<Rightarrow> string \<Rightarrow> goerror option go_prog" where
  "CreatePgPartmanExtension E pc dbName role =
     attempt_err (client_getDB E pc dbName) (\<lambda>db. sql_exec E db (CREATE_PG_PARTMAN role))"

datatype special_extension = pg_partman | pg_cron

primrec specialExtensionsMap ::
  "special_extension \<Rightarrow> env \<Rightarrow> client \<Rightarrow> string \<Rightarrow> string \<Rightarrow> goerror option go_prog" where
  "specialExtensionsMap pg_partman = CreatePgPartmanExtension"
| "specialExtensionsMap pg_cron = CreatePgCronExtension"

definition CreateSpecialExtensions :: "env \<Rightarrow> client \<Rightarrow> string \<Rightarrow> string \<Rightarrow> goerror option go_prog" where
  "CreateSpecialExtensions E pc dbName role =
     attempt_err (client_getDB E pc dbName) (\<lambda>_.
       bnd (map_order E [pg_partman, pg_cron]) (\<lambda>names.
         for_each names (\<lambda>functionName. specialExtensionsMap functionName E pc dbName role)))"

subsection \<open>Schemas and system functions\<close>

definition SchemaExists :: "env \<Rightarrow> client \<Rightarrow> string \<Rightarrow> (goerror + bool) go_prog" where
  "SchemaExists E pc schemaName = bnd (sql_bool E (pc_DB pc) (Q_SchemaExists schemaName)) (\<lambda>r. case r of
     Inl e \<Rightarrow> ret (Inl (Wrapped (''schema_exists '' @ schemaName @ '': '') e []))
   | Inr b \<Rightarrow> ret (Inr b))"

definition CreateSchema :: "env \<Rightarrow> client \<Rightarrow> string \<Rightarrow> (goerror + bool) go_prog" where
  "CreateSchema E pc schemaName = check (sql_exec E (pc_DB pc) (CREATE_SCHEMA schemaName)) (ret (Inr True))"

text \<open>\<^verbatim>\<open>ib_life_cycle\<close> is the function \<^verbatim>\<open>life_cycle\<close> of the schema \<^verbatim>\<open>ib\<close>.\<close>

definition split_function :: "string \<Rightarrow> string \<times> string" where
  "split_function f =
     (let f_parts = Split f (CHR ''_'')
      in if length f_parts = 1 then (''public'', f) else (f_parts ! 0, JoinWith ''_'' (tl f_parts)))"

text \<open>The loop over the functions, a map, in the order in which the runtime hands them out.
  \<^verbatim>\<open>currVal\<close> is declared before the loop: a query that fails
  because the function does not exist leaves the value of an earlier round in it.\<close>

fun manage_functions :: "env \<Rightarrow> string \<Rightarrow> string \<Rightarrow> (string \<times> string) list \<Rightarrow> goerror option go_prog" where
  "manage_functions E db currVal [] = ret None"
| "manage_functions E db currVal ((f0, v) # rest) =
     (case split_function f0 of (schema, f) \<Rightarrow>
        bnd (sql_string E db (Q_FunctionValue schema f)) (\<lambda>r.
          case (case r of Inr s \<Rightarrow> Inr s
                | Inl e \<Rightarrow> if Contains (ErrorText e) ''does not exist'' then Inr currVal else Inl e) of
            Inl e \<Rightarrow> ret (Some e)
          | Inr currVal' \<Rightarrow>
              if currVal' = v then manage_functions E db currVal' rest
              else check_err (sql_exec E db (CREATE_FUNCTION schema f v)) (manage_functions E db currVal' rest)))"

definition ManageSystemFunctions ::
  "env \<Rightarrow> client \<Rightarrow> string \<Rightarrow> (string \<times> string) list \<Rightarrow> goerror option go_prog" where
  "ManageSystemFunctions E pc dbName functions =
     attempt_err (client_getDB E pc dbName) (\<lambda>db.
     attempt_err (SchemaExists E pc IBSchema) (\<lambda>exists.
       if exists then bnd (map_order E functions) (manage_functions E db [])
       else check_err (sql_exec E db CREATE_IB_SCHEMA) (bnd (map_order E functions) (manage_functions E db []))))"

section \<open>Roles\<close>

text \<open>The operations that create a role answer whether they created it, also beside an error.\<close>

type_synonym created = "bool \<times> goerror option"

definition RoleExists :: "env \<Rightarrow> client \<Rightarrow> string \<Rightarrow> (goerror + bool) go_prog" where
  "RoleExists E pc roleName = sql_bool E (pc_DB pc) (Q_RoleExists roleName)"

definition createRole :: "env \<Rightarrow> client \<Rightarrow> string \<Rightarrow> goerror option go_prog" where
  "createRole E pc role = sql_exec E (pc_DB pc) (CREATE_ROLE_NOLOGIN role)"

definition grantRolePrivileges :: "env \<Rightarrow> client \<Rightarrow> string \<Rightarrow> string \<Rightarrow> string \<Rightarrow> goerror option go_prog" where
  "grantRolePrivileges E pc dbName role schema =
     attempt_err (client_getDB E pc dbName) (\<lambda>db.
       for_each [GRANT_ALL_ON_DATABASE dbName role, GRANT_ALL_ON_SCHEMA schema role,
           GRANT_ALL_TABLES schema role, GRANT_ALL_SEQUENCES schema role]
         (\<lambda>q. sql_exec E db q))"

definition CreateRole :: "env \<Rightarrow> client \<Rightarrow> string \<Rightarrow> string \<Rightarrow> string \<Rightarrow> created go_prog" where
  "CreateRole E pc dbName role schema0 =
     (let schema = (if schema0 = [] then ''public'' else schema0) in
      bnd (sql_bool E (pc_DB pc) (Q_RoleExists role)) (\<lambda>r. case r of
        Inl e \<Rightarrow> ret (False, Some e)
      | Inr exists \<Rightarrow>
          bnd (if exists then ret None else createRole E pc role) (\<lambda>cr. case cr of
            Some e \<Rightarrow> ret (False, Some e)
          | None \<Rightarrow> bnd (grantRolePrivileges E pc dbName role schema) (\<lambda>gr. ret (\<not> exists, gr)))))"

text \<open>The three kinds of application roles differ in the privileges granted to a new one.\<close>

definition create_role_with ::
  "(string \<Rightarrow> string \<Rightarrow> string \<Rightarrow> sql) \<Rightarrow> env \<Rightarrow> client \<Rightarrow> string \<Rightarrow> string \<Rightarrow> string \<Rightarrow> created go_prog" where
  "create_role_with stmt E pc dbName role schema =
     bnd (CreateRole E pc dbName role schema) (\<lambda>(created, err).
       if err \<noteq> None \<or> \<not> created then ret (created, err)
       else bnd (client_getDB E pc dbName) (\<lambda>r. case r of
         Inl e \<Rightarrow> ret (created, Some e)
       | Inr db \<Rightarrow> bnd (sql_exec E db (stmt dbName role schema)) (\<lambda>er. ret (created, er))))"

definition CreateAdminRole :: "env \<Rightarrow> client \<Rightarrow> string \<Rightarrow> string \<Rightarrow> string \<Rightarrow> created go_prog" where
  "CreateAdminRole = create_role_with GRANT_ADMIN"

definition CreateRegularRole :: "env \<Rightarrow> client \<Rightarrow> string \<Rightarrow> string \<Rightarrow> string \<Rightarrow> created go_prog" where
  "CreateRegularRole = create_role_with GRANT_REGULAR"

definition CreateReadOnlyRole :: "env \<Rightarrow> client \<Rightarrow> string \<Rightarrow> string \<Rightarrow> string \<Rightarrow> created go_prog" where
  "CreateReadOnlyRole = create_role_with GRANT_READONLY"

definition AssignRoleToUser :: "env \<Rightarrow> client \<Rightarrow> string \<Rightarrow> string \<Rightarrow> goerror option go_prog" where
  "AssignRoleToUser E pc username role = sql_exec E (pc_DB pc) (SET_AND_GRANT_ROLE username role)"

section \<open>Users\<close>

definition UserExists :: "env \<Rightarrow> client \<Rightarrow> string \<Rightarrow> (goerror + bool) go_prog" where
  "UserExists E pc userName = sql_bool E (pc_DB pc) (Q_UserExists userName)"

definition DeleteUser :: "env \<Rightarrow> client \<Rightarrow> string \<Rightarrow> string \<Rightarrow> string \<Rightarrow> goerror option go_prog" where
  "DeleteUser E pc dbName username reassignToUser =
     (if username = [] then ret (Some (ErrMsg ''an empty username''))
      else attempt_err (sql_bool E (pc_DB pc) (Q_UserExists username)) (\<lambda>exists.
        if \<not> exists then ret None
        else bnd (sql_exec E (pc_DB pc) (DROP_USER username reassignToUser dbName)) (\<lambda>_. ret None)))"

definition CreateUser :: "env \<Rightarrow> client \<Rightarrow> string \<Rightarrow> string \<Rightarrow> string \<Rightarrow> created go_prog" where
  "CreateUser E pc userName roleName userPassword =
     bnd (sql_bool E (pc_DB pc) (Q_UserExists userName)) (\<lambda>r. case r of
       Inl e \<Rightarrow> ret (False, Some e)
     | Inr exists \<Rightarrow>
         if exists then ret (False, None)
         else
           bnd (sql_exec E (pc_DB pc) (if roleName \<noteq> [] then CREATE_ROLE_LOGIN userName userPassword roleName
                 else CREATE_USER userName userPassword)) (\<lambda>cr. case cr of
             Some e \<Rightarrow> ret (False, Some e)
           | None \<Rightarrow>
               bnd (if roleName \<noteq> [] then AssignRoleToUser E pc userName roleName else ret None) (\<lambda>ar.
                 case ar of Some e \<Rightarrow> ret (False, Some e) | None \<Rightarrow> ret (True, None))))"

definition RenameUser :: "env \<Rightarrow> client \<Rightarrow> string \<Rightarrow> string \<Rightarrow> goerror option go_prog" where
  "RenameUser E pc oldUsername newUsername =
     attempt_err (sql_bool E (pc_DB pc) (Q_RoleExists oldUsername)) (\<lambda>exists.
       if exists then sql_exec E (pc_DB pc) (RENAME_USER oldUsername newUsername) else ret None)"

definition UpdatePassword :: "env \<Rightarrow> client \<Rightarrow> string \<Rightarrow> string \<Rightarrow> goerror option go_prog" where
  "UpdatePassword E pc username userPassword =
     (if userPassword = [] then ret (Some (ErrMsg ''an empty password''))
      else sql_exec E (pc_DB pc) (ALTER_PASSWORD username userPassword))"

definition UpdateUser :: "env \<Rightarrow> client \<Rightarrow> string \<Rightarrow> string \<Rightarrow> string \<Rightarrow> string \<Rightarrow> goerror option go_prog" where
  "UpdateUser E pc oldUsername newUsername role password =
     attempt_err (sql_bool E (pc_DB pc) (Q_RoleExists oldUsername)) (\<lambda>exists.
       if exists then
         check_err (RenameUser E pc oldUsername newUsername)
           (check_err (AssignRoleToUser E pc newUsername role) (UpdatePassword E pc newUsername password))
       else ret None)"

definition ManageCreateRole :: "env \<Rightarrow> client \<Rightarrow> string \<Rightarrow> bool \<Rightarrow> goerror option go_prog" where
  "ManageCreateRole E pc role enableCreateRole =
     attempt_err (sql_bool E (pc_DB pc) (Q_RoleExists role)) (\<lambda>exists.
       if \<not> exists then ret None
       else attempt_err (sql_bool E (pc_DB pc) (Q_HasCreateRole role)) (\<lambda>hasCreateRole.
         if hasCreateRole \<noteq> enableCreateRole
         then sql_exec E (pc_DB pc) (ALTER_CREATEROLE role enableCreateRole) else ret None))"

definition ManageSuperUserRole :: "env \<Rightarrow> client \<Rightarrow> string \<Rightarrow> bool \<Rightarrow> goerror option go_prog" where
  "ManageSuperUserRole E pc username enableSuperUser =
     sql_exec E (pc_DB pc) (if enableSuperUser then GRANT_ROLE ''rds_superuser'' username
       else REVOKE_ROLE ''rds_superuser'' username)"

definition ManageReplicationRole :: "env \<Rightarrow> client \<Rightarrow> string \<Rightarrow> bool \<Rightarrow> goerror option go_prog" where
  "ManageReplicationRole E pc username enableReplicationRole =
     attempt_err (sql_bool E (pc_DB pc) (Q_RoleExists username)) (\<lambda>exists.
       if \<not> exists then ret None
       else
         (let role = (if pc_cloud pc = ''gcp'' then ''alloydbreplica'' else ''rds_replication'') in
          attempt_err (sql_bool E (pc_DB pc) (Q_RoleExists role)) (\<lambda>isCloud.
            sql_exec E (pc_DB pc)
              (if isCloud then (if enableReplicationRole then GRANT_ROLE role username else REVOKE_ROLE role username)
               else ALTER_REPLICATION username enableReplicationRole))))"

text \<open>The error that ends the iteration over the rows is not looked at.\<close>

definition GetUserRoles :: "env \<Rightarrow> client \<Rightarrow> string \<Rightarrow> (goerror + string list) go_prog" where
  "GetUserRoles E pc username = attempt (sql_strings E (pc_DB pc) (Q_UserRoles username)) (\<lambda>(rows, _). ret (Inr rows))"

definition RevokeAccessToRole :: "env \<Rightarrow> client \<Rightarrow> string \<Rightarrow> string \<Rightarrow> goerror option go_prog" where
  "RevokeAccessToRole E pc username role = sql_exec E (pc_DB pc) (REVOKE_ROLE role username)"

section \<open>What the client may call\<close>

text \<open>A predicate on calls is quiet when it holds of all SQL and system calls: what holds of a
  program whose other calls are known.\<close>

definition quiet :: "(event \<Rightarrow> bool) \<Rightarrow> bool" where
  "quiet P \<longleftrightarrow> (\<forall>e. P (Sql e)) \<and> (\<forall>e. P (Sys e))"

lemma quiet_Sql [intro]: "quiet P \<Longrightarrow> P (Sql e)"
  by (simp add: quiet_def)

lemma quiet_Sys [intro]: "quiet P \<Longrightarrow> P (Sys e)"
  by (simp add: quiet_def)

lemma emits_sql_calls:
  assumes "quiet P"
  shows "emits P (sql_open E d)" "emits P (sql_ping E d)" "emits P (sql_exec E d s)"
    "emits P (sql_bool E d q)" "emits P (sql_int E d q)" "emits P (sql_string E d q)"
    "emits P (sql_strings E d q)" "emits P (sql_counts E d q)"
  using assms by (auto simp: sql_calls intro!: trace_intros)

lemma emits_sys_calls:
  assumes "quiet P"
  shows "emits P (now E)" "emits P (generate E n m k)" "emits P (applyMetrics E ns nm)" "emits P (pg_dump E a)"
    "emits P (sed E sc f)" "emits P (psql_restore E a)" "emits P (psql_drop_schemas E d)"
    "emits P (map_order E ks)" "emits P (loadDefaultConfig E)" "emits P (buildAuthToken E ep r u)"
  using assms by (auto simp: sys_calls intro!: trace_intros)

lemmas emits_quiet_calls = emits_sql_calls emits_sys_calls

lemma emits_manage_functions: "quiet P \<Longrightarrow> emits P (manage_functions E db v fs)"
  by (induction fs arbitrary: v) (auto intro!: trace_intros emits_quiet_calls split: prod.split)

lemmas dbclient_defs = awsAuthBuilderWithConfig_def awsAuthBuilder_def newPostgresClient_def dbclient_New_def
  Ping_def client_getDB_def createDatabase_def CreateDatabase_def CheckExtension_def
  CreateDefaultExtensions_def CreatePgCronExtension_def CreatePgPartmanExtension_def
  CreateSpecialExtensions_def SchemaExists_def CreateSchema_def ManageSystemFunctions_def
  RoleExists_def createRole_def grantRolePrivileges_def CreateRole_def create_role_with_def
  CreateAdminRole_def CreateRegularRole_def CreateReadOnlyRole_def AssignRoleToUser_def UserExists_def
  DeleteUser_def CreateUser_def RenameUser_def UpdatePassword_def UpdateUser_def ManageCreateRole_def
  ManageSuperUserRole_def ManageReplicationRole_def GetUserRoles_def RevokeAccessToRole_def

lemma emits_specialExtensionsMap: "quiet P \<Longrightarrow> emits P (specialExtensionsMap x E pc d r)"
  by (cases x) (auto simp: dbclient_defs Let_def intro!: trace_intros emits_quiet_calls)

lemma emits_dbclient_databases:
  assumes "quiet P"
  shows "emits P (dbclient_New E dsn)" "emits P (Ping E pc)" "emits P (CreateDatabase E pc d)"
    "emits P (CreateDefaultExtensions E pc d)" "emits P (CreateSpecialExtensions E pc d r)"
    "emits P (SchemaExists E pc sch)" "emits P (CreateSchema E pc sch)" "emits P (ManageSystemFunctions E pc d fs)"
  unfolding dbclient_defs Let_def
  by (rule trace_intros emits_quiet_calls emits_manage_functions emits_specialExtensionsMap assms)+

lemma emits_dbclient_roles:
  assumes "quiet P"
  shows "emits P (RoleExists E pc r)" "emits P (CreateRole E pc d r sch)" "emits P (CreateAdminRole E pc d r sch)"
    "emits P (CreateRegularRole E pc d r sch)" "emits P (CreateReadOnlyRole E pc d r sch)"
    "emits P (AssignRoleToUser E pc u r)" "emits P (GetUserRoles E pc u)" "emits P (RevokeAccessToRole E pc u r)"
  unfolding dbclient_defs Let_def
  by (rule trace_intros emits_quiet_calls emits_manage_functions emits_specialExtensionsMap assms)+

lemma emits_dbclient_users:
  assumes "quiet P"
  shows "emits P (UserExists E pc u)" "emits P (DeleteUser E pc d u v)"
    "emits P (CreateUser E pc u r w)" "emits P (RenameUser E pc u v)" "emits P (UpdatePassword E pc u w)"
    "emits P (UpdateUser E pc u v r w)"
  unfolding dbclient_defs Let_def
  by (rule trace_intros emits_quiet_calls emits_manage_functions emits_specialExtensionsMap assms)+

lemma emits_dbclient_manage:
  assumes "quiet P"
  shows "emits P (ManageCreateRole E pc r b)" "emits P (ManageSuperUserRole E pc u b)" "emits P (ManageReplicationRole E pc u b)"
  unfolding dbclient_defs Let_def
  by (rule trace_intros emits_quiet_calls emits_manage_functions emits_specialExtensionsMap assms)+

lemmas emits_dbclient = emits_dbclient_databases emits_dbclient_roles emits_dbclient_users
  emits_dbclient_manage

section \<open>Connection strings name one connection\<close>

text \<open>How a value is read back: up to the first space that no backslash precedes.\<close>

fun read_value :: "string \<Rightarrow> string \<times> string" where
  "read_value [] = ([], [])"
| "read_value (c # cs) =
     (if c = CHR '' '' then ([], c # cs)
      else if c = CHR 0x5C then
        (case cs of [] \<Rightarrow> ([], []) | d # ds \<Rightarrow> (case read_value ds of (v, rest) \<Rightarrow> (d # v, rest)))
      else (case read_value cs of (v, rest) \<Rightarrow> (c # v, rest)))"

lemma escapeValue_simps [simp]:
  "escapeValue [] = []" "escapeValue (c # cs) = escapeValue_char c @ escapeValue cs"
  by (simp_all add: escapeValue_def)

lemma read_escapeValue: "read_value (escapeValue s @ CHR '' '' # rest) = (s, CHR '' '' # rest)"
  by (induction s) (simp_all add: escapeValue_char_def)

lemma escapeValue_inj:
  "escapeValue s @ CHR '' '' # r = escapeValue t @ CHR '' '' # r' \<longleftrightarrow> s = t \<and> r = r'"
proof
  assume "escapeValue s @ CHR '' '' # r = escapeValue t @ CHR '' '' # r'"
  then have "(s, CHR '' '' # r) = (t, CHR '' '' # r')"
    unfolding read_escapeValue [symmetric] by (rule arg_cong)
  then show "s = t \<and> r = r'" by simp
qed simp

text \<open>
  Connection strings of two connections to the same host never coincide unless user, password,
  database and SSL mode do: no value can be chosen so that it reads as another field.
\<close>

theorem PostgresConnectionString_inj:
  "PostgresConnectionString host port user password dbname sslmode =
     PostgresConnectionString host port user' password' dbname' sslmode' \<longleftrightarrow>
   user = user' \<and> password = password' \<and> dbname = dbname' \<and> sslmode = sslmode'"
  by (simp add: PostgresConnectionString_def escapeValue_inj)

text \<open>The URI of a connection is the one the API type renders.\<close>

lemma PostgresURI_Uri:
  "PostgresURI (ci_Host c) (ci_Port c) (ci_Username c) (ci_Password c) (ci_DatabaseName c) (ci_SSLMode c) =
     Uri (Some c)"
  by (simp add: PostgresURI_def Uri_def)

section \<open>Users and passwords\<close>

text \<open>The password a user has after the statements of a history, as far as they tell: the newest
  statement that succeeded on the pool decides.\<close>

fun password_of :: "string \<Rightarrow> string \<Rightarrow> history \<Rightarrow> string option" where
  "password_of db u [] = None"
| "password_of db u (Sql (EvExec db' q None) # h) =
     (if db' \<noteq> db then password_of db u h
      else case q of
        ALTER_PASSWORD u' w \<Rightarrow> if u' = u then Some w else password_of db u h
      | CREATE_ROLE_LOGIN u' w _ \<Rightarrow> if u' = u then Some w else password_of db u h
      | CREATE_USER u' w \<Rightarrow> if u' = u then Some w else password_of db u h
      | RENAME_USER u1 u2 \<Rightarrow> if u = u2 then password_of db u1 h else if u = u1 then None else password_of db u h
      | DROP_USER u' _ _ \<Rightarrow> if u' = u then None else password_of db u h
      | _ \<Rightarrow> password_of db u h)"
| "password_of db u (_ # h) = password_of db u h"

text \<open>Calls that do not touch the password of a user.\<close>

definition keeps_password :: "string \<Rightarrow> event \<Rightarrow> bool" where
  "keeps_password u e \<longleftrightarrow> (\<forall>db h. password_of db u (e # h) = password_of db u h)"

lemma keeps_password_other [simp]:
  "keeps_password u (Sys e)" "keeps_password u (K8s k)" "keeps_password u (Aws a)" "keeps_password u (Gcp g)"
  "keeps_password u (Sql (EvOpen d r1))" "keeps_password u (Sql (EvPing d r1))"
  "keeps_password u (Sql (EvQueryBool d q r2))" "keeps_password u (Sql (EvQueryInt d q r3))"
  "keeps_password u (Sql (EvQueryString d q r4))" "keeps_password u (Sql (EvQueryStrings d q r5))"
  "keeps_password u (Sql (EvQueryCounts d q r6))" "keeps_password u (Sql (EvExec d s (Some e')))"
  by (simp_all add: keeps_password_def)

lemma keeps_password_exec [simp]:
  "u1 \<noteq> u \<Longrightarrow> u2 \<noteq> u \<Longrightarrow> keeps_password u (Sql (EvExec d (RENAME_USER u1 u2) r))"
  "u1 \<noteq> u \<Longrightarrow> keeps_password u (Sql (EvExec d (ALTER_PASSWORD u1 w) r))"
  "keeps_password u (Sql (EvExec d (SET_AND_GRANT_ROLE u1 r1) r))"
  "keeps_password u (Sql (EvExec d (GRANT_ROLE r1 u1) r))"
  "keeps_password u (Sql (EvExec d (REVOKE_ROLE r1 u1) r))"
  "keeps_password u (Sql (EvExec d (ALTER_CREATEROLE r1 b) r))"
  "keeps_password u (Sql (EvExec d (ALTER_REPLICATION r1 b) r))"
  by (cases r; simp add: keeps_password_def)+

lemma emits_keeps_password:
  assumes "emits (keeps_password u) m" and "m h = (r, h')"
  shows "password_of db u h' = password_of db u h"
proof -
  have "password_of db u (es @ h) = password_of db u h" if "\<And>e. e \<in> set es \<Longrightarrow> keeps_password u e" for es
    using that by (induction es) (simp_all add: keeps_password_def)
  then show ?thesis using emits_run [OF assms] by metis
qed

text \<open>Whether a user was made a member of a role and is one still.\<close>

fun member_of :: "string \<Rightarrow> string \<Rightarrow> string \<Rightarrow> history \<Rightarrow> bool" where
  "member_of db u r [] = False"
| "member_of db u r (Sql (EvExec db' q None) # h) =
     (if db' \<noteq> db then member_of db u r h
      else case q of
        SET_AND_GRANT_ROLE u' r' \<Rightarrow> u' = u \<and> r' = r \<or> member_of db u r h
      | CREATE_ROLE_LOGIN u' _ r' \<Rightarrow> u' = u \<and> r' = r \<or> member_of db u r h
      | GRANT_ROLE r' u' \<Rightarrow> u' = u \<and> r' = r \<or> member_of db u r h
      | REVOKE_ROLE r' u' \<Rightarrow> (u' \<noteq> u \<or> r' \<noteq> r) \<and> member_of db u r h
      | RENAME_USER u1 u2 \<Rightarrow> member_of db (if u = u2 then u1 else u) (if r = u2 then u1 else r) h
      | DROP_USER u' _ _ \<Rightarrow> u' \<noteq> u \<and> u' \<noteq> r \<and> member_of db u r h
      | _ \<Rightarrow> member_of db u r h)"
| "member_of db u r (_ # h) = member_of db u r h"

lemma UpdateUser_ok:
  assumes "UpdateUser E pc old new role pw h = (Ret None, h')"
  shows "h' = Sql (EvQueryBool (pc_DB pc) (Q_RoleExists old) (Inr False)) # h \<or>
    password_of (pc_DB pc) new h' = Some pw \<and> pw \<noteq> [] \<and> member_of (pc_DB pc) new role h'"
  using assms
  by (auto simp: UpdateUser_def RenameUser_def AssignRoleToUser_def UpdatePassword_def sql_calls prog_simps
      split: sum.splits option.splits if_splits)

text \<open>
  C21: \<^verbatim>\<open>UpdateUser\<close> does what it says or says that it failed. When it answers no error, the old user
  did not exist and nothing was changed, or the new user has the given password, which is not
  empty, and belongs to the role.
\<close>

theorem UpdateUser_sets_password:
  assumes "UpdateUser E pc old new role pw h = (Ret None, h')"
  shows "h' = Sql (EvQueryBool (pc_DB pc) (Q_RoleExists old) (Inr False)) # h \<or>
    password_of (pc_DB pc) new h' = Some pw \<and> pw \<noteq> [] \<and> member_of (pc_DB pc) new role h'"
  using assms by (rule UpdateUser_ok)

theorem UpdateUser_sets_password_witness:
  "\<exists>h'. UpdateUser sample_env \<lparr>pc_cloud = ''aws'', pc_dbType = ''postgres'', pc_dbURL = [], pc_DB = ''db'',
       pc_adminDB = ''admin''\<rparr> ''old_a'' ''app_a'' ''app'' ''pw'' [] = (Ret None, h') \<and>
     password_of ''db'' ''app_a'' h' = Some ''pw''"
proof -
  let ?pc = "\<lparr>pc_cloud = ''aws'', pc_dbType = ''postgres'', pc_dbURL = [], pc_DB = ''db'', pc_adminDB = ''admin''\<rparr>"
  let ?run = "UpdateUser sample_env ?pc ''old_a'' ''app_a'' ''app'' ''pw'' []"
  have "fst ?run = Ret None" "hd (snd ?run) = Sql (EvExec ''db'' (ALTER_PASSWORD ''app_a'' ''pw'') None)"
    by (simp_all add: UpdateUser_def RenameUser_def AssignRoleToUser_def UpdatePassword_def sql_calls
        prog_simps sample_defs)
  moreover from this(1) have run: "?run = (Ret None, snd ?run)" by (metis prod.collapse)
  ultimately have "snd ?run \<noteq> [Sql (EvQueryBool ''db'' (Q_RoleExists ''old_a'') (Inr False))]" by auto
  with UpdateUser_sets_password [OF run] have "password_of ''db'' ''app_a'' (snd ?run) = Some ''pw''" by simp
  with run show ?thesis by blast
qed

lemma CreateUser_password:
  assumes "CreateUser E pc u r w h = (Ret (c, None), h')"
    and "UpdatePassword E pc u w h' = (Ret None, h'')"
  shows "password_of (pc_DB pc) u h'' = Some w \<and> w \<noteq> []"
  using assms(2) by (auto simp: UpdatePassword_def sql_calls prog_simps split: if_splits)

text \<open>
  A system function that is missing can be skipped. Where two functions in a row are to have the
  same value, the first has it and the database answers that the second does not exist, no statement
  creates the second one and no error is reported.
\<close>

theorem ManageSystemFunctions_stale_value:
  fixes E db h schema schema' g g' v e
  defines "q1 \<equiv> Sql (EvQueryString db (Q_FunctionValue schema g) (Inr v))"
    and "q2 \<equiv> Sql (EvQueryString db (Q_FunctionValue schema' g') (Inl e))"
  assumes "split_function f = (schema, g)" and "split_function f' = (schema', g')"
    and "e_QueryString (e_sql E) h db (Q_FunctionValue schema g) = Inr v"
    and "e_QueryString (e_sql E) (q1 # h) db (Q_FunctionValue schema' g') = Inl e"
    and "Contains (ErrorText e) ''does not exist''"
  shows "manage_functions E db currVal [(f, v), (f', v)] h = (Ret None, q2 # q1 # h)"
  using assms by (simp add: sql_calls prog_simps)

theorem ManageSystemFunctions_stale_value_witness:
  "manage_functions (sample_env\<lparr>e_sql := sample_sql\<lparr>e_QueryString := \<lambda>h d q.
       (if q = Q_FunctionValue ''ib'' ''lifecycle'' then Inr ''dev'' else Inl (ErrMsg ''function does not exist''))\<rparr>\<rparr>)
     ''db'' [] [(''ib_lifecycle'', ''dev''), (''ib_env'', ''dev'')] [] =
   (Ret None, [Sql (EvQueryString ''db'' (Q_FunctionValue ''ib'' ''env'') (Inl (ErrMsg ''function does not exist''))),
     Sql (EvQueryString ''db'' (Q_FunctionValue ''ib'' ''lifecycle'') (Inr ''dev''))])"
  by (rule ManageSystemFunctions_stale_value) (simp_all add: split_function_def sample_defs HasPrefix_def)

end
