(* ===== verification/Auth.thy ===== *)
theory Auth
  imports Dbclient Hostparams
begin

text \<open>
  Where credentials come from: the secrets that Crossplane and the controller write
  (\<^verbatim>\<open>pkg/kctlutils\<close>), the source a claim names (\<^verbatim>\<open>pkg/auth\<close>), and the check that a user can log in
  (\<^verbatim>\<open>pkg/databaseclaim/creds.go\<close>).
\<close>

section \<open>Secrets with connection information\<close>

definition GetMasterCredsDeprecated ::
  "env \<Rightarrow> string \<Rightarrow> string \<Rightarrow> string \<Rightarrow> string \<Rightarrow> (goerror + ConnInfo) go_prog" where
  "GetMasterCredsDeprecated E serviceNS secretName databaseName sslMode =
     (if databaseName = [] then ret (Inl (ErrMsg ''database name is required''))
      else if serviceNS = [] then ret (Inl (ErrMsg ''service namespace is required''))
      else attempt (getSecret E serviceNS secretName) (\<lambda>rs.
        let connInfo = \<lparr>ci_Host = data_get rs ''endpoint'', ci_Port = data_get rs ''port'',
              ci_DatabaseName = databaseName, ci_Username = data_get rs ''username'',
              ci_Password = data_get rs ''password'', ci_SSLMode = sslMode\<rparr>
        in if ci_Host connInfo = [] \<or> ci_Port connInfo = [] \<or> ci_Username connInfo = [] \<or> ci_Password connInfo = []
           then ret (Inl (ErrMsg ''generated secret is incomplete'')) else ret (Inr connInfo)))"

definition GetMasterDSN :: "env \<Rightarrow> string \<Rightarrow> string \<Rightarrow> string \<Rightarrow> string \<Rightarrow> (goerror + string) go_prog" where
  "GetMasterDSN E serviceNS secretName databaseName sslMode =
     attempt (GetMasterCredsDeprecated E serviceNS secretName databaseName sslMode)
       (\<lambda>info. ret (Inr (Uri (Some info))))"

definition GetConnSecret :: "env \<Rightarrow> DatabaseClaim \<Rightarrow> (goerror + ConnInfo) go_prog" where
  "GetConnSecret E dbClaim =
     attempt (getSecret E (dc_Namespace dbClaim) (spec_SecretName (dc_Spec dbClaim))) (\<lambda>rs.
       let connInfo = \<lparr>ci_Host = data_get rs ''hostname'', ci_Port = data_get rs ''port'',
             ci_DatabaseName = data_get rs ''database'', ci_Username = data_get rs ''username'',
             ci_Password = data_get rs ''password'', ci_SSLMode = data_get rs ''sslmode''\<rparr>
       in if ci_DatabaseName connInfo = [] \<or> ci_Host connInfo = [] \<or> ci_Port connInfo = [] \<or>
             ci_Username connInfo = [] \<or> ci_Password connInfo = []
          then ret (Inl (ErrMsg ''generated secret is incomplete'')) else ret (Inr connInfo))"

definition GetConnDSN :: "env \<Rightarrow> DatabaseClaim \<Rightarrow> (goerror + string) go_prog" where
  "GetConnDSN E dbClaim = attempt (GetConnSecret E dbClaim) (\<lambda>connInfo. ret (Inr (Uri (Some connInfo))))"

section \<open>The source of a claim\<close>

definition UpdateDSNWithPassword :: "string \<Rightarrow> string \<Rightarrow> goerror + string" where
  "UpdateDSNWithPassword dsn password = (case Parse dsn of
     Inl e \<Rightarrow> Inl (UrlError e)
   | Inr u \<Rightarrow> Inr (url_String (u\<lparr>User := Some (Username (User u), Some password)\<rparr>)))"

definition data_lookup :: "Secret \<Rightarrow> string \<Rightarrow> string option" where
  "data_lookup s k = (case sec_Data s of None \<Rightarrow> None | Some d \<Rightarrow> d k)"

text \<open>The DSN of a secret if it parses, otherwise the DSN of the claim with the secret's password;
  \<open>dsn\<close> is the claim's \<^verbatim>\<open>SourceDataFrom.Database.DSN\<close>.\<close>

definition parseExistingDSN :: "Secret \<Rightarrow> DatabaseClaim \<Rightarrow> string \<Rightarrow> goerror + ConnInfo" where
  "parseExistingDSN secret dbClaim dsn =
     (case (case data_lookup secret DSNURIKey of None \<Rightarrow> None
            | Some bsDSN \<Rightarrow> (case ParseUri bsDSN of Inl _ \<Rightarrow> None | Inr uriDSN \<Rightarrow> Some uriDSN)) of
        Some uriDSN \<Rightarrow> Inr uriDSN
      | None \<Rightarrow>
          (case ParseUri dsn of
             Inl e \<Rightarrow> Inl (Wrapped ''unable_read_dsn: '' e [])
           | Inr connInfo0 \<Rightarrow>
               (let connInfo = (if ci_Username connInfo0 = []
                      then connInfo0\<lparr>ci_Username := spec_Username (dc_Spec dbClaim)\<rparr> else connInfo0)
                in if ci_Password connInfo = [] then
                     (case data_lookup secret ''password'' of
                        None \<Rightarrow> Inl (Sentinel ErrInvalidCredentialsPasswordMissing)
                      | Some password \<Rightarrow> Inr (connInfo\<lparr>ci_Password := password\<rparr>))
                   else Inr connInfo)))"

definition getSourceDataFromSecretRef :: "env \<Rightarrow> DatabaseClaim \<Rightarrow> Database \<Rightarrow> (goerror + ConnInfo) go_prog" where
  "getSourceDataFromSecretRef E dbClaim db = (case db_SecretRef db of
     None \<Rightarrow> panic
   | Some sr \<Rightarrow>
       attempt (getSecret E (if sr_Namespace sr = [] then dc_Namespace dbClaim else sr_Namespace sr) (sr_Name sr))
         (\<lambda>secret. ret (parseExistingDSN secret dbClaim (db_DSN db))))"

text \<open>Whether the DSN parses to a URL with a password.\<close>

definition dsn_has_password :: "string \<Rightarrow> bool" where
  "dsn_has_password dsn = (case Parse dsn of Inl _ \<Rightarrow> False | Inr u \<Rightarrow> snd (Password (User u)))"

definition fetchAdminFromSourceDataFrom :: "env \<Rightarrow> DatabaseClaim \<Rightarrow> (goerror + string) go_prog" where
  "fetchAdminFromSourceDataFrom E dbClaim = (case spec_SourceDataFrom (dc_Spec dbClaim) of
     None \<Rightarrow> ret (Inr [])
   | Some sdf \<Rightarrow> (case sdf_Database sdf of
       None \<Rightarrow> panic
     | Some db \<Rightarrow>
         (let srcAdmin = db_DSN db; err = (case Parse srcAdmin of Inl _ \<Rightarrow> True | Inr _ \<Rightarrow> False)
          in if err \<or> dsn_has_password srcAdmin \<or> srcAdmin = []
             then attempt (getSourceDataFromSecretRef E dbClaim db) (\<lambda>info. ret (Inr (Uri (Some info))))
             else ret (Inr srcAdmin))))"

definition GetSourceDataFromDSN :: "env \<Rightarrow> DatabaseClaim \<Rightarrow> (goerror + string) go_prog" where
  "GetSourceDataFromDSN = fetchAdminFromSourceDataFrom"

definition fetchAdminFromActiveDB :: "env \<Rightarrow> DatabaseClaim \<Rightarrow> string \<Rightarrow> (goerror + string) go_prog" where
  "fetchAdminFromActiveDB E dbClaim serviceNS = (case st_ConnectionInfo (dc_ActiveDB dbClaim) of
     Some ci \<Rightarrow>
       if Uri (Some ci) \<noteq> [] then
         attempt (GetMasterCredsDeprecated E serviceNS (fst (Cut (ci_Host ci) (CHR ''.'')))
             (spec_DatabaseName (dc_Spec dbClaim)) (ci_SSLMode ci))
           (\<lambda>connInfo. ret (Inr (Uri (Some connInfo))))
       else ret (Inl (ErrMsg ''unable to fetch source admin''))
   | None \<Rightarrow> ret (Inl (ErrMsg ''unable to fetch source admin'')))"

record Creds =
  cr_SourceDSN :: string
  cr_TargetDSN :: string
  cr_SourceUser :: string
  cr_TargetUser :: string

definition PopulateCreds :: "env \<Rightarrow> DatabaseClaim \<Rightarrow> string \<Rightarrow> (goerror + Creds) go_prog" where
  "PopulateCreds E dbClaim serviceNS =
     attempt (getSecret E (dc_Namespace dbClaim) (spec_SecretName (dc_Spec dbClaim))) (\<lambda>_.
       bnd (fetchAdminFromSourceDataFrom E dbClaim) (\<lambda>r.
         attempt (case r of Inr srcAdmin \<Rightarrow> ret (Inr srcAdmin)
                  | Inl _ \<Rightarrow> fetchAdminFromActiveDB E dbClaim serviceNS) (\<lambda>srcAdmin.
           ret (Inr \<lparr>cr_SourceDSN = srcAdmin, cr_TargetDSN = [], cr_SourceUser = [], cr_TargetUser = []\<rparr>))))"

section \<open>Checking that a user can log in\<close>

definition validateAndUpdateCreds :: "env \<Rightarrow> client \<Rightarrow> string \<Rightarrow> goerror option go_prog" where
  "validateAndUpdateCreds E cli currentConnDSN =
     (if currentConnDSN = [] then ret None
      else bnd (Ping E cli) (\<lambda>r. case r of
        Some e \<Rightarrow> ret (Some (Wrapped ''unable_connect: '' e []))
      | None \<Rightarrow>
          bnd (dbclient_New E currentConnDSN) (\<lambda>cr. case cr of
            Inl e \<Rightarrow> ret (Some (Wrapped ''unable_create_dbclient: '' e []))
          | Inr curCli \<Rightarrow>
              bnd (sql_ping E (pc_DB curCli)) (\<lambda>pr. case pr of
                None \<Rightarrow> ret None
              | Some _ \<Rightarrow>
                  (case Parse currentConnDSN of
                     Inl e \<Rightarrow> ret (Some (UrlError e))
                   | Inr parsedDSN \<Rightarrow>
                       (case Password (User parsedDSN) of (pw, ok) \<Rightarrow>
                          if \<not> ok \<or> pw = [] then ret (Some (ErrMsg ''password unavailable to update''))
                          else check_err (UpdatePassword E cli (Username (User parsedDSN)) pw)
                            (bnd (sql_ping E (pc_DB curCli)) (\<lambda>pr2. case pr2 of
                               None \<Rightarrow> ret None
                             | Some e \<Rightarrow> ret (Some (Wrapped ''failed_to_ping_after_update: '' e [])))))))))) "

definition validateAndUpdateCredsDSN :: "env \<Rightarrow> string \<Rightarrow> string \<Rightarrow> goerror option go_prog" where
  "validateAndUpdateCredsDSN E adminDSN userDSN =
     attempt_err (dbclient_New E adminDSN) (\<lambda>dbClient. validateAndUpdateCreds E dbClient userDSN)"

section \<open>Properties\<close>

text \<open>Reading credentials changes nothing: the calls are lookups of secrets.\<close>

lemma emits_GetMasterCreds:
  "(\<And>ns n r. P (K8s (EvGetSecret ns n r))) \<Longrightarrow> emits P (GetMasterCredsDeprecated E sns sn d ssl)"
  unfolding GetMasterCredsDeprecated_def Let_def k8s_calls by (intro trace_intros) auto

lemma emits_fetchAdmin:
  assumes "\<And>ns n r. P (K8s (EvGetSecret ns n r))"
  shows "emits P (fetchAdminFromSourceDataFrom E c)"
  unfolding fetchAdminFromSourceDataFrom_def getSourceDataFromSecretRef_def Let_def k8s_calls
  by (intro trace_intros assms)

lemma emits_PopulateCreds:
  assumes "\<And>ns n r. P (K8s (EvGetSecret ns n r))"
  shows "emits P (PopulateCreds E c sns)"
  unfolding PopulateCreds_def fetchAdminFromActiveDB_def
  by (intro trace_intros assms emits_fetchAdmin emits_GetMasterCreds) (simp add: k8s_calls trace_intros assms)

lemma emits_validateAndUpdateCredsDSN: "quiet P \<Longrightarrow> emits P (validateAndUpdateCredsDSN E a u)"
  unfolding validateAndUpdateCredsDSN_def validateAndUpdateCreds_def
  by (intro trace_intros emits_dbclient emits_quiet_calls)

text \<open>
  Where the administrator's connection string of a source comes from. A source whose DSN parses and has
  a password is looked up in the referenced secret (whose own DSN wins, the claim's DSN being the fall
  back of \<^verbatim>\<open>parseExistingDSN\<close>), and where the claim references none the controller panics; a source DSN that
  parses and has no password is taken as it is, without a look at the secret.
\<close>

lemma source_with_password_panics:
  assumes "spec_SourceDataFrom (dc_Spec c) = Some sdf" and "sdf_Database sdf = Some db"
    and "dsn_has_password (db_DSN db)" and "db_SecretRef db = None"
  shows "GetSourceDataFromDSN E c = panic"
  using assms
  by (simp add: GetSourceDataFromDSN_def fetchAdminFromSourceDataFrom_def getSourceDataFromSecretRef_def fun_eq_iff prog_simps)

lemma source_without_password:
  assumes "spec_SourceDataFrom (dc_Spec c) = Some sdf" and "sdf_Database sdf = Some db"
    and "Parse (db_DSN db) = Inr u" and "\<not> snd (Password (User u))" and "db_DSN db \<noteq> []"
  shows "GetSourceDataFromDSN E c = ret (Inr (db_DSN db))"
  using assms
  by (simp add: GetSourceDataFromDSN_def fetchAdminFromSourceDataFrom_def dsn_has_password_def)

text \<open>An admin connection for concrete runs.\<close>

definition sample_dsn :: string where
  "sample_dsn = Uri (Some \<lparr>ci_Host = ''h'', ci_Port = ''1'', ci_DatabaseName = ''d'', ci_Username = ''u'',
     ci_Password = ''p'', ci_SSLMode = ''require''\<rparr>)"

lemma Parse_sample_dsn: "Parse sample_dsn = Inr (postgres_url ''u'' ''p'' ''h'' ''1'' ''d'' ''require'')"
  unfolding sample_dsn_def
  by (subst Parse_Uri) (simp_all add: uri_safe_def plain_char_def is_alnum_def is_digit_def)

lemma dbclient_New_DB:
  assumes "dbclient_New E dsn h = (Ret (Inr pc), h')"
  shows "pc_DB pc = dsn" and "pc_dbURL pc = dsn"
  using assms
  by (auto simp: dbclient_New_def newPostgresClient_def Let_def sql_calls prog_simps
      split: sum.splits option.splits if_splits)

lemma dbclient_New_no_exec: "emits (\<lambda>e. \<forall>d q r. e \<noteq> Sql (EvExec d q r)) (dbclient_New E dsn)"
  unfolding dbclient_New_def newPostgresClient_def awsAuthBuilder_def awsAuthBuilderWithConfig_def Let_def
    sql_calls sys_calls
  by (intro trace_intros) simp_all

text \<open>
  C20: credentials pass validation only by a login. When the check of a user's connection string
  succeeds, its last call is a connection with that very string that succeeded, and the only
  statement it may have run is the one that gives the user of the string the password of the
  string.
\<close>

theorem validated_creds_log_in:
  assumes "validateAndUpdateCredsDSN E adminDSN userDSN h = (Ret None, h')" and "userDSN \<noteq> []"
  shows "\<exists>es. h' = Sql (EvPing userDSN None) # es @ h \<and>
    (\<forall>d q r. Sql (EvExec d q r) \<in> set es \<longrightarrow> d = adminDSN \<and>
       (\<exists>u. Parse userDSN = Inr u \<and> q = ALTER_PASSWORD (Username (User u)) (fst (Password (User u)))))"
proof -
  from assms(1) obtain pc h1 where new: "dbclient_New E adminDSN h = (Ret (Inr pc), h1)"
    and run: "validateAndUpdateCreds E pc userDSN h1 = (Ret None, h')"
    by (auto simp: validateAndUpdateCredsDSN_def prog_simps split: prod.splits go.splits sum.splits)
  note db = dbclient_New_DB [OF new]
  from emits_run [OF dbclient_New_no_exec new] obtain es1 where
    es1: "h1 = es1 @ h" "\<And>d q r. Sql (EvExec d q r) \<notin> set es1" by metis
  let ?h = "Sql (EvPing adminDSN None) # h1"
  from run assms(2) obtain cur h2 where cur: "dbclient_New E userDSN ?h = (Ret (Inr cur), h2)"
    by (auto simp: validateAndUpdateCreds_def Ping_def prog_simps sql_calls db
        split: prod.splits go.splits sum.splits option.splits)
  from emits_run [OF dbclient_New_no_exec cur] obtain es2 where
    es2: "h2 = es2 @ ?h" "\<And>d q r. Sql (EvExec d q r) \<notin> set es2" by metis
  from run assms(2) have "h' = Sql (EvPing userDSN None) # h2 \<or>
      (\<exists>e u. Parse userDSN = Inr u \<and> h' = Sql (EvPing userDSN None) #
         Sql (EvExec adminDSN (ALTER_PASSWORD (Username (User u)) (fst (Password (User u)))) None) #
         Sql (EvPing userDSN (Some e)) # h2)"
    using dbclient_New_DB [OF cur]
    by (auto simp: validateAndUpdateCreds_def Ping_def UpdatePassword_def prog_simps sql_calls db cur
        split: option.splits sum.splits if_splits prod.splits)
  then show ?thesis
  proof (elim disjE exE conjE)
    assume "h' = Sql (EvPing userDSN None) # h2"
    then show ?thesis using es1 es2 by (intro exI [of _ "es2 @ Sql (EvPing adminDSN None) # es1"]) auto
  next
    fix e and u :: url
    let ?q = "ALTER_PASSWORD (Username (User u)) (fst (Password (User u)))"
    assume "Parse userDSN = Inr u" "h' = Sql (EvPing userDSN None) # Sql (EvExec adminDSN ?q None) #
       Sql (EvPing userDSN (Some e)) # h2"
    then show ?thesis using es1 es2
      by (intro exI [of _ "Sql (EvExec adminDSN ?q None) # Sql (EvPing userDSN (Some e)) # es2 @
            Sql (EvPing adminDSN None) # es1"]) auto
  qed
qed

theorem validated_creds_log_in_witness:
  "\<exists>h'. validateAndUpdateCredsDSN sample_env sample_dsn sample_dsn [] = (Ret None, h') \<and>
     hd h' = Sql (EvPing sample_dsn None)"
proof -
  have "fst (validateAndUpdateCredsDSN sample_env sample_dsn sample_dsn []) = Ret None"
    by (simp add: validateAndUpdateCredsDSN_def validateAndUpdateCreds_def dbclient_New_def newPostgresClient_def
        Ping_def Let_def sql_calls prog_simps sample_defs Parse_sample_dsn)
  then obtain h' where run: "validateAndUpdateCredsDSN sample_env sample_dsn sample_dsn [] = (Ret None, h')"
    by (metis prod.collapse)
  moreover have "sample_dsn \<noteq> []" by (simp add: sample_dsn_def Uri_def)
  ultimately show ?thesis using validated_creds_log_in [OF run] by auto
qed

end
