(* ===== verification/Resources.thy ===== *)
theory Resources
  imports Claimstatus Auth "HOL-Library.Multiset"
begin

text \<open>
  What the cloud providers share (parts of \<^verbatim>\<open>databaseclaim.go\<close> and \<^verbatim>\<open>awsprovider.go\<close>, with
  \<^verbatim>\<open>labels.go\<close> and \<^verbatim>\<open>conversion.go\<close>): the configuration of the reconciler, tags and labels of cloud
  resources, the backup policy, and when a resource is ready.
\<close>

section \<open>Configuration\<close>

record DatabaseClaimConfig =
  cfg_Viper :: viper
  cfg_Class :: string
  cfg_Namespace :: string
  cfg_MetricsEnabled :: bool
  cfg_MetricsDepYamlPath :: string
  cfg_MetricsConfigYamlPath :: string

text \<open>The reconciler: its configuration and what is derived from it once, when the reconciler is made,
  namely the namespace that the client of \<^verbatim>\<open>kctlutils\<close> looks secrets up in (from the configuration file,
  unlike \<open>cfg_Namespace\<close>) and the status manager. The configuration file is watched, so \<open>cfg_Viper\<close> may change
  under a reconciler, the derived values do not.\<close>

record DatabaseClaimReconciler = DatabaseClaimConfig +
  rec_serviceNS :: string
  rec_statusManager :: StatusManager

definition databaseclaim_New :: "DatabaseClaimConfig \<Rightarrow> DatabaseClaimReconciler" where
  "databaseclaim_New cfg =
     \<lparr>cfg_Viper = cfg_Viper cfg, cfg_Class = cfg_Class cfg, cfg_Namespace = cfg_Namespace cfg,
      cfg_MetricsEnabled = cfg_MetricsEnabled cfg, cfg_MetricsDepYamlPath = cfg_MetricsDepYamlPath cfg,
      cfg_MetricsConfigYamlPath = cfg_MetricsConfigYamlPath cfg, rec_serviceNS = GetString (cfg_Viper cfg) ''SERVICE_NAMESPACE'',
      rec_statusManager = NewStatusManager (cfg_Viper cfg)\<rparr>"

definition getServiceNamespace :: "DatabaseClaimReconciler \<Rightarrow> goerror + string" where
  "getServiceNamespace r =
     (if cfg_Namespace r = [] then Inl (ErrMsg ''service namespace env SERVICE_NAMESPACE must be set'')
      else Inr (cfg_Namespace r))"

section \<open>Labels and tags\<close>

definition propagateLabels :: "(string \<times> string) list \<Rightarrow> (string \<times> string) list" where
  "propagateLabels dbClaimLabels =
     concat (map (\<lambda>key. case map_of dbClaimLabels key of None \<Rightarrow> [] | Some v \<Rightarrow> [(key, v)])
       [''app.kubernetes.io/component'', ''app.kubernetes.io/instance'', ''app.kubernetes.io/name''])"

text \<open>\<^verbatim>\<open>DBTags\<close> sorts the tags of the claim in place and copies them. The sort of the model is stable; \<^verbatim>\<open>sort.Sort\<close>
  is so up to twelve elements, which it sorts by insertion. For a longer list that has two tags with the
  same key the order of these two is left open by Go, so there the model is one of the possible results; with
  distinct keys, as AWS demands of tags, there is only one.\<close>

definition DBTags :: "Tag list \<Rightarrow> Tag list" where
  "DBTags tags = sort_key tag_Key tags"

abbreviation OperationalStatusTagKey :: string where "OperationalStatusTagKey \<equiv> ''operational-status''"
abbreviation OperationalStatusInactiveValue :: string where "OperationalStatusInactiveValue \<equiv> ''inactive''"
abbreviation OperationalStatusActiveValue :: string where "OperationalStatusActiveValue \<equiv> ''active''"

fun ReplaceOrAddTag :: "Tag list \<Rightarrow> string \<Rightarrow> string \<Rightarrow> Tag list" where
  "ReplaceOrAddTag [] key value = [\<lparr>tag_Key = key, tag_Value = value\<rparr>]"
| "ReplaceOrAddTag (tag # tags) key value =
     (if tag_Key tag = key
      then (if tag_Value tag \<noteq> value then tag\<lparr>tag_Value := value\<rparr> # tags else tag # tags)
      else tag # ReplaceOrAddTag tags key value)"

definition HasOperationalTag :: "Tag list \<Rightarrow> bool" where
  "HasOperationalTag tags = list_ex (\<lambda>tag. tag_Key tag = OperationalStatusTagKey \<and>
     tag_Value tag = OperationalStatusInactiveValue) tags"

abbreviation defaultBackupPolicyKey :: string where "defaultBackupPolicyKey \<equiv> ''Backup''"

text \<open>The loop variable is a copy: what is assigned to it does not reach the tags.\<close>

definition configureBackupPolicy :: "viper \<Rightarrow> string \<Rightarrow> Tag list \<Rightarrow> Tag list" where
  "configureBackupPolicy v backupPolicy tags =
     (if list_ex (\<lambda>tag. tag_Key tag = defaultBackupPolicyKey) tags then tags
      else tags @ [\<lparr>tag_Key = defaultBackupPolicyKey,
        tag_Value = (if backupPolicy = [] then GetDefaultBackupPolicy v else backupPolicy)\<rparr>])"

section \<open>Ready resources\<close>

fun version_word :: "string list \<Rightarrow> string go" where
  "version_word [] = Ret []"
| "version_word [word] = (if word = ''version'' then Panic else Ret [])"
| "version_word (word # next # rest) =
     (if word = ''version'' then Ret next else version_word (next # rest))"

definition extractVersion :: "string \<Rightarrow> string go" where
  "extractVersion message = version_word (Split message (CHR '' ''))"

fun isResourceReady :: "ResourceCondition list \<Rightarrow> (goerror + bool) go" where
  "isResourceReady [] = Ret (Inr False)"
| "isResourceReady (condition # rest) =
     (if xc_Type condition = ''Ready'' \<and> xc_Status condition = ''True'' then Ret (Inr True)
      else if xc_Reason condition = ''ReconcileError'' then
        (if Contains (xc_Message condition) ''InvalidParameterCombination: Cannot find version''
         then (case extractVersion (xc_Message condition) of
                 Panic \<Rightarrow> Panic
               | Ret ver \<Rightarrow> Ret (Inl (Wrapped [] (Sentinel ErrInvalidDBVersion) ('': requested version '' @ ver))))
         else Ret (Inl (ErrMsg (''resource is not ready: '' @ xc_Message condition))))
      else isResourceReady rest)"

text \<open>The method of the same name adds the type and the name of the resource.\<close>

definition resource_ready :: "string \<Rightarrow> string \<Rightarrow> ResourceCondition list \<Rightarrow> (goerror + bool) go" where
  "resource_ready typ name conds = (case isResourceReady conds of
     Panic \<Rightarrow> Panic
   | Ret (Inl e) \<Rightarrow> Ret (Inl (Wrapped (typ @ '' '' @ name @ '': '') e []))
   | Ret (Inr ok) \<Rightarrow> Ret (Inr ok))"

definition of_go :: "'a go \<Rightarrow> ('e, 'a) prog" where
  "of_go r = (case r of Ret x \<Rightarrow> ret x | Panic \<Rightarrow> panic)"

section \<open>Steps that carry the claim\<close>

text \<open>The providers change the tags of the claim in memory, also where they fail: their steps answer
  the claim beside the result. \<open>on_err c m f\<close> runs a call that does not touch the claim.\<close>

definition on_err :: "'c \<Rightarrow> ('e, 'err + 'a) prog \<Rightarrow> ('a \<Rightarrow> ('e, 'c \<times> ('err + 'b)) prog) \<Rightarrow> ('e, 'c \<times> ('err + 'b)) prog" where
  "on_err c m f = bnd m (\<lambda>r. case r of Inl e \<Rightarrow> ret (c, Inl e) | Inr x \<Rightarrow> f x)"

definition step :: "('e, 'c \<times> ('err + 'a)) prog \<Rightarrow> ('c \<Rightarrow> 'a \<Rightarrow> ('e, 'c \<times> ('err + 'b)) prog) \<Rightarrow>
  ('e, 'c \<times> ('err + 'b)) prog" where
  "step m f = bnd m (\<lambda>(c, r). case r of Inl e \<Rightarrow> ret (c, Inl e) | Inr x \<Rightarrow> f c x)"

lemmas [prog_simps] = on_err_def step_def

lemma emits_on_err [trace_intros]: "emits P m \<Longrightarrow> (\<And>x. emits P (f x)) \<Longrightarrow> emits P (on_err c m f)"
  unfolding on_err_def by (intro trace_intros)

lemma emits_step [trace_intros]: "emits P m \<Longrightarrow> (\<And>c x. emits P (g c x)) \<Longrightarrow> emits P (step m g)"
  unfolding step_def by (intro trace_intros)

lemma emits_of_go [trace_intros]: "emits P (of_go r)"
  unfolding of_go_def by (cases r) (simp_all add: trace_intros)

text \<open>A step whose claim is known to satisfy \<open>Q\<close>.\<close>

lemma emits_step_returns:
  assumes m: "emits P m" and Q: "returns (\<lambda>cr. Q (fst cr)) m" and g: "\<And>c x. Q c \<Longrightarrow> emits P (g c x)"
  shows "emits P (step m g)"
  unfolding emits_def
proof
  fix h
  obtain r h1 where run: "m h = (r, h1)" by (cases "m h")
  from m have "\<exists>es. snd (m h) = es @ h \<and> list_all P es" by (simp add: emits_def)
  with run obtain es where es: "h1 = es @ h" "list_all P es" by auto
  show "\<exists>es. snd (step m g h) = es @ h \<and> list_all P es"
  proof (cases r)
    case Panic
    with run es show ?thesis by (auto simp: step_def bnd_def)
  next
    case (Ret cr)
    obtain c x where cr: "cr = (c, x)" by (cases cr)
    with run Ret have "m h = (Ret (c, x), h1)" by simp
    from returnsD [OF Q this] have "Q c" by simp
    show ?thesis
    proof (cases x)
      case (Inl e)
      with run es Ret cr show ?thesis by (auto simp: step_def bnd_def ret_def)
    next
      case (Inr y)
      from g [OF \<open>Q c\<close>, of y] obtain es' where "snd (g c y h1) = es' @ h1" "list_all P es'"
        unfolding emits_def by blast
      with run es Ret cr Inr show ?thesis
        by (intro exI [of _ "es' @ es"]) (simp add: step_def bnd_def)
    qed
  qed
qed

lemma returns_step:
  assumes "returns (\<lambda>cr. Q (fst cr)) m" and "\<And>c e. Q c \<Longrightarrow> P (c, Inl e)" and "\<And>c x. Q c \<Longrightarrow> returns P (g c x)"
  shows "returns P (step m g)"
  unfolding returns_def
proof (intro allI impI)
  fix h x h'
  assume "step m g h = (Ret x, h')"
  then obtain c y h1 where run: "m h = (Ret (c, y), h1)"
    and rest: "(case y of Inl e \<Rightarrow> ret (c, Inl e) | Inr z \<Rightarrow> g c z) h1 = (Ret x, h')"
    by (auto simp: step_def bnd_def split: prod.splits go.splits)
  have "Q c" using returnsD [OF assms(1) run] by simp
  with rest assms(2) returnsD [OF assms(3) [OF \<open>Q c\<close>]] show "P x" by (cases y) (auto simp: ret_def)
qed

lemma returns_on_err:
  "(\<And>e. P (c, Inl e)) \<Longrightarrow> (\<And>x. returns P (f x)) \<Longrightarrow> returns P (on_err c m f)"
  unfolding on_err_def by (rule returns_bnd) (auto intro: returns_ret split: sum.split)

lemma wp_on_err [wp_simps]:
  "wp (on_err c m f) Q h = wp m (\<lambda>r h'. case r of
     Ret (Inr x) \<Rightarrow> wp (f x) Q h' | Ret (Inl e) \<Rightarrow> Q (Ret (c, Inl e)) h' | Panic \<Rightarrow> Q Panic h') h"
  by (simp add: wp_def on_err_def bnd_def ret_def split: prod.split go.split sum.split)

section \<open>Properties\<close>

definition put_tag :: "Tag \<Rightarrow> Tag list \<Rightarrow> Tag list" where
  "put_tag t tags = ReplaceOrAddTag tags (tag_Key t) (tag_Value t)"

lemma put_tag_put_with: "put_tag t tags = put_with tag_Key (\<lambda>_ new. new) t tags"
  by (induction tags) (simp_all add: put_tag_def)

interpretation tags: keyed_list tag_Key put_tag
  by unfold_locales (simp_all add: put_tag_put_with put_with_keys put_with_others)

lemma sorted_DBTags: "sorted (map tag_Key (DBTags ts))" and set_DBTags [simp]: "set (DBTags ts) = set ts"
  by (simp_all add: DBTags_def)

lemma ReplaceOrAddTag_put: "ReplaceOrAddTag ts k v = put_tag \<lparr>tag_Key = k, tag_Value = v\<rparr> ts"
  by (simp add: put_tag_def)

lemma ReplaceOrAddTag_mem: "\<lparr>tag_Key = k, tag_Value = v\<rparr> \<in> set (ReplaceOrAddTag ts k v)"
  by (induction ts) auto

text \<open>
  The tags of an instance are those of its claim, sorted by key, with the operational status set
  to active: every tag under another key is there with its values, the operational status appears,
  and keys stay distinct where the claim's are.
\<close>

theorem instance_tags:
  fixes ts
  defines "tags \<equiv> ReplaceOrAddTag (DBTags ts) OperationalStatusTagKey OperationalStatusActiveValue"
  shows "(\<forall>k. k \<noteq> OperationalStatusTagKey \<longrightarrow>
      filter (\<lambda>t. tag_Key t = k) tags = filter (\<lambda>t. tag_Key t = k) (DBTags ts)) \<and>
    \<lparr>tag_Key = OperationalStatusTagKey, tag_Value = OperationalStatusActiveValue\<rparr> \<in> set tags \<and>
    (distinct (map tag_Key ts) \<longrightarrow> distinct (map tag_Key tags)) \<and>
    sorted (map tag_Key (DBTags ts)) \<and> mset (DBTags ts) = mset ts"
proof -
  have "distinct (map tag_Key (DBTags ts))" if "distinct (map tag_Key ts)"
    using that by (metis DBTags_def mset_map mset_eq_imp_distinct_iff mset_sort)
  then have "distinct (map tag_Key ts) \<longrightarrow> distinct (map tag_Key tags)"
    unfolding tags_def ReplaceOrAddTag_put using tags.put_distinct by blast
  moreover have "filter (\<lambda>t. tag_Key t = k) tags = filter (\<lambda>t. tag_Key t = k) (DBTags ts)"
    if "k \<noteq> OperationalStatusTagKey" for k
    unfolding tags_def ReplaceOrAddTag_put using that by (intro tags.put_others) simp
  moreover have "mset (DBTags ts) = mset ts" by (simp add: DBTags_def)
  ultimately show ?thesis using ReplaceOrAddTag_mem sorted_DBTags unfolding tags_def by blast
qed

theorem instance_tags_witness:
  "filter (\<lambda>t. tag_Key t = ''team'') (ReplaceOrAddTag
       (DBTags [\<lparr>tag_Key = OperationalStatusTagKey, tag_Value = ''inactive''\<rparr>, \<lparr>tag_Key = ''team'', tag_Value = ''db''\<rparr>])
       OperationalStatusTagKey OperationalStatusActiveValue) = [\<lparr>tag_Key = ''team'', tag_Value = ''db''\<rparr>]"
  using conjunct1 [OF instance_tags, THEN spec, of "''team''"]
  by (simp add: DBTags_def)

lemma list_ex_key: "list_ex (\<lambda>t. f t = k) ts \<longleftrightarrow> k \<in> f ` set ts"
  by (auto simp: list_ex_iff)

text \<open>
  The backup policy of a claim is ignored when the claim already has a backup tag: the tags are
  returned as they are, whatever the policy says; only without such a tag is the policy, or the
  configured default, appended.
\<close>

lemma configureBackupPolicy_existing:
  "configureBackupPolicy v policy tags =
     (if defaultBackupPolicyKey \<in> tag_Key ` set tags then tags
      else put_tag \<lparr>tag_Key = defaultBackupPolicyKey,
        tag_Value = (if policy = [] then GetDefaultBackupPolicy v else policy)\<rparr> tags)"
proof -
  have "put_tag t tags = tags @ [t]" if "tag_Key t \<notin> tag_Key ` set tags" for t
    using that by (induction tags) (auto simp: put_tag_put_with)
  then show ?thesis unfolding configureBackupPolicy_def list_ex_key by simp
qed

lemma version_word_found: "''version'' \<notin> set ws \<Longrightarrow> version_word (ws @ ''version'' # v # ws') = Ret v"
proof (induction ws)
  case (Cons w ws)
  then show ?case by (cases ws) auto
qed simp

lemma Split_JoinWith:
  "ws \<noteq> [] \<Longrightarrow> (\<And>w. w \<in> set ws \<Longrightarrow> c \<notin> set w) \<Longrightarrow> Split (JoinWith [c] ws) c = ws"
proof (induction "[c]" ws rule: JoinWith.induct)
  case (3 x y xs)
  then show ?case by (simp add: Split_append)
qed (simp_all add: Split_no_sep)

text \<open>
  A version the cloud does not know is reported to the user as such. For a message that consists
  of words, the first one "version" followed by another word, the error names that word and is
  recognised as an invalid version; a message that ends in the word "version" makes the controller
  panic.
\<close>

theorem unknown_version_reported:
  assumes "\<And>w. w \<in> set (ws @ ''version'' # ws') \<Longrightarrow> CHR '' '' \<notin> set w" and "''version'' \<notin> set ws"
    and "xc_Message cond = JoinWith '' '' (ws @ ''version'' # ws')" and "xc_Reason cond = ''ReconcileError''"
    and "Contains (xc_Message cond) ''InvalidParameterCombination: Cannot find version''"
    and "xc_Type cond \<noteq> ''Ready'' \<or> xc_Status cond \<noteq> ''True''"
  shows "isResourceReady (cond # rest) =
    (case ws' of [] \<Rightarrow> Panic
     | v # _ \<Rightarrow> Ret (Inl (Wrapped [] (Sentinel ErrInvalidDBVersion) ('': requested version '' @ v))))"
proof -
  have "Split (xc_Message cond) (CHR '' '') = ws @ ''version'' # ws'"
    unfolding assms(3) using assms(1) by (intro Split_JoinWith) auto
  moreover have "version_word (ws @ [''version'']) = Panic" using assms(2)
    by (induction ws rule: version_word.induct) auto
  ultimately show ?thesis using assms(4-6) version_word_found [OF assms(2)]
    by (auto simp: extractVersion_def split: list.split)
qed

theorem unknown_version_reported_witness:
  "isResourceReady [\<lparr>xc_Type = ''Synced'', xc_Status = ''False'', xc_Reason = ''ReconcileError'',
      xc_Message = ''InvalidParameterCombination: Cannot find version 15.99 for postgres''\<rparr>] =
   Ret (Inl (Wrapped [] (Sentinel ErrInvalidDBVersion) '': requested version 15.99''))"
  by (subst unknown_version_reported [where ws = "[''InvalidParameterCombination:'', ''Cannot'', ''find'']" and
        ws' = "[''15.99'', ''for'', ''postgres'']"]) (auto simp: HasPrefix_def)

end
