(* ===== verification/Pgctl.thy ===== *)
theory Pgctl
  imports World
begin

text \<open>
  The migration state machine (\<^verbatim>\<open>pkg/pgctl\<close>): the names of its states, the states with their
  \<^verbatim>\<open>Execute\<close> methods over the SQL and command interfaces, and \<^verbatim>\<open>GetReplicatorState\<close>. Closing a
  connection pool is left out: nothing depends on it.
\<close>

section \<open>State names\<close>

datatype StateEnum =
    S_Initial | S_ValidateConnection | S_CreatePublication | S_CopySchema | S_CreateSubscription
  | S_EnableSubscription | S_CutOverReadinessCheck | S_ResetTargetSequence | S_RerouteTargetSecret
  | S_WaitToDisableSource | S_DisableSourceAccess | S_MigrationInProgress | S_ValidateMigrationStatus
  | S_DisableSubscription | S_DeleteSubscription | S_DeletePublication | S_Completed | S_Retry

text \<open>The constants are numbered in this order, and the code compares them as numbers.\<close>

primrec state_num :: "StateEnum \<Rightarrow> nat" where
  "state_num S_Initial = 0"
| "state_num S_ValidateConnection = 1"
| "state_num S_CreatePublication = 2"
| "state_num S_CopySchema = 3"
| "state_num S_CreateSubscription = 4"
| "state_num S_EnableSubscription = 5"
| "state_num S_CutOverReadinessCheck = 6"
| "state_num S_ResetTargetSequence = 7"
| "state_num S_RerouteTargetSecret = 8"
| "state_num S_WaitToDisableSource = 9"
| "state_num S_DisableSourceAccess = 10"
| "state_num S_MigrationInProgress = 11"
| "state_num S_ValidateMigrationStatus = 12"
| "state_num S_DisableSubscription = 13"
| "state_num S_DeleteSubscription = 14"
| "state_num S_DeletePublication = 15"
| "state_num S_Completed = 16"
| "state_num S_Retry = 17"

lemma state_num_inj: "state_num a = state_num b \<longleftrightarrow> a = b"
  by (cases a; cases b) simp_all

instantiation StateEnum :: linorder
begin

definition less_eq_StateEnum :: "StateEnum \<Rightarrow> StateEnum \<Rightarrow> bool" where
  "less_eq_StateEnum a b = (state_num a \<le> state_num b)"

definition less_StateEnum :: "StateEnum \<Rightarrow> StateEnum \<Rightarrow> bool" where
  "less_StateEnum a b = (state_num a < state_num b)"

instance
  by standard (auto simp: less_eq_StateEnum_def less_StateEnum_def state_num_inj)

end

lemmas state_order = less_eq_StateEnum_def less_StateEnum_def

primrec StateEnum_String :: "StateEnum \<Rightarrow> string" where
  "StateEnum_String S_Initial = ''initial''"
| "StateEnum_String S_ValidateConnection = ''validate_connection''"
| "StateEnum_String S_CreatePublication = ''create_publication''"
| "StateEnum_String S_CopySchema = ''copy_schema''"
| "StateEnum_String S_CreateSubscription = ''create_subscription''"
| "StateEnum_String S_EnableSubscription = ''enable_subscription''"
| "StateEnum_String S_CutOverReadinessCheck = ''cut_over_readiness_check''"
| "StateEnum_String S_ResetTargetSequence = ''reset_target_sequence''"
| "StateEnum_String S_RerouteTargetSecret = ''reroute_target_secret''"
| "StateEnum_String S_WaitToDisableSource = ''wait_to_disable_source''"
| "StateEnum_String S_DisableSourceAccess = ''disable_source_access''"
| "StateEnum_String S_MigrationInProgress = ''migration_in_progress''"
| "StateEnum_String S_ValidateMigrationStatus = ''validate_migration_status''"
| "StateEnum_String S_DisableSubscription = ''disable_subscription''"
| "StateEnum_String S_DeleteSubscription = ''delete_subscription''"
| "StateEnum_String S_DeletePublication = ''delete_publication''"
| "StateEnum_String S_Completed = ''completed''"
| "StateEnum_String S_Retry = ''retry''"

text \<open>The map that \<^verbatim>\<open>init\<close> fills, in the order of its assignments.\<close>

definition stateMap :: "(string \<times> StateEnum) list" where
  "stateMap = ([], S_Initial) # map (\<lambda>s. (StateEnum_String s, s))
     [S_Initial, S_ValidateConnection, S_CreatePublication, S_CopySchema, S_CreateSubscription,
      S_EnableSubscription, S_CutOverReadinessCheck, S_ResetTargetSequence, S_RerouteTargetSecret,
      S_DisableSourceAccess, S_MigrationInProgress, S_ValidateMigrationStatus, S_WaitToDisableSource,
      S_DisableSubscription, S_DeleteSubscription, S_DeletePublication, S_Completed, S_Retry]"

definition GetStateEnum :: "string \<Rightarrow> goerror + StateEnum" where
  "GetStateEnum name = (case map_of stateMap name of
     Some s \<Rightarrow> Inr s | None \<Rightarrow> Inl (ErrMsg ''unknown state''))"

interpretation state_codec: codec StateEnum_String GetStateEnum "\<lambda>_. True"
proof
  fix s :: StateEnum
  show "GetStateEnum (StateEnum_String s) = Inr s"
    by (cases s) (simp_all add: GetStateEnum_def stateMap_def)
qed

section \<open>Helpers\<close>

abbreviation DefaultPubName :: string where "DefaultPubName \<equiv> ''dbc_temp_pub_for_upgrade''"
abbreviation DefaultSubName :: string where "DefaultSubName \<equiv> ''dbc_temp_sub_for_upgrade''"

record Config =
  cfg_Cloud :: string
  cfg_SourceDBAdminDsn :: string
  cfg_SourceDBUserDsn :: string
  cfg_TargetDBAdminDsn :: string
  cfg_TargetDBUserDsn :: string
  cfg_ExportFilePath :: string

text \<open>The parent role of a user: the name without a two-character suffix that starts with an
  underscore.\<close>

definition getParentRole :: "string \<Rightarrow> string" where
  "getParentRole dbUser =
     (if length dbUser > 2 \<and> dbUser ! (length dbUser - 2) = CHR ''_''
      then take (length dbUser - 2) dbUser else dbUser)"

definition getDB :: "env \<Rightarrow> string \<Rightarrow> (goerror + string) go_prog" where
  "getDB E dsn = check (sql_open E dsn) (check (sql_ping E dsn) (ret (Inr dsn)))"

definition isAdminUser :: "env \<Rightarrow> string \<Rightarrow> (goerror + bool) go_prog" where
  "isAdminUser E db =
     attempt (sql_bool E db Q_IsSuperuser) (\<lambda>exists.
       if exists then ret (Inr True)
       else bnd (sql_string E db Q_SessionUser) (\<lambda>u.
         let user = (case u of Inl _ \<Rightarrow> [] | Inr s \<Rightarrow> s)
         in attempt (sql_int E db (Q_AdminRoles user)) (\<lambda>count.
              if count < 2
              then ret (Inl (ErrMsg ''db user does not have required super_user and/or replication role''))
              else ret (Inr True))))"

definition isLogical :: "env \<Rightarrow> string \<Rightarrow> (goerror + bool) go_prog" where
  "isLogical E db =
     attempt (sql_bool E db Q_WalLogical) (\<lambda>exists.
       if \<not> exists then ret (Inl (ErrMsg ''db wal_level not set to logical'')) else ret (Inr True))"

definition superuser_group :: "string \<Rightarrow> string" where
  "superuser_group cloud = (if cloud = ''gcp'' then ''alloydbsuperuser'' else ''rds_superuser'')"

definition grantSuperUserAccess :: "env \<Rightarrow> string \<Rightarrow> string \<Rightarrow> string \<Rightarrow> goerror option go_prog" where
  "grantSuperUserAccess E db userrole cloud =
     sql_exec E db (GRANT_ROLE (superuser_group cloud) (getParentRole userrole))"

definition revokeSuperUserAccess :: "env \<Rightarrow> string \<Rightarrow> string \<Rightarrow> string \<Rightarrow> goerror option go_prog" where
  "revokeSuperUserAccess E db userrole cloud =
     sql_exec E db (REVOKE_ROLE (superuser_group cloud) (getParentRole userrole))"

subsection \<open>Dump and restore\<close>

record Dump =
  dump_DsnUri :: string
  dump_Verbose :: bool
  dump_Path :: string
  dump_Format :: "string option"
  dump_Options :: "string list"
  dump_fileName :: string

definition NewDump :: "string \<Rightarrow> Dump" where
  "NewDump DsnUri = \<lparr>dump_DsnUri = DsnUri, dump_Verbose = False, dump_Path = [], dump_Format = None,
     dump_Options = [], dump_fileName = []\<rparr>"

definition Dump_ResetOptions :: "Dump \<Rightarrow> Dump" where
  "Dump_ResetOptions x = x\<lparr>dump_Options := []\<rparr>"

definition Dump_EnableVerbose :: "Dump \<Rightarrow> Dump" where
  "Dump_EnableVerbose x = x\<lparr>dump_Verbose := True\<rparr>"

definition SetFileName :: "string \<Rightarrow> Dump \<Rightarrow> Dump" where
  "SetFileName filename x = x\<lparr>dump_fileName := filename\<rparr>"

definition SetupFormat :: "string \<Rightarrow> Dump \<Rightarrow> Dump" where
  "SetupFormat f x = x\<lparr>dump_Format := Some f\<rparr>"

definition Dump_SetPath :: "string \<Rightarrow> Dump \<Rightarrow> Dump" where
  "Dump_SetPath path x = x\<lparr>dump_Path := path\<rparr>"

definition Dump_SetOptions :: "string list \<Rightarrow> Dump \<Rightarrow> Dump" where
  "Dump_SetOptions opts x = x\<lparr>dump_Options := opts\<rparr>"

lemmas dump_setters [simp] = Dump_ResetOptions_def Dump_EnableVerbose_def SetFileName_def SetupFormat_def Dump_SetPath_def Dump_SetOptions_def

definition dumpOptions :: "Dump \<Rightarrow> string list" where
  "dumpOptions x = dump_Options x @ [dump_DsnUri x] @
     [''-F'' @ (case dump_Format x of Some f \<Rightarrow> f | None \<Rightarrow> ''p'')] @
     (if dump_Verbose x then [''-v''] else [])"

definition Unix :: "time \<Rightarrow> int" where
  "Unix t = t div 1000000000 - 62135596800"

definition newFileName :: "env \<Rightarrow> string go_prog" where
  "newFileName E = bnd (now E) (\<lambda>t. ret (''pub_'' @ Itoa (Unix t) @ ''.sql''))"

definition GetFileName :: "env \<Rightarrow> Dump \<Rightarrow> Dump go_prog" where
  "GetFileName E x =
     (if dump_fileName x = [] then bnd (newFileName E) (\<lambda>f. ret (x\<lparr>dump_fileName := f\<rparr>)) else ret x)"

text \<open>\<^verbatim>\<open>Dump.Exec\<close> looks at the error of \<^verbatim>\<open>Wait\<close> only if it carries an exit code.\<close>

definition Dump_Exec :: "env \<Rightarrow> Dump \<Rightarrow> (Dump \<times> goerror option) go_prog" where
  "Dump_Exec E x0 = bnd (GetFileName E x0) (\<lambda>x.
     bnd (pg_dump E (dumpOptions x @ [''-f'' @ dump_Path x @ dump_fileName x])) (\<lambda>r.
       ret (x, case r of ExecExit s \<Rightarrow> Some (ErrMsg s) | _ \<Rightarrow> None)))"

definition modifyPgDumpInfo :: "env \<Rightarrow> Dump \<Rightarrow> goerror option go_prog" where
  "modifyPgDumpInfo E x =
     (let filePath = dump_Path x @ dump_fileName x in
      bnd (sed E (''/^CREATE POLICY cron_job_/s/^/-- commented by dbc to avoid duplicate conflict during restore '' @ [CHR 0x5C] @ ''n--/'') filePath) (\<lambda>r1.
      case r1 of Some e \<Rightarrow> ret (Some (Wrapped ''error running sed command to comment create policy: '' e []))
      | None \<Rightarrow>
        bnd (sed E ''s/CREATE SCHEMA partman;/CREATE SCHEMA IF NOT EXISTS partman;/'' filePath) (\<lambda>r2.
        case r2 of Some e \<Rightarrow> ret (Some (Wrapped ''error running sed command to add if not exists to partman schema creation: '' e []))
        | None \<Rightarrow>
          bnd (sed E ''s/CREATE EXTENSION IF NOT EXISTS pg_cron WITH SCHEMA public;/CREATE EXTENSION IF NOT EXISTS pg_cron;/'' filePath) (\<lambda>r3.
          case r3 of Some e \<Rightarrow> ret (Some (Wrapped ''error running sed command to create pg_cron without specifying the schema: '' e []))
          | None \<Rightarrow> ret None))))"

record Restore =
  res_DsnUri :: string
  res_Verbose :: bool
  res_Path :: string
  res_Options :: "string list"
  res_Schemas :: "string list"

definition NewRestore :: "string \<Rightarrow> Restore" where
  "NewRestore DsnUri = \<lparr>res_DsnUri = DsnUri, res_Verbose = False, res_Path = [], res_Options = [],
     res_Schemas = [''public'']\<rparr>"

definition Restore_ResetOptions :: "Restore \<Rightarrow> Restore" where
  "Restore_ResetOptions x = x\<lparr>res_Options := []\<rparr>"

definition Restore_EnableVerbose :: "Restore \<Rightarrow> Restore" where
  "Restore_EnableVerbose x = x\<lparr>res_Verbose := True\<rparr>"

definition Restore_SetPath :: "string \<Rightarrow> Restore \<Rightarrow> Restore" where
  "Restore_SetPath path x = x\<lparr>res_Path := path\<rparr>"

definition SetSchemas :: "string list \<Rightarrow> Restore \<Rightarrow> Restore" where
  "SetSchemas schemas x = x\<lparr>res_Schemas := schemas\<rparr>"

definition Restore_SetOptions :: "string list \<Rightarrow> Restore \<Rightarrow> Restore" where
  "Restore_SetOptions opts x = x\<lparr>res_Options := opts\<rparr>"

lemmas restore_setters [simp] = Restore_ResetOptions_def Restore_EnableVerbose_def Restore_SetPath_def SetSchemas_def Restore_SetOptions_def

definition restoreOptions :: "Restore \<Rightarrow> string list" where
  "restoreOptions x = res_Options x @ (if res_Verbose x then [''-a''] else [])"

definition Restore_Exec :: "env \<Rightarrow> Restore \<Rightarrow> string \<Rightarrow> goerror option go_prog" where
  "Restore_Exec E x filename =
     psql_restore E ([res_DsnUri x, ''-vON_ERROR_STOP=ON'', ''--file='' @ res_Path x @ filename] @
       restoreOptions x)"

definition DropSchemas :: "env \<Rightarrow> Restore \<Rightarrow> goerror option go_prog" where
  "DropSchemas E x = psql_drop_schemas E (res_DsnUri x)"

section \<open>States\<close>

datatype State =
    initial_state Config
  | validate_connection_state Config
  | create_publication_state Config
  | copy_schema_state Config
  | create_subscription_state Config
  | enable_subscription_state Config
  | cut_over_readiness_check_state Config
  | reset_target_sequence_state Config
  | reroute_target_secret_state Config
  | wait_to_disable_source_state Config
  | disable_source_access_state Config
  | validate_migration_status_state Config
  | disable_subscription_state Config
  | delete_subscription_state Config
  | delete_publication_state Config
  | completed_state Config
  | retry_state Config

primrec State_Id :: "State \<Rightarrow> StateEnum" where
  "State_Id (initial_state c) = S_Initial"
| "State_Id (validate_connection_state c) = S_ValidateConnection"
| "State_Id (create_publication_state c) = S_CreatePublication"
| "State_Id (copy_schema_state c) = S_CopySchema"
| "State_Id (create_subscription_state c) = S_CreateSubscription"
| "State_Id (enable_subscription_state c) = S_EnableSubscription"
| "State_Id (cut_over_readiness_check_state c) = S_CutOverReadinessCheck"
| "State_Id (reset_target_sequence_state c) = S_ResetTargetSequence"
| "State_Id (reroute_target_secret_state c) = S_RerouteTargetSecret"
| "State_Id (wait_to_disable_source_state c) = S_WaitToDisableSource"
| "State_Id (disable_source_access_state c) = S_DisableSourceAccess"
| "State_Id (validate_migration_status_state c) = S_ValidateMigrationStatus"
| "State_Id (disable_subscription_state c) = S_DisableSubscription"
| "State_Id (delete_subscription_state c) = S_DeleteSubscription"
| "State_Id (delete_publication_state c) = S_DeletePublication"
| "State_Id (completed_state c) = S_Completed"
| "State_Id (retry_state c) = S_Retry"

primrec config_of :: "State \<Rightarrow> Config" where
  "config_of (initial_state c) = c"
| "config_of (validate_connection_state c) = c"
| "config_of (create_publication_state c) = c"
| "config_of (copy_schema_state c) = c"
| "config_of (create_subscription_state c) = c"
| "config_of (enable_subscription_state c) = c"
| "config_of (cut_over_readiness_check_state c) = c"
| "config_of (reset_target_sequence_state c) = c"
| "config_of (reroute_target_secret_state c) = c"
| "config_of (wait_to_disable_source_state c) = c"
| "config_of (disable_source_access_state c) = c"
| "config_of (validate_migration_status_state c) = c"
| "config_of (disable_subscription_state c) = c"
| "config_of (delete_subscription_state c) = c"
| "config_of (delete_publication_state c) = c"
| "config_of (completed_state c) = c"
| "config_of (retry_state c) = c"

definition State_String :: "State \<Rightarrow> string" where
  "State_String s = StateEnum_String (State_Id s)"

definition GetReplicatorState :: "string \<Rightarrow> Config \<Rightarrow> goerror + State" where
  "GetReplicatorState name c = (case GetStateEnum name of
     Inl e \<Rightarrow> Inl e
   | Inr stateEnum \<Rightarrow> (case stateEnum of
       S_Initial \<Rightarrow> Inr (initial_state c)
     | S_ValidateConnection \<Rightarrow> Inr (validate_connection_state c)
     | S_CreatePublication \<Rightarrow> Inr (create_publication_state c)
     | S_CopySchema \<Rightarrow> Inr (copy_schema_state c)
     | S_CreateSubscription \<Rightarrow> Inr (create_subscription_state c)
     | S_EnableSubscription \<Rightarrow> Inr (enable_subscription_state c)
     | S_CutOverReadinessCheck \<Rightarrow> Inr (cut_over_readiness_check_state c)
     | S_ResetTargetSequence \<Rightarrow> Inr (reset_target_sequence_state c)
     | S_RerouteTargetSecret \<Rightarrow> Inr (reroute_target_secret_state c)
     | S_WaitToDisableSource \<Rightarrow> Inr (wait_to_disable_source_state c)
     | S_MigrationInProgress \<Rightarrow> Inr (initial_state c)
     | S_ValidateMigrationStatus \<Rightarrow> Inr (validate_migration_status_state c)
     | S_DisableSourceAccess \<Rightarrow> Inr (disable_source_access_state c)
     | S_DisableSubscription \<Rightarrow> Inr (disable_subscription_state c)
     | S_DeleteSubscription \<Rightarrow> Inr (delete_subscription_state c)
     | S_DeletePublication \<Rightarrow> Inr (delete_publication_state c)
     | S_Completed \<Rightarrow> Inr (completed_state c)
     | S_Retry \<Rightarrow> Inl (ErrMsg ''unknown current state'')))"

subsection \<open>Execute\<close>

text \<open>\<^verbatim>\<open>Execute\<close> answers an error, or the next state; the states completed and retry answer
  \<^verbatim>\<open>nil, nil\<close>, here \<open>Inr None\<close>.\<close>

type_synonym exec = "(goerror + State option) go_prog"

abbreviation goto :: "State \<Rightarrow> exec" where "goto s \<equiv> ret (Inr (Some s))"

definition exec_initial :: "Config \<Rightarrow> exec" where
  "exec_initial c =
     (if cfg_SourceDBAdminDsn c = [] then ret (Inl (ErrMsg ''source db admin dns is empty''))
      else if cfg_TargetDBAdminDsn c = [] then ret (Inl (ErrMsg ''target db admin dns is empty''))
      else if cfg_SourceDBUserDsn c = [] then ret (Inl (ErrMsg ''source db user dns is empty''))
      else if cfg_TargetDBUserDsn c = [] then ret (Inl (ErrMsg ''target db admin dns is empty''))
      else goto (validate_connection_state c))"

definition exec_validate_connection :: "env \<Rightarrow> Config \<Rightarrow> exec" where
  "exec_validate_connection E c =
     attempt (getDB E (cfg_SourceDBAdminDsn c)) (\<lambda>sourceDBAdmin.
     attempt (getDB E (cfg_SourceDBUserDsn c)) (\<lambda>sourceDBUser.
     attempt (getDB E (cfg_TargetDBAdminDsn c)) (\<lambda>targetDBAdmin.
     attempt (getDB E (cfg_TargetDBUserDsn c)) (\<lambda>targetDBUser.
     bnd (isAdminUser E sourceDBAdmin) (\<lambda>r1. case r1 of
       Inl e \<Rightarrow> ret (Inl (Wrapped [] e ''; Source DB Admin user lacks  required permission''))
     | Inr _ \<Rightarrow> bnd (isAdminUser E targetDBAdmin) (\<lambda>r2. case r2 of
         Inl e \<Rightarrow> ret (Inl (Wrapped [] e ''; Target DB Admin user lacks  required permission''))
       | Inr _ \<Rightarrow> attempt (isLogical E sourceDBAdmin) (\<lambda>_. goto (create_publication_state c))))))))"

definition exec_create_publication :: "env \<Rightarrow> Config \<Rightarrow> exec" where
  "exec_create_publication E c =
     attempt (getDB E (cfg_SourceDBAdminDsn c)) (\<lambda>sourceDBAdmin.
     attempt (sql_bool E sourceDBAdmin (Q_PublicationExists DefaultPubName)) (\<lambda>exists.
       if \<not> exists
       then check (sql_exec E sourceDBAdmin (CREATE_PUBLICATION DefaultPubName)) (goto (copy_schema_state c))
       else goto (copy_schema_state c)))"

definition exec_copy_schema :: "env \<Rightarrow> Config \<Rightarrow> exec" where
  "exec_copy_schema E c =
     attempt (getDB E (cfg_TargetDBAdminDsn c)) (\<lambda>targetDBAdmin.
     case Parse (cfg_TargetDBUserDsn c) of Inl e \<Rightarrow> ret (Inl (UrlError e)) | Inr u \<Rightarrow>
       (let rolename = Username (User u);
            dump0 = Dump_SetOptions [''--schema-only'', ''--no-publication'', ''--no-subscriptions'',
                ''--no-privileges'', ''--no-owner'', ''--exclude-schema=ib'']
              (Dump_EnableVerbose (Dump_SetPath (cfg_ExportFilePath c) (SetupFormat ''p'' (NewDump (cfg_SourceDBAdminDsn c)))));
            restore = Restore_SetPath (cfg_ExportFilePath c) (Restore_EnableVerbose (NewRestore (cfg_TargetDBUserDsn c)))
        in check (grantSuperUserAccess E targetDBAdmin rolename (cfg_Cloud c))
          (bnd (Dump_Exec E dump0) (\<lambda>(dump, dumpErr). case dumpErr of
             Some e \<Rightarrow> ret (Inl e)
           | None \<Rightarrow>
               check (modifyPgDumpInfo E dump)
                 (bnd (Restore_Exec E restore (dump_fileName dump)) (\<lambda>restoreErr. case restoreErr of
                    Some e \<Rightarrow> check (DropSchemas E restore) (ret (Inl e))
                  | None \<Rightarrow> check (revokeSuperUserAccess E targetDBAdmin rolename (cfg_Cloud c))
                              (goto (create_subscription_state c))))))))"

definition exec_create_subscription :: "env \<Rightarrow> Config \<Rightarrow> exec" where
  "exec_create_subscription E c =
     attempt (getDB E (cfg_TargetDBAdminDsn c)) (\<lambda>targetDBAdmin.
     attempt (sql_bool E targetDBAdmin (Q_SubscriptionExists DefaultSubName)) (\<lambda>exists.
       if \<not> exists
       then check (sql_exec E targetDBAdmin
              (CREATE_SUBSCRIPTION DefaultSubName (cfg_SourceDBAdminDsn c) DefaultPubName))
              (goto (enable_subscription_state c))
       else goto (enable_subscription_state c)))"

definition exec_enable_subscription :: "env \<Rightarrow> Config \<Rightarrow> exec" where
  "exec_enable_subscription E c =
     attempt (getDB E (cfg_TargetDBAdminDsn c)) (\<lambda>targetDBAdmin.
     attempt (sql_bool E targetDBAdmin (Q_SubscriptionExists DefaultSubName)) (\<lambda>exists.
       if exists
       then check (sql_exec E targetDBAdmin (ENABLE_SUBSCRIPTION DefaultSubName))
              (goto (cut_over_readiness_check_state c))
       else ret (Inl (ErrMsg (''unable to enable subscription. subscription not found - '' @ DefaultSubName)))))"

definition exec_cut_over_readiness_check :: "env \<Rightarrow> Config \<Rightarrow> exec" where
  "exec_cut_over_readiness_check E c =
     attempt (getDB E (cfg_SourceDBAdminDsn c)) (\<lambda>sourceDBAdmin.
     attempt (getDB E (cfg_TargetDBAdminDsn c)) (\<lambda>targetDBAdmin.
     attempt (sql_bool E sourceDBAdmin (Q_TemporarySlots DefaultPubName)) (\<lambda>exists.
       if exists then goto (retry_state c)
       else attempt (sql_int E targetDBAdmin (Q_UnsyncedRelations DefaultSubName)) (\<lambda>count.
         if count > 0 then goto (retry_state c) else goto (reset_target_sequence_state c)))))"

text \<open>The two loops of \<^verbatim>\<open>reset_target_sequence_state\<close>: read every sequence of the source, then set
  those of the target.\<close>

fun read_sequences :: "env \<Rightarrow> string \<Rightarrow> string list \<Rightarrow> (string \<times> int) list \<Rightarrow> (goerror + (string \<times> int) list) go_prog" where
  "read_sequences E db [] seqs = ret (Inr seqs)"
| "read_sequences E db (seqName # rest) seqs =
     attempt (sql_int E db (Q_SequenceNext seqName)) (\<lambda>lastVal.
       read_sequences E db rest (seqs @ [(seqName, lastVal)]))"

definition exec_reset_target_sequence :: "env \<Rightarrow> Config \<Rightarrow> exec" where
  "exec_reset_target_sequence E c =
     attempt (getDB E (cfg_TargetDBUserDsn c)) (\<lambda>targetDBUser.
     attempt (getDB E (cfg_SourceDBUserDsn c)) (\<lambda>sourceDBUser.
     attempt (sql_strings E sourceDBUser Q_Sequences) (\<lambda>(rows, rowsErr).
     attempt (read_sequences E sourceDBUser rows []) (\<lambda>seqs.
       case rowsErr of Some e \<Rightarrow> ret (Inl e) | None \<Rightarrow>
         check (for_each seqs (\<lambda>(seqName, lastVal). sql_exec E targetDBUser (SETVAL seqName lastVal)))
           (goto (reroute_target_secret_state c))))))"

definition exec_disable_source_access :: "env \<Rightarrow> Config \<Rightarrow> exec" where
  "exec_disable_source_access E c =
     attempt (getDB E (cfg_SourceDBAdminDsn c)) (\<lambda>sourceDBAdmin.
     case Parse (cfg_SourceDBUserDsn c) of Inl e \<Rightarrow> ret (Inl (UrlError e)) | Inr u \<Rightarrow>
       (let rolename = getParentRole (Username (User u))
        in check (sql_exec E sourceDBAdmin (REVOKE_WRITES rolename)) (goto (validate_migration_status_state c))))"

text \<open>The loop over the tables of the source: every table is counted in the target; \<open>deuce\<close>
  remembers whether no count was smaller.\<close>

fun compare_counts :: "env \<Rightarrow> string \<Rightarrow> (string \<times> int) list \<Rightarrow> bool \<Rightarrow> (goerror + bool) go_prog" where
  "compare_counts E db [] deuce = ret (Inr deuce)"
| "compare_counts E db ((sourceTableName, sourceTableCount) # rest) deuce =
     attempt (sql_int E db (Q_TableCount sourceTableName)) (\<lambda>targetTableCount.
       compare_counts E db rest (if targetTableCount < sourceTableCount then False else deuce))"

definition exec_validate_migration_status :: "env \<Rightarrow> Config \<Rightarrow> exec" where
  "exec_validate_migration_status E c =
     attempt (getDB E (cfg_TargetDBUserDsn c)) (\<lambda>targetDBUser.
     attempt (getDB E (cfg_SourceDBUserDsn c)) (\<lambda>sourceDBUser.
     attempt (sql_counts E sourceDBUser Q_SourceTableCounts) (\<lambda>(rows, rowsErr).
     attempt (compare_counts E targetDBUser rows True) (\<lambda>deuce.
       case rowsErr of Some e \<Rightarrow> ret (Inl e) | None \<Rightarrow>
         if deuce then goto (disable_subscription_state c) else goto (retry_state c)))))"

definition exec_disable_subscription :: "env \<Rightarrow> Config \<Rightarrow> exec" where
  "exec_disable_subscription E c =
     attempt (getDB E (cfg_TargetDBAdminDsn c)) (\<lambda>targetDBAdmin.
     attempt (sql_bool E targetDBAdmin (Q_SubscriptionExists DefaultSubName)) (\<lambda>exists.
       if exists
       then check (sql_exec E targetDBAdmin (DISABLE_SUBSCRIPTION DefaultSubName))
              (goto (delete_subscription_state c))
       else goto (delete_subscription_state c)))"

definition exec_delete_subscription :: "env \<Rightarrow> Config \<Rightarrow> exec" where
  "exec_delete_subscription E c =
     attempt (getDB E (cfg_TargetDBAdminDsn c)) (\<lambda>targetDBAdmin.
     attempt (sql_bool E targetDBAdmin (Q_SubscriptionExists DefaultSubName)) (\<lambda>exists.
       if exists
       then check (sql_exec E targetDBAdmin (DROP_SUBSCRIPTION DefaultSubName))
              (goto (delete_publication_state c))
       else goto (delete_publication_state c)))"

definition exec_delete_publication :: "env \<Rightarrow> Config \<Rightarrow> exec" where
  "exec_delete_publication E c =
     attempt (getDB E (cfg_SourceDBAdminDsn c)) (\<lambda>sourceDBAdmin.
     attempt (sql_bool E sourceDBAdmin (Q_PublicationExists DefaultPubName)) (\<lambda>exists.
       if exists
       then check (sql_exec E sourceDBAdmin (DROP_PUBLICATION DefaultPubName)) (goto (completed_state c))
       else goto (completed_state c)))"

primrec Execute :: "env \<Rightarrow> State \<Rightarrow> exec" where
  "Execute E (initial_state c) = exec_initial c"
| "Execute E (validate_connection_state c) = exec_validate_connection E c"
| "Execute E (create_publication_state c) = exec_create_publication E c"
| "Execute E (copy_schema_state c) = exec_copy_schema E c"
| "Execute E (create_subscription_state c) = exec_create_subscription E c"
| "Execute E (enable_subscription_state c) = exec_enable_subscription E c"
| "Execute E (cut_over_readiness_check_state c) = exec_cut_over_readiness_check E c"
| "Execute E (reset_target_sequence_state c) = exec_reset_target_sequence E c"
| "Execute E (reroute_target_secret_state c) = goto (wait_to_disable_source_state c)"
| "Execute E (wait_to_disable_source_state c) = goto (disable_source_access_state c)"
| "Execute E (disable_source_access_state c) = exec_disable_source_access E c"
| "Execute E (validate_migration_status_state c) = exec_validate_migration_status E c"
| "Execute E (disable_subscription_state c) = exec_disable_subscription E c"
| "Execute E (delete_subscription_state c) = exec_delete_subscription E c"
| "Execute E (delete_publication_state c) = exec_delete_publication E c"
| "Execute E (completed_state c) = ret (Inr None)"
| "Execute E (retry_state c) = ret (Inr None)"

section \<open>Every step advances\<close>

lemmas exec_defs = exec_initial_def exec_validate_connection_def exec_create_publication_def
  exec_copy_schema_def exec_create_subscription_def exec_enable_subscription_def
  exec_cut_over_readiness_check_def exec_reset_target_sequence_def exec_disable_source_access_def
  exec_validate_migration_status_def exec_disable_subscription_def exec_delete_subscription_def
  exec_delete_publication_def

lemmas pg_helpers = getDB_def isAdminUser_def isLogical_def grantSuperUserAccess_def
  revokeSuperUserAccess_def newFileName_def GetFileName_def Dump_Exec_def modifyPgDumpInfo_def
  Restore_Exec_def DropSchemas_def

text \<open>The state that follows another when \<^verbatim>\<open>Execute\<close> succeeds.\<close>

fun following :: "StateEnum \<Rightarrow> StateEnum" where
  "following S_Initial = S_ValidateConnection"
| "following S_ValidateConnection = S_CreatePublication"
| "following S_CreatePublication = S_CopySchema"
| "following S_CopySchema = S_CreateSubscription"
| "following S_CreateSubscription = S_EnableSubscription"
| "following S_EnableSubscription = S_CutOverReadinessCheck"
| "following S_CutOverReadinessCheck = S_ResetTargetSequence"
| "following S_ResetTargetSequence = S_RerouteTargetSecret"
| "following S_RerouteTargetSecret = S_WaitToDisableSource"
| "following S_WaitToDisableSource = S_DisableSourceAccess"
| "following S_DisableSourceAccess = S_ValidateMigrationStatus"
| "following S_ValidateMigrationStatus = S_DisableSubscription"
| "following S_DisableSubscription = S_DeleteSubscription"
| "following S_DeleteSubscription = S_DeletePublication"
| "following S_DeletePublication = S_Completed"
| "following s = s"

definition advances :: "State \<Rightarrow> goerror + State option \<Rightarrow> bool" where
  "advances s r = (case r of
     Inl _ \<Rightarrow> True
   | Inr None \<Rightarrow> State_Id s \<in> {S_Completed, S_Retry}
   | Inr (Some s') \<Rightarrow> config_of s' = config_of s \<and> State_Id s \<notin> {S_Completed, S_Retry} \<and>
       (State_Id s' = following (State_Id s) \<or>
        State_Id s' = S_Retry \<and> State_Id s \<in> {S_CutOverReadinessCheck, S_ValidateMigrationStatus}))"

lemma Execute_advances: "returns (advances s) (Execute E s)"
  by (cases s)
    (auto simp: exec_defs advances_def Let_def
      intro!: returns_cases split: option.splits sum.splits)

lemma Execute_next:
  assumes "Execute E s h = (Ret (Inr (Some s')), h')"
  shows "config_of s' = config_of s" and "State_Id s \<notin> {S_Completed, S_Retry}"
    and "State_Id s' \<noteq> S_Retry \<Longrightarrow> State_Id s' = following (State_Id s)"
  using returnsD [OF Execute_advances assms] by (auto simp: advances_def)

lemma State_eqI: "State_Id s = State_Id s' \<Longrightarrow> config_of s = config_of s' \<Longrightarrow> s = s'"
  by (cases s; cases s') simp_all

section \<open>What a migration has done by the time it drops the subscription\<close>

primrec is_drop :: "event \<Rightarrow> bool" where
  "is_drop (Sql e) = (case e of EvExec _ (DROP_SUBSCRIPTION _) _ \<Rightarrow> True | _ \<Rightarrow> False)"
| "is_drop (Sys e) = False"
| "is_drop (K8s e) = False"
| "is_drop (Aws e) = False"
| "is_drop (Gcp e) = False"

text \<open>
  A migration with configuration \<open>c\<close>: it starts in the initial state, moves when \<^verbatim>\<open>Execute\<close>
  answers another state than retry, stays where it is on an error, on retry and on a panic (the
  state is read back from the claim), and anything else may happen in between that does not drop a
  subscription.
\<close>

inductive migrating :: "Config \<Rightarrow> State \<Rightarrow> history \<Rightarrow> bool" for c where
  start: "list_all (\<lambda>e. \<not> is_drop e) h \<Longrightarrow> migrating c (initial_state c) h"
| advance: "migrating c s h \<Longrightarrow> Execute E s h = (Ret (Inr (Some s')), h') \<Longrightarrow> State_Id s' \<noteq> S_Retry \<Longrightarrow>
    migrating c s' h'"
| stay: "migrating c s h \<Longrightarrow> Execute E s h = (r, h') \<Longrightarrow> migrating c s h'"
| other: "migrating c s h \<Longrightarrow> list_all (\<lambda>e. \<not> is_drop e) es \<Longrightarrow> migrating c s (es @ h)"

definition revoked :: "Config \<Rightarrow> history \<Rightarrow> bool" where
  "revoked c h \<longleftrightarrow> (\<exists>u. Parse (cfg_SourceDBUserDsn c) = Inr u \<and>
     Sql (EvExec (cfg_SourceDBAdminDsn c) (REVOKE_WRITES (getParentRole (Username (User u)))) None) \<in> set h)"

text \<open>After the revocation, the source was asked for its row counts and every table had at least as
  many rows in the target.\<close>

definition validated :: "Config \<Rightarrow> history \<Rightarrow> bool" where
  "validated c h \<longleftrightarrow> (\<exists>later es rows h1.
     h = later @ es @ Sql (EvQueryCounts (cfg_SourceDBUserDsn c) Q_SourceTableCounts (Inr (rows, None))) # h1 \<and>
     revoked c h1 \<and>
     (\<forall>(t, n) \<in> set rows. \<exists>k \<ge> n. Sql (EvQueryInt (cfg_TargetDBUserDsn c) (Q_TableCount t) (Inr k)) \<in> set es))"

definition drops_validated :: "Config \<Rightarrow> history \<Rightarrow> bool" where
  "drops_validated c h \<longleftrightarrow> (\<forall>later e earlier. h = later @ e # earlier \<longrightarrow> is_drop e \<longrightarrow> validated c earlier)"

lemma revoked_mono: "revoked c h \<Longrightarrow> revoked c (es @ h)"
  by (auto simp: revoked_def)

lemma validated_mono: "validated c h \<Longrightarrow> validated c (es @ h)"
proof -
  assume "validated c h"
  then obtain later l where "h = later @ l" and "\<And>m. validated c (m @ l)"
    unfolding validated_def by blast
  then have "validated c ((es @ later) @ l)" by blast
  with \<open>h = later @ l\<close> show ?thesis by simp
qed

lemma drops_validated_Cons:
  "drops_validated c h \<Longrightarrow> validated c h \<or> \<not> is_drop e \<Longrightarrow> drops_validated c (e # h)"
  unfolding drops_validated_def by (auto simp: Cons_eq_append_conv)

lemma drops_validated_other:
  "drops_validated c h \<Longrightarrow> list_all (\<lambda>e. \<not> is_drop e) es \<Longrightarrow> drops_validated c (es @ h)"
  by (induction es) (auto intro: drops_validated_Cons)

lemma drops_validated_after:
  "drops_validated c h \<Longrightarrow> validated c h \<Longrightarrow> drops_validated c (es @ h)"
  by (induction es) (auto intro: drops_validated_Cons validated_mono)

lemma read_sequences_emits:
  "(\<And>q r. P (Sql (EvQueryInt db q r))) \<Longrightarrow> emits P (read_sequences E db rows seqs)"
  by (induction rows arbitrary: seqs) (auto simp: sql_calls intro!: trace_intros)

lemma compare_counts_emits:
  "(\<And>q r. P (Sql (EvQueryInt db q r))) \<Longrightarrow> emits P (compare_counts E db rows d)"
  by (induction rows arbitrary: d) (auto simp: sql_calls intro!: trace_intros)

lemma Execute_emits_no_drop:
  "State_Id s \<noteq> S_DeleteSubscription \<Longrightarrow> emits (\<lambda>e. \<not> is_drop e) (Execute E s)"
  by (cases s)
    (auto simp: exec_defs pg_helpers sql_calls sys_calls Let_def
      intro!: trace_intros read_sequences_emits compare_counts_emits split: exec_result.split)

lemma Execute_extends: "Execute E s h = (r, h') \<Longrightarrow> \<exists>es. h' = es @ h"
proof -
  assume run: "Execute E s h = (r, h')"
  have "emits (\<lambda>_. True) (Execute E s)"
    by (cases s)
      (auto simp: exec_defs pg_helpers sql_calls sys_calls Let_def
        intro!: trace_intros read_sequences_emits compare_counts_emits split: exec_result.split)
  from emits_run [OF this run] show ?thesis by blast
qed

lemma compare_counts_true:
  assumes "compare_counts E db rows d h = (Ret (Inr True), h')"
  shows "d \<and> (\<exists>es. h' = es @ h \<and>
    (\<forall>(t, n) \<in> set rows. \<exists>k \<ge> n. Sql (EvQueryInt db (Q_TableCount t) (Inr k)) \<in> set es))"
  using assms
proof (induction E db rows d arbitrary: h rule: compare_counts.induct)
  case (1 E db d)
  then show ?case by (simp add: ret_def)
next
  case (2 E db t n rest d)
  let ?ans = "e_QueryInt (e_sql E) h db (Q_TableCount t)"
  from "2.prems" obtain k where k: "?ans = Inr k"
    and rest: "compare_counts E db rest (if k < n then False else d)
      (Sql (EvQueryInt db (Q_TableCount t) (Inr k)) # h) = (Ret (Inr True), h')"
    by (auto simp: prog_simps sql_calls split: sum.splits)
  from "2.IH" [OF rest] obtain es where "\<not> k < n" "d"
    and es: "h' = es @ Sql (EvQueryInt db (Q_TableCount t) (Inr k)) # h"
      "\<forall>(t, n) \<in> set rest. \<exists>k \<ge> n. Sql (EvQueryInt db (Q_TableCount t) (Inr k)) \<in> set es"
    by (auto split: if_splits)
  then show ?case
    by (intro conjI exI [of _ "es @ [Sql (EvQueryInt db (Q_TableCount t) (Inr k))]"]) (auto simp: not_less)
qed

lemma disable_source_access_revokes:
  assumes "exec_disable_source_access E c h = (Ret (Inr (Some s')), h')"
  shows "revoked c h' \<and> s' = validate_migration_status_state c"
  using assms
  by (auto simp: exec_disable_source_access_def getDB_def sql_calls prog_simps Let_def revoked_def
      split: option.splits sum.splits)

lemma compare_counts_validates:
  assumes "compare_counts E (cfg_TargetDBUserDsn c) rows True
    (Sql (EvQueryCounts (cfg_SourceDBUserDsn c) Q_SourceTableCounts (Inr (rows, None))) # h) = (Ret (Inr True), h')"
    and "revoked c h"
  shows "validated c h'"
proof -
  from compare_counts_true [OF assms(1)] obtain es where
    "h' = es @ Sql (EvQueryCounts (cfg_SourceDBUserDsn c) Q_SourceTableCounts (Inr (rows, None))) # h"
    "\<forall>(t, n) \<in> set rows. \<exists>k \<ge> n. Sql (EvQueryInt (cfg_TargetDBUserDsn c) (Q_TableCount t) (Inr k)) \<in> set es"
    by blast
  with assms(2) show "validated c h'"
    unfolding validated_def
    by (intro exI [of _ "[]"] exI [of _ es] exI [of _ rows] exI [of _ h]) simp
qed

lemma revoked_Cons: "revoked c h \<Longrightarrow> revoked c (e # h)"
  by (auto simp: revoked_def)

lemma validate_migration_validates:
  assumes "revoked c h"
  shows "wp (exec_validate_migration_status E c)
    (\<lambda>r h'. \<forall>s'. r = Ret (Inr (Some s')) \<longrightarrow> State_Id s' \<noteq> S_Retry \<longrightarrow> validated c h') h"
  unfolding exec_validate_migration_status_def getDB_def sql_calls
  by (simp add: wp_simps split: option.splits sum.splits prod.splits)
    (auto simp: wp_simps intro!: wpI revoked_Cons assms dest!: compare_counts_validates
      split: go.splits sum.splits)

definition migration_inv :: "Config \<Rightarrow> State \<Rightarrow> history \<Rightarrow> bool" where
  "migration_inv c s h \<longleftrightarrow> config_of s = c \<and> State_Id s \<noteq> S_Retry \<and>
     (S_DisableSourceAccess < State_Id s \<longrightarrow> revoked c h) \<and>
     (S_ValidateMigrationStatus < State_Id s \<longrightarrow> validated c h) \<and> drops_validated c h"

lemma Execute_drops_validated:
  assumes "migration_inv c s h" and "Execute E s h = (r, h')"
  shows "drops_validated c h'"
proof (cases "State_Id s = S_DeleteSubscription")
  case True
  from Execute_extends [OF assms(2)] obtain es where "h' = es @ h" by blast
  with True assms(1) show ?thesis
    by (auto simp: migration_inv_def state_order intro: drops_validated_after)
next
  case False
  from emits_run [OF Execute_emits_no_drop [OF False] assms(2)] obtain es
    where "h' = es @ h" and "\<And>e. e \<in> set es \<Longrightarrow> \<not> is_drop e" by blast
  with assms(1) show ?thesis
    by (auto simp: migration_inv_def list_all_iff intro!: drops_validated_other)
qed

lemma migration_inv_stay:
  assumes "migration_inv c s h" and "h' = es @ h" and "drops_validated c h'"
  shows "migration_inv c s h'"
  using assms revoked_mono validated_mono unfolding migration_inv_def by blast

lemma migration_inv_advance:
  assumes inv: "migration_inv c s h" and run: "Execute E s h = (Ret (Inr (Some s')), h')"
    and "State_Id s' \<noteq> S_Retry"
  shows "migration_inv c s' h'"
proof -
  from Execute_extends [OF run] obtain es where h': "h' = es @ h" by blast
  have c: "config_of s = c" using inv by (simp add: migration_inv_def)
  have next_id: "State_Id s' = following (State_Id s)" using Execute_next(3) [OF run assms(3)] .
  have rev: "revoked c h'" if less: "S_DisableSourceAccess < State_Id s'"
  proof (cases "S_DisableSourceAccess < State_Id s")
    case True
    with inv h' show ?thesis by (auto simp: migration_inv_def intro: revoked_mono)
  next
    case False
    with less have "State_Id s = S_DisableSourceAccess"
      unfolding next_id by (cases "State_Id s") (simp_all add: state_order)
    then have "s = disable_source_access_state c" using c by (intro State_eqI) simp_all
    with run show ?thesis by (auto dest: disable_source_access_revokes)
  qed
  have val: "validated c h'" if less: "S_ValidateMigrationStatus < State_Id s'"
  proof (cases "S_ValidateMigrationStatus < State_Id s")
    case True
    with inv h' show ?thesis by (auto simp: migration_inv_def intro: validated_mono)
  next
    case False
    with less have id: "State_Id s = S_ValidateMigrationStatus"
      unfolding next_id by (cases "State_Id s") (simp_all add: state_order)
    then have "s = validate_migration_status_state c" using c by (intro State_eqI) simp_all
    moreover have "revoked c h" using inv id by (simp add: migration_inv_def state_order)
    ultimately show ?thesis
      using run assms(3) by (auto dest!: validate_migration_validates [THEN wpD])
  qed
  show ?thesis
    using c rev val assms(3) Execute_next(1) [OF run] Execute_drops_validated [OF inv run]
    by (simp add: migration_inv_def)
qed

lemma migrating_inv: "migrating c s h \<Longrightarrow> migration_inv c s h"
proof (induction rule: migrating.induct)
  case (start h)
  have "drops_validated c (h @ [])"
    using start by (intro drops_validated_other) (simp_all add: drops_validated_def)
  then show ?case by (simp add: migration_inv_def state_order)
next
  case (advance s h E s' h')
  then show ?case by (blast intro: migration_inv_advance)
next
  case (stay s h E r h')
  from Execute_extends [OF stay.hyps(2)] obtain es where "h' = es @ h" by blast
  with stay show ?case by (blast intro: migration_inv_stay Execute_drops_validated)
next
  case (other s h es)
  then show ?case
    by (intro migration_inv_stay [OF other.IH refl] drops_validated_other)
      (simp_all add: migration_inv_def)
qed

section \<open>A sample migration\<close>

definition sample_conn :: "string \<Rightarrow> string \<Rightarrow> string \<Rightarrow> ConnInfo" where
  "sample_conn user pw host = \<lparr>ci_Host = host, ci_Port = ''5432'', ci_DatabaseName = ''app'',
     ci_Username = user, ci_Password = pw, ci_SSLMode = ''require''\<rparr>"

definition sample_config :: Config where
  "sample_config = \<lparr>cfg_Cloud = ''aws'',
     cfg_SourceDBAdminDsn = Uri (Some (sample_conn ''root'' ''s'' ''src'')),
     cfg_SourceDBUserDsn = Uri (Some (sample_conn ''app_a'' ''s'' ''src'')),
     cfg_TargetDBAdminDsn = Uri (Some (sample_conn ''root'' ''t'' ''tgt'')),
     cfg_TargetDBUserDsn = Uri (Some (sample_conn ''app_a'' ''t'' ''tgt'')),
     cfg_ExportFilePath = ''/tmp/''\<rparr>"

lemma Uri_nonempty [simp]: "Uri (Some c) \<noteq> []"
  by (simp add: Uri_def)

lemma Parse_sample:
  "\<exists>u. Parse (cfg_TargetDBUserDsn sample_config) = Inr u"
  "\<exists>u. Parse (cfg_SourceDBUserDsn sample_config) = Inr u"
  by (simp_all add: sample_config_def Parse_Uri sample_conn_def uri_safe_def plain_char_def
      is_alnum_def is_digit_def)

lemma sample_progress:
  assumes "config_of s = sample_config" and "State_Id s \<notin> {S_Completed, S_Retry}"
  shows "\<exists>s' h'. Execute sample_env s h = (Ret (Inr (Some s')), h') \<and> State_Id s' = following (State_Id s) \<and>
    (State_Id s = S_DeleteSubscription \<longrightarrow> is_drop (hd h') \<and> h' \<noteq> [])"
proof -
  obtain u v where "Parse (cfg_TargetDBUserDsn sample_config) = Inr u"
    "Parse (cfg_SourceDBUserDsn sample_config) = Inr v"
    using Parse_sample by blast
  then show ?thesis
    using assms
    by (cases s) (simp_all add: exec_defs pg_helpers sql_calls sys_calls prog_simps sample_defs
        sample_config_def NewDump_def Let_def)
qed

lemma sample_migrates: "\<exists>s h. migrating sample_config s h \<and> State_Id s = (following ^^ n) S_Initial"
proof (induction n)
  case 0
  have "migrating sample_config (initial_state sample_config) []" by (rule migrating.start) simp
  then show ?case by force
next
  case (Suc n)
  then obtain s h where s: "migrating sample_config s h" "State_Id s = (following ^^ n) S_Initial" by blast
  show ?case
  proof (cases "State_Id s \<in> {S_Completed, S_Retry}")
    case True
    with s show ?thesis by force
  next
    case False
    have "config_of s = sample_config" using migrating_inv [OF s(1)] by (simp add: migration_inv_def)
    from sample_progress [OF this False, of h] obtain s' h' where
      "Execute sample_env s h = (Ret (Inr (Some s')), h')" "State_Id s' = following (State_Id s)" by blast
    moreover have "following (State_Id s) \<noteq> S_Retry" using False by (cases "State_Id s") simp_all
    ultimately show ?thesis using migrating.advance [OF s(1)] s(2) by force
  qed
qed

text \<open>
  C6: a migration never tears replication down early. Whatever fails, is retried or happens in
  between, by the time a subscription is dropped the source role has lost its write access and,
  after that, the row counts of the source were read and every table was found with at least as
  many rows in the target.
\<close>

theorem drop_only_after_validation:
  assumes "migrating c s h" and "h = later @ e # earlier" and "is_drop e"
  shows "\<exists>u es rows h0 before.
    Parse (cfg_SourceDBUserDsn c) = Inr u \<and>
    earlier = before @ es @ Sql (EvQueryCounts (cfg_SourceDBUserDsn c) Q_SourceTableCounts (Inr (rows, None))) # h0 \<and>
    Sql (EvExec (cfg_SourceDBAdminDsn c) (REVOKE_WRITES (getParentRole (Username (User u)))) None) \<in> set h0 \<and>
    (\<forall>(t, n) \<in> set rows. \<exists>k \<ge> n. Sql (EvQueryInt (cfg_TargetDBUserDsn c) (Q_TableCount t) (Inr k)) \<in> set es)"
proof -
  from migrating_inv [OF assms(1)] assms(2,3) have "validated c earlier"
    by (simp add: migration_inv_def drops_validated_def)
  then show ?thesis unfolding validated_def revoked_def by blast
qed

theorem drop_only_after_validation_witness:
  "\<exists>s h later e earlier. migrating sample_config s h \<and> h = later @ e # earlier \<and> is_drop e \<and>
    (\<exists>u es rows h0 before.
    Parse (cfg_SourceDBUserDsn sample_config) = Inr u \<and>
    earlier = before @ es @ Sql (EvQueryCounts (cfg_SourceDBUserDsn sample_config) Q_SourceTableCounts (Inr (rows, None))) # h0 \<and>
    Sql (EvExec (cfg_SourceDBAdminDsn sample_config) (REVOKE_WRITES (getParentRole (Username (User u)))) None) \<in> set h0 \<and>
    (\<forall>(t, n) \<in> set rows. \<exists>k \<ge> n. Sql (EvQueryInt (cfg_TargetDBUserDsn sample_config) (Q_TableCount t) (Inr k)) \<in> set es))"
proof -
  from sample_migrates [of 13] obtain s h where s: "migrating sample_config s h" "State_Id s = S_DeleteSubscription"
    by (auto simp: eval_nat_numeral)
  have "config_of s = sample_config" using migrating_inv [OF s(1)] by (simp add: migration_inv_def)
  with sample_progress [of s h] s(2) obtain s' h' where
    run: "Execute sample_env s h = (Ret (Inr (Some s')), h')" and drop: "is_drop (hd h')" "h' \<noteq> []" by auto
  have mig: "migrating sample_config s h'" by (rule migrating.stay [OF s(1) run])
  have h': "h' = [] @ hd h' # tl h'" using drop(2) by simp
  from drop_only_after_validation [OF mig h' drop(1)] mig h' drop(1) show ?thesis by blast
qed

text \<open>A migration is resumed where it stopped: the name that a state writes into the claim is read
  back as that state, for every state a claim can be left in.\<close>

lemma GetReplicatorState_String:
  "State_Id s \<noteq> S_Retry \<Longrightarrow> GetReplicatorState (State_String s) (config_of s) = Inr s"
  by (cases s) (simp_all add: GetReplicatorState_def State_String_def state_codec.dec_enc del: StateEnum_String.simps)

section \<open>The temporary superuser\<close>

definition superuser_revoked :: "Config \<Rightarrow> event \<Rightarrow> bool" where
  "superuser_revoked c e \<longleftrightarrow> (\<exists>u. Parse (cfg_TargetDBUserDsn c) = Inr u \<and>
     e = Sql (EvExec (cfg_TargetDBAdminDsn c)
       (REVOKE_ROLE (superuser_group (cfg_Cloud c)) (getParentRole (Username (User u)))) None))"

text \<open>
  C32: copying the schema makes the target role a superuser for the time of the copy. When the state
  succeeds, its last statement took the membership back; when it fails, no statement of it did, so
  the role keeps the membership until a later attempt succeeds.
\<close>

theorem copy_schema_superuser:
  assumes "exec_copy_schema E c h = (Ret r, h')"
  shows "(\<forall>s. r = Inr (Some s) \<longrightarrow> s = create_subscription_state c \<and> superuser_revoked c (hd h')) \<and>
    (\<forall>err. r = Inl err \<longrightarrow> (\<exists>es. h' = es @ h \<and> (\<forall>e \<in> set es. \<not> superuser_revoked c e)))"
proof -
  have "wp (exec_copy_schema E c) (\<lambda>r h'. (\<forall>s. r = Ret (Inr (Some s)) \<longrightarrow>
      s = create_subscription_state c \<and> superuser_revoked c (hd h')) \<and>
    (\<forall>err. r = Ret (Inl err) \<longrightarrow> (\<exists>es. h' = es @ h \<and> (\<forall>e \<in> set es. \<not> superuser_revoked c e)))) h"
    unfolding exec_copy_schema_def pg_helpers sql_calls sys_calls
    by (simp add: wp_simps superuser_revoked_def Let_def NewDump_def
        split: option.split sum.split exec_result.split)
  from wpD [OF this assms] show ?thesis by simp
qed

theorem copy_schema_superuser_witness:
  "\<exists>h'. exec_copy_schema sample_env sample_config [] = (Ret (Inr (Some (create_subscription_state sample_config))), h') \<and>
     superuser_revoked sample_config (hd h')"
proof -
  from sample_progress [of "copy_schema_state sample_config" "[]"] obtain s' h' where
    run: "exec_copy_schema sample_env sample_config [] = (Ret (Inr (Some s')), h')" by auto
  from copy_schema_superuser [OF run] run show ?thesis by auto
qed

end
