(* ===== verification/Modeenum.thy ===== *)
theory Modeenum
  imports Requestinfo Pgctl
begin

text \<open>
  The mode of operation (\<^verbatim>\<open>pkg/databaseclaim/modeenum.go\<close>): which of the reconciler's workflows a
  claim is in. \<^verbatim>\<open>getMode\<close> also changes the claim, so it answers the mode and the claim.
\<close>

datatype ModeEnum =
    M_NotSupported | M_UseExistingDB | M_MigrateExistingToNewDB | M_MigrationInProgress
  | M_UseNewDB | M_InitiateDBUpgrade | M_UpgradeDBInProgress | M_PostMigrationInProgress

definition migration_unstarted :: "string \<Rightarrow> bool" where
  "migration_unstarted st \<longleftrightarrow> st = [] \<or> st = StateEnum_String S_Initial"

definition migration_completed :: "string \<Rightarrow> bool" where
  "migration_completed st \<longleftrightarrow> st = StateEnum_String S_Completed"

text \<open>The last part of \<^verbatim>\<open>getMode\<close>: an upgrade of an active database of the controller's own.\<close>

definition getMode_upgrade :: "requestInfo \<Rightarrow> DatabaseClaim \<Rightarrow> ModeEnum \<times> DatabaseClaim" where
  "getMode_upgrade reqInfo c =
     (if st_DbState (dc_ActiveDB c) = Ready \<and>
         IsUpgradeRequested (ri_HostParams reqInfo) (GetActiveHostParams c) then
        (let c' = (if st_DbState (dc_NewDB c) = []
                   then upd_status (\<lambda>s. s\<lparr>s_MigrationState := []\<rparr>) (upd_new (\<lambda>s. s\<lparr>st_DbState := InProgress\<rparr>) c)
                   else c);
             st = s_MigrationState (dc_Status c')
         in if migration_unstarted st then (M_InitiateDBUpgrade, c')
            else if \<not> migration_completed st then (M_UpgradeDBInProgress, c')
            else (M_UseNewDB, c'))
      else (M_UseNewDB, c))"

text \<open>The part before it: a claim that does not use an existing source (any more).\<close>

definition getMode_migrate :: "requestInfo \<Rightarrow> DatabaseClaim \<Rightarrow> ModeEnum \<times> DatabaseClaim" where
  "getMode_migrate reqInfo c =
     (let st = s_MigrationState (dc_Status c); usingExisting = (st_DbState (dc_ActiveDB c) = UsingExistingDB)
      in case spec_SourceDataFrom (dc_Spec c) of
           Some sdf \<Rightarrow>
             if sdf_Type sdf \<noteq> ''database'' then (M_NotSupported, c)
             else if usingExisting \<and> migration_unstarted st then (M_MigrateExistingToNewDB, c)
             else if usingExisting \<and> \<not> migration_completed st then (M_MigrationInProgress, c)
             else getMode_upgrade reqInfo c
         | None \<Rightarrow>
             if usingExisting then
               (case st_SourceDataFrom (dc_ActiveDB c) of
                  None \<Rightarrow> (M_NotSupported, c)
                | Some sdf \<Rightarrow>
                    (let c' = upd_spec (\<lambda>s. s\<lparr>spec_SourceDataFrom := Some sdf\<rparr>) c
                     in if migration_unstarted st then (M_MigrateExistingToNewDB, c')
                        else if \<not> migration_completed st then (M_MigrationInProgress, c')
                        else getMode_upgrade reqInfo c'))
             else getMode_upgrade reqInfo c)"

definition getMode :: "requestInfo \<Rightarrow> DatabaseClaim \<Rightarrow> ModeEnum \<times> DatabaseClaim" where
  "getMode reqInfo c =
     (let postMigration = (old_DbState (dc_OldDB c) = PostMigrationInProgress) in
      if postMigration \<and> (old_ConnectionInfo (dc_OldDB c) = None \<or>
           st_DbState (dc_ActiveDB c) \<noteq> Ready \<or> ri_SharedDBHost reqInfo) then (M_NotSupported, c)
      else if postMigration \<and> st_DbState (dc_ActiveDB c) = Ready then (M_PostMigrationInProgress, c)
      else if ri_SharedDBHost reqInfo then (M_UseNewDB, c)
      else if spec_UseExistingSource (dc_Spec c) = Some True then
        (case spec_SourceDataFrom (dc_Spec c) of
           None \<Rightarrow> (M_NotSupported, c)
         | Some sdf \<Rightarrow> if sdf_Type sdf \<noteq> ''database'' then (M_NotSupported, c) else (M_UseExistingDB, c))
      else getMode_migrate reqInfo c)"

section \<open>Properties\<close>

lemmas getMode_defs = getMode_def getMode_migrate_def getMode_upgrade_def Let_def

lemma getMode_frame:
  assumes "getMode reqInfo c = (m, c')"
  shows "dc_Meta c' = dc_Meta c" and "dc_ActiveDB c' = dc_ActiveDB c" and "dc_OldDB c' = dc_OldDB c"
    and "s_MigrationState (dc_Status c') = s_MigrationState (dc_Status c) \<or>
      s_MigrationState (dc_Status c') = [] \<and> st_DbState (dc_NewDB c) = [] \<and> m = M_InitiateDBUpgrade"
  using assms
  by (auto simp: getMode_defs claim_upds migration_unstarted_def split: if_splits option.splits)

text \<open>
  What the modes are for, said of the claim and the request alone. A claim is of the controller's own
  when no old database is being retired, no host is shared and it does not ask to use an existing
  source; such a claim leaves an existing source when that is its active database and the claim (or
  else the record in its status) names a source of the supported type, and it wants an upgrade when
  its active database is ready and its parameters ask for another one.
\<close>

definition own_database :: "requestInfo \<Rightarrow> DatabaseClaim \<Rightarrow> bool" where
  "own_database reqInfo c \<longleftrightarrow> old_DbState (dc_OldDB c) \<noteq> PostMigrationInProgress \<and> \<not> ri_SharedDBHost reqInfo \<and>
     spec_UseExistingSource (dc_Spec c) \<noteq> Some True"

definition leaves_existing_source :: "requestInfo \<Rightarrow> DatabaseClaim \<Rightarrow> bool" where
  "leaves_existing_source reqInfo c \<longleftrightarrow> own_database reqInfo c \<and> st_DbState (dc_ActiveDB c) = UsingExistingDB \<and>
     (case spec_SourceDataFrom (dc_Spec c) of
        Some sdf \<Rightarrow> sdf_Type sdf = ''database''
      | None \<Rightarrow> st_SourceDataFrom (dc_ActiveDB c) \<noteq> None)"

definition wants_upgrade :: "requestInfo \<Rightarrow> DatabaseClaim \<Rightarrow> bool" where
  "wants_upgrade reqInfo c \<longleftrightarrow> own_database reqInfo c \<and> st_DbState (dc_ActiveDB c) = Ready \<and>
     IsUpgradeRequested (ri_HostParams reqInfo) (GetActiveHostParams c) \<and>
     (case spec_SourceDataFrom (dc_Spec c) of Some sdf \<Rightarrow> sdf_Type sdf = ''database'' | None \<Rightarrow> True)"

lemmas mode_defs = getMode_defs own_database_def leaves_existing_source_def wants_upgrade_def claim_upds
  migration_unstarted_def migration_completed_def GetActiveHostParams_def

lemma getMode_leaves_existing_source:
  "fst (getMode reqInfo c) = M_MigrateExistingToNewDB \<longleftrightarrow>
     leaves_existing_source reqInfo c \<and> s_MigrationState (dc_Status c) \<in> {[], ''initial''}"
  "fst (getMode reqInfo c) = M_MigrationInProgress \<longleftrightarrow>
     leaves_existing_source reqInfo c \<and> s_MigrationState (dc_Status c) \<notin> {[], ''initial'', ''completed''}"
  by (auto simp: mode_defs split: option.split)

lemma getMode_wants_upgrade:
  "fst (getMode reqInfo c) = M_InitiateDBUpgrade \<longleftrightarrow> wants_upgrade reqInfo c \<and>
     (st_DbState (dc_NewDB c) = [] \<or> s_MigrationState (dc_Status c) \<in> {[], ''initial''})"
  "fst (getMode reqInfo c) = M_UpgradeDBInProgress \<longleftrightarrow> wants_upgrade reqInfo c \<and>
     st_DbState (dc_NewDB c) \<noteq> [] \<and> s_MigrationState (dc_Status c) \<notin> {[], ''initial'', ''completed''}"
  by (auto simp: mode_defs split: option.split)

lemma getMode_retires:
  "fst (getMode reqInfo c) = M_PostMigrationInProgress \<longleftrightarrow> old_DbState (dc_OldDB c) = PostMigrationInProgress \<and>
     old_ConnectionInfo (dc_OldDB c) \<noteq> None \<and> st_DbState (dc_ActiveDB c) = Ready \<and> \<not> ri_SharedDBHost reqInfo"
  by (auto simp: mode_defs split: option.split)

lemma getMode_recorded_state:
  assumes "getMode reqInfo c = (m, c')"
  shows "m \<in> {M_MigrationInProgress, M_UpgradeDBInProgress} \<Longrightarrow>
      s_MigrationState (dc_Status c') \<notin> {[], ''initial'', ''completed''}"
    and "m \<in> {M_MigrateExistingToNewDB, M_InitiateDBUpgrade} \<Longrightarrow> s_MigrationState (dc_Status c') \<in> {[], ''initial''}"
    and "m \<in> {M_MigrateExistingToNewDB, M_MigrationInProgress} \<Longrightarrow> spec_SourceDataFrom (dc_Spec c') \<noteq> None"
  using assms by (auto simp: mode_defs split: if_splits option.splits)

text \<open>
  C17: which migration workflow a claim is in, exactly. The migration away from an existing source is
  started for the claims that leave it and whose migration state is empty or initial, and continued
  for those whose state is neither that nor completed; an upgrade is started for the claims that want
  one and have no new database yet or an empty or initial state, and continued for those with a new
  database and a state in between; and an old database is retired for the claims that record it as
  such, with its connection, beside a ready active database and no shared host. The claim that is
  answered agrees: a workflow that starts finds an empty or initial state in it, one that continues
  neither of these nor the completed one, and a migration away from an existing source finds the source
  in the claim.
\<close>

theorem getMode_migration:
  assumes "getMode reqInfo c = (m, c')"
  shows "(m = M_MigrateExistingToNewDB \<longleftrightarrow>
       leaves_existing_source reqInfo c \<and> s_MigrationState (dc_Status c) \<in> {[], ''initial''}) \<and>
    (m = M_MigrationInProgress \<longleftrightarrow>
       leaves_existing_source reqInfo c \<and> s_MigrationState (dc_Status c) \<notin> {[], ''initial'', ''completed''}) \<and>
    (m = M_InitiateDBUpgrade \<longleftrightarrow> wants_upgrade reqInfo c \<and>
       (st_DbState (dc_NewDB c) = [] \<or> s_MigrationState (dc_Status c) \<in> {[], ''initial''})) \<and>
    (m = M_UpgradeDBInProgress \<longleftrightarrow> wants_upgrade reqInfo c \<and>
       st_DbState (dc_NewDB c) \<noteq> [] \<and> s_MigrationState (dc_Status c) \<notin> {[], ''initial'', ''completed''}) \<and>
    (m = M_PostMigrationInProgress \<longleftrightarrow> old_DbState (dc_OldDB c) = PostMigrationInProgress \<and>
       old_ConnectionInfo (dc_OldDB c) \<noteq> None \<and> st_DbState (dc_ActiveDB c) = Ready \<and> \<not> ri_SharedDBHost reqInfo) \<and>
    (m \<in> {M_MigrationInProgress, M_UpgradeDBInProgress} \<longrightarrow>
       s_MigrationState (dc_Status c') \<notin> {[], ''initial'', ''completed''}) \<and>
    (m \<in> {M_MigrateExistingToNewDB, M_InitiateDBUpgrade} \<longrightarrow>
       s_MigrationState (dc_Status c') \<in> {[], ''initial''}) \<and>
    (m \<in> {M_MigrateExistingToNewDB, M_MigrationInProgress} \<longrightarrow> spec_SourceDataFrom (dc_Spec c') \<noteq> None)"
  using getMode_leaves_existing_source [of reqInfo c] getMode_wants_upgrade [of reqInfo c]
    getMode_retires [of reqInfo c] getMode_recorded_state [OF assms]
  unfolding assms fst_conv by blast

definition sample_migrating :: DatabaseClaim where
  "sample_migrating = upd_spec (\<lambda>s. s\<lparr>spec_SourceDataFrom := Some \<lparr>sdf_Type = ''database'', sdf_Database = None\<rparr>\<rparr>)
     (upd_status (\<lambda>s. s\<lparr>s_MigrationState := ''copy_schema''\<rparr>)
       (upd_active (\<lambda>s. s\<lparr>st_DbState := UsingExistingDB\<rparr>) sample_claim))"

theorem getMode_migration_witness:
  "getMode (sample_reqInfo hp_15_3) sample_migrating = (M_MigrationInProgress, sample_migrating) \<and>
   leaves_existing_source (sample_reqInfo hp_15_3) sample_migrating"
proof -
  have "getMode (sample_reqInfo hp_15_3) sample_migrating = (M_MigrationInProgress, sample_migrating)"
    by (simp add: getMode_defs sample_migrating_def sample_claim_def sample_reqInfo_def claim_upds
        migration_unstarted_def migration_completed_def empty_StatusForOldDB_def)
  with getMode_migration [OF this] show ?thesis by simp
qed

end
