(* ===== verification/Secrets.thy ===== *)
theory Secrets
  imports Resources Modeenum
begin

text \<open>
  The secrets of a claim (\<^verbatim>\<open>pkg/databaseclaim/secrets.go\<close>): the connection secret the application
  reads, the temporary secret of a migration and the master password, with \<^verbatim>\<open>rerouteTargetSecret\<close>
  of \<^verbatim>\<open>databaseclaim.go\<close>.
\<close>

section \<open>The connection secret\<close>

definition put_all :: "(string \<rightharpoonup> string) \<Rightarrow> (string \<times> string) list \<Rightarrow> (string \<rightharpoonup> string)" where
  "put_all d kvs = foldl (\<lambda>d kv. d(fst kv \<mapsto> snd kv)) d kvs"

text \<open>The assignments to \<^verbatim>\<open>secret.Data\<close>, in the order of the code.\<close>

definition conn_entries :: "DatabaseClaim \<Rightarrow> string \<Rightarrow> string \<Rightarrow> string \<Rightarrow> ConnInfo \<Rightarrow> (string \<times> string) list" where
  "conn_entries dbClaim dsn dbURI replicaDbURI connInfo =
     [(DSNKey, dsn), (DSNURIKey, dbURI), (ReplicaDSNURIKey, replicaDbURI), (''hostname'', ci_Host connInfo),
      (''port'', ci_Port connInfo), (''database'', ci_DatabaseName connInfo), (''username'', ci_Username connInfo),
      (''password'', ci_Password connInfo), (''sslmode'', ci_SSLMode connInfo)] @
     (let dsnName = spec_DSNName (dc_Spec dbClaim)
      in if dsnName \<noteq> [] \<and> dsnName \<noteq> DSNKey then [(dsnName, dsn), (''uri_'' @ dsnName, dbURI)] else [])"

abbreviation managed_by :: "(string \<times> string) list" where
  "managed_by \<equiv> [(''app.kubernetes.io/managed-by'', ''db-controller'')]"

definition createSecret ::
  "env \<Rightarrow> DatabaseClaim \<Rightarrow> string \<Rightarrow> string \<Rightarrow> string \<Rightarrow> ConnInfo \<Rightarrow> goerror option go_prog" where
  "createSecret E dbClaim dsn dbURI replicaDbURI connInfo =
     createSecretObj E \<lparr>sec_Namespace = dc_Namespace dbClaim, sec_Name = spec_SecretName (dc_Spec dbClaim),
       sec_Labels = managed_by, sec_Owner = [], sec_ResourceVersion = [],
       sec_Data = Some (put_all Map.empty (conn_entries dbClaim dsn dbURI replicaDbURI connInfo))\<rparr>"

definition updateSecret ::
  "env \<Rightarrow> DatabaseClaim \<Rightarrow> string \<Rightarrow> string \<Rightarrow> string \<Rightarrow> ConnInfo \<Rightarrow> Secret \<Rightarrow> goerror option go_prog" where
  "updateSecret E dbClaim dsn dbURI replicaDsnURI connInfo exSecret = (case sec_Data exSecret of
     None \<Rightarrow> panic
   | Some d \<Rightarrow> updateSecretObj E
       (exSecret\<lparr>sec_Data := Some (put_all d (conn_entries dbClaim dsn dbURI replicaDsnURI connInfo))\<rparr>))"

text \<open>The secret that a failed lookup leaves behind: the zero value, whose data is nil.\<close>

definition empty_Secret :: Secret where
  "empty_Secret = \<lparr>sec_Namespace = [], sec_Name = [], sec_Labels = [], sec_Owner = [],
     sec_ResourceVersion = [], sec_Data = None\<rparr>"

definition createOrUpdateSecret :: "env \<Rightarrow> DatabaseClaim \<Rightarrow> ConnInfo \<Rightarrow> string \<Rightarrow> goerror option go_prog" where
  "createOrUpdateSecret E dbClaim connInfo cloud =
     (if spec_Type (dc_Spec dbClaim) \<in> {Postgres, AuroraPostgres} then
        (let dsn = PostgresConnectionString (ci_Host connInfo) (ci_Port connInfo) (ci_Username connInfo)
               (ci_Password connInfo) (ci_DatabaseName connInfo) (ci_SSLMode connInfo);
             dsnURI = PostgresURI (ci_Host connInfo) (ci_Port connInfo) (ci_Username connInfo)
               (ci_Password connInfo) (ci_DatabaseName connInfo) (ci_SSLMode connInfo);
             replicaDsnURI = (if cloud = ''aws'' then ReplaceAll dsnURI ''.cluster-'' ''.cluster-ro-'' else []);
             secretName = spec_SecretName (dc_Spec dbClaim);
             useExistingSource = (spec_UseExistingSource (dc_Spec dbClaim) = Some True)
         in bnd (getSecret E (dc_Namespace dbClaim) secretName) (\<lambda>r. case r of
              Inr gs \<Rightarrow>
                if st_ConnectionInfo (dc_ActiveDB dbClaim) = None \<and> \<not> useExistingSource
                then ret (Some (ErrMsg (''secret '' @ secretName @ '' already exists in namespace '' @
                  dc_Namespace dbClaim @ '', but no active database connection info is available'')))
                else updateSecret E dbClaim dsn dsnURI replicaDsnURI connInfo gs
            | Inl e \<Rightarrow>
                if IsNotFound e then createSecret E dbClaim dsn dsnURI replicaDsnURI connInfo
                else updateSecret E dbClaim dsn dsnURI replicaDsnURI connInfo empty_Secret))
      else ret (Some (ErrMsg ''unknown DB type'')))"

section \<open>The temporary secret of a migration\<close>

abbreviation tempTargetPassword :: string where "tempTargetPassword \<equiv> ''targetPassword''"
abbreviation tempSourceDsn :: string where "tempSourceDsn \<equiv> ''sourceDsn''"
abbreviation tempTargetDsn :: string where "tempTargetDsn \<equiv> ''targetDsn''"
abbreviation cachedMasterPasswdForExistingDB :: string where
  "cachedMasterPasswdForExistingDB \<equiv> ''cachedMasterPasswdForExistingDB''"

definition getTempSecretName :: "DatabaseClaim \<Rightarrow> string" where
  "getTempSecretName dbClaim = ''temp-'' @ spec_SecretName (dc_Spec dbClaim)"

definition ns_or_default :: "DatabaseClaim \<Rightarrow> string" where
  "ns_or_default dbClaim = (if dc_Namespace dbClaim = [] then ''default'' else dc_Namespace dbClaim)"

definition new_temp_secret :: "DatabaseClaim \<Rightarrow> Secret" where
  "new_temp_secret dbClaim = \<lparr>sec_Namespace = dc_Namespace dbClaim, sec_Name = getTempSecretName dbClaim,
     sec_Labels = managed_by, sec_Owner = [\<lparr>or_Kind = ''DatabaseClaim'', or_Name = dc_Name dbClaim, or_UID = m_UID (dc_Meta dbClaim)\<rparr>],
     sec_ResourceVersion = [],
     sec_Data = Some [tempTargetPassword \<mapsto> [], tempSourceDsn \<mapsto> [], tempTargetDsn \<mapsto> [],
       cachedMasterPasswdForExistingDB \<mapsto> []]\<rparr>"

definition getTempSecret :: "env \<Rightarrow> DatabaseClaim \<Rightarrow> (goerror + Secret) go_prog" where
  "getTempSecret E dbClaim = bnd (getSecret E (dc_Namespace dbClaim) (getTempSecretName dbClaim)) (\<lambda>r. case r of
     Inr gs \<Rightarrow> ret (Inr gs)
   | Inl e \<Rightarrow>
       if \<not> IsNotFound e then ret (Inl e)
       else check (createSecretObj E (new_temp_secret dbClaim)) (ret (Inr (new_temp_secret dbClaim))))"

text \<open>The three setters differ in the key they assign.\<close>

definition set_in_temp_secret :: "string \<Rightarrow> env \<Rightarrow> string \<Rightarrow> DatabaseClaim \<Rightarrow> goerror option go_prog" where
  "set_in_temp_secret key E val dbClaim =
     attempt_err (getTempSecret E dbClaim) (\<lambda>tSecret. case sec_Data tSecret of
       None \<Rightarrow> panic
     | Some d \<Rightarrow> updateSecretObj E (tSecret\<lparr>sec_Data := Some (d(key \<mapsto> val))\<rparr>))"

definition setSourceDsnInTempSecret :: "env \<Rightarrow> string \<Rightarrow> DatabaseClaim \<Rightarrow> goerror option go_prog" where
  "setSourceDsnInTempSecret = set_in_temp_secret tempSourceDsn"

definition setTargetPasswordInTempSecret :: "env \<Rightarrow> string \<Rightarrow> DatabaseClaim \<Rightarrow> goerror option go_prog" where
  "setTargetPasswordInTempSecret = set_in_temp_secret tempTargetPassword"

definition setMasterPasswordInTempSecret :: "env \<Rightarrow> string \<Rightarrow> DatabaseClaim \<Rightarrow> goerror option go_prog" where
  "setMasterPasswordInTempSecret = set_in_temp_secret cachedMasterPasswdForExistingDB"

definition get_from_temp_secret :: "string \<Rightarrow> env \<Rightarrow> DatabaseClaim \<Rightarrow> (goerror + string) go_prog" where
  "get_from_temp_secret key E dbClaim =
     attempt (getSecret E (ns_or_default dbClaim) (getTempSecretName dbClaim)) (\<lambda>gs. ret (Inr (data_get gs key)))"

definition getTargetPasswordFromTempSecret :: "env \<Rightarrow> DatabaseClaim \<Rightarrow> (goerror + string) go_prog" where
  "getTargetPasswordFromTempSecret = get_from_temp_secret tempTargetPassword"

definition getMasterPasswordFromTempSecret :: "env \<Rightarrow> DatabaseClaim \<Rightarrow> (goerror + string) go_prog" where
  "getMasterPasswordFromTempSecret = get_from_temp_secret cachedMasterPasswdForExistingDB"

definition getSourceDsnFromTempSecret :: "env \<Rightarrow> DatabaseClaim \<Rightarrow> (goerror + string) go_prog" where
  "getSourceDsnFromTempSecret = get_from_temp_secret tempSourceDsn"

definition deleteTempSecret :: "env \<Rightarrow> DatabaseClaim \<Rightarrow> goerror option go_prog" where
  "deleteTempSecret E dbClaim = bnd (getSecret E (ns_or_default dbClaim) (getTempSecretName dbClaim)) (\<lambda>r. case r of
     Inl e \<Rightarrow> if IsNotFound e then ret None else ret (Some e)
   | Inr gs \<Rightarrow> deleteSecretObj E (sec_Namespace gs) (sec_Name gs))"

section \<open>Credentials of the source\<close>

definition getSrcAdminPasswdFromSecret :: "env \<Rightarrow> DatabaseClaim \<Rightarrow> (goerror + string) go_prog" where
  "getSrcAdminPasswdFromSecret E dbClaim =
     (case Option.bind (spec_SourceDataFrom (dc_Spec dbClaim)) (\<lambda>sdf. Option.bind (sdf_Database sdf) db_SecretRef) of
        None \<Rightarrow> panic
      | Some sr \<Rightarrow>
          bnd (getSecret E (if sr_Namespace sr = [] then dc_Namespace dbClaim else sr_Namespace sr) (sr_Name sr)) (\<lambda>r.
            case r of Inr gs \<Rightarrow> ret (Inr (data_get gs ''password''))
            | Inl e \<Rightarrow> if \<not> IsNotFound e then ret (Inl e) else getMasterPasswordFromTempSecret E dbClaim))"

definition getSrcAppDsnFromSecret :: "env \<Rightarrow> DatabaseClaim \<Rightarrow> (goerror + string) go_prog" where
  "getSrcAppDsnFromSecret E dbClaim = (case GetStateEnum (s_MigrationState (dc_Status dbClaim)) of
     Inl e \<Rightarrow> ret (Inl e)
   | Inr state \<Rightarrow>
       if state > S_RerouteTargetSecret then getSourceDsnFromTempSecret E dbClaim
       else attempt (getSecret E (ns_or_default dbClaim) (spec_SecretName (dc_Spec dbClaim)))
         (\<lambda>gs. ret (Inr (data_get gs DSNURIKey))))"

definition rerouteTargetSecret ::
  "env \<Rightarrow> DatabaseClaimReconciler \<Rightarrow> string \<Rightarrow> ConnInfo \<Rightarrow> DatabaseClaim \<Rightarrow> goerror option go_prog" where
  "rerouteTargetSecret E r sourceDsn targetAppConn dbClaim =
     check_err (setSourceDsnInTempSecret E sourceDsn dbClaim)
       (createOrUpdateSecret E dbClaim targetAppConn (GetCloud (cfg_Viper r)))"

section \<open>The master password\<close>

definition generateMasterPassword :: "env \<Rightarrow> (goerror + string) go_prog" where
  "generateMasterPassword E = generate E 30 3 0"

definition manageMasterPassword :: "env \<Rightarrow> SecretKeySelector \<Rightarrow> goerror option go_prog" where
  "manageMasterPassword E sel =
     attempt_err (generateMasterPassword E) (\<lambda>password.
       bnd (getSecret E (sk_Namespace sel) (sk_Name sel)) (\<lambda>r. case r of
         Inr _ \<Rightarrow> ret None
       | Inl e \<Rightarrow>
           if \<not> IsNotFound e then ret (Some e)
           else createSecretObj E \<lparr>sec_Namespace = sk_Namespace sel, sec_Name = sk_Name sel, sec_Labels = [],
             sec_Owner = [], sec_ResourceVersion = [], sec_Data = Some [sk_Key sel \<mapsto> password]\<rparr>))"

section \<open>A server that answers what was written\<close>

text \<open>The secret a history leaves under a name, and an API server that answers from it: documented
  behaviour of the server for a client that is the only writer.\<close>

fun last_secret :: "string \<Rightarrow> string \<Rightarrow> history \<Rightarrow> Secret option" where
  "last_secret ns n [] = None"
| "last_secret ns n (K8s (EvCreateSecret s None) # h) =
     (if sec_Namespace s = ns \<and> sec_Name s = n then Some s else last_secret ns n h)"
| "last_secret ns n (K8s (EvUpdateSecret s None) # h) =
     (if sec_Namespace s = ns \<and> sec_Name s = n then Some s else last_secret ns n h)"
| "last_secret ns n (K8s (EvDeleteSecret ns' n' None) # h) =
     (if ns' = ns \<and> n' = n then None else last_secret ns n h)"
| "last_secret ns n (_ # h) = last_secret ns n h"

definition lookup_secret :: "string \<Rightarrow> string \<Rightarrow> history \<Rightarrow> goerror + Secret" where
  "lookup_secret ns n h = (case last_secret ns n h of Some s \<Rightarrow> Inr s | None \<Rightarrow> Inl (NotFound n))"

definition reads_own_writes :: "env \<Rightarrow> bool" where
  "reads_own_writes E \<longleftrightarrow> (\<forall>h ns n. e_GetSecret (e_k8s E) h ns n = lookup_secret ns n h)"

lemma lookup_secret_simps [simp]:
  "last_secret ns n h = Some s \<Longrightarrow> lookup_secret ns n h = Inr s"
  "last_secret ns n h = None \<Longrightarrow> lookup_secret ns n h = Inl (NotFound n)"
  by (simp_all add: lookup_secret_def)

lemma data_get_put [simp]:
  "data_get (s\<lparr>sec_Data := Some (d(k \<mapsto> v))\<rparr>) k = v"
  by (simp add: data_get_def)

lemma last_secret_name: "last_secret ns n h = Some s \<Longrightarrow> sec_Namespace s = ns \<and> sec_Name s = n"
  by (induction ns n h rule: last_secret.induct) (auto split: if_splits)

lemma getSecret_run:
  "reads_own_writes E \<Longrightarrow> getSecret E ns n h =
     (Ret (lookup_secret ns n h), K8s (EvGetSecret ns n (lookup_secret ns n h)) # h)"
  by (simp add: getSecret_def prog_simps reads_own_writes_def)

text \<open>The environment of the examples, with such a server.\<close>

definition store_env :: env where
  "store_env = sample_env\<lparr>e_k8s := sample_k8s\<lparr>e_GetSecret := \<lambda>h ns n. lookup_secret ns n h\<rparr>\<rparr>"

lemma store_env_reads: "reads_own_writes store_env"
  by (simp add: reads_own_writes_def store_env_def)

lemma store_env_writes [simp]:
  "e_CreateSecret (e_k8s store_env) h s = None" "e_UpdateSecret (e_k8s store_env) h s = None"
  by (simp_all add: store_env_def sample_defs)

section \<open>What is written is what is read\<close>

text \<open>A value kept in a secret: once set without an error, it is what a lookup answers, and a second
  setting replaces the first. \<open>ok\<close> is what this takes of the environment and the claim.\<close>

locale secret_cell =
  fixes ok :: "env \<Rightarrow> DatabaseClaim \<Rightarrow> bool"
    and set_cell :: "env \<Rightarrow> string \<Rightarrow> DatabaseClaim \<Rightarrow> goerror option go_prog"
    and get_cell :: "env \<Rightarrow> DatabaseClaim \<Rightarrow> (goerror + string) go_prog"
  assumes set_get: "ok E c \<Longrightarrow> set_cell E v c h = (Ret None, h') \<Longrightarrow> fst (get_cell E c h') = Ret (Inr v)"
    and get_keeps: "ok E c \<Longrightarrow> fst (get_cell E c (snd (get_cell E c h))) = fst (get_cell E c h)"
begin

lemma set_set: "ok E c \<Longrightarrow> set_cell E v c h = (Ret None, h1) \<Longrightarrow> set_cell E w c h1 = (Ret None, h2) \<Longrightarrow>
    fst (get_cell E c h2) = Ret (Inr w)"
  by (rule set_get)

lemma set_get_get: "ok E c \<Longrightarrow> set_cell E v c h = (Ret None, h') \<Longrightarrow>
    fst (get_cell E c (snd (get_cell E c h'))) = Ret (Inr v)"
  using set_get get_keeps by metis

end

definition cell_ok :: "env \<Rightarrow> DatabaseClaim \<Rightarrow> bool" where
  "cell_ok E c \<longleftrightarrow> reads_own_writes E \<and> dc_Namespace c \<noteq> []"

lemma temp_secret_written:
  assumes "cell_ok E c" and "set_in_temp_secret key E v c h = (Ret None, h')"
  shows "\<exists>s. last_secret (dc_Namespace c) (getTempSecretName c) h' = Some s \<and> data_get s key = v"
proof -
  have rw: "reads_own_writes E" using assms(1) by (simp add: cell_ok_def)
  show ?thesis
  proof (cases "last_secret (dc_Namespace c) (getTempSecretName c) h")
    case None
    from None assms(2) obtain h1 d where d: "sec_Data (new_temp_secret c) = Some d" and
      "h' = K8s (EvUpdateSecret ((new_temp_secret c)\<lparr>sec_Data := Some (d(key \<mapsto> v))\<rparr>) None) # h1"
      by (auto simp: set_in_temp_secret_def getTempSecret_def getSecret_run [OF rw] createSecretObj_def
          updateSecretObj_def prog_simps split: option.splits)
    then have "last_secret (dc_Namespace c) (getTempSecretName c) h' =
        Some ((new_temp_secret c)\<lparr>sec_Data := Some (d(key \<mapsto> v))\<rparr>)"
      by (simp add: new_temp_secret_def)
    then show ?thesis by simp
  next
    case (Some s)
    from Some assms(2) obtain h1 d where
      "h' = K8s (EvUpdateSecret (s\<lparr>sec_Data := Some (d(key \<mapsto> v))\<rparr>) None) # h1"
      by (auto simp: set_in_temp_secret_def getTempSecret_def getSecret_run [OF rw]
          updateSecretObj_def prog_simps split: option.splits)
    with last_secret_name [OF Some] have "last_secret (dc_Namespace c) (getTempSecretName c) h' =
        Some (s\<lparr>sec_Data := Some (d(key \<mapsto> v))\<rparr>)"
      by simp
    then show ?thesis by simp
  qed
qed

lemma get_from_temp_secret_run:
  assumes "cell_ok E c"
  shows "get_from_temp_secret key E c h =
    (Ret (map_sum id (\<lambda>s. data_get s key) (lookup_secret (dc_Namespace c) (getTempSecretName c) h)),
     K8s (EvGetSecret (dc_Namespace c) (getTempSecretName c)
       (lookup_secret (dc_Namespace c) (getTempSecretName c) h)) # h)"
  using assms
  by (auto simp: get_from_temp_secret_def cell_ok_def ns_or_default_def getSecret_run prog_simps split: sum.split)

lemma temp_secret_cell: "secret_cell cell_ok (set_in_temp_secret key) (get_from_temp_secret key)"
proof (unfold_locales, goal_cases)
  case (1 E c v h h')
  from temp_secret_written [OF this] 1(1) show ?case by (auto simp: get_from_temp_secret_run)
next
  case (2 E c h)
  then show ?case by (simp add: get_from_temp_secret_run lookup_secret_def)
qed

interpretation source_dsn: secret_cell cell_ok setSourceDsnInTempSecret getSourceDsnFromTempSecret
  unfolding setSourceDsnInTempSecret_def getSourceDsnFromTempSecret_def by (rule temp_secret_cell)

interpretation target_password: secret_cell cell_ok setTargetPasswordInTempSecret getTargetPasswordFromTempSecret
  unfolding setTargetPasswordInTempSecret_def getTargetPasswordFromTempSecret_def by (rule temp_secret_cell)

interpretation master_password: secret_cell cell_ok setMasterPasswordInTempSecret getMasterPasswordFromTempSecret
  unfolding setMasterPasswordInTempSecret_def getMasterPasswordFromTempSecret_def by (rule temp_secret_cell)

subsection \<open>The connection secret\<close>

lemma createOrUpdateSecret_written:
  assumes "reads_own_writes E" and "createOrUpdateSecret E c ci cloud h = (Ret None, h')"
  obtains s d e replica where "h' = e # K8s (EvGetSecret (dc_Namespace c) (spec_SecretName (dc_Spec c))
        (lookup_secret (dc_Namespace c) (spec_SecretName (dc_Spec c)) h)) # h"
    and "e = K8s (EvCreateSecret s None) \<or> e = K8s (EvUpdateSecret s None)"
    and "sec_Namespace s = dc_Namespace c" and "sec_Name s = spec_SecretName (dc_Spec c)"
    and "sec_Data s = Some (put_all d (conn_entries c (PostgresConnectionString (ci_Host ci) (ci_Port ci)
          (ci_Username ci) (ci_Password ci) (ci_DatabaseName ci) (ci_SSLMode ci)) (Uri (Some ci)) replica ci))"
proof -
  let ?dsn = "PostgresConnectionString (ci_Host ci) (ci_Port ci) (ci_Username ci) (ci_Password ci)
    (ci_DatabaseName ci) (ci_SSLMode ci)"
  let ?get = "K8s (EvGetSecret (dc_Namespace c) (spec_SecretName (dc_Spec c))
    (lookup_secret (dc_Namespace c) (spec_SecretName (dc_Spec c)) h))"
  show thesis
  proof (cases "last_secret (dc_Namespace c) (spec_SecretName (dc_Spec c)) h")
    case None
    with assms(2) obtain s replica where
      "h' = K8s (EvCreateSecret s None) # ?get # h" and "sec_Namespace s = dc_Namespace c"
      "sec_Name s = spec_SecretName (dc_Spec c)"
      "sec_Data s = Some (put_all Map.empty (conn_entries c ?dsn (Uri (Some ci)) replica ci))"
      by (auto simp: createOrUpdateSecret_def getSecret_run [OF assms(1)] createSecret_def createSecretObj_def
        prog_simps Let_def PostgresURI_Uri split: if_splits)
    then show thesis by (intro that) blast+
  next
    case (Some s)
    note name = last_secret_name [OF Some]
    from Some assms(2) obtain d replica where
      h': "h' = K8s (EvUpdateSecret (s\<lparr>sec_Data := Some (put_all d (conn_entries c ?dsn (Uri (Some ci)) replica ci))\<rparr>)
        None) # ?get # h"
      by (auto simp: createOrUpdateSecret_def getSecret_run [OF assms(1)] updateSecret_def updateSecretObj_def
          prog_simps Let_def PostgresURI_Uri split: if_splits option.splits)
    show thesis by (rule that [OF h' disjI2 [OF refl]]) (use name in simp_all)
  qed
qed

lemma conn_entries_lookup:
  fixes c ci d dsn uri replica
  assumes "spec_DSNName (dc_Spec c) \<in> {[], DSNKey}"
  defines "m \<equiv> put_all d (conn_entries c dsn uri replica ci)"
  shows "m DSNKey = Some dsn" "m DSNURIKey = Some uri" "m ''hostname'' = Some (ci_Host ci)"
    "m ''port'' = Some (ci_Port ci)" "m ''database'' = Some (ci_DatabaseName ci)"
    "m ''username'' = Some (ci_Username ci)" "m ''password'' = Some (ci_Password ci)"
    "m ''sslmode'' = Some (ci_SSLMode ci)"
  using assms(1) by (auto simp: m_def put_all_def conn_entries_def)

text \<open>The connection information that \<^verbatim>\<open>GetConnSecret\<close> accepts.\<close>

definition complete :: "ConnInfo \<Rightarrow> bool" where
  "complete ci \<longleftrightarrow> ci_Host ci \<noteq> [] \<and> ci_Port ci \<noteq> [] \<and> ci_DatabaseName ci \<noteq> [] \<and> ci_Username ci \<noteq> [] \<and>
     ci_Password ci \<noteq> []"

lemma last_secret_written:
  assumes "reads_own_writes E" and "createOrUpdateSecret E c ci cloud h = (Ret None, h')"
    and "spec_DSNName (dc_Spec c) \<in> {[], DSNKey}"
  shows "\<exists>s. last_secret (dc_Namespace c) (spec_SecretName (dc_Spec c)) h' = Some s \<and>
    data_get s DSNURIKey = Uri (Some ci) \<and>
    data_get s DSNKey = PostgresConnectionString (ci_Host ci) (ci_Port ci) (ci_Username ci) (ci_Password ci)
      (ci_DatabaseName ci) (ci_SSLMode ci) \<and>
    \<lparr>ci_Host = data_get s ''hostname'', ci_Port = data_get s ''port'', ci_DatabaseName = data_get s ''database'',
      ci_Username = data_get s ''username'', ci_Password = data_get s ''password'',
      ci_SSLMode = data_get s ''sslmode''\<rparr> = ci"
proof -
  obtain s d e replica where h': "h' = e # K8s (EvGetSecret (dc_Namespace c) (spec_SecretName (dc_Spec c))
        (lookup_secret (dc_Namespace c) (spec_SecretName (dc_Spec c)) h)) # h"
    and e: "e = K8s (EvCreateSecret s None) \<or> e = K8s (EvUpdateSecret s None)"
    and name: "sec_Namespace s = dc_Namespace c" "sec_Name s = spec_SecretName (dc_Spec c)"
    and data: "sec_Data s = Some (put_all d (conn_entries c (PostgresConnectionString (ci_Host ci) (ci_Port ci)
          (ci_Username ci) (ci_Password ci) (ci_DatabaseName ci) (ci_SSLMode ci)) (Uri (Some ci)) replica ci))"
    by (rule createOrUpdateSecret_written [OF assms(1,2)])
  have "last_secret (dc_Namespace c) (spec_SecretName (dc_Spec c)) h' = Some s"
    using e name unfolding h' by auto
  then show ?thesis
    using conn_entries_lookup [OF assms(3)] by (auto simp: data_get_def data)
qed

lemma GetConnSecret_reads:
  assumes "reads_own_writes E" and "last_secret (dc_Namespace c) (spec_SecretName (dc_Spec c)) h = Some s"
    and "\<lparr>ci_Host = data_get s ''hostname'', ci_Port = data_get s ''port'',
      ci_DatabaseName = data_get s ''database'', ci_Username = data_get s ''username'',
      ci_Password = data_get s ''password'', ci_SSLMode = data_get s ''sslmode''\<rparr> = ci" and "complete ci"
  shows "fst (GetConnSecret E c h) = Ret (Inr ci)"
proof -
  have "data_get s ''hostname'' \<noteq> [] \<and> data_get s ''port'' \<noteq> [] \<and> data_get s ''database'' \<noteq> [] \<and>
      data_get s ''username'' \<noteq> [] \<and> data_get s ''password'' \<noteq> []"
    using assms(4) unfolding assms(3) [symmetric] complete_def by simp
  then show ?thesis
    using assms(3) by (simp add: GetConnSecret_def getSecret_run [OF assms(1)] assms(2) prog_simps)
qed

text \<open>
  C11: the secret of a claim holds the connection it was written for. After the controller has written
  it without an error, a client that reads it gets the same host, port, database, user, password and
  SSL mode back, and the URI in it parses to them.
\<close>

theorem connection_secret_round_trip:
  assumes "reads_own_writes E" and "createOrUpdateSecret E c ci cloud h = (Ret None, h')"
    and "spec_DSNName (dc_Spec c) \<in> {[], DSNKey}" and "complete ci" and "uri_safe ci"
  shows "fst (GetConnSecret E c h') = Ret (Inr ci) \<and>
    (\<exists>s. last_secret (dc_Namespace c) (spec_SecretName (dc_Spec c)) h' = Some s \<and>
       ParseUri (data_get s DSNURIKey) = Inr ci)"
proof -
  from last_secret_written [OF assms(1-3)] obtain s where
    s: "last_secret (dc_Namespace c) (spec_SecretName (dc_Spec c)) h' = Some s"
    and uri: "data_get s DSNURIKey = Uri (Some ci)"
    and ci: "\<lparr>ci_Host = data_get s ''hostname'', ci_Port = data_get s ''port'',
      ci_DatabaseName = data_get s ''database'', ci_Username = data_get s ''username'',
      ci_Password = data_get s ''password'', ci_SSLMode = data_get s ''sslmode''\<rparr> = ci"
    by blast
  from GetConnSecret_reads [OF assms(1) s ci assms(4)] s uri uri_codec.dec_enc [OF assms(5)]
  show ?thesis by simp
qed

definition sample_ci :: ConnInfo where
  "sample_ci = \<lparr>ci_Host = ''h'', ci_Port = ''5432'', ci_DatabaseName = ''orders'', ci_Username = ''app_a'',
     ci_Password = ''p'', ci_SSLMode = ''require''\<rparr>"

lemma sample_ci_ok: "complete sample_ci" "uri_safe sample_ci"
  by (simp_all add: sample_ci_def complete_def uri_safe_def plain_char_def is_alnum_def is_digit_def)

lemma sample_secret_written:
  "\<exists>h'. createOrUpdateSecret store_env sample_claim ci ''gcp'' [] = (Ret None, h')"
  by (simp add: createOrUpdateSecret_def createSecret_def createSecretObj_def Let_def prog_simps
      getSecret_run [OF store_env_reads] sample_claim_def)

theorem connection_secret_round_trip_witness:
  "\<exists>h'. createOrUpdateSecret store_env sample_claim sample_ci ''gcp'' [] = (Ret None, h') \<and>
     fst (GetConnSecret store_env sample_claim h') = Ret (Inr sample_ci)"
proof -
  obtain h' where run: "createOrUpdateSecret store_env sample_claim sample_ci ''gcp'' [] = (Ret None, h')"
    using sample_secret_written by blast
  have "spec_DSNName (dc_Spec sample_claim) \<in> {[], DSNKey}" by (simp add: sample_claim_def)
  from connection_secret_round_trip [OF store_env_reads run this sample_ci_ok] run show ?thesis by blast
qed

text \<open>
  What \<^verbatim>\<open>createOrUpdateSecret\<close> does about a secret that it cannot read or does not own. A secret
  that exists already is not touched for a claim without an active connection (unless it uses an
  existing source), and the caller gets an error; but a lookup that fails for another reason than
  the secret's absence makes the controller panic instead of returning the error.
\<close>

lemma createOrUpdateSecret_guard:
  assumes "spec_Type (dc_Spec c) \<in> {Postgres, AuroraPostgres}"
  shows "(st_ConnectionInfo (dc_ActiveDB c) = None \<and> spec_UseExistingSource (dc_Spec c) \<noteq> Some True \<and>
      e_GetSecret (e_k8s E) h (dc_Namespace c) (spec_SecretName (dc_Spec c)) = Inr gs \<longrightarrow>
      (\<exists>msg. createOrUpdateSecret E c ci cloud h =
        (Ret (Some (ErrMsg msg)), K8s (EvGetSecret (dc_Namespace c) (spec_SecretName (dc_Spec c)) (Inr gs)) # h))) \<and>
    (e_GetSecret (e_k8s E) h (dc_Namespace c) (spec_SecretName (dc_Spec c)) = Inl err \<and> \<not> IsNotFound err \<longrightarrow>
      fst (createOrUpdateSecret E c ci cloud h) = Panic)"
  using assms
  by (auto simp: createOrUpdateSecret_def updateSecret_def empty_Secret_def getSecret_def prog_simps Let_def)

text \<open>
  C33: the source is lost sight of for one state. Rerouting the secret saves the connection string of
  the source and then makes the application's secret point to the target; while the claim says
  that it is in this state, the connection string of the source is still read from the
  application's secret, and so is that of the target.
\<close>

theorem source_dsn_after_reroute:
  assumes "cell_ok E c" and "rerouteTargetSecret E r sourceDsn target c h = (Ret None, h')"
    and "spec_DSNName (dc_Spec c) \<in> {[], DSNKey}"
    and "s_MigrationState (dc_Status c') = StateEnum_String S_RerouteTargetSecret"
    and "dc_Meta c' = dc_Meta c" and "dc_Spec c' = dc_Spec c"
  shows "fst (getSrcAppDsnFromSecret E c' h') = Ret (Inr (Uri (Some target)))"
proof -
  have rw: "reads_own_writes E" and ns: "dc_Namespace c \<noteq> []" using assms(1) by (simp_all add: cell_ok_def)
  from assms(2) obtain h1 where run: "createOrUpdateSecret E c target (GetCloud (cfg_Viper r)) h1 = (Ret None, h')"
    by (auto simp: rerouteTargetSecret_def prog_simps split: prod.splits go.splits option.splits)
  from last_secret_written [OF rw run assms(3)] obtain s where
    "last_secret (dc_Namespace c) (spec_SecretName (dc_Spec c)) h' = Some s" "data_get s DSNURIKey = Uri (Some target)"
    by blast
  moreover have "GetStateEnum (s_MigrationState (dc_Status c')) = Inr S_RerouteTargetSecret"
    unfolding assms(4) by (rule state_codec.dec_enc) simp
  ultimately show ?thesis
    using ns by (simp add: getSrcAppDsnFromSecret_def assms(5,6) ns_or_default_def getSecret_run [OF rw] prog_simps)
qed

definition sample_config_r :: DatabaseClaimReconciler where
  "sample_config_r = databaseclaim_New
     \<lparr>cfg_Viper = sample_viper, cfg_Class = ''default'', cfg_Namespace = ''db'', cfg_MetricsEnabled = False,
      cfg_MetricsDepYamlPath = [], cfg_MetricsConfigYamlPath = []\<rparr>"

lemma sample_config_fields [simp]: "cfg_Viper sample_config_r = sample_viper" "cfg_Class sample_config_r = ''default''"
  "cfg_Namespace sample_config_r = ''db''" "cfg_MetricsEnabled sample_config_r = False"
  "rec_serviceNS sample_config_r = GetString sample_viper ''SERVICE_NAMESPACE''"
  by (simp_all add: sample_config_r_def databaseclaim_New_def)

theorem source_dsn_after_reroute_witness:
  "\<exists>h'. rerouteTargetSecret store_env sample_config_r sample_dsn sample_ci sample_claim [] = (Ret None, h') \<and>
     fst (getSrcAppDsnFromSecret store_env
       (upd_status (\<lambda>s. s\<lparr>s_MigrationState := StateEnum_String S_RerouteTargetSecret\<rparr>) sample_claim) h') =
     Ret (Inr (Uri (Some sample_ci)))"
proof -
  let ?c' = "upd_status (\<lambda>s. s\<lparr>s_MigrationState := StateEnum_String S_RerouteTargetSecret\<rparr>) sample_claim"
  have "fst (rerouteTargetSecret store_env sample_config_r sample_dsn sample_ci sample_claim []) = Ret None"
    by (simp add: rerouteTargetSecret_def setSourceDsnInTempSecret_def set_in_temp_secret_def getTempSecret_def
        new_temp_secret_def getTempSecretName_def createOrUpdateSecret_def createSecret_def createSecretObj_def
        updateSecretObj_def Let_def prog_simps getSecret_run [OF store_env_reads] sample_claim_def)
  then obtain h' where run: "rerouteTargetSecret store_env sample_config_r sample_dsn sample_ci sample_claim [] = (Ret None, h')"
    by (metis prod.collapse)
  have "cell_ok store_env sample_claim" by (simp add: cell_ok_def store_env_reads sample_claim_def)
  from source_dsn_after_reroute [OF this run, of ?c'] run show ?thesis
    by (simp add: sample_claim_def claim_upds)
qed

end
