(* ===== verification/Awsprovider.thy ===== *)
theory Awsprovider
  imports Secrets
begin

text \<open>
  The AWS provider (\<^verbatim>\<open>pkg/databaseclaim/awsprovider.go\<close>): parameter groups, clusters and instances as
  Crossplane resources, their update by a merge patch, their deletion, and the tagging of the
  resources a migration leaves behind. A merge patch is empty exactly when the resource is
  unchanged. The steps answer the claim, whose tags they change in memory, beside the result.
\<close>

abbreviation masterSecretSuffix :: string where "masterSecretSuffix \<equiv> ''-master''"
abbreviation masterPasswordKey :: string where "masterPasswordKey \<equiv> ''password''"
abbreviation defaultRestoreFromSource :: string where "defaultRestoreFromSource \<equiv> ''Snapshot''"

definition cr_meta :: "string \<Rightarrow> (string \<times> string) list \<Rightarrow> CRMeta" where
  "cr_meta name labels = \<lparr>cr_Name = name, cr_Labels = labels, cr_DeletionTimestamp = None\<rparr>"

definition provider_resource :: "viper \<Rightarrow> HostParams \<Rightarrow> (string \<times> string) option \<Rightarrow> ResourceSpec" where
  "provider_resource v params secretRef = \<lparr>rs_WriteConnectionSecretToReference = secretRef,
     rs_ProviderConfigReference = GetProviderConfig v, rs_DeletionPolicy = hp_DeletionPolicy params\<rparr>"

definition master_secret :: "string \<Rightarrow> string \<Rightarrow> SecretKeySelector" where
  "master_secret dbHostName serviceNS = \<lparr>sk_Namespace = serviceNS, sk_Name = dbHostName @ masterSecretSuffix,
     sk_Key = masterPasswordKey\<rparr>"

text \<open>\<^verbatim>\<open>dbClaim.Spec.Tags = r.configureBackupPolicy(...)\<close>, and the sorting that \<^verbatim>\<open>DBTags\<close> does in place.\<close>

definition with_backup :: "viper \<Rightarrow> DatabaseClaim \<Rightarrow> DatabaseClaim" where
  "with_backup v = upd_spec (\<lambda>s. s\<lparr>spec_Tags := configureBackupPolicy v (spec_BackupPolicy s) (spec_Tags s)\<rparr>)"

definition sort_tags :: "DatabaseClaim \<Rightarrow> DatabaseClaim" where
  "sort_tags = upd_spec (\<lambda>s. s\<lparr>spec_Tags := DBTags (spec_Tags s)\<rparr>)"

definition active_tags :: "DatabaseClaim \<Rightarrow> Tag list" where
  "active_tags c = ReplaceOrAddTag (DBTags (spec_Tags (dc_Spec c))) OperationalStatusTagKey OperationalStatusActiveValue"

section \<open>Parameter groups\<close>

definition logical_params :: "CustomParameter list" where
  "logical_params = [
     \<lparr>cp_Name = ''rds.logical_replication'', cp_Value = ''1'', cp_ApplyMethod = ''pending-reboot''\<rparr>,
     \<lparr>cp_Name = ''rds.force_ssl'', cp_Value = ''1'', cp_ApplyMethod = ''immediate''\<rparr>]"

definition common_params :: "requestInfo \<Rightarrow> CustomParameter list" where
  "common_params reqInfo = [
     \<lparr>cp_Name = ''idle_in_transaction_session_timeout'', cp_Value = ''300000'', cp_ApplyMethod = ''immediate''\<rparr>,
     \<lparr>cp_Name = ''shared_preload_libraries'', cp_Value = ''pg_stat_statements,pg_cron'',
       cp_ApplyMethod = ''pending-reboot''\<rparr>,
     \<lparr>cp_Name = ''cron.database_name'', cp_Value = ci_DatabaseName (ri_MasterConnInfo reqInfo),
       cp_ApplyMethod = ''pending-reboot''\<rparr>]"

definition param_group :: "viper \<Rightarrow> requestInfo \<Rightarrow> string \<Rightarrow> CustomParameter list \<Rightarrow> ParameterGroup" where
  "param_group v reqInfo pgName ps = \<lparr>pg_Meta = cr_meta pgName [], pg_Region = GetRegion v,
     pg_Description = ''custom PG for '' @ pgName, pg_Engine = hp_Type (ri_HostParams reqInfo),
     pg_EngineVersion = getEngineVersion (ri_HostParams reqInfo) v, pg_Parameters = ps, pg_Tags = [],
     pg_Resource = provider_resource v (ri_HostParams reqInfo) None\<rparr>"

definition managePostgresParamGroup ::
  "env \<Rightarrow> viper \<Rightarrow> requestInfo \<Rightarrow> DatabaseClaim \<Rightarrow> (goerror + string) go_prog" where
  "managePostgresParamGroup E v reqInfo dbClaim =
     (let pgName = getParameterGroupName v (ri_HostParams reqInfo) dbClaim (ri_DbType reqInfo) in
      bnd (getParamGroup E pgName) (\<lambda>r. case r of
        Inr _ \<Rightarrow> ret (Inr pgName)
      | Inl e \<Rightarrow>
          if IsNotFound e
          then check (createParamGroup E (param_group v reqInfo pgName (logical_params @ common_params reqInfo)))
                 (ret (Inr pgName))
          else ret (Inl e)))"

definition manageAuroraPostgresParamGroup ::
  "env \<Rightarrow> viper \<Rightarrow> requestInfo \<Rightarrow> DatabaseClaim \<Rightarrow> (goerror + string) go_prog" where
  "manageAuroraPostgresParamGroup E v reqInfo dbClaim =
     (let pgName = getParameterGroupName v (ri_HostParams reqInfo) dbClaim (ri_DbType reqInfo) in
      bnd (getParamGroup E pgName) (\<lambda>r. case r of
        Inr _ \<Rightarrow> ret (Inr pgName)
      | Inl e \<Rightarrow>
          if IsNotFound e
          then check (createParamGroup E (param_group v reqInfo pgName (common_params reqInfo))) (ret (Inr pgName))
          else ret (Inl e)))"

definition manageClusterParamGroup ::
  "env \<Rightarrow> viper \<Rightarrow> requestInfo \<Rightarrow> DatabaseClaim \<Rightarrow> (goerror + string) go_prog" where
  "manageClusterParamGroup E v reqInfo dbClaim =
     (let pgName = getParameterGroupName v (ri_HostParams reqInfo) dbClaim (ri_DbType reqInfo) in
      bnd (getClusterParamGroup E pgName) (\<lambda>r. case r of
        Inr _ \<Rightarrow> ret (Inr pgName)
      | Inl e \<Rightarrow>
          if IsNotFound e
          then check (createClusterParamGroup E (param_group v reqInfo pgName (logical_params @ common_params reqInfo)))
                 (ret (Inr pgName))
          else ret (Inl e)))"

section \<open>Updates\<close>

definition max_storage :: "HostParams \<Rightarrow> int option" where
  "max_storage params = (if hp_MaxStorageGB params = 0 then None else Some (hp_MaxStorageGB params))"

text \<open>The changes \<^verbatim>\<open>updateDBInstance\<close> makes before it computes the patch.\<close>

definition desired_instance :: "viper \<Rightarrow> requestInfo \<Rightarrow> DatabaseClaim \<Rightarrow> DBInstance \<Rightarrow> DBInstance" where
  "desired_instance v reqInfo c dbInstance =
     (let params = ri_HostParams reqInfo;
          p0 = (ins_ForProvider dbInstance)\<lparr>di_Tags := active_tags c\<rparr>;
          p1 = (if spec_Type (dc_Spec c) = Postgres
                then p0\<lparr>di_AllocatedStorage := Some (hp_MinStorageGB params),
                  di_MaxAllocatedStorage := max_storage params,
                  di_EnableCloudwatchLogsExports := ri_EnableCloudwatchLogsExport reqInfo,
                  di_MultiAZ := Some (GetMultiAZEnabled v)\<rparr>
                else p0);
          p2 = p1\<lparr>di_EnablePerformanceInsights := Some (ri_EnablePerfInsight reqInfo),
                 di_CACertificateIdentifier := Some (ri_CACertificateIdentifier reqInfo)\<rparr>;
          p3 = (if spec_Type (dc_Spec c) = AuroraPostgres then p2\<lparr>di_EnableCloudwatchLogsExports := []\<rparr> else p2)
      in dbInstance\<lparr>ins_ForProvider := p3,
           ins_Resource := (ins_Resource dbInstance)\<lparr>rs_DeletionPolicy := hp_DeletionPolicy params\<rparr>\<rparr>)"

definition set_window :: "DatabaseClaim \<Rightarrow> DBInstance \<Rightarrow> DBInstance" where
  "set_window c dbInstance =
     (if spec_PreferredMaintenanceWindow (dc_Spec c) \<noteq> None
      then dbInstance\<lparr>ins_ForProvider := (ins_ForProvider dbInstance)
        \<lparr>di_PreferredMaintenanceWindow := spec_PreferredMaintenanceWindow (dc_Spec c)\<rparr>\<rparr>
      else dbInstance)"

definition updateDBInstance ::
  "env \<Rightarrow> viper \<Rightarrow> requestInfo \<Rightarrow> DatabaseClaim \<Rightarrow> DBInstance \<Rightarrow>
   (DatabaseClaim \<times> (goerror + bool \<times> DBInstance)) go_prog" where
  "updateDBInstance E v reqInfo dbClaim dbInstance =
     (let c = sort_tags (with_backup v dbClaim);
          d = desired_instance v reqInfo c dbInstance
      in if d = dbInstance then ret (c, Inr (False, d))
         else on_err c (patchInstance E (set_window c d)) (\<lambda>d'. ret (c, Inr (True, d'))))"

definition updateDBClusterAWS ::
  "env \<Rightarrow> viper \<Rightarrow> requestInfo \<Rightarrow> DatabaseClaim \<Rightarrow> DBCluster \<Rightarrow>
   (DatabaseClaim \<times> (goerror + bool \<times> DBCluster)) go_prog" where
  "updateDBClusterAWS E v reqInfo dbClaim dbCluster =
     (let c = sort_tags (with_backup v dbClaim);
          p0 = (clu_ForProvider dbCluster)\<lparr>cl_Tags := DBTags (spec_Tags (dc_Spec c))\<rparr>;
          p1 = (if ri_BackupRetentionDays reqInfo \<noteq> 0
                then p0\<lparr>cl_BackupRetentionPeriod := Some (ri_BackupRetentionDays reqInfo)\<rparr> else p0);
          d = dbCluster\<lparr>clu_ForProvider := p1\<lparr>cl_StorageType := Some (hp_StorageType (ri_HostParams reqInfo))\<rparr>,
                clu_Resource := (clu_Resource dbCluster)\<lparr>rs_DeletionPolicy := hp_DeletionPolicy (ri_HostParams reqInfo)\<rparr>\<rparr>
      in if d = dbCluster then ret (c, Inr (False, d))
         else on_err c (patchCluster E d) (\<lambda>d'. ret (c, Inr (True, d'))))"

section \<open>Clusters and instances\<close>

definition new_cluster ::
  "viper \<Rightarrow> requestInfo \<Rightarrow> DatabaseClaim \<Rightarrow> ModeEnum \<Rightarrow> string \<Rightarrow> string \<Rightarrow> string \<Rightarrow> DBCluster" where
  "new_cluster v reqInfo c operationalMode dbHostName serviceNS pgName =
     (let params = ri_HostParams reqInfo in
      \<lparr>clu_Meta = cr_meta dbHostName [],
       clu_ForProvider = \<lparr>cl_Region = GetRegion v,
         cl_BackupRetentionPeriod = (if ri_BackupRetentionDays reqInfo \<noteq> 0 then Some (ri_BackupRetentionDays reqInfo) else None),
         cl_SkipFinalSnapshot = hp_SkipFinalSnapshotBeforeDeletion params,
         cl_VPCSecurityGroupIDRefs = [GetVpcSecurityGroupIDRefs v],
         cl_DBSubnetGroupNameRef = Some (GetDbSubnetGroupNameRef v),
         cl_AutogeneratePassword = True,
         cl_MasterUserPasswordSecretRef = Some (master_secret dbHostName serviceNS),
         cl_DBClusterParameterGroupNameRef = Some pgName,
         cl_EngineVersion = Some (getEngineVersion params v),
         cl_RestoreFrom = (if operationalMode = M_UseNewDB \<and> spec_RestoreFrom (dc_Spec c) \<noteq> []
           then Some (spec_RestoreFrom (dc_Spec c), defaultRestoreFromSource) else None),
         cl_Engine = Some (hp_Type params), cl_Tags = DBTags (spec_Tags (dc_Spec c)),
         cl_MasterUsername = Some (hp_MasterUsername params),
         cl_EnableIAMDatabaseAuthentication = Some (hp_EnableIAMDatabaseAuthentication params),
         cl_StorageEncrypted = Some True, cl_StorageType = Some (hp_StorageType params),
         cl_Port = Some (hp_Port params),
         cl_EnableCloudwatchLogsExports = ri_EnableCloudwatchLogsExport reqInfo,
         cl_PreferredMaintenanceWindow = spec_PreferredMaintenanceWindow (dc_Spec c)\<rparr>,
       clu_Resource = provider_resource v params (Some (dbHostName, serviceNS)),
       clu_Conditions = []\<rparr>)"

definition cluster_window :: "DatabaseClaim \<Rightarrow> DBCluster \<Rightarrow> DBCluster" where
  "cluster_window c dbCluster =
     (if spec_PreferredMaintenanceWindow (dc_Spec c) \<noteq> None
      then dbCluster\<lparr>clu_ForProvider := (clu_ForProvider dbCluster)
        \<lparr>cl_PreferredMaintenanceWindow := spec_PreferredMaintenanceWindow (dc_Spec c)\<rparr>\<rparr>
      else dbCluster)"

definition manageDBClusterAWS ::
  "env \<Rightarrow> DatabaseClaimReconciler \<Rightarrow> string \<Rightarrow> requestInfo \<Rightarrow> DatabaseClaim \<Rightarrow> ModeEnum \<Rightarrow>
   (DatabaseClaim \<times> (goerror + bool)) go_prog" where
  "manageDBClusterAWS E r dbHostName reqInfo dbClaim operationalMode =
     (let v = cfg_Viper r in
      on_err dbClaim (manageClusterParamGroup E v reqInfo dbClaim) (\<lambda>pgName.
      on_err dbClaim (ret (getServiceNamespace r)) (\<lambda>serviceNS.
      let c = with_backup v dbClaim in
      bnd (getCluster E dbHostName) (\<lambda>got.
      step (case got of
          Inr dbCluster \<Rightarrow> ret (c, Inr dbCluster)
        | Inl e \<Rightarrow>
            if \<not> IsNotFound e then ret (c, Inl e)
            else
              (let c' = sort_tags c; dbCluster = new_cluster v reqInfo c operationalMode dbHostName serviceNS pgName in
               bnd (manageMasterPassword E (master_secret dbHostName serviceNS)) (\<lambda>mp. case mp of
                 Some e \<Rightarrow> ret (c', Inl e)
               | None \<Rightarrow> on_err c' (createCluster E dbCluster) (\<lambda>d. ret (c', Inr d)))))
        (\<lambda>c dbCluster.
           if cr_DeletionTimestamp (clu_Meta dbCluster) \<noteq> None
           then ret (c, Inl (ErrMsg (''can not create Cloud DB cluster '' @ dbHostName @ '' it is being deleted'')))
           else step (updateDBClusterAWS E v reqInfo c (cluster_window c dbCluster)) (\<lambda>c (_, d).
             bnd (of_go (resource_ready ''aurora.cluster'' dbHostName (clu_Conditions d))) (\<lambda>ok. ret (c, ok))))))))"

definition new_instance ::
  "viper \<Rightarrow> requestInfo \<Rightarrow> DatabaseClaim \<Rightarrow> ModeEnum \<Rightarrow> string \<Rightarrow> string \<Rightarrow> string \<Rightarrow> DBInstance" where
  "new_instance v reqInfo c operationalMode dbHostName serviceNS pgName =
     (let params = ri_HostParams reqInfo in
      \<lparr>ins_Meta = cr_meta dbHostName (propagateLabels (m_Labels (dc_Meta c))),
       ins_ForProvider = \<lparr>di_CACertificateIdentifier = Some (ri_CACertificateIdentifier reqInfo),
         di_Region = GetRegion v, di_ApplyImmediately = Some True,
         di_SkipFinalSnapshot = hp_SkipFinalSnapshotBeforeDeletion params,
         di_VPCSecurityGroupIDRefs = [GetVpcSecurityGroupIDRefs v],
         di_DBSubnetGroupNameRef = Some (GetDbSubnetGroupNameRef v),
         di_DBParameterGroupNameRef = Some pgName, di_DBParameterGroupName = None,
         di_AutogeneratePassword = True,
         di_MasterUserPasswordSecretRef = Some (master_secret dbHostName serviceNS),
         di_EngineVersion = Some (getEngineVersion params v),
         di_RestoreFrom = (if operationalMode = M_UseNewDB \<and> spec_RestoreFrom (dc_Spec c) \<noteq> []
           then Some (spec_RestoreFrom (dc_Spec c), defaultRestoreFromSource) else None),
         di_Engine = Some (hp_Type params), di_MultiAZ = Some (GetMultiAZEnabled v),
         di_DBInstanceClass = Some (hp_InstanceClass params),
         di_AllocatedStorage = Some (hp_MinStorageGB params), di_MaxAllocatedStorage = max_storage params,
         di_Tags = active_tags c, di_MasterUsername = Some (hp_MasterUsername params),
         di_PubliclyAccessible = Some (hp_PubliclyAccessible params),
         di_EnableIAMDatabaseAuthentication = Some (hp_EnableIAMDatabaseAuthentication params),
         di_EnablePerformanceInsights = Some (ri_EnablePerfInsight reqInfo),
         di_EnableCloudwatchLogsExports = ri_EnableCloudwatchLogsExport reqInfo,
         di_BackupRetentionPeriod = Some (ri_BackupRetentionDays reqInfo),
         di_StorageEncrypted = Some True, di_StorageType = Some (hp_StorageType params),
         di_Port = Some (hp_Port params),
         di_PreferredMaintenanceWindow = spec_PreferredMaintenanceWindow (dc_Spec c),
         di_DBClusterIdentifier = None\<rparr>,
       ins_Resource = provider_resource v params (Some (dbHostName, serviceNS)),
       ins_AtProviderTags = [], ins_Conditions = []\<rparr>)"

definition being_deleted :: "string \<Rightarrow> goerror" where
  "being_deleted name = ErrMsg (''can not create Cloud DB instance '' @ name @ '' it is being deleted'')"

definition managePostgresDBInstanceAWS ::
  "env \<Rightarrow> DatabaseClaimReconciler \<Rightarrow> requestInfo \<Rightarrow> string \<Rightarrow> DatabaseClaim \<Rightarrow> ModeEnum \<Rightarrow>
   (DatabaseClaim \<times> (goerror + bool)) go_prog" where
  "managePostgresDBInstanceAWS E r reqInfo dbHostName dbClaim operationalMode =
     (let v = cfg_Viper r in
      on_err dbClaim (ret (getServiceNamespace r)) (\<lambda>serviceNS.
      on_err dbClaim (managePostgresParamGroup E v reqInfo dbClaim) (\<lambda>pgName.
      let c = with_backup v dbClaim in
      bnd (getInstance E dbHostName) (\<lambda>got.
      step (case got of
          Inr dbInstance \<Rightarrow> ret (c, Inr dbInstance)
        | Inl e \<Rightarrow>
            if \<not> IsNotFound e then ret (c, Inl e)
            else
              (let c' = sort_tags c; dbInstance = new_instance v reqInfo c operationalMode dbHostName serviceNS pgName in
               bnd (manageMasterPassword E (master_secret dbHostName serviceNS)) (\<lambda>mp. case mp of
                 Some e \<Rightarrow> ret (c', Inl e)
               | None \<Rightarrow> on_err c' (createInstance E dbInstance) (\<lambda>d. ret (c', Inr d)))))
        (\<lambda>c dbInstance.
           if cr_DeletionTimestamp (ins_Meta dbInstance) \<noteq> None then ret (c, Inl (being_deleted dbHostName))
           else step (updateDBInstance E v reqInfo c dbInstance) (\<lambda>c (_, d).
             bnd (of_go (resource_ready ''rds.instance'' dbHostName (ins_Conditions d))) (\<lambda>ok. ret (c, ok))))))))"

definition new_aurora_instance ::
  "viper \<Rightarrow> requestInfo \<Rightarrow> DatabaseClaim \<Rightarrow> string \<Rightarrow> string \<Rightarrow> string \<Rightarrow> DBInstance" where
  "new_aurora_instance v reqInfo c dbHostName dbClusterIdentifier pgName =
     (let params = ri_HostParams reqInfo in
      \<lparr>ins_Meta = cr_meta dbHostName (propagateLabels (m_Labels (dc_Meta c))),
       ins_ForProvider = \<lparr>di_CACertificateIdentifier = Some (ri_CACertificateIdentifier reqInfo),
         di_Region = GetRegion v, di_ApplyImmediately = Some True,
         di_SkipFinalSnapshot = hp_SkipFinalSnapshotBeforeDeletion params,
         di_VPCSecurityGroupIDRefs = [], di_DBSubnetGroupNameRef = None, di_DBParameterGroupNameRef = None,
         di_DBParameterGroupName = Some pgName, di_AutogeneratePassword = False,
         di_MasterUserPasswordSecretRef = None, di_EngineVersion = Some (getEngineVersion params v),
         di_RestoreFrom = None, di_Engine = Some (hp_Type params), di_MultiAZ = None,
         di_DBInstanceClass = Some (hp_InstanceClass params), di_AllocatedStorage = None,
         di_MaxAllocatedStorage = None, di_Tags = active_tags c, di_MasterUsername = None,
         di_PubliclyAccessible = Some (hp_PubliclyAccessible params),
         di_EnableIAMDatabaseAuthentication = None,
         di_EnablePerformanceInsights = Some (ri_EnablePerfInsight reqInfo),
         di_EnableCloudwatchLogsExports = [], di_BackupRetentionPeriod = None, di_StorageEncrypted = None,
         di_StorageType = None, di_Port = None,
         di_PreferredMaintenanceWindow = spec_PreferredMaintenanceWindow (dc_Spec c),
         di_DBClusterIdentifier = Some dbClusterIdentifier\<rparr>,
       ins_Resource = provider_resource v params None, ins_AtProviderTags = [], ins_Conditions = []\<rparr>)"

text \<open>The error of creating an Aurora instance is not looked at.\<close>

definition manageAuroraDBInstance ::
  "env \<Rightarrow> DatabaseClaimReconciler \<Rightarrow> requestInfo \<Rightarrow> string \<Rightarrow> DatabaseClaim \<Rightarrow> bool \<Rightarrow>
   (DatabaseClaim \<times> (goerror + bool)) go_prog" where
  "manageAuroraDBInstance E r reqInfo clusterName dbClaim isSecondIns =
     (let v = cfg_Viper r in
      on_err dbClaim (manageAuroraPostgresParamGroup E v reqInfo dbClaim) (\<lambda>pgName.
      let dbHostName = (if isSecondIns then clusterName @ ''-2'' else clusterName); c = with_backup v dbClaim in
      bnd (getInstance E dbHostName) (\<lambda>got.
      step (case got of
          Inr dbInstance \<Rightarrow> ret (c, Inr dbInstance)
        | Inl e \<Rightarrow>
            if \<not> IsNotFound e then ret (c, Inl e)
            else
              (let c' = sort_tags c; dbInstance = new_aurora_instance v reqInfo c dbHostName clusterName pgName in
               bnd (createInstance E dbInstance) (\<lambda>cr. ret (c', Inr (case cr of Inr d \<Rightarrow> d | Inl _ \<Rightarrow> dbInstance)))))
        (\<lambda>c dbInstance.
           if cr_DeletionTimestamp (ins_Meta dbInstance) \<noteq> None then ret (c, Inl (being_deleted dbHostName))
           else bnd (updateDBInstance E v reqInfo c (set_window c dbInstance)) (\<lambda>(c, ur). case ur of
             Inl e \<Rightarrow> ret (c, Inl (Wrapped (''error updating DBInstance '' @ dbHostName @ '': '') e []))
           | Inr (_, d) \<Rightarrow>
               bnd (of_go (resource_ready ''aurora.instance'' dbHostName (ins_Conditions d))) (\<lambda>ok. ret (c, ok)))))))"

definition manageAuroraDBInstances ::
  "env \<Rightarrow> DatabaseClaimReconciler \<Rightarrow> requestInfo \<Rightarrow> string \<Rightarrow> DatabaseClaim \<Rightarrow> ModeEnum \<Rightarrow>
   (DatabaseClaim \<times> (goerror + bool)) go_prog" where
  "manageAuroraDBInstances E r reqInfo dbHostIdentifier dbClaim operationalMode =
     step (if GetCloud (cfg_Viper r) = ''aws''
           then manageDBClusterAWS E r dbHostIdentifier reqInfo dbClaim operationalMode else ret (dbClaim, Inr True))
       (\<lambda>c _. step (manageAuroraDBInstance E r reqInfo dbHostIdentifier c False) (\<lambda>c firstInsReady.
          if GetMultiAZEnabled (cfg_Viper r)
          then step (manageAuroraDBInstance E r reqInfo dbHostIdentifier c True) (\<lambda>c secondInsReady.
                 ret (c, Inr (firstInsReady \<and> secondInsReady)))
          else ret (c, Inr firstInsReady)))"

definition manageCloudHostAWS ::
  "env \<Rightarrow> DatabaseClaimReconciler \<Rightarrow> requestInfo \<Rightarrow> DatabaseClaim \<Rightarrow> ModeEnum \<Rightarrow>
   (DatabaseClaim \<times> (goerror + bool)) go_prog" where
  "manageCloudHostAWS E r reqInfo dbClaim operationalMode =
     (let dbHostIdentifier = getDynamicHostName (cfg_Viper r) (Hash (ri_HostParams reqInfo)) dbClaim;
          t = spec_Type (dc_Spec dbClaim)
      in if t = AuroraPostgres then manageAuroraDBInstances E r reqInfo dbHostIdentifier dbClaim operationalMode
         else if t = Postgres then managePostgresDBInstanceAWS E r reqInfo dbHostIdentifier dbClaim operationalMode
         else ret (dbClaim, Inl (Wrapped [] (Sentinel ErrInvalidDBType)
                ('': '' @ [CHR 0x22] @ t @ [CHR 0x22] @ '' must be one of [postgres aurora-postgresql]''))))"

section \<open>Deletion\<close>

text \<open>A resource is deleted where it exists and is not being deleted already.\<close>

definition delete_instance :: "env \<Rightarrow> string \<Rightarrow> goerror option go_prog" where
  "delete_instance E name = bnd (getInstance E name) (\<lambda>r. case r of
     Inl e \<Rightarrow> ret (if IsNotFound e then None else Some e)
   | Inr d \<Rightarrow> if cr_DeletionTimestamp (ins_Meta d) = None then deleteInstance E (cr_Name (ins_Meta d)) else ret None)"

definition delete_cluster :: "env \<Rightarrow> string \<Rightarrow> goerror option go_prog" where
  "delete_cluster E name = bnd (getCluster E name) (\<lambda>r. case r of
     Inl e \<Rightarrow> ret (if IsNotFound e then None else Some e)
   | Inr d \<Rightarrow> if cr_DeletionTimestamp (clu_Meta d) = None then deleteCluster E (cr_Name (clu_Meta d)) else ret None)"

definition deleteCloudDatabaseAWS :: "env \<Rightarrow> viper \<Rightarrow> string \<Rightarrow> goerror option go_prog" where
  "deleteCloudDatabaseAWS E v dbHostName =
     check_err (if GetMultiAZEnabled v then delete_instance E (dbHostName @ ''-2'') else ret None)
       (check_err (delete_instance E dbHostName) (delete_cluster E dbHostName))"

definition deleteParameterGroupAWS :: "env \<Rightarrow> string \<Rightarrow> goerror option go_prog" where
  "deleteParameterGroupAWS E pgName =
     check_err (bnd (getParamGroup E pgName) (\<lambda>r. case r of
         Inl e \<Rightarrow> ret (if IsNotFound e then None else Some e)
       | Inr g \<Rightarrow> if cr_DeletionTimestamp (pg_Meta g) = None then deleteParamGroup E (cr_Name (pg_Meta g)) else ret None))
       (bnd (getClusterParamGroup E pgName) (\<lambda>r. case r of
         Inl e \<Rightarrow> ret (if IsNotFound e then None else Some e)
       | Inr g \<Rightarrow> if cr_DeletionTimestamp (pg_Meta g) = None
                  then deleteClusterParamGroup E (cr_Name (pg_Meta g)) else ret None))"

definition deleteExternalResourcesAWS :: "env \<Rightarrow> viper \<Rightarrow> requestInfo \<Rightarrow> DatabaseClaim \<Rightarrow> goerror option go_prog" where
  "deleteExternalResourcesAWS E v reqInfo dbClaim =
     (if GetDefaultReclaimPolicy v = ''delete'' then
        check_err (deleteCloudDatabaseAWS E v (getDynamicHostName v (Hash (ri_HostParams reqInfo)) dbClaim))
          (deleteParameterGroupAWS E (getParameterGroupName v (ri_HostParams reqInfo) dbClaim (ri_DbType reqInfo)))
      else ret None)"

section \<open>Operational tags\<close>

definition mark_inactive :: "Tag list \<Rightarrow> Tag list" where
  "mark_inactive tags = ReplaceOrAddTag tags OperationalStatusTagKey OperationalStatusInactiveValue"

definition operationalTaggingForDbParamGroup :: "env \<Rightarrow> string \<Rightarrow> goerror option go_prog" where
  "operationalTaggingForDbParamGroup E name = attempt_err (getParamGroup E name) (\<lambda>g.
     if HasOperationalTag (pg_Tags g) then ret None
     else patchParamGroup E (g\<lparr>pg_Tags := mark_inactive (pg_Tags g)\<rparr>))"

definition operationalTaggingForDbClusterParamGroup :: "env \<Rightarrow> string \<Rightarrow> goerror option go_prog" where
  "operationalTaggingForDbClusterParamGroup E name = attempt_err (getClusterParamGroup E name) (\<lambda>g.
     if HasOperationalTag (pg_Tags g) then ret None
     else patchClusterParamGroup E (g\<lparr>pg_Tags := mark_inactive (pg_Tags g)\<rparr>))"

definition operationalTaggingForDbCluster :: "env \<Rightarrow> string \<Rightarrow> goerror option go_prog" where
  "operationalTaggingForDbCluster E name = attempt_err (getCluster E name) (\<lambda>d.
     if HasOperationalTag (cl_Tags (clu_ForProvider d)) then ret None
     else bnd (patchCluster E (d\<lparr>clu_ForProvider := (clu_ForProvider d)
            \<lparr>cl_Tags := mark_inactive (cl_Tags (clu_ForProvider d))\<rparr>\<rparr>)) (\<lambda>r. ret (as_error r)))"

definition operationalTaggingForDbInstance :: "env \<Rightarrow> string \<Rightarrow> (goerror + bool) go_prog" where
  "operationalTaggingForDbInstance E name = attempt (getInstance E name) (\<lambda>d.
     if \<not> HasOperationalTag (di_Tags (ins_ForProvider d)) then
       attempt (patchInstance E (d\<lparr>ins_ForProvider := (ins_ForProvider d)
            \<lparr>di_Tags := mark_inactive (di_Tags (ins_ForProvider d))\<rparr>\<rparr>)) (\<lambda>_. ret (Inr False))
     else ret (Inr (HasOperationalTag (ins_AtProviderTags d))))"

definition wrap_err :: "string \<Rightarrow> goerror option \<Rightarrow> goerror option" where
  "wrap_err msg = map_option (\<lambda>e. Wrapped msg e [])"

definition manageOperationalTagging :: "env \<Rightarrow> viper \<Rightarrow> string \<Rightarrow> string \<Rightarrow> bool \<Rightarrow> (goerror + bool) go_prog" where
  "manageOperationalTagging E v dbInstanceName dbParamGroupName isAurora =
     check (if isAurora then
         check_err (bnd (operationalTaggingForDbClusterParamGroup E dbParamGroupName)
              (\<lambda>r. ret (wrap_err ''failed to tag cluster parameter group: '' r)))
           (bnd (operationalTaggingForDbCluster E dbInstanceName) (\<lambda>r. ret (wrap_err ''failed to tag cluster: '' r)))
       else ret None)
     (check (bnd (operationalTaggingForDbParamGroup E dbParamGroupName)
          (\<lambda>r. ret (wrap_err ''failed to tag parameter group: '' r)))
       (bnd (operationalTaggingForDbInstance E dbInstanceName) (\<lambda>r. case r of
          Inl e \<Rightarrow> ret (Inl (Wrapped ''failed to tag primary instance: '' e []))
        | Inr isVerified \<Rightarrow>
            if GetMultiAZEnabled v \<and> isAurora then
              bnd (operationalTaggingForDbInstance E (dbInstanceName @ ''-2'')) (\<lambda>r2. case r2 of
                Inl e \<Rightarrow> ret (Inl (Wrapped ''failed to tag secondary instance: '' e []))
              | Inr isVerifiedSecondary \<Rightarrow> ret (Inr (isVerified \<and> isVerifiedSecondary)))
            else ret (Inr isVerified))))"

section \<open>What the provider may call\<close>

lemmas aws_param_defs = managePostgresParamGroup_def manageAuroraPostgresParamGroup_def manageClusterParamGroup_def
lemmas aws_host_defs = manageDBClusterAWS_def managePostgresDBInstanceAWS_def manageAuroraDBInstance_def
  manageAuroraDBInstances_def manageCloudHostAWS_def updateDBInstance_def updateDBClusterAWS_def
lemmas aws_delete_defs = delete_instance_def delete_cluster_def deleteCloudDatabaseAWS_def
  deleteParameterGroupAWS_def deleteExternalResourcesAWS_def
lemmas aws_tag_defs = operationalTaggingForDbParamGroup_def operationalTaggingForDbClusterParamGroup_def
  operationalTaggingForDbCluster_def operationalTaggingForDbInstance_def manageOperationalTagging_def

primrec aws_delete :: "aws_event \<Rightarrow> (string \<times> goerror option) option" where
  "aws_delete (EvGetInstance n r) = None"
| "aws_delete (EvCreateInstance d r) = None"
| "aws_delete (EvPatchInstance d r) = None"
| "aws_delete (EvDeleteInstance n r) = Some (n, r)"
| "aws_delete (EvGetCluster n r) = None"
| "aws_delete (EvCreateCluster d r) = None"
| "aws_delete (EvPatchCluster d r) = None"
| "aws_delete (EvDeleteCluster n r) = Some (n, r)"
| "aws_delete (EvGetParamGroup n r) = None"
| "aws_delete (EvCreateParamGroup g r) = None"
| "aws_delete (EvPatchParamGroup g r) = None"
| "aws_delete (EvDeleteParamGroup n r) = Some (n, r)"
| "aws_delete (EvGetClusterParamGroup n r) = None"
| "aws_delete (EvCreateClusterParamGroup g r) = None"
| "aws_delete (EvPatchClusterParamGroup g r) = None"
| "aws_delete (EvDeleteClusterParamGroup n r) = Some (n, r)"

text \<open>The name under which a call creates a resource.\<close>

primrec aws_created :: "aws_event \<Rightarrow> string option" where
  "aws_created (EvGetInstance n r) = None"
| "aws_created (EvCreateInstance d r) = Some (cr_Name (ins_Meta d))"
| "aws_created (EvPatchInstance d r) = None"
| "aws_created (EvDeleteInstance n r) = None"
| "aws_created (EvGetCluster n r) = None"
| "aws_created (EvCreateCluster d r) = Some (cr_Name (clu_Meta d))"
| "aws_created (EvPatchCluster d r) = None"
| "aws_created (EvDeleteCluster n r) = None"
| "aws_created (EvGetParamGroup n r) = None"
| "aws_created (EvCreateParamGroup g r) = Some (cr_Name (pg_Meta g))"
| "aws_created (EvPatchParamGroup g r) = None"
| "aws_created (EvDeleteParamGroup n r) = None"
| "aws_created (EvGetClusterParamGroup n r) = None"
| "aws_created (EvCreateClusterParamGroup g r) = Some (cr_Name (pg_Meta g))"
| "aws_created (EvPatchClusterParamGroup g r) = None"
| "aws_created (EvDeleteClusterParamGroup n r) = None"

text \<open>What provisioning a host may do: nothing is deleted, what is created carries the name of the
  host or of its parameter group, the only secret created is the one with the master password, and
  neither claims nor databases nor the other cloud are touched.\<close>

primrec provisions :: "string \<Rightarrow> string \<Rightarrow> event \<Rightarrow> bool" where
  "provisions host pg (Aws e) = (aws_delete e = None \<and>
     (case aws_created e of None \<Rightarrow> True | Some n \<Rightarrow> n \<in> {host, host @ ''-2'', pg}))"
| "provisions host pg (K8s e) = (case e of
     EvGetSecret _ _ _ \<Rightarrow> True | EvCreateSecret s _ \<Rightarrow> sec_Name s = host @ ''-master'' | _ \<Rightarrow> False)"
| "provisions host pg (Sys e) = True"
| "provisions host pg (Sql e) = False"
| "provisions host pg (Gcp e) = False"

lemma emits_manageMasterPassword:
  assumes "\<And>e. P (Sys e)" and "\<And>r. P (K8s (EvGetSecret (sk_Namespace sel) (sk_Name sel) r))"
    and "\<And>s r. sec_Name s = sk_Name sel \<Longrightarrow> sec_Namespace s = sk_Namespace sel \<Longrightarrow> P (K8s (EvCreateSecret s r))"
  shows "emits P (manageMasterPassword E sel)"
  unfolding manageMasterPassword_def generateMasterPassword_def sys_calls k8s_calls
  by (intro trace_intros) (simp_all add: assms)

lemma emits_param_groups:
  assumes "pg = getParameterGroupName v (ri_HostParams ri) c (ri_DbType ri)"
  shows "emits (provisions host pg) (managePostgresParamGroup E v ri c)"
    "emits (provisions host pg) (manageAuroraPostgresParamGroup E v ri c)"
    "emits (provisions host pg) (manageClusterParamGroup E v ri c)"
  unfolding aws_param_defs Let_def aws_calls assms
  by (auto intro!: trace_intros simp: param_group_def cr_meta_def)

lemma emits_update:
  "emits (provisions host pg) (updateDBInstance E v ri c d)"
  "emits (provisions host pg) (updateDBClusterAWS E v ri c cl)"
  unfolding updateDBInstance_def updateDBClusterAWS_def Let_def aws_calls by (auto intro!: trace_intros)

lemma param_group_name_claim:
  "dc_Meta c' = dc_Meta c \<Longrightarrow> getParameterGroupName v hp c' t = getParameterGroupName v hp c t"
  by (simp add: getParameterGroupName_def getDynamicHostName_def)

lemma claim_step_meta [simp]:
  "dc_Meta (with_backup v c) = dc_Meta c" "dc_Meta (sort_tags c) = dc_Meta c"
  "dc_Status (with_backup v c) = dc_Status c" "dc_Status (sort_tags c) = dc_Status c"
  by (simp_all add: with_backup_def sort_tags_def claim_upds)

lemma emits_masterPassword:
  "emits (provisions host pg) (manageMasterPassword E (master_secret host ns))"
  by (rule emits_manageMasterPassword) (simp_all add: master_secret_def)

lemma emits_host:
  fixes v r ri c
  defines "pg \<equiv> getParameterGroupName (cfg_Viper r) (ri_HostParams ri) c (ri_DbType ri)"
  shows "emits (provisions host pg) (managePostgresDBInstanceAWS E r ri host c m)"
    "emits (provisions host pg) (manageDBClusterAWS E r host ri c m)"
    "emits (provisions host pg) (manageAuroraDBInstance E r ri host c b)"
  unfolding managePostgresDBInstanceAWS_def manageDBClusterAWS_def manageAuroraDBInstance_def Let_def pg_def
  by (auto intro!: trace_intros emits_param_groups emits_update emits_masterPassword
      simp: aws_calls new_instance_def new_cluster_def new_aurora_instance_def cr_meta_def Let_def)

text \<open>The providers change nothing of a claim but its tags.\<close>

definition tags_only :: "DatabaseClaim \<Rightarrow> DatabaseClaim \<Rightarrow> bool" where
  "tags_only c c' \<longleftrightarrow> (\<exists>ts. c' = upd_spec (\<lambda>s. s\<lparr>spec_Tags := ts\<rparr>) c)"

lemma tags_onlyD:
  assumes "tags_only c c'"
  shows "dc_Meta c' = dc_Meta c" and "dc_Status c' = dc_Status c" and "spec_Type (dc_Spec c') = spec_Type (dc_Spec c)"
    and "spec_DatabaseName (dc_Spec c') = spec_DatabaseName (dc_Spec c)"
    and "spec_Username (dc_Spec c') = spec_Username (dc_Spec c)"
    and "spec_SecretName (dc_Spec c') = spec_SecretName (dc_Spec c)"
  using assms by (auto simp: tags_only_def claim_upds)

lemma tags_only_refl [intro, simp]: "tags_only c c"
  unfolding tags_only_def by (rule exI [of _ "spec_Tags (dc_Spec c)"]) (simp add: claim_upds)

lemma tags_only_trans: "tags_only a b \<Longrightarrow> tags_only b c \<Longrightarrow> tags_only a c"
  by (auto simp: tags_only_def claim_upds)

lemma tags_only_steps: "tags_only a c \<Longrightarrow> tags_only a (with_backup v c)" "tags_only a c \<Longrightarrow> tags_only a (sort_tags c)"
  by (auto simp: tags_only_def with_backup_def sort_tags_def claim_upds)

lemma returns_update:
  "tags_only a c \<Longrightarrow> returns (\<lambda>cr. tags_only a (fst cr)) (updateDBInstance E v ri c d)"
  "tags_only a c \<Longrightarrow> returns (\<lambda>cr. tags_only a (fst cr)) (updateDBClusterAWS E v ri c cl)"
  unfolding updateDBInstance_def updateDBClusterAWS_def Let_def
  by (auto intro!: returns_ret returns_on_err tags_only_steps)

lemma returns_host:
  assumes "tags_only a c"
  shows "returns (\<lambda>cr. tags_only a (fst cr)) (managePostgresDBInstanceAWS E r ri host c m)"
    "returns (\<lambda>cr. tags_only a (fst cr)) (manageDBClusterAWS E r host ri c m)"
  unfolding managePostgresDBInstanceAWS_def manageDBClusterAWS_def Let_def
  by (auto intro!: returns_ret returns_on_err returns_bnd returns_step [where Q = "tags_only a"] returns_update
      tags_only_steps assms split: sum.split option.split)

lemma returns_aurora_instance:
  assumes "tags_only a c"
  shows "returns (\<lambda>cr. tags_only a (fst cr)) (manageAuroraDBInstance E r ri host c b)"
proof -
  have update: "returns (\<lambda>cr. tags_only a (fst cr)) (bnd (updateDBInstance E v ri c d) (\<lambda>(c, ur). case ur of
      Inl e \<Rightarrow> ret (c, Inl (Wrapped s e [])) | Inr (_, d) \<Rightarrow> bnd (k d) (\<lambda>ok. ret (c, ok))))"
    if "tags_only a c" for c d v s k
    by (rule returns_bnd_of [OF returns_update(1) [OF that]])
      (auto intro!: returns_ret returns_bnd split: prod.split sum.split)
  show ?thesis unfolding manageAuroraDBInstance_def Let_def
    by (auto intro!: returns_ret returns_on_err returns_bnd returns_step [where Q = "tags_only a"] update
        tags_only_steps assms split: sum.split)
qed

lemma emits_aurora_instances:
  fixes r ri c
  defines "pg \<equiv> getParameterGroupName (cfg_Viper r) (ri_HostParams ri) c (ri_DbType ri)"
  shows "emits (provisions host pg) (manageAuroraDBInstances E r ri host c m)"
proof -
  have second: "emits (provisions host pg) (manageAuroraDBInstance E r ri host c' b)" if "tags_only c c'" for c' b
    using emits_host(3) [of host r ri c' E b] unfolding pg_def param_group_name_claim [OF tags_onlyD(1) [OF that]] .
  show ?thesis
    unfolding manageAuroraDBInstances_def
  proof (rule emits_step_returns [where Q = "tags_only c"])
    fix c1 :: DatabaseClaim and x :: bool
    assume t: "tags_only c c1"
    show "emits (provisions host pg) (step (manageAuroraDBInstance E r ri host c1 False) (\<lambda>c firstInsReady.
        if GetMultiAZEnabled (cfg_Viper r)
        then step (manageAuroraDBInstance E r ri host c True) (\<lambda>c secondInsReady.
               ret (c, Inr (firstInsReady \<and> secondInsReady)))
        else ret (c, Inr firstInsReady)))"
      by (rule emits_step_returns [where Q = "tags_only c", OF second [OF t] returns_aurora_instance [OF t]])
        (intro trace_intros second)
  qed (use emits_host(2) [of host r ri c E m, folded pg_def] in \<open>auto simp: returns_host(2) returns_ret emits_ret\<close>)
qed

lemma returns_aurora_instances: "returns (\<lambda>cr. tags_only c (fst cr)) (manageAuroraDBInstances E r ri host c m)"
  unfolding manageAuroraDBInstances_def
  by (auto intro!: returns_step [where Q = "tags_only c"] returns_host(2) returns_aurora_instance returns_ret)

lemma emits_manageCloudHostAWS:
  "emits (provisions (getDynamicHostName (cfg_Viper r) (Hash (ri_HostParams ri)) c)
     (getParameterGroupName (cfg_Viper r) (ri_HostParams ri) c (ri_DbType ri))) (manageCloudHostAWS E r ri c m)"
  unfolding manageCloudHostAWS_def Let_def by (intro trace_intros emits_aurora_instances emits_host(1))

lemma returns_manageCloudHostAWS: "returns (\<lambda>cr. tags_only c (fst cr)) (manageCloudHostAWS E r ri c m)"
  unfolding manageCloudHostAWS_def Let_def by (auto intro!: returns_aurora_instances returns_host(1) returns_ret)

section \<open>Properties\<close>

text \<open>
  C14: provisioning on AWS stays within the claim's own resources. Whatever the cloud answers, it
  deletes nothing, every instance, cluster and parameter group it creates bears the host name or
  the parameter group name derived from the claim, the only secret it creates is the host's master
  password, and of the claim in memory only the tags change.
\<close>

theorem manageCloudHostAWS_own_resources:
  fixes r ri c
  defines "host \<equiv> getDynamicHostName (cfg_Viper r) (Hash (ri_HostParams ri)) c"
    and "pg \<equiv> getParameterGroupName (cfg_Viper r) (ri_HostParams ri) c (ri_DbType ri)"
  assumes "manageCloudHostAWS E r ri c m h = (res, h')"
  shows "\<exists>es. h' = es @ h \<and> list_all (provisions host pg) es \<and> (\<forall>c' x. res = Ret (c', x) \<longrightarrow> tags_only c c')"
proof -
  from emits_manageCloudHostAWS [of r ri c E m, folded host_def pg_def] assms(3)
  obtain es where es: "h' = es @ h" "list_all (provisions host pg) es" unfolding emits_def by (metis snd_conv)
  have "tags_only c c'" if "res = Ret (c', x)" for c' x
    using returnsD [OF returns_manageCloudHostAWS, of E r ri c m h "(c', x)" h'] assms(3) that by simp
  with es show ?thesis by blast
qed

theorem manageCloudHostAWS_own_resources_witness:
  "\<exists>es. snd (manageCloudHostAWS sample_env sample_config_r (sample_reqInfo hp_15_3) sample_claim M_UseNewDB []) = es \<and>
     list_all (provisions (getDynamicHostName sample_viper (Hash hp_15_3) sample_claim)
       (getParameterGroupName sample_viper hp_15_3 sample_claim ''postgres'')) es"
proof -
  obtain res h' where run: "manageCloudHostAWS sample_env sample_config_r (sample_reqInfo hp_15_3) sample_claim
      M_UseNewDB [] = (res, h')"
    by fastforce
  from manageCloudHostAWS_own_resources [OF run] run show ?thesis
    by (simp add: sample_reqInfo_def)
qed

lemma sort_key_sorted: "sort_key f (sort_key f xs) = sort_key f xs"
  by (simp add: sorted_sort_id sort_key_id_if_sorted)

lemma configureBackupPolicy_idem:
  assumes "set ts = set (configureBackupPolicy v p tags)"
  shows "configureBackupPolicy v p' ts = ts"
proof -
  have "defaultBackupPolicyKey \<in> tag_Key ` set (configureBackupPolicy v p tags)"
    by (cases "defaultBackupPolicyKey \<in> tag_Key ` set tags") (simp_all add: configureBackupPolicy_def list_ex_key)
  then have "defaultBackupPolicyKey \<in> tag_Key ` set ts" unfolding assms .
  then show ?thesis unfolding configureBackupPolicy_def list_ex_key by simp
qed

lemma backup_idem: "with_backup v (sort_tags (with_backup v c)) = sort_tags (with_backup v c)"
  using configureBackupPolicy_idem [OF set_DBTags]
  by (simp add: with_backup_def sort_tags_def claim_upds)

lemma sort_tags_idem: "sort_tags (sort_tags c) = sort_tags c"
  by (simp add: sort_tags_def claim_upds DBTags_def sort_key_sorted)

lemma desired_instance_idem:
  "desired_instance v ri c (set_window c (desired_instance v ri c d)) = set_window c (desired_instance v ri c d)"
  by (simp add: desired_instance_def set_window_def Let_def)

text \<open>
  C15: updates of an instance settle. Where the server stores what it is sent, a second update of the
  instance with the same request finds nothing to change and makes no call.
\<close>

theorem updateDBInstance_settles:
  assumes "updateDBInstance E v ri c d h = (Ret (c', Inr (changed, d')), h')"
    and "\<And>h x. e_PatchInstance (e_aws E) h x = Inr x"
  shows "updateDBInstance E v ri c' d' h' = (Ret (c', Inr (False, d')), h')"
proof -
  let ?c = "sort_tags (with_backup v c)"
  from assms have c': "c' = ?c" and d': "d' = desired_instance v ri ?c d \<or> d' = set_window ?c (desired_instance v ri ?c d)"
    by (auto simp: updateDBInstance_def Let_def prog_simps patchInstance_def split: if_splits)
  have "desired_instance v ri ?c (desired_instance v ri ?c d) = desired_instance v ri ?c d"
    by (simp add: desired_instance_def Let_def)
  with d' desired_instance_idem have "desired_instance v ri ?c d' = d'" by metis
  moreover have "sort_tags (with_backup v c') = ?c" unfolding c' backup_idem sort_tags_idem ..
  ultimately show ?thesis by (simp add: updateDBInstance_def Let_def prog_simps c')
qed

definition sample_instance :: DBInstance where
  "sample_instance = new_instance sample_viper (sample_reqInfo hp_15_3) sample_claim M_UseNewDB ''host'' ''db'' ''pg''"

theorem updateDBInstance_settles_witness:
  "\<exists>c' changed d' h'. updateDBInstance sample_env sample_viper (sample_reqInfo hp_15_3) sample_claim sample_instance [] =
       (Ret (c', Inr (changed, d')), h') \<and>
     updateDBInstance sample_env sample_viper (sample_reqInfo hp_15_3) c' d' h' = (Ret (c', Inr (False, d')), h')"
proof -
  have patch: "e_PatchInstance (e_aws sample_env) h x = Inr x" for h x by (simp add: sample_defs)
  have "\<exists>c' changed d' h'. updateDBInstance sample_env sample_viper (sample_reqInfo hp_15_3) sample_claim sample_instance [] =
       (Ret (c', Inr (changed, d')), h')"
    by (auto simp: updateDBInstance_def Let_def prog_simps patchInstance_def patch)
  then obtain c' changed d' h' where run: "updateDBInstance sample_env sample_viper (sample_reqInfo hp_15_3)
      sample_claim sample_instance [] = (Ret (c', Inr (changed, d')), h')" by blast
  from updateDBInstance_settles [OF run patch] run show ?thesis by blast
qed

section \<open>Deletion\<close>

text \<open>\<open>ok_emits P m\<close>: a run that answers no error has only made calls that satisfy \<open>P\<close>.\<close>

definition ok_emits :: "(event \<Rightarrow> bool) \<Rightarrow> 'err option go_prog \<Rightarrow> bool" where
  "ok_emits P m \<longleftrightarrow> (\<forall>h h'. m h = (Ret None, h') \<longrightarrow> (\<exists>es. h' = es @ h \<and> list_all P es))"

lemma ok_emitsD: "ok_emits P m \<Longrightarrow> m h = (Ret None, h') \<Longrightarrow> \<exists>es. h' = es @ h \<and> list_all P es"
  by (simp add: ok_emits_def)

lemma ok_emits_ret: "ok_emits P (ret x)"
  by (simp add: ok_emits_def ret_def)

lemma ok_emits_check_err:
  assumes "ok_emits P m" and "ok_emits P l"
  shows "ok_emits P (check_err m l)"
  unfolding ok_emits_def
proof (intro allI impI)
  fix h h'
  assume "check_err m l h = (Ret None, h')"
  then obtain h1 where m: "m h = (Ret None, h1)" and l: "l h1 = (Ret None, h')"
    by (auto simp: check_err_def bnd_def ret_def split: prod.splits go.splits option.splits)
  from ok_emitsD [OF assms(1) m] ok_emitsD [OF assms(2) l] show "\<exists>es. h' = es @ h \<and> list_all P es"
    by (metis append_assoc list_all_append)
qed

text \<open>Two phases of which the second starts only after the first has succeeded.\<close>

lemma check_err_phases:
  assumes run: "check_err m l h = (res, h')" and P: "emits P m" and Q: "emits Q l" and K: "ok_emits K m" "ok_emits K l"
  shows "\<exists>fst_es snd_es. h' = snd_es @ fst_es @ h \<and> list_all P fst_es \<and> list_all Q snd_es \<and>
    (snd_es \<noteq> [] \<longrightarrow> list_all K fst_es) \<and> (res = Ret None \<longrightarrow> list_all K (snd_es @ fst_es))"
proof -
  obtain r1 h1 where m: "m h = (r1, h1)" by fastforce
  from emits_run [OF P m] obtain es1 where es1: "h1 = es1 @ h" "list_all P es1" by (metis list_all_iff)
  show ?thesis
  proof (cases "r1 = Ret None")
    case False
    with run m have "h' = h1" "res \<noteq> Ret None"
      by (auto simp: check_err_def bnd_def ret_def split: go.splits option.splits)
    with es1 show ?thesis by (intro exI [of _ es1] exI [of _ "[]"]) simp
  next
    case True
    from ok_emitsD [OF K(1) m [unfolded True]] es1 have k1: "list_all K es1" by auto
    from run m True have l: "l h1 = (res, h')" by (simp add: check_err_def bnd_def)
    from emits_run [OF Q l] obtain es2 where es2: "h' = es2 @ h1" "list_all Q es2" by (metis list_all_iff)
    have "list_all K es2" if "res = Ret None" using ok_emitsD [OF K(2) l [unfolded that]] es2 by auto
    with es1 es2 k1 show ?thesis by (intro exI [of _ es1] exI [of _ es2]) auto
  qed
qed

definition no_failed_delete :: "event \<Rightarrow> bool" where
  "no_failed_delete e \<longleftrightarrow> (\<forall>a n err. e = Aws a \<longrightarrow> aws_delete a \<noteq> Some (n, Some err))"

lemma no_failed_delete_simps [simp]:
  "no_failed_delete (Aws a) \<longleftrightarrow> (\<forall>n err. aws_delete a \<noteq> Some (n, Some err))"
  "no_failed_delete (Sys s)" "no_failed_delete (K8s k)" "no_failed_delete (Gcp g)" "no_failed_delete (Sql q)"
  by (simp_all add: no_failed_delete_def)

lemma delete_ok:
  "ok_emits no_failed_delete (delete_instance E n)" "ok_emits no_failed_delete (delete_cluster E n)"
  "ok_emits no_failed_delete (deleteParameterGroupAWS E n)"
  "ok_emits no_failed_delete (deleteCloudDatabaseAWS E v n)"
  "ok_emits no_failed_delete (deleteExternalResourcesAWS E v ri c)"
proof -
  show inst: "ok_emits no_failed_delete (delete_instance E n)" for n
    by (auto simp: ok_emits_def delete_instance_def aws_calls prog_simps split: sum.splits if_splits)
  show clu: "ok_emits no_failed_delete (delete_cluster E n)" for n
    by (auto simp: ok_emits_def delete_cluster_def aws_calls prog_simps split: sum.splits if_splits)
  show pg: "ok_emits no_failed_delete (deleteParameterGroupAWS E n)" for n
    unfolding deleteParameterGroupAWS_def
    by (rule ok_emits_check_err)
      (auto simp: ok_emits_def aws_calls prog_simps split: sum.splits if_splits)
  show db: "ok_emits no_failed_delete (deleteCloudDatabaseAWS E v n)" for n
    unfolding deleteCloudDatabaseAWS_def by (auto intro!: ok_emits_check_err ok_emits_ret inst clu)
  show "ok_emits no_failed_delete (deleteExternalResourcesAWS E v ri c)"
    unfolding deleteExternalResourcesAWS_def by (auto intro!: ok_emits_check_err ok_emits_ret pg db)
qed

primrec database_call :: "aws_event \<Rightarrow> bool" where
  "database_call (EvGetInstance n r) = True"
| "database_call (EvCreateInstance d r) = False"
| "database_call (EvPatchInstance d r) = False"
| "database_call (EvDeleteInstance n r) = True"
| "database_call (EvGetCluster n r) = True"
| "database_call (EvCreateCluster d r) = False"
| "database_call (EvPatchCluster d r) = False"
| "database_call (EvDeleteCluster n r) = True"
| "database_call (EvGetParamGroup n r) = False"
| "database_call (EvCreateParamGroup g r) = False"
| "database_call (EvPatchParamGroup g r) = False"
| "database_call (EvDeleteParamGroup n r) = False"
| "database_call (EvGetClusterParamGroup n r) = False"
| "database_call (EvCreateClusterParamGroup g r) = False"
| "database_call (EvPatchClusterParamGroup g r) = False"
| "database_call (EvDeleteClusterParamGroup n r) = False"

definition db_only :: "event \<Rightarrow> bool" where
  "db_only e \<longleftrightarrow> (\<exists>a. e = Aws a \<and> database_call a)"

definition group_only :: "event \<Rightarrow> bool" where
  "group_only e \<longleftrightarrow> (\<exists>a. e = Aws a \<and> \<not> database_call a \<and> aws_created a = None)"

lemma emits_delete:
  "emits db_only (deleteCloudDatabaseAWS E v n)" "emits group_only (deleteParameterGroupAWS E n)"
  by (auto simp: deleteCloudDatabaseAWS_def delete_instance_def delete_cluster_def deleteParameterGroupAWS_def
      aws_calls db_only_def group_only_def intro!: trace_intros)

text \<open>
  C16: resources of a deleted claim go in order and only where they may. With another reclaim policy
  than "delete" nothing is called at all; otherwise the databases (secondary instance, instance,
  cluster) are handled first, the parameter groups only after every deletion of a database was
  accepted, and success is reported only if no deletion failed.
\<close>

theorem deleteExternalResourcesAWS_order:
  assumes "deleteExternalResourcesAWS E v ri c h = (res, h')"
  shows "\<exists>dbs groups. h' = groups @ dbs @ h \<and> list_all db_only dbs \<and> list_all group_only groups \<and>
    (groups \<noteq> [] \<longrightarrow> list_all no_failed_delete dbs) \<and>
    (res = Ret None \<longrightarrow> list_all no_failed_delete (groups @ dbs)) \<and>
    (GetDefaultReclaimPolicy v \<noteq> ''delete'' \<longrightarrow> res = Ret None \<and> h' = h)"
proof (cases "GetDefaultReclaimPolicy v = ''delete''")
  case False
  with assms show ?thesis
    by (intro exI [of _ "[]"]) (simp add: deleteExternalResourcesAWS_def ret_def)
next
  case True
  with assms have "check_err (deleteCloudDatabaseAWS E v (getDynamicHostName v (Hash (ri_HostParams ri)) c))
      (deleteParameterGroupAWS E (getParameterGroupName v (ri_HostParams ri) c (ri_DbType ri))) h = (res, h')"
    by (simp add: deleteExternalResourcesAWS_def)
  from check_err_phases [OF this emits_delete delete_ok(4,3)] True show ?thesis by blast
qed

theorem deleteExternalResourcesAWS_order_witness:
  "\<exists>dbs groups. snd (deleteExternalResourcesAWS sample_env (sample_viper\<lparr>GetString := (\<lambda>k.
       if k = ''defaultReclaimPolicy'' then ''delete'' else [])\<rparr>) (sample_reqInfo hp_15_3) sample_claim []) = groups @ dbs \<and>
     list_all db_only dbs \<and> list_all group_only groups \<and> dbs \<noteq> []"
proof -
  let ?v = "sample_viper\<lparr>GetString := (\<lambda>k. if k = ''defaultReclaimPolicy'' then ''delete'' else [])\<rparr>"
  obtain res h' where run: "deleteExternalResourcesAWS sample_env ?v (sample_reqInfo hp_15_3) sample_claim [] = (res, h')"
    by fastforce
  from deleteExternalResourcesAWS_order [OF run] obtain dbs groups where
    p: "h' = groups @ dbs" "list_all db_only dbs" "list_all group_only groups" by auto
  have "list_ex db_only h'" using run
    by (auto simp: deleteExternalResourcesAWS_def GetDefaultReclaimPolicy_def deleteCloudDatabaseAWS_def
        delete_instance_def delete_cluster_def deleteParameterGroupAWS_def GetMultiAZEnabled_def
        sample_viper_def aws_calls prog_simps sample_defs db_only_def)
  with p have "dbs \<noteq> []" by (auto simp: list_ex_iff list_all_iff db_only_def group_only_def)
  with p run show ?thesis by auto
qed

end
