(* ===== verification/Gcpprovider.thy ===== *)
theory Gcpprovider
  imports Awsprovider
begin

text \<open>
  The GCP provider (\<^verbatim>\<open>pkg/databaseclaim/gcpprovider.go\<close>): AlloyDB clusters and instances, the
  network record of an instance, the secret with the connection information, and deletion.
\<close>

section \<open>Network record and connection secret\<close>

definition createSecretWithConnInfo ::
  "env \<Rightarrow> DatabaseClaimReconciler \<Rightarrow> requestInfo \<Rightarrow> string \<Rightarrow> goerror option go_prog" where
  "createSecretWithConnInfo E r reqInfo dbHostIdentifier =
     attempt_err (getGcpInstance E dbHostIdentifier) (\<lambda>instnc.
     attempt_err (ret (getServiceNamespace r)) (\<lambda>serviceNS.
     attempt_err (getSecret E serviceNS dbHostIdentifier) (\<lambda>secret.
       let pass = data_get secret ''attribute.initial_user.0.password'' in
       case sec_Data secret of
         None \<Rightarrow> panic
       | Some d \<Rightarrow> (case gi_AtProviderPsc instnc of
           None \<Rightarrow> panic
         | Some (None, _) \<Rightarrow> panic
         | Some (Some pscDNSName, _) \<Rightarrow>
             updateSecretObj E (secret\<lparr>sec_Data := Some (d(''username'' \<mapsto> hp_MasterUsername (ri_HostParams reqInfo),
               ''password'' \<mapsto> pass, ''endpoint'' \<mapsto> pscDNSName, ''port'' \<mapsto> ''5432''))\<rparr>)))))"

definition manageNetworkRecord :: "env \<Rightarrow> DatabaseClaimReconciler \<Rightarrow> string \<Rightarrow> goerror option go_prog" where
  "manageNetworkRecord E r dbHostIdentifier =
     attempt_err (getGcpInstance E dbHostIdentifier) (\<lambda>instnc. case gi_AtProviderPsc instnc of
       None \<Rightarrow> panic
     | Some (pscDnsName, serviceAttachmentLink) \<Rightarrow>
         bnd (getNetworkRecord E (dbHostIdentifier @ ''-psc-network'')) (\<lambda>got. case got of
           None \<Rightarrow> ret None
         | Some e \<Rightarrow>
             if \<not> IsNotFound e then ret (Some e)
             else attempt_err (ret (getServiceNamespace r)) (\<lambda>serviceNS.
               case (pscDnsName, serviceAttachmentLink) of
                 (Some dns, Some link) \<Rightarrow>
                   createNetworkRecord E \<lparr>nr_Name = dbHostIdentifier @ ''-psc-network'', nr_Namespace = serviceNS,
                     nr_PSCDNSName = dns, nr_ServiceAttachmentLink = link, nr_Region = GetRegion (cfg_Viper r),
                     nr_Subnetwork = GetSubNetwork (cfg_Viper r), nr_Network = GetNetwork (cfg_Viper r)\<rparr>
               | _ \<Rightarrow> panic)))"

section \<open>Clusters and instances\<close>

definition getAlloyDBVersion :: "string \<Rightarrow> string" where
  "getAlloyDBVersion engineVersion = (if HasPrefix engineVersion ''14'' then ''POSTGRES_14'' else ''POSTGRES_15'')"

definition updateDBClusterGCP ::
  "env \<Rightarrow> viper \<Rightarrow> requestInfo \<Rightarrow> DatabaseClaim \<Rightarrow> GcpCluster \<Rightarrow> (DatabaseClaim \<times> (goerror + bool \<times> GcpCluster)) go_prog" where
  "updateDBClusterGCP E v reqInfo dbClaim dbCluster =
     (let c = with_backup v dbClaim;
          d0 = (if ri_BackupRetentionDays reqInfo \<noteq> 0
                then dbCluster\<lparr>gc_AutomatedBackup := True, gc_QuantityBasedRetention := Some (GetNumBackupsToRetain v)\<rparr>
                else dbCluster);
          d = d0\<lparr>gc_Resource := (gc_Resource d0)\<lparr>rs_DeletionPolicy := hp_DeletionPolicy (ri_HostParams reqInfo)\<rparr>\<rparr>
      in on_err c (patchGcpCluster E d) (\<lambda>d'. ret (c, Inr (True, d'))))"

definition new_gcp_cluster :: "viper \<Rightarrow> requestInfo \<Rightarrow> DatabaseClaim \<Rightarrow> string \<Rightarrow> string \<Rightarrow> GcpCluster" where
  "new_gcp_cluster v reqInfo c dbHostName serviceNS =
     (let params = ri_HostParams reqInfo in
      \<lparr>gc_Meta = cr_meta dbHostName (propagateLabels (m_Labels (dc_Meta c))),
       gc_AutomatedBackup = True, gc_QuantityBasedRetention = None,
       gc_DatabaseVersion = getAlloyDBVersion (hp_DBVersion params),
       gc_DeletionPolicy = hp_DeletionPolicy params, gc_DisplayName = dbHostName,
       gc_InitialUser = (master_secret dbHostName serviceNS, hp_MasterUsername params),
       gc_Location = GetRegion v, gc_PscEnabled = True,
       gc_Resource = provider_resource v params (Some (dbHostName, serviceNS)), gc_Conditions = []\<rparr>)"

definition manageDBClusterGCP ::
  "env \<Rightarrow> DatabaseClaimReconciler \<Rightarrow> requestInfo \<Rightarrow> string \<Rightarrow> DatabaseClaim \<Rightarrow> (DatabaseClaim \<times> (goerror + bool)) go_prog" where
  "manageDBClusterGCP E r reqInfo dbHostName dbClaim =
     (let v = cfg_Viper r in
      on_err dbClaim (ret (getServiceNamespace r)) (\<lambda>serviceNS.
      let c = with_backup v dbClaim in
      bnd (getGcpCluster E dbHostName) (\<lambda>got.
      step (case got of
          Inr dbCluster \<Rightarrow> ret (c, Inr dbCluster)
        | Inl e \<Rightarrow>
            if \<not> IsNotFound e then ret (c, Inl e)
            else bnd (manageMasterPassword E (master_secret dbHostName serviceNS)) (\<lambda>mp. case mp of
              Some e \<Rightarrow> ret (c, Inl e)
            | None \<Rightarrow> on_err c (createGcpCluster E (new_gcp_cluster v reqInfo c dbHostName serviceNS)) (\<lambda>d. ret (c, Inr d))))
        (\<lambda>c dbCluster.
           if cr_DeletionTimestamp (gc_Meta dbCluster) \<noteq> None
           then ret (c, Inl (ErrMsg (''can not create Cloud DB cluster '' @ dbHostName @ '' it is being deleted'')))
           else step (updateDBClusterGCP E v reqInfo c dbCluster) (\<lambda>c (_, d).
             bnd (of_go (resource_ready ''alloydb.cluster'' dbHostName (gc_Conditions d))) (\<lambda>ok. ret (c, ok)))))))"

definition new_gcp_instance :: "viper \<Rightarrow> requestInfo \<Rightarrow> DatabaseClaim \<Rightarrow> string \<Rightarrow> GcpInstance" where
  "new_gcp_instance v reqInfo c dbHostName =
     \<lparr>gi_Meta = cr_meta dbHostName (propagateLabels (m_Labels (dc_Meta c))),
      gi_AvailabilityType = (if GetMultiAZEnabled v then ''ZONAL'' else ''REGIONAL''),
      gi_SSLMode = ''ENCRYPTED_ONLY'', gi_ClusterRef = dbHostName, gi_DisplayName = dbHostName,
      gi_GceZone = GetRegion v, gi_InstanceType = ''PRIMARY'', gi_EnablePublicIP = False,
      gi_AllowedConsumerProjects = [GetProject v],
      gi_DatabaseFlags = [(''alloydb.iam_authentication'', ''on'')],
      gi_Resource = provider_resource v (ri_HostParams reqInfo) None, gi_AtProviderPsc = None, gi_Conditions = []\<rparr>"

definition managePostgresDBInstanceGCP ::
  "env \<Rightarrow> DatabaseClaimReconciler \<Rightarrow> requestInfo \<Rightarrow> string \<Rightarrow> DatabaseClaim \<Rightarrow> (DatabaseClaim \<times> (goerror + bool)) go_prog" where
  "managePostgresDBInstanceGCP E r reqInfo dbHostName dbClaim =
     (let v = cfg_Viper r in
      on_err dbClaim (ret (getServiceNamespace r)) (\<lambda>serviceNS.
      let c = with_backup v dbClaim in
      bnd (getGcpInstance E dbHostName) (\<lambda>got.
      step (case got of
          Inr dbInstance \<Rightarrow> ret (c, Inr dbInstance)
        | Inl e \<Rightarrow>
            if \<not> IsNotFound e then ret (c, Inl e)
            else bnd (manageMasterPassword E (master_secret dbHostName serviceNS)) (\<lambda>mp. case mp of
              Some e \<Rightarrow> ret (c, Inl e)
            | None \<Rightarrow> on_err c (createGcpInstance E (new_gcp_instance v reqInfo c dbHostName)) (\<lambda>d. ret (c, Inr d))))
        (\<lambda>c dbInstance.
           if cr_DeletionTimestamp (gi_Meta dbInstance) \<noteq> None then ret (c, Inl (being_deleted dbHostName))
           else bnd (of_go (resource_ready ''alloydb.instance'' dbHostName (gi_Conditions dbInstance))) (\<lambda>ok. ret (c, ok))))))"

definition manageCloudHostGCP ::
  "env \<Rightarrow> DatabaseClaimReconciler \<Rightarrow> requestInfo \<Rightarrow> DatabaseClaim \<Rightarrow> (DatabaseClaim \<times> (goerror + bool)) go_prog" where
  "manageCloudHostGCP E r reqInfo dbClaim =
     (let dbHostIdentifier = getDynamicHostName (cfg_Viper r) (Hash (ri_HostParams reqInfo)) dbClaim;
          t = spec_Type (dc_Spec dbClaim)
      in if t \<noteq> Postgres
         then ret (dbClaim, Inl (Wrapped [] (Sentinel ErrInvalidDBType)
                ('': '' @ [CHR 0x22] @ t @ [CHR 0x22] @ '' must be one of [postgres]'')))
         else step (manageDBClusterGCP E r reqInfo dbHostIdentifier dbClaim) (\<lambda>c _.
           step (managePostgresDBInstanceGCP E r reqInfo dbHostIdentifier c) (\<lambda>c insReady.
             if insReady then
               bnd (check_err (manageNetworkRecord E r dbHostIdentifier)
                      (createSecretWithConnInfo E r reqInfo dbHostIdentifier)) (\<lambda>er. case er of
                 Some e \<Rightarrow> ret (c, Inl e) | None \<Rightarrow> ret (c, Inr insReady))
             else ret (c, Inr insReady))))"

section \<open>Deletion\<close>

definition delete_gcp_instance :: "env \<Rightarrow> string \<Rightarrow> goerror option go_prog" where
  "delete_gcp_instance E name = bnd (getGcpInstance E name) (\<lambda>r. case r of
     Inl e \<Rightarrow> ret (if IsNotFound e then None else Some e)
   | Inr d \<Rightarrow> if cr_DeletionTimestamp (gi_Meta d) = None then deleteGcpInstance E (cr_Name (gi_Meta d)) else ret None)"

definition deleteCloudDatabaseGCP :: "env \<Rightarrow> viper \<Rightarrow> string \<Rightarrow> goerror option go_prog" where
  "deleteCloudDatabaseGCP E v dbHostName =
     check_err (if GetMultiAZEnabled v then delete_gcp_instance E (dbHostName @ ''-2'') else ret None)
       (check_err (delete_gcp_instance E dbHostName)
         (bnd (getGcpCluster E dbHostName) (\<lambda>r. case r of
            Inl e \<Rightarrow> ret (if IsNotFound e then None else Some e)
          | Inr d \<Rightarrow> if cr_DeletionTimestamp (gc_Meta d) = None then deleteGcpCluster E (cr_Name (gc_Meta d)) else ret None)))"

definition deleteExternalResourcesGCP :: "env \<Rightarrow> viper \<Rightarrow> requestInfo \<Rightarrow> DatabaseClaim \<Rightarrow> goerror option go_prog" where
  "deleteExternalResourcesGCP E v reqInfo dbClaim =
     (if GetDefaultReclaimPolicy v = ''delete''
      then deleteCloudDatabaseGCP E v (getDynamicHostName v (Hash (ri_HostParams reqInfo)) dbClaim)
      else ret None)"

section \<open>Properties\<close>

primrec gcp_delete :: "gcp_event \<Rightarrow> (string \<times> goerror option) option" where
  "gcp_delete (EvGetGcpInstance n r) = None"
| "gcp_delete (EvCreateGcpInstance d r) = None"
| "gcp_delete (EvDeleteGcpInstance n r) = Some (n, r)"
| "gcp_delete (EvGetGcpCluster n r) = None"
| "gcp_delete (EvCreateGcpCluster d r) = None"
| "gcp_delete (EvPatchGcpCluster d r) = None"
| "gcp_delete (EvDeleteGcpCluster n r) = Some (n, r)"
| "gcp_delete (EvGetNetworkRecord n r) = None"
| "gcp_delete (EvCreateNetworkRecord d r) = None"

primrec gcp_created :: "gcp_event \<Rightarrow> string option" where
  "gcp_created (EvGetGcpInstance n r) = None"
| "gcp_created (EvCreateGcpInstance d r) = Some (cr_Name (gi_Meta d))"
| "gcp_created (EvDeleteGcpInstance n r) = None"
| "gcp_created (EvGetGcpCluster n r) = None"
| "gcp_created (EvCreateGcpCluster d r) = Some (cr_Name (gc_Meta d))"
| "gcp_created (EvPatchGcpCluster d r) = None"
| "gcp_created (EvDeleteGcpCluster n r) = None"
| "gcp_created (EvGetNetworkRecord n r) = None"
| "gcp_created (EvCreateNetworkRecord d r) = Some (nr_Name d)"

text \<open>What provisioning on GCP may do; it also completes the secret that Crossplane has written.\<close>

primrec gcp_provisions :: "string \<Rightarrow> event \<Rightarrow> bool" where
  "gcp_provisions host (Gcp e) = (gcp_delete e = None \<and>
     (case gcp_created e of None \<Rightarrow> True | Some n \<Rightarrow> n \<in> {host, host @ ''-psc-network''}))"
| "gcp_provisions host (K8s e) = (case e of
     EvGetSecret _ _ _ \<Rightarrow> True | EvUpdateSecret _ _ \<Rightarrow> True
   | EvCreateSecret s _ \<Rightarrow> sec_Name s = host @ ''-master'' | _ \<Rightarrow> False)"
| "gcp_provisions host (Sys e) = True"
| "gcp_provisions host (Sql e) = False"
| "gcp_provisions host (Aws e) = False"

lemma emits_gcp_parts:
  "emits (gcp_provisions host) (manageDBClusterGCP E r ri host c)"
  "emits (gcp_provisions host) (managePostgresDBInstanceGCP E r ri host c)"
  "emits (gcp_provisions host) (manageNetworkRecord E r host)"
  "emits (gcp_provisions host) (createSecretWithConnInfo E r ri host)"
proof -
  have mp: "emits (gcp_provisions host) (manageMasterPassword E (master_secret host ns))" for ns
    by (rule emits_manageMasterPassword) (simp_all add: master_secret_def)
  show "emits (gcp_provisions host) (manageDBClusterGCP E r ri host c)"
    unfolding manageDBClusterGCP_def updateDBClusterGCP_def Let_def gcp_calls
    by (auto intro!: trace_intros mp simp: new_gcp_cluster_def cr_meta_def Let_def)
  show "emits (gcp_provisions host) (managePostgresDBInstanceGCP E r ri host c)"
    unfolding managePostgresDBInstanceGCP_def Let_def gcp_calls
    by (auto intro!: trace_intros mp simp: new_gcp_instance_def cr_meta_def)
  show "emits (gcp_provisions host) (manageNetworkRecord E r host)"
    unfolding manageNetworkRecord_def gcp_calls
    by (auto intro!: trace_intros split: option.split prod.split)
  show "emits (gcp_provisions host) (createSecretWithConnInfo E r ri host)"
    unfolding createSecretWithConnInfo_def gcp_calls k8s_calls Let_def
    by (auto intro!: trace_intros split: option.split prod.split)
qed

lemma emits_manageCloudHostGCP:
  "emits (gcp_provisions (getDynamicHostName (cfg_Viper r) (Hash (ri_HostParams ri)) c)) (manageCloudHostGCP E r ri c)"
  unfolding manageCloudHostGCP_def Let_def by (intro trace_intros emits_gcp_parts)

lemma returns_gcp_parts:
  assumes "tags_only a c"
  shows "returns (\<lambda>cr. tags_only a (fst cr)) (manageDBClusterGCP E r ri host c)"
    "returns (\<lambda>cr. tags_only a (fst cr)) (managePostgresDBInstanceGCP E r ri host c)"
  unfolding manageDBClusterGCP_def updateDBClusterGCP_def managePostgresDBInstanceGCP_def Let_def
  by (auto intro!: returns_ret returns_on_err returns_bnd returns_step [where Q = "tags_only a"]
      tags_only_steps assms split: sum.split option.split prod.split)

lemma returns_manageCloudHostGCP: "returns (\<lambda>cr. tags_only c (fst cr)) (manageCloudHostGCP E r ri c)"
  unfolding manageCloudHostGCP_def Let_def
  by (auto intro!: returns_ret returns_bnd returns_step [where Q = "tags_only c"] returns_gcp_parts
      tags_only_steps split: option.split)

text \<open>
  C22: provisioning on GCP stays within the claim's own resources. Whatever the cloud answers, it
  deletes nothing, every cluster, instance and network record it creates bears the host name derived
  from the claim, the only secret it creates is the host's master password, and of the claim in
  memory only the tags change.
\<close>

theorem manageCloudHostGCP_own_resources:
  fixes r ri c
  defines "host \<equiv> getDynamicHostName (cfg_Viper r) (Hash (ri_HostParams ri)) c"
  assumes "manageCloudHostGCP E r ri c h = (res, h')"
  shows "\<exists>es. h' = es @ h \<and> list_all (gcp_provisions host) es \<and> (\<forall>c' x. res = Ret (c', x) \<longrightarrow> tags_only c c')"
proof -
  from emits_manageCloudHostGCP [of r ri c E, folded host_def] assms(2)
  obtain es where es: "h' = es @ h" "list_all (gcp_provisions host) es" unfolding emits_def by (metis snd_conv)
  have "tags_only c c'" if "res = Ret (c', x)" for c' x
    using returnsD [OF returns_manageCloudHostGCP, of E r ri c h "(c', x)" h'] assms(2) that by simp
  with es show ?thesis by blast
qed

theorem manageCloudHostGCP_own_resources_witness:
  "\<exists>es. snd (manageCloudHostGCP sample_env sample_config_r (sample_reqInfo hp_15_3) sample_claim []) = es \<and>
     list_all (gcp_provisions (getDynamicHostName sample_viper (Hash hp_15_3) sample_claim)) es"
proof -
  obtain res h' where run: "manageCloudHostGCP sample_env sample_config_r (sample_reqInfo hp_15_3) sample_claim [] = (res, h')"
    by fastforce
  from manageCloudHostGCP_own_resources [OF run] run show ?thesis
    by (simp add: sample_reqInfo_def)
qed

text \<open>Deletions that failed, and calls on one kind of resource.\<close>

definition no_failed_gcp_delete :: "event \<Rightarrow> bool" where
  "no_failed_gcp_delete e \<longleftrightarrow> (\<forall>g n err. e = Gcp g \<longrightarrow> gcp_delete g \<noteq> Some (n, Some err))"

primrec cluster_call :: "gcp_event \<Rightarrow> bool" where
  "cluster_call (EvGetGcpInstance n r) = False"
| "cluster_call (EvCreateGcpInstance d r) = False"
| "cluster_call (EvDeleteGcpInstance n r) = False"
| "cluster_call (EvGetGcpCluster n r) = True"
| "cluster_call (EvCreateGcpCluster d r) = True"
| "cluster_call (EvPatchGcpCluster d r) = True"
| "cluster_call (EvDeleteGcpCluster n r) = True"
| "cluster_call (EvGetNetworkRecord n r) = False"
| "cluster_call (EvCreateNetworkRecord d r) = False"

definition gcp_only :: "bool \<Rightarrow> event \<Rightarrow> bool" where
  "gcp_only b e \<longleftrightarrow> (\<exists>g. e = Gcp g \<and> cluster_call g = b)"

definition delete_gcp_instances :: "env \<Rightarrow> viper \<Rightarrow> string \<Rightarrow> goerror option go_prog" where
  "delete_gcp_instances E v n =
     check_err (if GetMultiAZEnabled v then delete_gcp_instance E (n @ ''-2'') else ret None) (delete_gcp_instance E n)"

definition delete_gcp_cluster :: "env \<Rightarrow> string \<Rightarrow> goerror option go_prog" where
  "delete_gcp_cluster E n = bnd (getGcpCluster E n) (\<lambda>r. case r of
     Inl e \<Rightarrow> ret (if IsNotFound e then None else Some e)
   | Inr d \<Rightarrow> if cr_DeletionTimestamp (gc_Meta d) = None then deleteGcpCluster E (cr_Name (gc_Meta d)) else ret None)"

lemma check_err_assoc: "check_err (check_err a b) c = check_err a (check_err b c)"
proof -
  have "bnd (case x of None \<Rightarrow> b | Some e \<Rightarrow> ret (Some e)) k =
      (case x of None \<Rightarrow> bnd b k | Some e \<Rightarrow> k (Some e))" for x k
    by (simp split: option.split)
  then show ?thesis unfolding check_err_def bnd_assoc by (auto intro!: arg_cong [where f = "bnd a"] split: option.split)
qed

lemma deleteCloudDatabaseGCP_split:
  "deleteCloudDatabaseGCP E v n = check_err (delete_gcp_instances E v n) (delete_gcp_cluster E n)"
  by (simp add: deleteCloudDatabaseGCP_def delete_gcp_instances_def delete_gcp_cluster_def check_err_assoc)

lemma delete_gcp_ok:
  "ok_emits no_failed_gcp_delete (delete_gcp_instances E v n)" "ok_emits no_failed_gcp_delete (delete_gcp_cluster E n)"
proof -
  have inst: "ok_emits no_failed_gcp_delete (delete_gcp_instance E n)" for n
    by (auto simp: ok_emits_def delete_gcp_instance_def gcp_calls prog_simps no_failed_gcp_delete_def
        split: sum.splits if_splits)
  show "ok_emits no_failed_gcp_delete (delete_gcp_instances E v n)"
    unfolding delete_gcp_instances_def by (auto intro!: ok_emits_check_err ok_emits_ret inst)
  show "ok_emits no_failed_gcp_delete (delete_gcp_cluster E n)"
    by (auto simp: ok_emits_def delete_gcp_cluster_def gcp_calls prog_simps no_failed_gcp_delete_def
        split: sum.splits if_splits)
qed

lemma emits_gcp_delete:
  "emits (gcp_only False) (delete_gcp_instances E v n)" "emits (gcp_only True) (delete_gcp_cluster E n)"
  by (auto simp: delete_gcp_instances_def delete_gcp_instance_def delete_gcp_cluster_def gcp_calls gcp_only_def
      intro!: trace_intros)

text \<open>
  C23: the resources of a deleted claim on GCP go in order. With another reclaim policy than "delete"
  nothing is called at all; otherwise the instances are handled first, the cluster only after every
  deletion of an instance was accepted, and success is reported only if no deletion failed.
\<close>

theorem deleteExternalResourcesGCP_order:
  assumes "deleteExternalResourcesGCP E v ri c h = (res, h')"
  shows "\<exists>insts clus. h' = clus @ insts @ h \<and> list_all (gcp_only False) insts \<and> list_all (gcp_only True) clus \<and>
    (clus \<noteq> [] \<longrightarrow> list_all no_failed_gcp_delete insts) \<and>
    (res = Ret None \<longrightarrow> list_all no_failed_gcp_delete (clus @ insts)) \<and>
    (GetDefaultReclaimPolicy v \<noteq> ''delete'' \<longrightarrow> res = Ret None \<and> h' = h)"
proof (cases "GetDefaultReclaimPolicy v = ''delete''")
  case False
  with assms show ?thesis
    by (intro exI [of _ "[]"]) (simp add: deleteExternalResourcesGCP_def ret_def)
next
  case True
  let ?n = "getDynamicHostName v (Hash (ri_HostParams ri)) c"
  from True assms have "check_err (delete_gcp_instances E v ?n) (delete_gcp_cluster E ?n) h = (res, h')"
    by (simp add: deleteExternalResourcesGCP_def deleteCloudDatabaseGCP_split)
  from check_err_phases [OF this emits_gcp_delete delete_gcp_ok] True show ?thesis by blast
qed

theorem deleteExternalResourcesGCP_order_witness:
  "\<exists>insts clus. snd (deleteExternalResourcesGCP sample_env (sample_viper\<lparr>GetString := (\<lambda>k.
       if k = ''defaultReclaimPolicy'' then ''delete'' else [])\<rparr>) (sample_reqInfo hp_15_3) sample_claim []) = clus @ insts \<and>
     list_all (gcp_only False) insts \<and> list_all (gcp_only True) clus \<and> insts \<noteq> []"
proof -
  let ?v = "sample_viper\<lparr>GetString := (\<lambda>k. if k = ''defaultReclaimPolicy'' then ''delete'' else [])\<rparr>"
  obtain res h' where run: "deleteExternalResourcesGCP sample_env ?v (sample_reqInfo hp_15_3) sample_claim [] = (res, h')"
    by fastforce
  from deleteExternalResourcesGCP_order [OF run] obtain insts clus where
    p: "h' = clus @ insts" "list_all (gcp_only False) insts" "list_all (gcp_only True) clus" by auto
  have "list_ex (gcp_only False) h'" using run
    by (auto simp: deleteExternalResourcesGCP_def GetDefaultReclaimPolicy_def deleteCloudDatabaseGCP_def
        delete_gcp_instance_def GetMultiAZEnabled_def sample_viper_def gcp_calls prog_simps sample_defs gcp_only_def)
  with p have "insts \<noteq> []" by (auto simp: list_ex_iff list_all_iff gcp_only_def)
  with p run show ?thesis by auto
qed

end
