(* ===== verification/Dbuser.thy ===== *)
theory Dbuser
  imports Prelude
begin

text \<open>
  Database users of a role (\<^verbatim>\<open>pkg/dbuser\<close>): a role has two login users, and each password
  rotation moves from one to the other. The contract of such a rotation is a locale, interpreted
  on the code's \<^verbatim>\<open>NextUser\<close>.
\<close>

abbreviation SuffixA :: string where "SuffixA \<equiv> ''_a''"
abbreviation SuffixB :: string where "SuffixB \<equiv> ''_b''"

record DBUser =
  rolename :: string
  userA :: string
  userB :: string

definition NewDBUser :: "string \<Rightarrow> DBUser" where
  "NewDBUser baseName = \<lparr>rolename = baseName, userA = baseName @ SuffixA, userB = baseName @ SuffixB\<rparr>"

definition TrimUserSuffix :: "string \<Rightarrow> string" where
  "TrimUserSuffix s = TrimSuffix (TrimSuffix s SuffixA) SuffixB"

definition IsUserChanged :: "DBUser \<Rightarrow> string \<Rightarrow> bool" where
  "IsUserChanged dbu currentUserName =
     (if currentUserName = [] then False else TrimUserSuffix currentUserName \<noteq> rolename dbu)"

definition GetUserA :: "DBUser \<Rightarrow> string" where
  "GetUserA dbu = userA dbu"

definition GetUserB :: "DBUser \<Rightarrow> string" where
  "GetUserB dbu = userB dbu"

definition NextUser :: "DBUser \<Rightarrow> string \<Rightarrow> string" where
  "NextUser dbu curUser = (if HasSuffix curUser SuffixA then GetUserB dbu else GetUserA dbu)"

section \<open>The contract of a rotation\<close>

locale rotation =
  fixes next_user :: "'u \<Rightarrow> 'u" and first second :: 'u
  assumes next_first: "next_user first = second"
    and next_second: "next_user second = first"
    and two: "first \<noteq> second"
begin

lemma rotation_period: "(next_user ^^ n) first = (if even n then first else second)"
  by (induction n) (auto simp: next_first next_second)

lemma rotation_moves: "u \<in> {first, second} \<Longrightarrow> next_user u \<noteq> u \<and> next_user u \<in> {first, second}"
  using two by (auto simp: next_first next_second)

end

lemma rolename_New [simp]: "rolename (NewDBUser r) = r"
  by (simp add: NewDBUser_def)

lemma suffix_clash [simp]:
  "\<not> HasSuffix (s @ ''_b'') ''_a''" "\<not> HasSuffix (s @ ''_a'') ''_b''"
  by (simp_all add: HasSuffix_same_length)

lemma NextUser_simps [simp]:
  "NextUser (NewDBUser r) (r @ ''_a'') = r @ ''_b''"
  "NextUser (NewDBUser r) (r @ ''_b'') = r @ ''_a''"
  "NextUser (NewDBUser r) [] = r @ ''_a''"
  by (simp_all add: NextUser_def NewDBUser_def GetUserA_def GetUserB_def)
    (simp add: HasSuffix_def)

interpretation users: rotation "NextUser (NewDBUser r)" "GetUserA (NewDBUser r)" "GetUserB (NewDBUser r)" for r
  by unfold_locales (simp_all add: GetUserA_def GetUserB_def NewDBUser_def NextUser_def)

lemma TrimUserSuffix_B: "TrimUserSuffix (r @ ''_b'') = r"
  by (simp add: TrimUserSuffix_def TrimSuffix_other)

lemma TrimUserSuffix_A: "TrimUserSuffix (r @ ''_a'') = TrimSuffix r ''_b''"
  by (simp add: TrimUserSuffix_def)

lemma TrimSuffix_same: "TrimSuffix r p = r \<longleftrightarrow> \<not> HasSuffix r p \<or> p = []"
proof (cases "HasSuffix r p")
  case True
  then obtain s where "r = s @ p" by (auto simp: HasSuffix_def suffix_def)
  then show ?thesis by (auto simp: TrimSuffix_def)
next
  case False
  then show ?thesis by (simp add: TrimSuffix_other)
qed

text \<open>
  Rotation is sound. Starting from the first user of a role (the one a claim without a user
  gets), the n-th rotation yields the first user for even n and the second for odd n, so that two
  consecutive users never coincide and only the two users of the role are ever handed out; the
  second user is never taken for a user of another role, and the first one is exactly when the role
  name itself ends in the suffix of second users.
\<close>

theorem NextUser_rotates:
  "NextUser (NewDBUser r) [] = r @ ''_a'' \<and>
   (NextUser (NewDBUser r) ^^ n) (r @ ''_a'') = (if even n then r @ ''_a'' else r @ ''_b'') \<and>
   (NextUser (NewDBUser r) ^^ Suc n) (r @ ''_a'') \<noteq> (NextUser (NewDBUser r) ^^ n) (r @ ''_a'') \<and>
   \<not> IsUserChanged (NewDBUser r) (r @ ''_b'') \<and>
   (IsUserChanged (NewDBUser r) (r @ ''_a'') \<longleftrightarrow> HasSuffix r ''_b'')"
proof -
  have ab: "GetUserA (NewDBUser r) = r @ ''_a''" "GetUserB (NewDBUser r) = r @ ''_b''"
    by (simp_all add: GetUserA_def GetUserB_def NewDBUser_def)
  note period = users.rotation_period [of _ r, unfolded ab]
  show ?thesis
    by (intro conjI)
      (simp_all add: period IsUserChanged_def TrimUserSuffix_A TrimUserSuffix_B TrimSuffix_same
        del: funpow.simps)
qed

end
