(* ===== verification/Claimdb.thy ===== *)
theory Claimdb
  imports Awsprovider Gcpprovider Secrets Auth Dbuser
begin

text \<open>
  The database of a claim (\<^verbatim>\<open>pkg/databaseclaim/databaseclaim.go\<close>): its creation with extensions, its
  users and their passwords, and the two ways a claim comes to a database, an existing one
  (\<^verbatim>\<open>reconcileUseExistingDB\<close>) and one in the cloud (\<^verbatim>\<open>reconcileNewDB\<close>). The claim and the request,
  which Go changes through pointers, are arguments and results. The statuses a function gets as
  pointers are fields of the claim, so the tests for a nil status do not apply; the
  connection information inside may be nil.
\<close>

section \<open>Passwords and time\<close>

text \<open>\<^verbatim>\<open>time.Since\<close>: the difference saturates at the bounds of a duration.\<close>

definition Since :: "env \<Rightarrow> time \<Rightarrow> int go_prog" where
  "Since E t = bnd (now E) (\<lambda>n. ret (max (- (2 ^ 63)) (min (2 ^ 63 - 1) (n - t))))"

text \<open>Go's division of integers truncates towards zero.\<close>

definition quot :: "int \<Rightarrow> int \<Rightarrow> int" where
  "quot a b = (if (a < 0) = (b < 0) then \<bar>a\<bar> div \<bar>b\<bar> else - (\<bar>a\<bar> div \<bar>b\<bar>))"

definition getPasswordRotationTime :: "viper \<Rightarrow> int" where
  "getPasswordRotationTime v = GetPasswordRotationPeriod v"

definition generatePassword :: "env \<Rightarrow> viper \<Rightarrow> (goerror + string) go_prog" where
  "generatePassword E v =
     (if GetIsPasswordComplexity v then
        let count = quot (GetMinPasswordLength v) 4 in generate E (GetMinPasswordLength v) count count
      else generate E GetDefaultPassLen GetDefaultNumDig GetDefaultNumSimb)"

section \<open>The database and its extensions\<close>

text \<open>The answer carries the status of the new database, which the host and port are written to.\<close>

definition getClientForExistingDB ::
  "env \<Rightarrow> Status \<Rightarrow> ConnInfo \<Rightarrow> (Status \<times> (goerror + client)) go_prog" where
  "getClientForExistingDB E st connInfo =
     (if ci_Host connInfo = [] then ret (st, Inl (ErrMsg ''invalid host name''))
      else if ci_Port connInfo = [] then ret (st, Inl (ErrMsg ''cannot get master port''))
      else if ci_Username connInfo = [] then ret (st, Inl (ErrMsg ''invalid credentials (username)''))
      else if ci_SSLMode connInfo = [] then ret (st, Inl (ErrMsg ''invalid sslMode''))
      else if ci_Password connInfo = [] then ret (st, Inl (ErrMsg ''invalid credentials (password)''))
      else bnd (UpdateHostPortStatus E (ci_Host connInfo) (ci_Port connInfo) (ci_SSLMode connInfo) st) (\<lambda>st'.
        bnd (dbclient_New E (Uri (Some connInfo))) (\<lambda>r. ret (st', r))))"

abbreviation IBSchema :: string where "IBSchema \<equiv> ''ib''"

text \<open>The status of the new database gets the name of the database once it is created, or where it
  has none yet.\<close>

definition record_database :: "env \<Rightarrow> bool \<Rightarrow> string \<Rightarrow> DatabaseClaim \<Rightarrow> (DatabaseClaim \<times> goerror option) go_prog" where
  "record_database E created dbName c =
     (let upd = bnd (UpdateDBStatus E dbName (dc_NewDB c)) (\<lambda>st. ret (upd_new (\<lambda>_. st) c, None)) in
      if created then upd
      else case st_ConnectionInfo (dc_NewDB c) of
        None \<Rightarrow> panic
      | Some ci \<Rightarrow> if ci_DatabaseName ci = [] then upd else ret (c, None))"

definition createDatabaseAndExtensions ::
  "env \<Rightarrow> client \<Rightarrow> DatabaseClaim \<Rightarrow> ModeEnum \<Rightarrow> (DatabaseClaim \<times> goerror option) go_prog" where
  "createDatabaseAndExtensions E pc c operationalMode =
     (let dbName = spec_DatabaseName (dc_Spec c) in
      bnd (CreateDatabase E pc dbName) (\<lambda>r. case r of Inl e \<Rightarrow> ret (c, Some e) | Inr created \<Rightarrow>
      bnd (if \<not> created \<and> s_MigrationState (dc_Status c) = StateEnum_String S_Initial then
             bnd (SchemaExists E pc IBSchema) (\<lambda>r. case r of
               Inl e \<Rightarrow> ret (c, Some (Wrapped ''failed to check schema existence: '' e []))
             | Inr exists \<Rightarrow>
                 if exists then ret (upd_status (\<lambda>s. s\<lparr>s_MigrationState := []\<rparr>) c,
                   Some (ErrMsg ''migration aborted: attempt to migrate to a previously managed database''))
                 else ret (c, None))
           else ret (c, None)) (\<lambda>(c, er). case er of Some e \<Rightarrow> ret (c, Some e) | None \<Rightarrow>
      bnd (if created \<and> operationalMode = M_UseNewDB then CreateDefaultExtensions E pc dbName else ret None)
        (\<lambda>er. case er of Some e \<Rightarrow> ret (c, Some e) | None \<Rightarrow> record_database E created dbName c))))"

section \<open>Users\<close>

text \<open>The user a database has now: that of the new database or, where it has none and the claim
  stays on a new database, that of the active one.\<close>

definition current_user :: "Status \<Rightarrow> Status \<Rightarrow> ModeEnum \<Rightarrow> ConnInfo \<Rightarrow> string" where
  "current_user statusNewDB statusActiveDB operationalMode ci =
     (if ci_Username ci = [] \<and> operationalMode = M_UseNewDB then
        (case st_ConnectionInfo statusActiveDB of
           None \<Rightarrow> ci_Username ci
         | Some aci \<Rightarrow> if Uri (Some aci) \<noteq> [] then ci_Username aci else ci_Username ci)
      else ci_Username ci)"

type_synonym user_state = "Status \<times> requestInfo"

text \<open>The role of the claim was renamed: both of its users follow, each with a new password.\<close>

definition rename_users ::
  "env \<Rightarrow> viper \<Rightarrow> client \<Rightarrow> DBUser \<Rightarrow> string \<Rightarrow> string \<Rightarrow> user_state \<Rightarrow> (user_state \<times> goerror option) go_prog" where
  "rename_users E v pc dbu currentUser baseUsername sr =
     (let oldUsername = TrimUserSuffix currentUser in
      bnd (RenameUser E pc oldUsername baseUsername) (\<lambda>er. case er of Some e \<Rightarrow> ret (sr, Some e) | None \<Rightarrow>
      bnd (generatePassword E v) (\<lambda>r. case r of Inl e \<Rightarrow> ret (sr, Some e) | Inr userPassword \<Rightarrow>
      bnd (UpdateUser E pc (oldUsername @ SuffixA) (GetUserA dbu) baseUsername userPassword)
        (\<lambda>er. case er of Some e \<Rightarrow> ret (sr, Some e) | None \<Rightarrow>
      bnd (UpdateUserStatus E (GetUserA dbu) userPassword sr) (\<lambda>sr.
      bnd (generatePassword E v) (\<lambda>r. case r of Inl e \<Rightarrow> ret (sr, Some e) | Inr userPassword \<Rightarrow>
      bnd (UpdateUser E pc (oldUsername @ SuffixB) (GetUserB dbu) baseUsername userPassword)
        (\<lambda>er. ret (sr, er))))))))"

text \<open>A rotation is due when the new database has no user yet, or the active one has had its user for
  a rotation period.\<close>

definition rotation_due :: "env \<Rightarrow> viper \<Rightarrow> Status \<Rightarrow> Status \<Rightarrow> bool go_prog" where
  "rotation_due E v statusNewDB statusActiveDB =
     (if st_UserUpdatedAt statusNewDB = None then ret True
      else case st_UserUpdatedAt statusActiveDB of
        None \<Rightarrow> ret False
      | Some t \<Rightarrow> bnd (Since E t) (\<lambda>d. ret (d \<ge> getPasswordRotationTime v)))"

definition rotate_user ::
  "env \<Rightarrow> viper \<Rightarrow> client \<Rightarrow> DBUser \<Rightarrow> string \<Rightarrow> string \<Rightarrow> user_state \<Rightarrow> (user_state \<times> goerror option) go_prog" where
  "rotate_user E v pc dbu currentUser baseUsername sr =
     bnd (generatePassword E v) (\<lambda>r. case r of Inl e \<Rightarrow> ret (sr, Some e) | Inr userPassword \<Rightarrow>
     let nextUser = NextUser dbu currentUser in
     bnd (CreateUser E pc nextUser baseUsername userPassword) (\<lambda>(_, er). case er of Some e \<Rightarrow> ret (sr, Some e) | None \<Rightarrow>
     bnd (UpdatePassword E pc nextUser userPassword) (\<lambda>er. case er of Some e \<Rightarrow> ret (sr, Some e) | None \<Rightarrow>
     bnd (UpdateUserStatus E nextUser userPassword sr) (\<lambda>sr. ret (sr, None)))))"

text \<open>Privileges: errors of a revocation are ignored.\<close>

definition manage_privileges ::
  "env \<Rightarrow> client \<Rightarrow> DBUser \<Rightarrow> string \<Rightarrow> string \<Rightarrow> requestInfo \<Rightarrow> goerror option go_prog" where
  "manage_privileges E pc dbu currentUser baseUsername reqInfo =
     bnd (ManageSuperUserRole E pc baseUsername (ri_EnableSuperUser reqInfo)) (\<lambda>er.
     case (if ri_EnableSuperUser reqInfo then er else None) of
       Some e \<Rightarrow> ret (Some (Wrapped (''managesuperuserrole on role '' @ baseUsername @ '': '') e []))
     | None \<Rightarrow>
     bnd (ManageCreateRole E pc baseUsername (ri_EnableSuperUser reqInfo)) (\<lambda>er. case er of
       Some e \<Rightarrow> ret (Some (Wrapped (''managecreaterole on role '' @ baseUsername @ '': '') e []))
     | None \<Rightarrow>
     bnd (ManageReplicationRole E pc currentUser (ri_EnableReplicationRole reqInfo)) (\<lambda>er.
     case (if ri_EnableReplicationRole reqInfo then er else None) of
       Some e \<Rightarrow> ret (Some (Wrapped (''managereplicationrole on role '' @ currentUser @ '': '') e []))
     | None \<Rightarrow>
     bnd (ManageReplicationRole E pc (NextUser dbu currentUser) (ri_EnableReplicationRole reqInfo)) (\<lambda>er.
     case (if ri_EnableReplicationRole reqInfo then er else None) of
       Some e \<Rightarrow> ret (Some (Wrapped (''managereplicationrole on role '' @ NextUser dbu currentUser @ '': '') e []))
     | None \<Rightarrow> ret None))))"

definition manageUserAndExtensions ::
  "env \<Rightarrow> viper \<Rightarrow> client \<Rightarrow> Status \<Rightarrow> string \<Rightarrow> string \<Rightarrow> ModeEnum \<Rightarrow> user_state \<Rightarrow> (user_state \<times> goerror option) go_prog" where
  "manageUserAndExtensions E v pc statusActiveDB dbName baseUsername operationalMode = (\<lambda>(statusNewDB, reqInfo).
     case st_ConnectionInfo statusNewDB of
       None \<Rightarrow> ret ((statusNewDB, reqInfo), Some (ErrMsg ''newDB connection info is nil''))
     | Some ci \<Rightarrow>
     let dbu = NewDBUser baseUsername; sr = (statusNewDB, reqInfo) in
     bnd (CreateRole E pc dbName baseUsername ''public'') (\<lambda>(roleCreated, er). case er of Some e \<Rightarrow> ret (sr, Some e) | None \<Rightarrow>
     bnd (if roleCreated \<and> operationalMode = M_UseNewDB then CreateSpecialExtensions E pc dbName baseUsername else ret None)
       (\<lambda>er. case er of Some e \<Rightarrow> ret (sr, Some e) | None \<Rightarrow>
     let currentUser = current_user statusNewDB statusActiveDB operationalMode ci in
     bnd (if IsUserChanged dbu currentUser then rename_users E v pc dbu currentUser baseUsername sr else ret (sr, None))
       (\<lambda>(sr, er). case er of Some e \<Rightarrow> ret (sr, Some e) | None \<Rightarrow>
     bnd (rotation_due E v (fst sr) statusActiveDB) (\<lambda>due.
     bnd (if due then rotate_user E v pc dbu currentUser baseUsername sr else ret (sr, None))
       (\<lambda>(sr, er). case er of Some e \<Rightarrow> ret (sr, Some e) | None \<Rightarrow>
     bnd (manage_privileges E pc dbu currentUser baseUsername (snd sr)) (\<lambda>er. ret (sr, er))))))))"

section \<open>An existing database\<close>

text \<open>What a step of a reconciliation answers besides an error: the claim and the request as they
  are in memory.\<close>

type_synonym work = "DatabaseClaim \<times> requestInfo \<times> goerror option"

text \<open>The users of the new database of a claim are managed in place.\<close>

definition manage_claim_users ::
  "env \<Rightarrow> viper \<Rightarrow> client \<Rightarrow> string \<Rightarrow> ModeEnum \<Rightarrow> DatabaseClaim \<Rightarrow> requestInfo \<Rightarrow> work go_prog" where
  "manage_claim_users E v pc dbName operationalMode c reqInfo =
     bnd (manageUserAndExtensions E v pc (dc_ActiveDB c) dbName (spec_Username (dc_Spec c)) operationalMode
            (dc_NewDB c, reqInfo)) (\<lambda>((st, ri), er). ret (upd_new (\<lambda>_. st) c, ri, er))"

text \<open>A new password is written to the secret of the claim with the connection it belongs to.\<close>

definition publish_password :: "env \<Rightarrow> DatabaseClaimReconciler \<Rightarrow> DatabaseClaim \<Rightarrow> requestInfo \<Rightarrow> goerror option go_prog" where
  "publish_password E r c reqInfo =
     (if ri_TempSecret reqInfo = [] then ret None
      else case st_ConnectionInfo (dc_NewDB c) of
        None \<Rightarrow> panic
      | Some ci \<Rightarrow> createOrUpdateSecret E c (ci\<lparr>ci_Password := ri_TempSecret reqInfo\<rparr>) (GetCloud (cfg_Viper r)))"

text \<open>Whether a claim that already uses this database goes on with the status of the active one.\<close>

definition adopt_active :: "DatabaseClaim \<Rightarrow> ConnInfo \<Rightarrow> DatabaseClaim go" where
  "adopt_active c existing =
     (if st_DbState (dc_ActiveDB c) \<noteq> UsingExistingDB then Ret c
      else case st_ConnectionInfo (dc_ActiveDB c) of
        None \<Rightarrow> Panic
      | Some aci \<Rightarrow> Ret (if ci_Host aci = ci_Host existing \<and> ci_Port aci = ci_Port existing
                       then upd_new (\<lambda>_. dc_ActiveDB c) c else c))"

definition updated_recently :: "env \<Rightarrow> viper \<Rightarrow> Status \<Rightarrow> bool go_prog" where
  "updated_recently E v activeDB = (case st_UserUpdatedAt activeDB of
     None \<Rightarrow> ret False
   | Some t \<Rightarrow> bnd (Since E t) (\<lambda>d. ret (d < getPasswordRotationTime v)))"

definition reconcileUseExistingDB ::
  "env \<Rightarrow> DatabaseClaimReconciler \<Rightarrow> requestInfo \<Rightarrow> DatabaseClaim \<Rightarrow> ModeEnum \<Rightarrow> work go_prog" where
  "reconcileUseExistingDB E r reqInfo c operationalMode =
     bnd (updated_recently E (cfg_Viper r) (dc_ActiveDB c)) (\<lambda>recent.
     if recent then ret (c, reqInfo, Some (Sentinel ErrDoNotUpdateStatus)) else
     bnd (GetSourceDataFromDSN E c) (\<lambda>rs. case rs of Inl e \<Rightarrow> ret (c, reqInfo, Some e) | Inr sourceDSN \<Rightarrow>
     case ParseUri sourceDSN of Inl e \<Rightarrow> ret (c, reqInfo, Some e) | Inr existingDBConnInfo \<Rightarrow>
     bnd (of_go (adopt_active c existingDBConnInfo)) (\<lambda>c.
     let c = upd_new (\<lambda>st. st\<lparr>st_DbState := UsingExistingDB,
               st_SourceDataFrom := spec_SourceDataFrom (dc_Spec c)\<rparr>) c in
     bnd (setMasterPasswordInTempSecret E (ci_Password existingDBConnInfo) c)
       (\<lambda>er. case er of Some e \<Rightarrow> ret (c, reqInfo, Some e) | None \<Rightarrow>
     bnd (getClientForExistingDB E (dc_NewDB c) existingDBConnInfo) (\<lambda>(st, rc).
     let c = upd_new (\<lambda>_. st) c in
     case rc of Inl e \<Rightarrow> ret (c, reqInfo, Some e) | Inr dbClient \<Rightarrow>
     let dbName = ci_DatabaseName existingDBConnInfo in
     bnd (UpdateDBStatus E dbName (dc_NewDB c)) (\<lambda>st.
     bnd (manage_claim_users E (cfg_Viper r) dbClient dbName operationalMode (upd_new (\<lambda>_. st) c) reqInfo)
       (\<lambda>(c, reqInfo, er). case er of Some e \<Rightarrow> ret (c, reqInfo, Some e) | None \<Rightarrow>
     bnd (UpdateStatus E c) (\<lambda>(c, er). case er of Some e \<Rightarrow> ret (c, reqInfo, Some e) | None \<Rightarrow>
     bnd (check_err (publish_password E r c reqInfo)
         (check_err (CreateDefaultExtensions E dbClient dbName)
           (ManageSystemFunctions E dbClient dbName (GetSystemFunctions (cfg_Viper r)))))
       (\<lambda>er. ret (c, reqInfo, er))))))))))"

section \<open>A new database\<close>

type_synonym outcome = "DatabaseClaim \<times> requestInfo \<times> Result \<times> goerror option"

text \<open>\<^verbatim>\<open>return r.statusManager.SetError(...)\<close> inside a function that also carries the request.\<close>

definition set_error :: "env \<Rightarrow> DatabaseClaim \<Rightarrow> requestInfo \<Rightarrow> goerror \<Rightarrow> outcome go_prog" where
  "set_error E c reqInfo e = bnd (SetError E c e) (\<lambda>(c, res, er). ret (c, reqInfo, res, er))"

definition manage_cloud_host ::
  "env \<Rightarrow> DatabaseClaimReconciler \<Rightarrow> requestInfo \<Rightarrow> DatabaseClaim \<Rightarrow> ModeEnum \<Rightarrow> (DatabaseClaim \<times> (goerror + bool)) go_prog option" where
  "manage_cloud_host E r reqInfo c operationalMode =
     (let cloud = GetCloud (cfg_Viper r) in
      if cloud = ''aws'' then Some (manageCloudHostAWS E r reqInfo c operationalMode)
      else if cloud = ''gcp'' then Some (manageCloudHostGCP E r reqInfo c)
      else None)"

text \<open>The host is up and its master credentials are known: the database, its users and functions.\<close>

definition setup_database ::
  "env \<Rightarrow> DatabaseClaimReconciler \<Rightarrow> requestInfo \<Rightarrow> DatabaseClaim \<Rightarrow> ModeEnum \<Rightarrow> ConnInfo \<Rightarrow> outcome go_prog" where
  "setup_database E r reqInfo0 c operationalMode connInfo =
     (let reqInfo = reqInfo0\<lparr>ri_MasterConnInfo := connInfo\<rparr>; dbName = spec_DatabaseName (dc_Spec c) in
      bnd (dbclient_New E (Uri (Some connInfo))) (\<lambda>rc. case rc of
        Inl e \<Rightarrow> ret (c, reqInfo, empty_Result, Some e)
      | Inr dbClient \<Rightarrow>
      bnd (UpdateHostPortStatus E (ci_Host connInfo) (ci_Port connInfo) (ci_SSLMode connInfo) (dc_NewDB c)) (\<lambda>st.
      bnd (createDatabaseAndExtensions E dbClient
             (upd_new (\<lambda>_. UpdateClusterStatus (ri_HostParams reqInfo) st) c) operationalMode)
        (\<lambda>(c, er). case er of Some e \<Rightarrow> set_error E c reqInfo e | None \<Rightarrow>
      bnd (manage_claim_users E (cfg_Viper r) dbClient dbName operationalMode c reqInfo)
        (\<lambda>(c, reqInfo, er). case er of Some e \<Rightarrow> set_error E c reqInfo e | None \<Rightarrow>
      bnd (ManageSystemFunctions E dbClient dbName (GetSystemFunctions (cfg_Viper r)))
        (\<lambda>er. case er of Some e \<Rightarrow> set_error E c reqInfo e
         | None \<Rightarrow> ret (c, reqInfo, empty_Result, None)))))))"

definition reconcileNewDB ::
  "env \<Rightarrow> DatabaseClaimReconciler \<Rightarrow> requestInfo \<Rightarrow> DatabaseClaim \<Rightarrow> ModeEnum \<Rightarrow> outcome go_prog" where
  "reconcileNewDB E r reqInfo c operationalMode =
     (let wait = empty_Result\<lparr>RequeueAfter := GetDynamicHostWaitTime (cfg_Viper r)\<rparr> in
      bnd (SetConditionAndUpdateStatus E c ProvisioningCondition) (\<lambda>(c, er). case er of
        Some e \<Rightarrow> ret (c, reqInfo, empty_Result, Some e)
      | None \<Rightarrow>
      case manage_cloud_host E r reqInfo c operationalMode of
        None \<Rightarrow> set_error E c reqInfo (ErrMsg ''cloud not supported, check .Values.cloud'')
      | Some host \<Rightarrow>
      bnd host (\<lambda>(c, rr). case rr of Inl e \<Rightarrow> ret (c, reqInfo, empty_Result, Some e) | Inr isReady \<Rightarrow>
      bnd (ClearError E c) (\<lambda>(c, er). case er of Some e \<Rightarrow> ret (c, reqInfo, empty_Result, Some e) | None \<Rightarrow>
      if \<not> isReady then ret (c, reqInfo, wait, None) else
      bnd (GetMasterCredsDeprecated E (rec_serviceNS r)
             (getDynamicHostName (cfg_Viper r) (Hash (ri_HostParams reqInfo)) c)
             (spec_DatabaseName (dc_Spec c)) (GetDefaultSSLMode (cfg_Viper r))) (\<lambda>rm. case rm of
        Inl _ \<Rightarrow> ret (c, reqInfo, wait, None)
      | Inr connInfo \<Rightarrow> setup_database E r reqInfo c operationalMode connInfo)))))"

section \<open>Properties\<close>

text \<open>How a step that reports its error beside its state got through without one.\<close>

lemma no_error [simp]:
  "(case r of Inl e \<Rightarrow> ret (s, Some e) | Inr x \<Rightarrow> f x) h = (Ret (y, None), h') \<longleftrightarrow>
     (\<exists>x. r = Inr x \<and> f x h = (Ret (y, None), h'))"
  "(case o1 of Some e \<Rightarrow> ret (s, Some e) | None \<Rightarrow> k) h = (Ret (y, None), h') \<longleftrightarrow>
     o1 = None \<and> k h = (Ret (y, None), h')"
  "(case r2 of Inl e \<Rightarrow> ret (s, t, Some e) | Inr x \<Rightarrow> f2 x) h = (Ret (y, z, None), h') \<longleftrightarrow>
     (\<exists>x. r2 = Inr x \<and> f2 x h = (Ret (y, z, None), h'))"
  "(case o2 of Some e \<Rightarrow> ret (s, t, Some e) | None \<Rightarrow> k2) h = (Ret (y, z, None), h') \<longleftrightarrow>
     o2 = None \<and> k2 h = (Ret (y, z, None), h')"
  by (cases r; cases o1; cases r2; cases o2; simp add: run_ret)+

lemmas run_ok = bnd_Ret run_ret Let_def

subsection \<open>What status and secrets are kept with\<close>

text \<open>A predicate on calls is clerical when it holds of every call to the system and of every call to
  Kubernetes other than the update of a whole claim: reporting, the status of a claim and its secrets
  need nothing else.\<close>

definition clerical :: "(event \<Rightarrow> bool) \<Rightarrow> bool" where
  "clerical P \<longleftrightarrow> (\<forall>e. (\<forall>c r. e \<noteq> EvUpdateClaim c r) \<longrightarrow> P (K8s e)) \<and> (\<forall>e. P (Sys e))"

lemma emits_clerical_calls:
  assumes "clerical P"
  shows "emits P (now E)" "emits P (generate E n m k)" "emits P (getClaim E ns nm)" "emits P (updateClaimStatus E c)"
    "emits P (getSecret E ns nm)" "emits P (createSecretObj E s)" "emits P (updateSecretObj E s)" "emits P (deleteSecretObj E ns nm)"
    "emits P (listRoleClaims E ns)" "emits P (getRoleClaim E ns nm)" "emits P (createRoleClaim E rc)"
    "emits P (applyMetrics E ns nm)"
  using assms by (auto simp: sys_calls k8s_calls clerical_def intro!: trace_intros)

lemmas status_defs = UpdateStatus_def SetStatusCondition_def SetConditionAndUpdateStatus_def SetError_def ClearError_def
  SuccessAndUpdateCondition_def MigrationInProgressStatus_def ActiveDBSuccessReconcile_def UpdateDBStatus_def
  UpdateHostPortStatus_def UpdateUserStatus_def

lemma emits_status:
  assumes "clerical P"
  shows "emits P (UpdateStatus E c)" "emits P (SetConditionAndUpdateStatus E c cond)" "emits P (SetError E c e)"
    "emits P (ClearError E c)" "emits P (SuccessAndUpdateCondition E v c)" "emits P (MigrationInProgressStatus E c)"
    "emits P (ActiveDBSuccessReconcile E v c)" "emits P (UpdateDBStatus E d st)"
    "emits P (UpdateHostPortStatus E ho po ssl st)" "emits P (UpdateUserStatus E u w sr)"
  unfolding status_defs Let_def case_prod_unfold by (intro trace_intros emits_clerical_calls assms)+

lemmas secrets_defs = createOrUpdateSecret_def createSecret_def updateSecret_def getTempSecret_def set_in_temp_secret_def
  setSourceDsnInTempSecret_def setTargetPasswordInTempSecret_def setMasterPasswordInTempSecret_def get_from_temp_secret_def
  getTargetPasswordFromTempSecret_def getSourceDsnFromTempSecret_def deleteTempSecret_def getSrcAppDsnFromSecret_def
  rerouteTargetSecret_def

lemma emits_secrets:
  assumes "clerical P"
  shows "emits P (createOrUpdateSecret E c ci cloud)" "emits P (setSourceDsnInTempSecret E d c)"
    "emits P (setTargetPasswordInTempSecret E d c)" "emits P (setMasterPasswordInTempSecret E d c)"
    "emits P (getTargetPasswordFromTempSecret E c)" "emits P (getSourceDsnFromTempSecret E c)"
    "emits P (deleteTempSecret E c)" "emits P (getSrcAppDsnFromSecret E c)" "emits P (rerouteTargetSecret E r d ci c)"
  unfolding secrets_defs Let_def case_prod_unfold by (intro trace_intros emits_clerical_calls assms)+

subsection \<open>Users and their passwords\<close>

text \<open>The status names a user whose password is the one kept for the secret.\<close>

definition creds_set :: "client \<Rightarrow> string \<Rightarrow> user_state \<Rightarrow> history \<Rightarrow> bool" where
  "creds_set pc u sr h \<longleftrightarrow> (\<exists>ci. st_ConnectionInfo (fst sr) = Some ci \<and> ci_Username ci = u) \<and>
     password_of (pc_DB pc) u h = Some (ri_TempSecret (snd sr)) \<and> ri_TempSecret (snd sr) \<noteq> []"

lemma emits_generatePassword: "quiet P \<Longrightarrow> emits P (generatePassword E v)"
  unfolding generatePassword_def Let_def by (intro trace_intros emits_quiet_calls)

lemma quiet_calls_keep:
  "emits (keeps_password u) (generatePassword E v)" "emits (keeps_password u) (now E)"
  "emits (keeps_password u) (sql_bool E d q)"
  unfolding generatePassword_def sys_calls sql_calls Let_def by (intro trace_intros; simp)+

lemma RenameUser_keeps: "u1 \<noteq> u \<Longrightarrow> u2 \<noteq> u \<Longrightarrow> emits (keeps_password u) (RenameUser E pc u1 u2)"
  unfolding RenameUser_def sql_calls by (intro trace_intros) simp_all

lemma UpdateUser_keeps: "u1 \<noteq> u \<Longrightarrow> u2 \<noteq> u \<Longrightarrow> emits (keeps_password u) (UpdateUser E pc u1 u2 role pw)"
  unfolding UpdateUser_def AssignRoleToUser_def UpdatePassword_def sql_calls
  by (intro trace_intros RenameUser_keeps) simp_all

lemma manage_privileges_keeps: "emits (keeps_password u) (manage_privileges E pc dbu cur base reqInfo)"
  unfolding manage_privileges_def ManageSuperUserRole_def ManageCreateRole_def ManageReplicationRole_def
    sql_calls Let_def
  by (intro trace_intros; simp)

lemma UpdateUserStatus_run:
  "UpdateUserStatus E u w sr h = (Ret sr', h') \<Longrightarrow>
     (\<exists>ci. st_ConnectionInfo (fst sr') = Some ci \<and> ci_Username ci = u) \<and> ri_TempSecret (snd sr') = w \<and>
     (\<exists>t. h' = Sys (EvNow t) # h)"
  by (cases sr) (auto simp: UpdateUserStatus_def sys_calls prog_simps)

lemma rotate_user_sets:
  assumes "rotate_user E v pc dbu cur base sr h = (Ret (sr', None), h')"
  shows "creds_set pc (NextUser dbu cur) sr' h'"
proof -
  from assms obtain w h1 cr h2 h3 where
    "CreateUser E pc (NextUser dbu cur) base w h1 = (Ret (cr, None), h2)"
    and upd: "UpdatePassword E pc (NextUser dbu cur) w h2 = (Ret None, h3)"
    and st: "UpdateUserStatus E (NextUser dbu cur) w sr h3 = (Ret sr', h')"
    by (auto simp: rotate_user_def run_ok split: prod.splits)
  from CreateUser_password [OF this(1,2)] UpdateUserStatus_run [OF st] show ?thesis
    by (auto simp: creds_set_def)
qed

lemma suffixes_differ: "s @ ''_b'' \<noteq> t @ ''_a''"
  by simp

text \<open>Whether the user that is renamed was reported missing.\<close>

definition missing :: "client \<Rightarrow> string \<Rightarrow> event" where
  "missing pc u = Sql (EvQueryBool (pc_DB pc) (Q_RoleExists u) (Inr False))"

lemma rename_users_sets:
  assumes "rename_users E v pc (NewDBUser base) cur base sr h = (Ret (sr', None), h')"
  shows "creds_set pc (base @ ''_a'') sr' h' \<or>
    (\<exists>es. h' = es @ h \<and> missing pc (TrimUserSuffix cur @ ''_a'') \<in> set es) \<and>
    (\<exists>ci. st_ConnectionInfo (fst sr') = Some ci \<and> ci_Username ci = base @ ''_a'')"
proof -
  let ?a = "base @ ''_a''" and ?old = "TrimUserSuffix cur @ ''_a''"
  from assms obtain h1 w h2 h3 h4 w' h5 where
    ren: "RenameUser E pc (TrimUserSuffix cur) base h = (Ret None, h1)"
    and gen: "generatePassword E v h1 = (Ret (Inr w), h2)"
    and updA: "UpdateUser E pc ?old ?a base w h2 = (Ret None, h3)"
    and st: "UpdateUserStatus E ?a w sr h3 = (Ret sr', h4)"
    and gen': "generatePassword E v h4 = (Ret (Inr w'), h5)"
    and updB: "UpdateUser E pc (TrimUserSuffix cur @ ''_b'') (base @ ''_b'') base w' h5 = (Ret None, h')"
    by (auto simp: rename_users_def run_ok NewDBUser_def GetUserA_def GetUserB_def)
  obtain t where h4: "h4 = Sys (EvNow t) # h3" using UpdateUserStatus_run [OF st] by blast
  have "emits (\<lambda>_. True) (UpdateUser E pc x y base w')" "emits (\<lambda>_. True) (generatePassword E v)"
    "emits (\<lambda>_. True) (RenameUser E pc x y)" for x y w'
    by (auto intro!: emits_dbclient emits_generatePassword simp: quiet_def)
  then obtain esB es5 es2 es1 where ext: "h' = esB @ h5" "h5 = es5 @ h4" "h2 = es2 @ h1" "h1 = es1 @ h"
    using updB gen' gen ren by (metis emits_run)
  have keep: "password_of (pc_DB pc) ?a h' = password_of (pc_DB pc) ?a h3"
    using emits_keeps_password [OF UpdateUser_keeps updB, of ?a] emits_keeps_password [OF quiet_calls_keep(1) gen']
    by (simp add: h4)
  from UpdateUser_ok [OF updA] show ?thesis
  proof
    assume "h3 = Sql (EvQueryBool (pc_DB pc) (Q_RoleExists ?old) (Inr False)) # h2"
    then show ?thesis using UpdateUserStatus_run [OF st]
      by (intro disjI2 conjI exI [of _ "esB @ es5 @ Sys (EvNow t) # missing pc ?old # es2 @ es1"])
        (auto simp: ext h4 missing_def)
  next
    assume "password_of (pc_DB pc) ?a h3 = Some w \<and> w \<noteq> [] \<and> member_of (pc_DB pc) ?a base h3"
    then show ?thesis using keep UpdateUserStatus_run [OF st] by (auto simp: creds_set_def)
  qed
qed

text \<open>Calls that touch no password at all.\<close>

definition keeps_passwords :: "event \<Rightarrow> bool" where
  "keeps_passwords e \<longleftrightarrow> (\<forall>u. keeps_password u e)"

fun sets_password :: "sql \<Rightarrow> bool" where
  "sets_password (ALTER_PASSWORD _ _) = True"
| "sets_password (CREATE_ROLE_LOGIN _ _ _) = True"
| "sets_password (CREATE_USER _ _) = True"
| "sets_password (RENAME_USER _ _) = True"
| "sets_password (DROP_USER _ _ _) = True"
| "sets_password _ = False"

lemma keeps_passwords_exec [simp]: "\<not> sets_password q \<Longrightarrow> keeps_passwords (Sql (EvExec d q r))"
  unfolding keeps_passwords_def keeps_password_def by (cases r; cases q) simp_all

lemma keeps_passwords_other [simp]:
  "keeps_passwords (Sys e)" "keeps_passwords (K8s k)" "keeps_passwords (Aws a)" "keeps_passwords (Gcp g)"
  "keeps_passwords (Sql (EvOpen d r1))" "keeps_passwords (Sql (EvPing d r1))"
  "keeps_passwords (Sql (EvQueryBool d q r2))" "keeps_passwords (Sql (EvQueryInt d q r3))"
  "keeps_passwords (Sql (EvQueryString d q r4))" "keeps_passwords (Sql (EvQueryStrings d q r5))"
  "keeps_passwords (Sql (EvQueryCounts d q r6))"
  by (simp_all add: keeps_passwords_def)

lemma passwords_kept:
  assumes "emits keeps_passwords m" and "m h = (r, h')"
  shows "password_of db u h' = password_of db u h"
proof -
  have "emits (keeps_password u) m" by (rule emits_mono [OF assms(1)]) (simp add: keeps_passwords_def)
  then show ?thesis using assms(2) by (rule emits_keeps_password)
qed

lemma keeps_passwords_functions: "emits keeps_passwords (manage_functions E db v fs)"
  by (induction fs arbitrary: v) (auto simp: sql_calls intro!: trace_intros split: prod.split)

lemma keeps_passwords_special: "emits keeps_passwords (specialExtensionsMap x E pc d b)"
  by (cases x) (auto simp: dbclient_defs sql_calls Let_def intro!: trace_intros)

lemma keeps_passwords_grant: "emits keeps_passwords (grantRolePrivileges E pc d b sch)"
  unfolding grantRolePrivileges_def client_getDB_def Let_def sql_calls
  by (auto intro!: trace_intros split: sum.split)

lemma keeps_passwords_db:
  "emits keeps_passwords (dbclient_New E dsn)" "emits keeps_passwords (CreateDatabase E pc d)"
  "emits keeps_passwords (SchemaExists E pc sch)" "emits keeps_passwords (CreateDefaultExtensions E pc d)"
  "emits keeps_passwords (CreateSpecialExtensions E pc d b)" "emits keeps_passwords (CreateRole E pc d b sch)"
  "emits keeps_passwords (ManageSystemFunctions E pc d fs)" "emits keeps_passwords (manage_privileges E pc dbu cur b ri)"
  "emits keeps_passwords (rotation_due E v st act)"
  unfolding dbclient_New_def newPostgresClient_def awsAuthBuilder_def awsAuthBuilderWithConfig_def CreateDatabase_def
    createDatabase_def SchemaExists_def CreateDefaultExtensions_def client_getDB_def CreateSpecialExtensions_def
    CreateRole_def createRole_def ManageSystemFunctions_def manage_privileges_def ManageSuperUserRole_def
    ManageCreateRole_def ManageReplicationRole_def rotation_due_def Since_def sql_calls sys_calls Let_def
  by (auto intro!: trace_intros keeps_passwords_functions keeps_passwords_special keeps_passwords_grant split: sum.split)

lemma NextUser_New: "NextUser (NewDBUser base) u \<in> {base @ ''_a'', base @ ''_b''}"
  by (simp add: NextUser_def NewDBUser_def GetUserA_def GetUserB_def)

lemma creds_set_keep:
  assumes "creds_set pc u sr h" and "emits (keeps_password u) m" and "m h = (r, h')"
  shows "creds_set pc u sr h'"
  using assms(1) emits_keeps_password [OF assms(2,3)] by (simp add: creds_set_def)

lemma emits_manageUser_parts:
  assumes "quiet P"
  shows "emits P (CreateRole E pc d b sch)" "emits P (CreateSpecialExtensions E pc d b)"
    "emits P (rename_users E v pc dbu cur b sr)" "emits P (rotation_due E v st act)"
    "emits P (rotate_user E v pc dbu cur b sr)" "emits P (manage_privileges E pc dbu cur b ri)"
  using assms
  by (auto simp: rename_users_def rotation_due_def rotate_user_def manage_privileges_def Since_def
      UpdateUserStatus_def intro!: trace_intros emits_dbclient emits_quiet_calls emits_generatePassword)

lemma emits_manageUser: "quiet P \<Longrightarrow> emits P (manageUserAndExtensions E v pc act d b mode sr)"
  unfolding manageUserAndExtensions_def Let_def by (intro trace_intros emits_manageUser_parts)

text \<open>The phases of a management of the users that succeeds, each with the history it starts from.\<close>

lemma manageUser_phases:
  assumes "manageUserAndExtensions E v pc active dbName base mode (st, ri) h = (Ret ((st', ri'), None), h')"
  obtains ci0 h2 sr1 h3 due h4 h5 es2 es4 es5 where "st_ConnectionInfo st = Some ci0"
    and "h2 = es2 @ h" and "\<And>db u. password_of db u h2 = password_of db u h"
    and "(if IsUserChanged (NewDBUser base) (current_user st active mode ci0)
        then rename_users E v pc (NewDBUser base) (current_user st active mode ci0) base (st, ri) else ret ((st, ri), None)) h2 =
      (Ret (sr1, None), h3)"
    and "rotation_due E v (fst sr1) active h3 = (Ret due, h4)" and "h4 = es4 @ h3"
    and "(if due then rotate_user E v pc (NewDBUser base) (current_user st active mode ci0) base sr1 else ret (sr1, None)) h4 =
      (Ret ((st', ri'), None), h5)"
    and "manage_privileges E pc (NewDBUser base) (current_user st active mode ci0) base ri' h5 = (Ret None, h')" and "h' = es5 @ h5"
proof -
  from assms obtain ci0 where ci0: "st_ConnectionInfo st = Some ci0"
    by (auto simp: manageUserAndExtensions_def run_ret split: option.splits)
  let ?dbu = "NewDBUser base" and ?cur = "current_user st active mode ci0"
  from assms obtain created h1 h2 sr1 h3 due h4 h5 where
    role: "CreateRole E pc dbName base ''public'' h = (Ret (created, None), h1)"
    and ext: "(if created \<and> mode = M_UseNewDB then CreateSpecialExtensions E pc dbName base else ret None) h1 = (Ret None, h2)"
    and ren: "(if IsUserChanged ?dbu ?cur then rename_users E v pc ?dbu ?cur base (st, ri) else ret ((st, ri), None)) h2 =
      (Ret (sr1, None), h3)"
    and due: "rotation_due E v (fst sr1) active h3 = (Ret due, h4)"
    and rot: "(if due then rotate_user E v pc ?dbu ?cur base sr1 else ret (sr1, None)) h4 = (Ret ((st', ri'), None), h5)"
    and priv: "manage_privileges E pc ?dbu ?cur base ri' h5 = (Ret None, h')"
    by (auto simp: manageUserAndExtensions_def run_ok ci0)
  have q: "quiet (\<lambda>_. True)" by (simp add: quiet_def)
  have "\<exists>es. h1 = es @ h" "\<exists>es. h2 = es @ h1" "\<exists>es. h4 = es @ h3" "\<exists>es. h' = es @ h5"
    using emits_extends [OF emits_manageUser_parts(1) [OF q] role]
      emits_extends [OF emits_if [OF emits_manageUser_parts(2) [OF q] emits_ret] ext]
      emits_extends [OF emits_manageUser_parts(4) [OF q] due]
      emits_extends [OF emits_manageUser_parts(6) [OF q] priv] .
  then obtain es1 es2 es4 es5 where "h1 = es1 @ h" "h2 = es2 @ h1" and h: "h4 = es4 @ h3" "h' = es5 @ h5" by blast
  then have "h2 = (es2 @ es1) @ h" by simp
  moreover have "password_of db u h2 = password_of db u h" for db u
    using passwords_kept [OF keeps_passwords_db(6) role, of db u]
      passwords_kept [OF emits_if [OF keeps_passwords_db(5) emits_ret] ext, of db u] by simp
  ultimately show thesis by (rule that [OF ci0 _ _ ren due h(1) rot priv h(2)])
qed

text \<open>The credentials that are recorded are the credentials the database has. When the management of the
  users succeeds, no password was touched and status and pending password are as they were, or the
  status names one of the two users of the role and the password of that user in the database is the
  pending one. The one exception is a renamed role whose first user the database does not know: there
  the update is skipped without an error, and a password is recorded that no user has.\<close>

lemma manageUser_credentials:
  assumes "manageUserAndExtensions E v pc active dbName base mode (st, ri) h = (Ret ((st', ri'), None), h')"
  shows "(st', ri') = (st, ri) \<and> (\<forall>db u. password_of db u h' = password_of db u h) \<or>
    (\<exists>u\<in>{base @ ''_a'', base @ ''_b''}. creds_set pc u (st', ri') h') \<or>
    (\<exists>es old. h' = es @ h \<and> old \<noteq> base \<and> missing pc (old @ ''_a'') \<in> set es)"
proof -
  obtain ci0 h2 sr1 h3 due h4 h5 es2 es4 es5 where ci0: "st_ConnectionInfo st = Some ci0"
    and h2: "h2 = es2 @ h" "\<And>db u. password_of db u h2 = password_of db u h"
    and ren: "(if IsUserChanged (NewDBUser base) (current_user st active mode ci0)
        then rename_users E v pc (NewDBUser base) (current_user st active mode ci0) base (st, ri) else ret ((st, ri), None)) h2 =
      (Ret (sr1, None), h3)"
    and due_run: "rotation_due E v (fst sr1) active h3 = (Ret due, h4)" and h4: "h4 = es4 @ h3"
    and rot: "(if due then rotate_user E v pc (NewDBUser base) (current_user st active mode ci0) base sr1 else ret (sr1, None)) h4 =
      (Ret ((st', ri'), None), h5)"
    and priv: "manage_privileges E pc (NewDBUser base) (current_user st active mode ci0) base ri' h5 = (Ret None, h')" and h': "h' = es5 @ h5"
    by (rule manageUser_phases [OF assms]) blast
  let ?dbu = "NewDBUser base" and ?cur = "current_user st active mode ci0"
  note keep = creds_set_keep [OF _ manage_privileges_keeps priv]
  have kept: "password_of db u h' = password_of db u h5" "password_of db u h4 = password_of db u h3" for db u
    by (rule passwords_kept [OF keeps_passwords_db(8) priv], rule passwords_kept [OF keeps_passwords_db(9) due_run])
  show ?thesis
  proof (cases due)
    case True
    with rot have "creds_set pc (NextUser ?dbu ?cur) (st', ri') h'" by (auto intro: keep rotate_user_sets)
    then show ?thesis using NextUser_New [of base ?cur] by auto
  next
    case False
    with rot have eq: "sr1 = (st', ri')" "h5 = h4" by (auto simp: run_ret)
    show ?thesis
    proof (cases "IsUserChanged ?dbu ?cur")
      case False
      with ren eq kept h2 show ?thesis by (auto simp: run_ret)
    next
      case True
      then have other: "TrimUserSuffix ?cur \<noteq> base" by (simp add: IsUserChanged_def NewDBUser_def split: if_splits)
      from True ren have "rename_users E v pc ?dbu ?cur base (st, ri) h2 = (Ret (sr1, None), h3)" by simp
      from rename_users_sets [OF this] show ?thesis
      proof (elim disjE conjE exE)
        assume "creds_set pc (base @ ''_a'') sr1 h3"
        with eq kept have "creds_set pc (base @ ''_a'') (st', ri') h'" by (simp add: creds_set_def)
        then show ?thesis by blast
      next
        fix es assume "h3 = es @ h2" and m: "missing pc (TrimUserSuffix ?cur @ ''_a'') \<in> set es"
        then have "h' = (es5 @ es4 @ es @ es2) @ h" by (simp add: eq h2 h4 h')
        with m other show ?thesis by (intro disjI2 exI [of _ "es5 @ es4 @ es @ es2"] exI [of _ "TrimUserSuffix ?cur"]) simp
      qed
    qed
  qed
qed

text \<open>Host and port of the connection stay what they are.\<close>

definition endpoint :: "Status \<Rightarrow> (string \<times> string) option" where
  "endpoint st = map_option (\<lambda>ci. (ci_Host ci, ci_Port ci)) (st_ConnectionInfo st)"

lemma UpdateUserStatus_endpoint:
  "endpoint (fst sr) = Some hp \<Longrightarrow> returns (\<lambda>sr'. endpoint (fst sr') = Some hp) (UpdateUserStatus E u w sr)"
  by (auto simp: UpdateUserStatus_def endpoint_def conn_or_empty_def case_prod_unfold intro!: returns_bnd returns_ret)

lemma manageUser_endpoint:
  assumes "endpoint st = Some hp"
  shows "returns (\<lambda>x. endpoint (fst (fst x)) = Some hp) (manageUserAndExtensions E v pc active dbName base mode (st, ri))"
proof -
  let ?Q = "\<lambda>x. endpoint (fst (fst x)) = Some hp"
  have ren: "returns ?Q (rename_users E v pc dbu cur base sr)" if "endpoint (fst sr) = Some hp" for dbu cur sr
    unfolding rename_users_def Let_def
    by (intro returns_bnd) (auto intro!: returns_ret returns_bnd returns_bnd_of [OF UpdateUserStatus_endpoint [OF that]]
        simp: that split: option.split sum.split)
  have rot: "returns ?Q (rotate_user E v pc dbu cur base sr)" if "endpoint (fst sr) = Some hp" for dbu cur sr
    unfolding rotate_user_def Let_def
    by (intro returns_bnd) (auto intro!: returns_ret returns_bnd returns_bnd_of [OF UpdateUserStatus_endpoint [OF that]]
        simp: that split: option.split sum.split)
  have step: "returns ?Q (bnd m (\<lambda>(sr, er). case er of Some e \<Rightarrow> ret (sr, Some e) | None \<Rightarrow> k sr))"
    if "returns ?Q m" "\<And>sr. endpoint (fst sr) = Some hp \<Longrightarrow> returns ?Q (k sr)" for m k
    by (rule returns_bnd_of [OF that(1)]) (auto intro!: returns_ret that(2) split: option.split)
  have kept: "returns ?Q (if b then m else ret (sr, None))" if "returns ?Q m" "endpoint (fst sr) = Some hp" for b m sr
    using that by (auto intro: returns_ret)
  have rest: "returns ?Q (bnd (rotation_due E v (fst sr) active) (\<lambda>due.
      bnd (if due then rotate_user E v pc dbu cur base sr else ret (sr, None)) (\<lambda>(sr, er). case er of Some e \<Rightarrow> ret (sr, Some e) | None \<Rightarrow>
      bnd (manage_privileges E pc dbu cur base (snd sr)) (\<lambda>er. ret (sr, er)))))" if "endpoint (fst sr) = Some hp" for dbu cur sr
    by (rule returns_bnd, rule step [OF kept [OF rot [OF that] that]]) (auto intro!: returns_bnd returns_ret)
  have all: "returns ?Q (bnd (if b then rename_users E v pc dbu cur base (st, ri) else ret ((st, ri), None))
      (\<lambda>(sr, er). case er of Some e \<Rightarrow> ret (sr, Some e) | None \<Rightarrow>
      bnd (rotation_due E v (fst sr) active) (\<lambda>due.
      bnd (if due then rotate_user E v pc dbu cur base sr else ret (sr, None)) (\<lambda>(sr, er). case er of Some e \<Rightarrow> ret (sr, Some e) | None \<Rightarrow>
      bnd (manage_privileges E pc dbu cur base (snd sr)) (\<lambda>er. ret (sr, er))))))" for b dbu cur
    by (rule step [OF kept [OF ren]]) (simp_all add: assms rest)
  show ?thesis
    unfolding manageUserAndExtensions_def prod.case Let_def using assms
    by (auto intro!: returns_ret returns_bnd [where m = "CreateRole E pc dbName base ''public''"]
        returns_bnd [where m = "if _ then CreateSpecialExtensions E pc dbName base else ret None"] all
        simp del: if_cancel split del: if_split split: option.split)
qed

definition sample_client :: client where
  "sample_client = \<lparr>pc_cloud = ''aws'', pc_dbType = ''postgres'', pc_dbURL = sample_dsn, pc_DB = ''db'', pc_adminDB = ''admin''\<rparr>"

lemmas users_run = manageUserAndExtensions_def rename_users_def rotation_due_def rotate_user_def manage_privileges_def
  current_user_def generatePassword_def Since_def UpdateUserStatus_def dbclient_defs sys_calls sql_calls prog_simps
  NewDBUser_def GetUserA_def GetUserB_def

section \<open>An existing source whose password is in a secret\<close>

text \<open>The calls that touch nothing but the clock and the temporary secret of a claim, in which they leave
  an empty cached password.\<close>

primrec temp_secret_only :: "DatabaseClaim \<Rightarrow> event \<Rightarrow> bool" where
  "temp_secret_only c (Sys e) = (case e of EvNow _ \<Rightarrow> True | _ \<Rightarrow> False)"
| "temp_secret_only c (K8s e) = (case e of
     EvGetSecret ns n _ \<Rightarrow> ns = dc_Namespace c \<and> n = getTempSecretName c
   | EvCreateSecret s _ \<Rightarrow> s = new_temp_secret c
   | EvUpdateSecret s _ \<Rightarrow> data_get s cachedMasterPasswdForExistingDB = []
   | _ \<Rightarrow> False)"
| "temp_secret_only c (Aws e) = False"
| "temp_secret_only c (Gcp e) = False"
| "temp_secret_only c (Sql e) = False"

lemma temp_password_only:
  assumes "dc_Meta d = dc_Meta c" and "dc_Spec d = dc_Spec c"
  shows "emits (temp_secret_only c) (setMasterPasswordInTempSecret E [] d)"
proof -
  have "getTempSecretName d = getTempSecretName c" "new_temp_secret d = new_temp_secret c"
    using assms by (simp_all add: getTempSecretName_def new_temp_secret_def)
  then show ?thesis
    unfolding setMasterPasswordInTempSecret_def set_in_temp_secret_def getTempSecret_def k8s_calls
    by (intro trace_intros) (auto simp: assms data_get_def)
qed

lemma no_password_no_client:
  "ci_Password ci = [] \<Longrightarrow> \<exists>e. \<forall>st. getClientForExistingDB E st ci = ret (st, Inl e)"
  by (simp add: getClientForExistingDB_def) blast

lemma ParseUri_no_password:
  "ParseUri dsn = Inr ci \<Longrightarrow> Parse dsn = Inr u \<Longrightarrow> \<not> snd (Password (User u)) \<Longrightarrow> ci_Password ci = []"
  by (auto simp: ParseUri_def Let_def Password_def split: option.splits if_splits)

text \<open>
  C34: a claim that keeps the password of its existing source in a secret is never served. If the DSN of
  the source is not empty, parses and has no password in it, a reconciliation of the existing database
  never succeeds, whatever the secret that the source references holds: it reads no secret but the
  claim's temporary one, which it leaves with an empty administrator's password, it opens no connection
  and runs no statement, and wherever it answers it answers an error.
\<close>

theorem existing_source_without_password:
  assumes "spec_SourceDataFrom (dc_Spec c) = Some sdf" and "sdf_Database sdf = Some db"
    and "Parse (db_DSN db) = Inr u" and "\<not> snd (Password (User u))" and "db_DSN db \<noteq> []"
  shows "\<exists>es. snd (reconcileUseExistingDB E r reqInfo c mode h) = es @ h \<and> list_all (temp_secret_only c) es \<and>
    (\<forall>c' ri er. fst (reconcileUseExistingDB E r reqInfo c mode h) = Ret (c', ri, er) \<longrightarrow> er \<noteq> None)"
proof -
  note source = source_without_password [OF assms]
  let ?run = "reconcileUseExistingDB E r reqInfo c mode"
  have recent: "emits (temp_secret_only c) (updated_recently E v st)" for v st
    unfolding updated_recently_def Since_def sys_calls by (intro trace_intros) simp
  have "emits (temp_secret_only c) ?run \<and> returns (\<lambda>(_, _, er). er \<noteq> None) ?run"
  proof (cases "ParseUri (db_DSN db)")
    case (Inl e)
    show ?thesis unfolding reconcileUseExistingDB_def source bnd_ret sum.case Inl
      by (auto intro!: trace_intros recent returns_bnd returns_ret)
  next
    case (Inr ci)
    note empty = ParseUri_no_password [OF Inr assms(3,4)]
    show ?thesis
    proof (cases "adopt_active c ci")
      case (Ret d)
      then have "dc_Meta d = dc_Meta c" "dc_Spec d = dc_Spec c"
        by (auto simp: adopt_active_def claim_upds split: if_splits option.splits)
      then have temp: "emits (temp_secret_only c) (setMasterPasswordInTempSecret E [] (upd_new f d))" for f
        by (intro temp_password_only) (simp_all add: claim_upds)
      obtain e where client: "\<And>st. getClientForExistingDB E st ci = ret (st, Inl e)"
        using no_password_no_client [OF empty] by blast
      show ?thesis
        unfolding reconcileUseExistingDB_def source bnd_ret sum.case prod.case Inr Ret of_go_def go.case Let_def client empty
        by (auto intro!: trace_intros recent temp returns_bnd returns_ret split: option.split)
    next
      case Panic
      show ?thesis unfolding reconcileUseExistingDB_def source bnd_ret sum.case Inr Panic of_go_def go.case bnd_panic
        by (auto intro!: trace_intros recent returns_bnd returns_ret returns_panic)
    qed
  qed
  then have trace: "emits (temp_secret_only c) ?run" and err: "returns (\<lambda>(_, _, er). er \<noteq> None) ?run" by blast+
  from trace obtain es where "snd (?run h) = es @ h" "list_all (temp_secret_only c) es" unfolding emits_def by blast
  moreover have "er \<noteq> None" if "fst (?run h) = Ret (c', ri, er)" for c' ri er
  proof -
    from that have "?run h = (Ret (c', ri, er), snd (?run h))" by (simp add: prod_eq_iff)
    from returnsD [OF err this] show ?thesis by simp
  qed
  ultimately show ?thesis by blast
qed

definition sample_secret_source :: DatabaseClaim where
  "sample_secret_source = upd_spec (\<lambda>s. s\<lparr>spec_SourceDataFrom := Some \<lparr>sdf_Type = ''database'',
     sdf_Database = Some \<lparr>db_DSN = ''postgres://u@h:1/d?sslmode=require'',
       db_SecretRef = Some \<lparr>sr_Namespace = ''shop'', sr_Name = ''src''\<rparr>\<rparr>\<rparr>\<rparr>) sample_claim"

text \<open>The referenced secret exists and has the password.\<close>

definition secret_source_env :: env where
  "secret_source_env = sample_env\<lparr>e_k8s := sample_k8s\<lparr>e_GetSecret := \<lambda>h ns n. if n = ''src'' then
     Inr \<lparr>sec_Namespace = ns, sec_Name = n, sec_Labels = [], sec_Owner = [], sec_ResourceVersion = ''1'',
       sec_Data = Some [''password'' \<mapsto> ''p'']\<rparr> else Inl (NotFound n)\<rparr>\<rparr>"

lemma secret_source_fields:
  "st_UserUpdatedAt (dc_ActiveDB sample_secret_source) = None"
  "st_DbState (dc_ActiveDB sample_secret_source) \<noteq> UsingExistingDB"
  "getTempSecretName (upd_new f sample_secret_source) \<noteq> ''src''"
  by (simp_all add: sample_secret_source_def sample_claim_def empty_Status_def claim_upds getTempSecretName_def)

lemma secret_source_answers:
  "n \<noteq> ''src'' \<Longrightarrow> e_GetSecret (e_k8s secret_source_env) h ns n = Inl (NotFound n)"
  "e_CreateSecret (e_k8s secret_source_env) h s = None" "e_UpdateSecret (e_k8s secret_source_env) h s = None"
  by (simp_all add: secret_source_env_def sample_defs)

theorem existing_source_without_password_witness:
  "\<exists>c' ri e es. reconcileUseExistingDB secret_source_env sample_config_r (sample_reqInfo hp_15_3) sample_secret_source
     M_UseExistingDB [] = (Ret (c', ri, Some e), es) \<and> list_all (temp_secret_only sample_secret_source) es"
proof -
  let ?u = "empty_url\<lparr>Scheme := ''postgres'', User := Some (''u'', None),
     HostPort := ''h:1'', Path := ''/d'', RawQuery := ''sslmode=require''\<rparr>"
  let ?db = "\<lparr>db_DSN = ''postgres://u@h:1/d?sslmode=require'', db_SecretRef = Some \<lparr>sr_Namespace = ''shop'', sr_Name = ''src''\<rparr>\<rparr>"
  let ?run = "reconcileUseExistingDB secret_source_env sample_config_r (sample_reqInfo hp_15_3) sample_secret_source M_UseExistingDB []"
  have parse: "Parse (db_DSN ?db) = Inr ?u" unfolding Database.select_convs by code_simp
  have spec: "spec_SourceDataFrom (dc_Spec sample_secret_source) = Some \<lparr>sdf_Type = ''database'', sdf_Database = Some ?db\<rparr>"
    by (simp add: sample_secret_source_def claim_upds)
  have no: "\<not> snd (Password (User ?u))" by (simp add: Password_def)
  from existing_source_without_password [OF spec _ parse no, of secret_source_env sample_config_r "sample_reqInfo hp_15_3" M_UseExistingDB "[]"]
  have es: "list_all (temp_secret_only sample_secret_source) (snd ?run)"
    and err: "\<And>c' ri er. fst ?run = Ret (c', ri, er) \<Longrightarrow> er \<noteq> None" by auto
  obtain ci where ci: "ParseUri (db_DSN ?db) = Inr ci" unfolding ParseUri_def parse by (auto simp: Let_def)
  note source = source_without_password [OF spec _ parse no, simplified]
  obtain c' ri er where run: "fst ?run = Ret (c', ri, er)"
    using no_password_no_client [OF ParseUri_no_password [OF ci parse no], of secret_source_env] ci
    by (auto simp: reconcileUseExistingDB_def updated_recently_def source adopt_active_def secret_source_fields
        setMasterPasswordInTempSecret_def set_in_temp_secret_def getTempSecret_def new_temp_secret_def k8s_calls prog_simps
        secret_source_answers of_go_def Let_def)
  with err obtain e where "er = Some e" by blast
  with run es show ?thesis by (metis prod.collapse)
qed

end
