(* ===== verification/Migration.thy ===== *)
theory Migration
  imports Claimdb
begin

text \<open>
  Migrating a claim to another database (\<^verbatim>\<open>pkg/databaseclaim/databaseclaim.go\<close>): provisioning the
  target and saving the credentials (\<^verbatim>\<open>reconcileMigrateToNewDB\<close>), driving the state machine of
  \<open>Pgctl\<close> (\<^verbatim>\<open>reconcileMigrationInProgress\<close>) with its copies of role claims, the switch to the new
  database, and retiring the old one (\<^verbatim>\<open>postMigrationInProgress\<close>).
\<close>

section \<open>Starting a migration\<close>

definition crExists :: "(goerror + 'a) go_prog \<Rightarrow> bool go_prog" where
  "crExists get = bnd get (\<lambda>r. ret (case r of Inr _ \<Rightarrow> True | Inl _ \<Rightarrow> False))"

definition and_then :: "bool go_prog \<Rightarrow> bool go_prog \<Rightarrow> bool go_prog" where
  "and_then a b = bnd a (\<lambda>x. if x then b else ret False)"

definition providerCRAlreadyExists ::
  "env \<Rightarrow> DatabaseClaimReconciler \<Rightarrow> requestInfo \<Rightarrow> DatabaseClaim \<Rightarrow> (goerror + bool) go_prog" where
  "providerCRAlreadyExists E r reqInfo c =
     (let host = getDynamicHostName (cfg_Viper r) (Hash (ri_HostParams reqInfo)) c; cloud = GetCloud (cfg_Viper r) in
      if cloud = ''aws'' then bnd (and_then (crExists (getCluster E host)) (crExists (getInstance E host))) (\<lambda>b. ret (Inr b))
      else if cloud = ''gcp'' then
        bnd (and_then (crExists (getGcpCluster E host)) (crExists (getGcpInstance E host))) (\<lambda>b. ret (Inr b))
      else ret (Inl (ErrMsg (''unsupported cloud provider: '' @ cloud))))"

definition set_migration_state :: "string \<Rightarrow> DatabaseClaim \<Rightarrow> DatabaseClaim" where
  "set_migration_state st = upd_status (\<lambda>s. s\<lparr>s_MigrationState := st\<rparr>)"

text \<open>The credentials a migration needs later go to the temporary secret.\<close>

definition save_credentials :: "env \<Rightarrow> requestInfo \<Rightarrow> DatabaseClaim \<Rightarrow> goerror option go_prog" where
  "save_credentials E reqInfo c =
     check_err (if ri_TempSecret reqInfo \<noteq> [] then setTargetPasswordInTempSecret E (ri_TempSecret reqInfo) c else ret None)
       (attempt_err (getSrcAppDsnFromSecret E c) (\<lambda>sourceDSN. setSourceDsnInTempSecret E sourceDSN c))"

definition reconcileMigrateToNewDB ::
  "env \<Rightarrow> DatabaseClaimReconciler \<Rightarrow> requestInfo \<Rightarrow> DatabaseClaim \<Rightarrow> ModeEnum \<Rightarrow> answer go_prog" where
  "reconcileMigrateToNewDB E r reqInfo c operationalMode =
     bnd (if s_MigrationState (dc_Status c) = [] then UpdateStatus E (set_migration_state (StateEnum_String S_Initial) c)
          else ret (c, None)) (\<lambda>(c, er). case er of Some e \<Rightarrow> SetError E c e | None \<Rightarrow>
     bnd (reconcileNewDB E r reqInfo c operationalMode) (\<lambda>(c, reqInfo, result, er). case er of
       Some e \<Rightarrow> SetError E c e
     | None \<Rightarrow>
     if RequeueAfter result > 0 then ret (c, result, None) else
     bnd (save_credentials E reqInfo c) (\<lambda>er. case er of Some e \<Rightarrow> SetError E c e
       | None \<Rightarrow> MigrationInProgressStatus E c)))"

section \<open>Copies of role claims\<close>

text \<open>A copy of a role claim for the claim named \<open>n\<close>; a role claim without a source claim makes the
  assignment through the nil pointer panic. The pair is the namespace and the name of the source.\<close>

definition role_claim_copy :: "string \<Rightarrow> DbRoleClaim \<Rightarrow> DbRoleClaim go" where
  "role_claim_copy n dbrc = (case rcs_SourceDatabaseClaim (rc_Spec dbrc) of
     None \<Rightarrow> Panic
   | Some (ns, _) \<Rightarrow> Ret (dbrc\<lparr>
       rc_Meta := (rc_Meta dbrc)\<lparr>m_Name := m_Name (rc_Meta dbrc) @ ''-'' @ n, m_ResourceVersion := [], m_Generation := 0\<rparr>,
       rc_Spec := (rc_Spec dbrc)\<lparr>rcs_SecretName := rcs_SecretName (rc_Spec dbrc) @ ''-'' @ n,
         rcs_SourceDatabaseClaim := Some (ns, n)\<rparr>,
       rc_Status := empty_DbRoleClaimStatus\<rparr>))"

definition copy_role_claim :: "env \<Rightarrow> string \<Rightarrow> DbRoleClaim \<Rightarrow> goerror option go_prog" where
  "copy_role_claim E n dbrc =
     (if HasSuffix (m_Name (rc_Meta dbrc)) (''-'' @ n) then ret None
      else bnd (getRoleClaim E (m_Namespace (rc_Meta dbrc)) (m_Name (rc_Meta dbrc) @ ''-'' @ n)) (\<lambda>r. case r of
        Inr _ \<Rightarrow> ret None
      | Inl e \<Rightarrow>
          if \<not> IsNotFound e then ret None
          else bnd (of_go (role_claim_copy n dbrc)) (\<lambda>copy. createRoleClaim E copy)))"

definition copy_role_claims :: "env \<Rightarrow> DatabaseClaim \<Rightarrow> goerror option go_prog" where
  "copy_role_claims E c =
     attempt_err (listRoleClaims E (dc_Namespace c)) (\<lambda>items. for_each items (copy_role_claim E (dc_Name c)))"

section \<open>The loop over the states of a migration\<close>

text \<open>How the loop ends: it breaks with the claim, or the function returns.\<close>

datatype loop_end = Break DatabaseClaim | Return answer

definition stop_with :: "answer go_prog \<Rightarrow> (loop_end + 'a) go_prog" where
  "stop_with m = bnd m (\<lambda>a. ret (Inl (Return a)))"

text \<open>The migration state of the claim follows the state machine, in the cluster too.\<close>

definition store_state :: "env \<Rightarrow> State \<Rightarrow> DatabaseClaim \<Rightarrow> (DatabaseClaim \<times> goerror option) go_prog" where
  "store_state E s c = UpdateStatus E (set_migration_state (State_String s) c)"

abbreviation retry_later :: Result where "retry_later \<equiv> empty_Result\<lparr>RequeueAfter := 60000000000\<rparr>"

text \<open>The switch over the next state: the loop ends, or goes on with the claim.\<close>

definition turn ::
  "env \<Rightarrow> DatabaseClaimReconciler \<Rightarrow> string \<Rightarrow> ConnInfo \<Rightarrow> State \<Rightarrow> DatabaseClaim \<Rightarrow> (loop_end + DatabaseClaim) go_prog" where
  "turn E r sourceAppDsn targetAppConn nxt c =
     (let store = (\<lambda>k. bnd (store_state E nxt c) (\<lambda>(c, er). case er of
            Some e \<Rightarrow> stop_with (SetError E c e) | None \<Rightarrow> ret (k c)))
      in case State_Id nxt of
        S_Completed \<Rightarrow> bnd (copy_role_claims E c) (\<lambda>er. case er of
          Some e \<Rightarrow> stop_with (SetError E c e) | None \<Rightarrow> ret (Inl (Break c)))
      | S_Retry \<Rightarrow> ret (Inl (Return (c, retry_later, None)))
      | S_WaitToDisableSource \<Rightarrow> store (\<lambda>c. Inl (Return (c, retry_later, None)))
      | S_RerouteTargetSecret \<Rightarrow> bnd (rerouteTargetSecret E r sourceAppDsn targetAppConn c) (\<lambda>er. case er of
          Some e \<Rightarrow> stop_with (SetError E c e) | None \<Rightarrow> store Inr)
      | _ \<Rightarrow> store Inr)"

text \<open>\<open>fuel\<close> bounds the number of turns; \<open>None\<close> stands for a loop that has not ended by then. The
  theorem \<open>migration_loop_ends\<close> shows that sixteen turns are always enough. A nil next state, which
  the completed state answers, makes the call of its method panic.\<close>

fun migration_loop ::
  "nat \<Rightarrow> env \<Rightarrow> DatabaseClaimReconciler \<Rightarrow> string \<Rightarrow> ConnInfo \<Rightarrow> State \<Rightarrow> DatabaseClaim \<Rightarrow> loop_end option go_prog" where
  "migration_loop 0 E r sourceAppDsn targetAppConn s c = ret None"
| "migration_loop (Suc fuel) E r sourceAppDsn targetAppConn s c =
     bnd (Execute E s) (\<lambda>rx. case rx of
       Inl e \<Rightarrow> bnd (SetError E c e) (\<lambda>a. ret (Some (Return a)))
     | Inr None \<Rightarrow> panic
     | Inr (Some nxt) \<Rightarrow> bnd (turn E r sourceAppDsn targetAppConn nxt c) (\<lambda>t. case t of
         Inl le \<Rightarrow> ret (Some le)
       | Inr c \<Rightarrow> migration_loop fuel E r sourceAppDsn targetAppConn nxt c))"

section \<open>The switch to the new database\<close>

definition MakeDeepCopyToOldDB :: "StatusForOldDB \<Rightarrow> Status \<Rightarrow> StatusForOldDB" where
  "MakeDeepCopyToOldDB to from = to\<lparr>old_ConnectionInfo := st_ConnectionInfo from, old_DBVersion := st_DBVersion from,
     old_Shape := st_Shape from, old_Type := st_Type from\<rparr>"

abbreviation fresh_Status :: Status where "fresh_Status \<equiv> empty_Status\<lparr>st_ConnectionInfo := Some empty_ConnInfo\<rparr>"

definition retire_active :: "time \<Rightarrow> DatabaseClaim \<Rightarrow> DatabaseClaim" where
  "retire_active t c = upd_old (\<lambda>_.
     (MakeDeepCopyToOldDB (empty_StatusForOldDB\<lparr>old_ConnectionInfo := Some empty_ConnInfo\<rparr>) (dc_ActiveDB c))
       \<lparr>old_DbState := PostMigrationInProgress, old_PostMigrationActionStartedAt := Some t\<rparr>) c"

definition switch_to_new :: "DatabaseClaim \<Rightarrow> DatabaseClaim" where
  "switch_to_new c = upd_new (\<lambda>_. fresh_Status) (upd_active (\<lambda>_. (dc_NewDB c)\<lparr>st_DbState := Ready\<rparr>) c)"

definition finish_migration :: "env \<Rightarrow> StatusManager \<Rightarrow> DatabaseClaim \<Rightarrow> answer go_prog" where
  "finish_migration E m c0 =
     (let c = set_migration_state (StateEnum_String S_Completed) c0 in
      bnd (if st_DbState (dc_ActiveDB c) \<noteq> UsingExistingDB then bnd (now E) (\<lambda>t. ret (retire_active t c)) else ret c) (\<lambda>c.
      bnd (UpdateStatus E (switch_to_new c)) (\<lambda>(c, er). case er of Some e \<Rightarrow> SetError E c e | None \<Rightarrow>
      bnd (deleteTempSecret E c) (\<lambda>_. SuccessAndUpdateCondition E m c))))"

section \<open>A migration in progress\<close>

primrec mode_num :: "ModeEnum \<Rightarrow> int" where
  "mode_num M_NotSupported = 0"
| "mode_num M_UseExistingDB = 1"
| "mode_num M_MigrateExistingToNewDB = 2"
| "mode_num M_MigrationInProgress = 3"
| "mode_num M_UseNewDB = 4"
| "mode_num M_InitiateDBUpgrade = 5"
| "mode_num M_UpgradeDBInProgress = 6"
| "mode_num M_PostMigrationInProgress = 7"

text \<open>The credentials of the master of the source: those the claim names where an existing database is
  migrated, those of the active host where a database is upgraded.\<close>

definition source_master ::
  "env \<Rightarrow> DatabaseClaimReconciler \<Rightarrow> DatabaseClaim \<Rightarrow> ModeEnum \<Rightarrow> string \<Rightarrow> (goerror + ConnInfo) go_prog" where
  "source_master E r c operationalMode sourceAppDsn =
     (if operationalMode = M_MigrationInProgress \<or> operationalMode = M_MigrateExistingToNewDB then
        (case spec_SourceDataFrom (dc_Spec c) of
           None \<Rightarrow> ret (Inl (ErrMsg ''sourceDataFrom is nil''))
         | Some sdf \<Rightarrow>
             if sdf_Database sdf = None then ret (Inl (ErrMsg ''sourceDataFrom.Database is nil''))
             else attempt (GetSourceDataFromDSN E c) (\<lambda>dsn. ret (ParseUri dsn)))
      else if operationalMode = M_UpgradeDBInProgress \<or> operationalMode = M_InitiateDBUpgrade then
        (case st_ConnectionInfo (dc_ActiveDB c) of
           None \<Rightarrow> panic
         | Some activeInfo \<Rightarrow>
             attempt (GetMasterCredsDeprecated E (rec_serviceNS r) (fst (Cut (ci_Host activeInfo) (CHR ''.'')))
                        (spec_DatabaseName (dc_Spec c)) (ci_SSLMode activeInfo)) (\<lambda>activeConnInfo.
               ret (map_sum id (\<lambda>m. m\<lparr>ci_Username := ci_Username activeConnInfo, ci_Password := ci_Password activeConnInfo\<rparr>)
                     (ParseUri sourceAppDsn))))
      else ret (Inl (ErrMsg (''unsupported operational mode '' @ Itoa (mode_num operationalMode)))))"

text \<open>The credentials of the application on the source: from the claim's secret or, where it has been
  rerouted, from the temporary one.\<close>

definition source_app_dsn :: "env \<Rightarrow> DatabaseClaim \<Rightarrow> (goerror + string) go_prog" where
  "source_app_dsn E c =
     attempt (getSrcAppDsnFromSecret E c) (\<lambda>dsn.
     attempt (if dsn = [] then getSourceDsnFromTempSecret E c else ret (Inr dsn)) (\<lambda>dsn.
     if dsn = [] then ret (Inl (ErrMsg ''unable_to_find_source_user_dsn'')) else ret (Inr dsn)))"

text \<open>The connection of the application to the target, with the password saved when it was set up.\<close>

definition target_app_conn :: "env \<Rightarrow> DatabaseClaim \<Rightarrow> ConnInfo \<Rightarrow> (goerror + ConnInfo) go_prog" where
  "target_app_conn E c newInfo =
     attempt (getTargetPasswordFromTempSecret E c) (\<lambda>pw.
       let targetAppConn = newInfo\<lparr>ci_Password := pw\<rparr>
       in case Validate targetAppConn of Some e \<Rightarrow> ret (Inl e) | None \<Rightarrow> ret (Inr targetAppConn))"

text \<open>All that the replication needs, or the error that is reported; the answer is the state to start
  from, the source DSN and the target connection of the application.\<close>

definition prepare_migration ::
  "env \<Rightarrow> DatabaseClaimReconciler \<Rightarrow> DatabaseClaim \<Rightarrow> ModeEnum \<Rightarrow> ConnInfo \<Rightarrow> ConnInfo \<Rightarrow> (goerror + State \<times> string \<times> ConnInfo) go_prog" where
  "prepare_migration E r c operationalMode masterConnInfo newInfo =
     attempt (target_app_conn E c newInfo) (\<lambda>targetAppConn.
     attempt (source_app_dsn E c) (\<lambda>sourceAppDsn.
     attempt (bnd (PopulateCreds E c (GetString (cfg_Viper r) ''SERVICE_NAMESPACE''))
        (\<lambda>rc. ret (case rc of Inl _ \<Rightarrow> Inl (ErrMsg ''unable to populate credentials'') | Inr x \<Rightarrow> Inr x))) (\<lambda>_.
     attempt (source_master E r c operationalMode sourceAppDsn) (\<lambda>sourceMasterConn.
     let config = \<lparr>cfg_Cloud = GetCloud (cfg_Viper r), cfg_SourceDBAdminDsn = Uri (Some sourceMasterConn),
           cfg_SourceDBUserDsn = sourceAppDsn, cfg_TargetDBAdminDsn = Uri (Some masterConnInfo),
           cfg_TargetDBUserDsn = Uri (Some targetAppConn), cfg_ExportFilePath = GetPgTempFolder (cfg_Viper r)\<rparr>
     in attempt (ret (GetReplicatorState (s_MigrationState (dc_Status c)) config)) (\<lambda>s.
        check (validateAndUpdateCredsDSN E (cfg_SourceDBAdminDsn config) (cfg_SourceDBUserDsn config))
          (check (validateAndUpdateCredsDSN E (cfg_TargetDBAdminDsn config) (cfg_TargetDBUserDsn config))
            (ret (Inr (s, sourceAppDsn, targetAppConn)))))))))"

definition reconcileMigrationInProgress ::
  "env \<Rightarrow> DatabaseClaimReconciler \<Rightarrow> requestInfo \<Rightarrow> DatabaseClaim \<Rightarrow> ModeEnum \<Rightarrow> answer go_prog" where
  "reconcileMigrationInProgress E r reqInfo c operationalMode =
     (case st_ConnectionInfo (dc_NewDB c) of
        None \<Rightarrow> SetError E c (ErrMsg ''status.newdb is empty'')
      | Some newInfo \<Rightarrow>
      if ci_Host newInfo = [] then SetError E c (ErrMsg ''status.newdb is empty'') else
      bnd (GetMasterCredsDeprecated E (rec_serviceNS r)
             (getDynamicHostName (cfg_Viper r) (Hash (ri_HostParams reqInfo)) c)
             (spec_DatabaseName (dc_Spec c)) (GetDefaultSSLMode (cfg_Viper r))) (\<lambda>rm. case rm of
        Inl _ \<Rightarrow> ret (c, empty_Result\<lparr>RequeueAfter := GetDynamicHostWaitTime (cfg_Viper r)\<rparr>, None)
      | Inr connInfo \<Rightarrow>
      case st_ConnectionInfo (dc_ActiveDB c) of None \<Rightarrow> panic | Some activeInfo \<Rightarrow>
      if ci_Host newInfo = ci_Host activeInfo \<and> ci_Port newInfo = ci_Port activeInfo
      then SetError E c (ErrMsg ''active and new database can not be the same'') else
      bnd (prepare_migration E r c operationalMode connInfo newInfo) (\<lambda>rp. case rp of
        Inl e \<Rightarrow> SetError E c e
      | Inr (s, sourceAppDsn, targetAppConn) \<Rightarrow>
      bnd (migration_loop 16 E r sourceAppDsn targetAppConn s c) (\<lambda>le. case le of
        None \<Rightarrow> panic
      | Some (Return a) \<Rightarrow> ret a
      | Some (Break c) \<Rightarrow> finish_migration E (rec_statusManager r) c))))"

section \<open>Retiring the old database\<close>

text \<open>\<^verbatim>\<open>Minutes() > 10\<close> holds of a duration exactly where it is longer than ten minutes.\<close>

definition waited_enough :: "env \<Rightarrow> StatusForOldDB \<Rightarrow> bool go_prog" where
  "waited_enough E old = (case old_PostMigrationActionStartedAt old of
     None \<Rightarrow> panic
   | Some t \<Rightarrow> bnd (Since E t) (\<lambda>d. ret (d > 10 * time_Minute)))"

definition old_param_group :: "StatusForOldDB \<Rightarrow> string \<Rightarrow> string" where
  "old_param_group old dbInstanceName =
     dbInstanceName @ (if old_Type old = AuroraPostgres then ''-a-'' else ''-'') @ Split (old_DBVersion old) (CHR ''.'') ! 0"

definition postMigrationInProgress :: "env \<Rightarrow> viper \<Rightarrow> DatabaseClaim \<Rightarrow> answer go_prog" where
  "postMigrationInProgress E v c = (case old_ConnectionInfo (dc_OldDB c) of None \<Rightarrow> panic | Some ci \<Rightarrow>
     let dbInstanceName = Split (ci_Host ci) (CHR ''.'') ! 0;
         dbParamGroupName = old_param_group (dc_OldDB c) dbInstanceName in
     bnd (manageOperationalTagging E v dbInstanceName dbParamGroupName (old_Type (dc_OldDB c) = AuroraPostgres)) (\<lambda>rt.
     bnd (case rt of Inl _ \<Rightarrow> ret True | Inr True \<Rightarrow> ret True | Inr False \<Rightarrow> waited_enough E (dc_OldDB c)) (\<lambda>shouldDelete.
     bnd (if shouldDelete then
            bnd (deleteParameterGroupAWS E dbParamGroupName) (\<lambda>_.
            bnd (deleteCloudDatabaseAWS E v dbInstanceName) (\<lambda>_. ret (upd_old (\<lambda>_. empty_StatusForOldDB) c)))
          else ret c) (\<lambda>c.
     bnd (ClearError E c) (\<lambda>(c, er). case er of Some e \<Rightarrow> ret (c, empty_Result, Some e) | None \<Rightarrow>
     bnd (UpdateStatus E c) (\<lambda>(c, er). case er of Some e \<Rightarrow> ret (c, empty_Result, Some e) | None \<Rightarrow>
     if m_DeletionTimestamp (dc_Meta c) \<noteq> None then ret (c, empty_Result\<lparr>Requeue := True\<rparr>, None)
     else ret (c, empty_Result\<lparr>RequeueAfter := time_Minute\<rparr>, None)))))))"

section \<open>Properties\<close>

subsection \<open>The loop ends\<close>

text \<open>How many turns the loop takes at most from a state.\<close>

fun turns :: "StateEnum \<Rightarrow> nat" where
  "turns S_Initial = 15"
| "turns S_ValidateConnection = 14"
| "turns S_CreatePublication = 13"
| "turns S_CopySchema = 12"
| "turns S_CreateSubscription = 11"
| "turns S_EnableSubscription = 10"
| "turns S_CutOverReadinessCheck = 9"
| "turns S_ResetTargetSequence = 8"
| "turns S_RerouteTargetSecret = 7"
| "turns S_WaitToDisableSource = 6"
| "turns S_DisableSourceAccess = 5"
| "turns S_ValidateMigrationStatus = 4"
| "turns S_DisableSubscription = 3"
| "turns S_DeleteSubscription = 2"
| "turns s = 1"

lemma turns_next:
  assumes "Execute E s h = (Ret (Inr (Some s')), h')" and "State_Id s' \<notin> {S_Completed, S_Retry}"
  shows "turns (State_Id s') < turns (State_Id s)"
proof -
  from Execute_next [OF assms(1)] assms(2) have "State_Id s' = following (State_Id s)" by simp
  with assms(2) show ?thesis by (cases s) simp_all
qed

lemma bnd_cong_run: "(\<And>x h1. m h = (Ret x, h1) \<Longrightarrow> f x h1 = g x h1) \<Longrightarrow> bnd m f h = bnd m g h"
  by (simp add: bnd_def split: prod.split go.split)

text \<open>The loop goes on only to a state that is neither the last one nor a retry.\<close>

lemma turn_goes_on:
  assumes "turn E r src tgt nxt c h = (Ret (Inr c'), h')"
  shows "State_Id nxt \<notin> {S_Completed, S_Retry, S_WaitToDisableSource}"
  using assms
  by (auto simp: turn_def stop_with_def bnd_Ret run_ret split: option.splits)

lemma migration_loop_stable:
  assumes "turns (State_Id s) \<le> n" and "turns (State_Id s) \<le> m"
  shows "migration_loop n E r src tgt s c h = migration_loop m E r src tgt s c h"
  using assms
proof (induction n arbitrary: m s c h)
  case 0
  then show ?case by (cases "State_Id s") simp_all
next
  case (Suc n)
  have "1 \<le> turns (State_Id s)" by (cases "State_Id s") simp_all
  with Suc.prems obtain m' where m: "m = Suc m'" by (cases m) auto
  have "migration_loop n E r src tgt nxt c' h' = migration_loop m' E r src tgt nxt c' h'"
    if "Execute E s h = (Ret (Inr (Some nxt)), h1)" "turn E r src tgt nxt c h1 = (Ret (Inr c'), h')" for nxt h1 c' h'
    using turns_next [OF that(1)] turn_goes_on [OF that(2)] Suc.prems m by (intro Suc.IH) auto
  then show ?case unfolding m migration_loop.simps
    by (intro bnd_cong_run) (auto split: sum.split option.split intro!: bnd_cong_run)
qed

lemma migration_loop_enough:
  "turns (State_Id s) \<le> n \<Longrightarrow> migration_loop n E r src tgt s c h \<noteq> (Ret None, h')"
proof (induction n arbitrary: s c h)
  case 0
  then show ?case by (cases "State_Id s") simp_all
next
  case (Suc n)
  have "migration_loop n E r src tgt nxt c' h2 \<noteq> (Ret None, h')"
    if "Execute E s h = (Ret (Inr (Some nxt)), h1)" "turn E r src tgt nxt c h1 = (Ret (Inr c'), h2)" for nxt h1 c' h2
    using turns_next [OF that(1)] turn_goes_on [OF that(2)] Suc.prems by (intro Suc.IH) auto
  then have "(case t of Inl le \<Rightarrow> ret (Some le) | Inr c' \<Rightarrow> migration_loop n E r src tgt nxt c') h2 \<noteq> (Ret None, h')"
    if "Execute E s h = (Ret (Inr (Some nxt)), h1)" "turn E r src tgt nxt c h1 = (Ret t, h2)" for nxt h1 t h2
    using that by (cases t) (simp_all add: run_ret)
  then have "(case rx of Inl e \<Rightarrow> bnd (SetError E c e) (\<lambda>a. ret (Some (Return a))) | Inr None \<Rightarrow> panic
      | Inr (Some nxt) \<Rightarrow> bnd (turn E r src tgt nxt c) (\<lambda>t. case t of Inl le \<Rightarrow> ret (Some le)
        | Inr c \<Rightarrow> migration_loop n E r src tgt nxt c)) h1 \<noteq> (Ret None, h')"
    if "Execute E s h = (Ret rx, h1)" for rx h1
    using that by (cases rx) (auto simp: bnd_Ret run_ret run_panic split: option.split)
  then show ?case by (auto simp: bnd_Ret)
qed

lemma turns_bound: "turns i \<le> 15"
  by (cases i) simp_all

text \<open>
  C4: the loop over the states of a migration ends. From whatever state and history it starts, and
  whatever the databases and the cluster answer, sixteen turns are enough: it never runs out of
  them, and more turns change nothing.
\<close>

theorem migration_loop_ends:
  "migration_loop (16 + n) E r src tgt s c h = migration_loop 16 E r src tgt s c h \<and>
   fst (migration_loop 16 E r src tgt s c h) \<noteq> Ret None"
proof
  have "turns (State_Id s) \<le> 16" using turns_bound [of "State_Id s"] by simp
  then show "migration_loop (16 + n) E r src tgt s c h = migration_loop 16 E r src tgt s c h"
    by (intro migration_loop_stable) simp_all
  show "fst (migration_loop 16 E r src tgt s c h) \<noteq> Ret None"
    using migration_loop_enough [OF \<open>turns (State_Id s) \<le> 16\<close>] by (metis prod.collapse)
qed

subsection \<open>The loop implements the state machine\<close>

abbreviation migration_state :: "DatabaseClaim \<Rightarrow> string" where
  "migration_state c \<equiv> s_MigrationState (dc_Status c)"

text \<open>The claim remembers a state: read back with the same configuration, it is that state.\<close>

definition recorded :: "DatabaseClaim \<Rightarrow> State \<Rightarrow> bool" where
  "recorded c s \<longleftrightarrow> GetReplicatorState (migration_state c) (config_of s) = Inr s"

lemma recorded_String: "migration_state c = State_String s \<Longrightarrow> State_Id s \<noteq> S_Retry \<Longrightarrow> recorded c s"
  by (simp add: recorded_def GetReplicatorState_String)

lemma written_status: "written c r = (c', er) \<Longrightarrow> dc_Status c' = dc_Status c"
  by (auto simp: written_def claim_upds split: sum.splits)

lemma updateClaimStatus_status: "updateClaimStatus E c h = (Ret (c', er), h') \<Longrightarrow> dc_Status c' = dc_Status c"
  unfolding updateClaimStatus_def bnd_Ret run_ret by (auto dest: written_status)

lemma SetConditionAndUpdateStatus_state:
  "SetConditionAndUpdateStatus E c cond h = (Ret (c', er), h') \<Longrightarrow> migration_state c' = migration_state c"
  by (auto simp: SetConditionAndUpdateStatus_def UpdateStatus_def SetStatusCondition_def bnd_Ret run_ret Let_def
      claim_upds dest!: updateClaimStatus_status)

lemma SetError_state: "SetError E c e h = (Ret (c', res, er), h') \<Longrightarrow> migration_state c' = migration_state c"
proof -
  have cond: "returns (\<lambda>a. migration_state (fst a) = migration_state c)
      (SetConditionAndUpdateStatus E c (ReconcileErrorCondition e))"
    by (auto simp: returns_def dest: SetConditionAndUpdateStatus_state)
  have "returns (\<lambda>a. migration_state (fst a) = migration_state c) (SetError E c e)"
  proof (cases "errors_Is e ErrDoNotUpdateStatus")
    case False
    then show ?thesis unfolding SetError_def Let_def
      by (simp only: if_False, intro returns_bnd_of [OF cond])
        (auto intro!: returns_bnd returns_ret split: option.split sum.split)
  qed (auto simp: SetError_def intro: returns_ret)
  then show "SetError E c e h = (Ret (c', res, er), h') \<Longrightarrow> migration_state c' = migration_state c"
    by (auto dest: returnsD)
qed

lemma store_state_run:
  "store_state E s c h = (Ret (c', er), h') \<Longrightarrow> migration_state c' = State_String s"
  by (auto simp: store_state_def UpdateStatus_def set_migration_state_def claim_upds dest!: updateClaimStatus_status)

lemma stop_with_run:
  "stop_with m h = (Ret t, h') \<longleftrightarrow> (\<exists>a. t = Inl (Return a) \<and> m h = (Ret a, h'))"
  by (auto simp: stop_with_def bnd_Ret run_ret)

lemma turn_state:
  assumes "turn E r src tgt nxt c h = (Ret t, h')"
  shows "(\<forall>c'. t = Inr c' \<longrightarrow> migration_state c' = State_String nxt) \<and>
    (\<forall>c' res er. t = Inl (Return (c', res, er)) \<longrightarrow>
       migration_state c' = migration_state c \<or> State_Id nxt \<noteq> S_Retry \<and> migration_state c' = State_String nxt) \<and>
    (\<forall>c'. t = Inl (Break c') \<longrightarrow> State_Id nxt = S_Completed)"
proof -
  have store: "(\<forall>c'. t = Inr c' \<longrightarrow> migration_state c' = State_String nxt) \<and>
      (\<forall>c' res er. t = Inl (Return (c', res, er)) \<longrightarrow> migration_state c' = State_String nxt) \<and>
      (\<forall>c'. t \<noteq> Inl (Break c'))"
    if "bnd (store_state E nxt c) (\<lambda>(c, er). case er of Some e \<Rightarrow> stop_with (SetError E c e) | None \<Rightarrow> ret (k c)) h1 = (Ret t, h')"
      and "k = Inr \<or> k = (\<lambda>c. Inl (Return (c, retry_later, None)))" for k h1
    using that by (auto simp: bnd_Ret run_ret stop_with_run split: option.splits dest!: store_state_run SetError_state)
  show ?thesis
  proof (cases "State_Id nxt \<in> {S_Completed, S_Retry, S_RerouteTargetSecret}")
    case False
    with assms show ?thesis
      by (cases "State_Id nxt") (auto simp: turn_def dest!: store)
  next
    case True
    then consider "State_Id nxt = S_Completed" | "State_Id nxt = S_Retry" | "State_Id nxt = S_RerouteTargetSecret" by blast
    then show ?thesis
    proof cases
      case 1
      with assms show ?thesis
        by (auto simp: turn_def bnd_Ret run_ret stop_with_run split: option.splits dest!: SetError_state)
    next
      case 2
      with assms show ?thesis by (auto simp: turn_def run_ret)
    next
      case 3
      with assms obtain er h1 where "(case er of Some e \<Rightarrow> stop_with (SetError E c e) | None \<Rightarrow>
          bnd (store_state E nxt c) (\<lambda>(c, er). case er of Some e \<Rightarrow> stop_with (SetError E c e) | None \<Rightarrow> ret (Inr c))) h1 = (Ret t, h')"
        by (auto simp: turn_def bnd_Ret)
      with store [of Inr h1] 3 show ?thesis
        by (cases er) (auto simp: stop_with_run dest!: SetError_state)
    qed
  qed
qed

lemma emits_copy_role_claims: "clerical P \<Longrightarrow> emits P (copy_role_claims E c)"
  unfolding copy_role_claims_def copy_role_claim_def by (intro trace_intros emits_clerical_calls)

lemma emits_turn: "clerical P \<Longrightarrow> emits P (turn E r src tgt nxt c)"
  unfolding turn_def store_state_def stop_with_def Let_def
  by (cases "State_Id nxt")
    (simp_all add: trace_intros emits_status emits_secrets emits_copy_role_claims split: option.split)

lemma no_drop_clerical: "clerical (\<lambda>e. \<not> is_drop e)"
  by (simp add: clerical_def)

lemma migrating_more:
  assumes "migrating cfg s h" and "emits (\<lambda>e. \<not> is_drop e) m" and "m h = (r, h')"
  shows "migrating cfg s h'"
proof -
  from emits_run [OF assms(2,3)] obtain es where "h' = es @ h" "\<And>e. e \<in> set es \<Longrightarrow> \<not> is_drop e" by blast
  with migrating.other [OF assms(1)] show ?thesis by (simp add: list_all_iff)
qed

lemma recorded_same: "migration_state c' = migration_state c \<Longrightarrow> recorded c s \<Longrightarrow> recorded c' s"
  by (simp add: recorded_def)

text \<open>What holds when the loop has stopped: the machine is where the claim says it is, and the claim
  has left the loop for the new database only where the copy was validated.\<close>

definition loop_post :: "Config \<Rightarrow> loop_end option go \<Rightarrow> history \<Rightarrow> bool" where
  "loop_post cfg res h' \<longleftrightarrow> (\<exists>s'. migrating cfg s' h' \<and>
     (\<forall>c' result er. res = Ret (Some (Return (c', result, er))) \<longrightarrow> recorded c' s')) \<and>
     (\<forall>c'. res = Ret (Some (Break c')) \<longrightarrow> validated cfg h')"

lemma turn_post:
  assumes m: "migrating cfg s h" and rec: "recorded c s" and ex: "Execute E s h = (Ret (Inr (Some nxt)), h1)"
    and turn: "turn E r src tgt nxt c h1 = (t, h2)"
  shows "case t of Panic \<Rightarrow> loop_post cfg Panic h2 | Ret (Inl le) \<Rightarrow> loop_post cfg (Ret (Some le)) h2
    | Ret (Inr c') \<Rightarrow> migrating cfg nxt h2 \<and> recorded c' nxt"
proof -
  note more = migrating_more [OF _ emits_turn [OF no_drop_clerical] turn]
  have s2: "migrating cfg s h2" by (rule more [OF migrating.stay [OF m ex]])
  have n2: "migrating cfg nxt h2" if "State_Id nxt \<noteq> S_Retry"
    by (rule more [OF migrating.advance [OF m ex that]])
  have stored: "recorded c' nxt" if "State_Id nxt \<noteq> S_Retry" "migration_state c' = State_String nxt" for c'
    using that by (simp add: recorded_String)
  show ?thesis
  proof (cases t)
    case Panic
    with s2 show ?thesis by (auto simp: loop_post_def)
  next
    case (Ret x)
    note st = turn_state [OF turn [unfolded Ret]]
    show ?thesis
    proof (cases x)
      case (Inr c')
      with turn_goes_on [of E r src tgt nxt c h1 c' h2] turn Ret have "State_Id nxt \<noteq> S_Retry" by simp
      with st Inr Ret n2 stored show ?thesis by simp
    next
      case (Inl le)
      show ?thesis
      proof (cases le)
        case (Break c')
        with st Inl have id: "State_Id nxt = S_Completed" by simp
        with n2 have "migration_inv cfg nxt h2" by (intro migrating_inv) simp
        with id have "validated cfg h2" by (simp add: migration_inv_def state_order)
        with s2 Break Inl Ret show ?thesis by (auto simp: loop_post_def)
      next
        case (Return a)
        obtain c' res er where a: "a = (c', res, er)" by (cases a)
        with st Inl Return have "migration_state c' = migration_state c \<or>
          State_Id nxt \<noteq> S_Retry \<and> migration_state c' = State_String nxt" by blast
        then have "\<exists>s'. migrating cfg s' h2 \<and> recorded c' s'"
          using s2 n2 rec stored recorded_same by metis
        with a Return Inl Ret show ?thesis by (auto simp: loop_post_def)
      qed
    qed
  qed
qed

lemma migration_loop_post:
  assumes "migrating cfg s h" and "recorded c s" and "migration_loop n E r src tgt s c h = (res, h')"
  shows "loop_post cfg res h'"
  using assms
proof (induction n arbitrary: s c h)
  case 0
  then show ?case by (auto simp: run_ret loop_post_def)
next
  case (Suc n)
  obtain rx h1 where ex: "Execute E s h = (rx, h1)" by (cases "Execute E s h")
  have stay: "migrating cfg s h1" by (rule migrating.stay [OF Suc.prems(1) ex])
  show ?case
  proof (cases "\<exists>nxt. rx = Ret (Inr (Some nxt))")
    case True
    then obtain nxt where nxt: "rx = Ret (Inr (Some nxt))" by blast
    obtain t h2 where turn: "turn E r src tgt nxt c h1 = (t, h2)" by (cases "turn E r src tgt nxt c h1")
    note post = turn_post [OF Suc.prems(1,2) ex [unfolded nxt] turn]
    from Suc.prems(3) have res: "(res, h') = (case t of Panic \<Rightarrow> (Panic, h2)
        | Ret (Inl le) \<Rightarrow> (Ret (Some le), h2) | Ret (Inr c') \<Rightarrow> migration_loop n E r src tgt nxt c' h2)"
      by (simp add: run_bnd run_ret ex nxt turn split: go.splits sum.splits)
    show ?thesis
    proof (cases "\<exists>c'. t = Ret (Inr c')")
      case True
      then obtain c' where "t = Ret (Inr c')" by blast
      with post res show ?thesis by (intro Suc.IH [of nxt h2 c']) auto
    next
      case False
      with post res show ?thesis by (auto split: go.splits sum.splits)
    qed
  next
    case False
    show ?thesis
    proof (cases "\<exists>e. rx = Ret (Inl e)")
      case True
      then obtain e where e: "rx = Ret (Inl e)" by blast
      obtain a h2 where se: "SetError E c e h1 = (a, h2)" by (cases "SetError E c e h1")
      have "migrating cfg s h2" by (rule migrating_more [OF stay emits_status(3) [OF no_drop_clerical] se])
      moreover from Suc.prems(3) have "h' = h2" "res = (case a of Panic \<Rightarrow> Panic | Ret x \<Rightarrow> Ret (Some (Return x)))"
        by (auto simp: run_bnd run_ret ex e se split: go.splits)
      ultimately show ?thesis
        using SetError_state [of E c e h1] se Suc.prems(2)
        by (auto simp: loop_post_def split: go.splits intro!: exI [of _ s] intro: recorded_same)
    next
      case other: False
      with False Suc.prems(3) have "res = Panic" "h' = h1"
        by (auto simp: run_bnd run_panic ex split: go.splits sum.splits option.splits)
      with stay show ?thesis by (auto simp: loop_post_def)
    qed
  qed
qed

text \<open>
  C2: the controller's loop implements the state machine of the migration, and the claim moves to the
  new database only after validation. Let the history be one of a migration in state s and the claim
  record s. However the loop ends, the history is again one of a migration, in the state that the
  claim in memory then records, where the next reconciliation resumes; and where the loop is
  left for the switch to the new database, writes on the source had been revoked before its rows
  were counted, and the target had at least as many rows in every table.
\<close>

theorem migration_loop_refines:
  assumes "migrating cfg s h" and "GetReplicatorState (s_MigrationState (dc_Status c)) (config_of s) = Inr s"
    and "migration_loop n E r src tgt s c h = (res, h')"
  shows "(\<exists>s'. migrating cfg s' h' \<and> (\<forall>c' result er. res = Ret (Some (Return (c', result, er))) \<longrightarrow>
       GetReplicatorState (s_MigrationState (dc_Status c')) (config_of s') = Inr s')) \<and>
    (\<forall>c'. res = Ret (Some (Break c')) \<longrightarrow> (\<exists>u es rows h0 later.
       Parse (cfg_SourceDBUserDsn cfg) = Inr u \<and>
       h' = later @ es @ Sql (EvQueryCounts (cfg_SourceDBUserDsn cfg) Q_SourceTableCounts (Inr (rows, None))) # h0 \<and>
       Sql (EvExec (cfg_SourceDBAdminDsn cfg) (REVOKE_WRITES (getParentRole (Username (User u)))) None) \<in> set h0 \<and>
       (\<forall>(t, n) \<in> set rows. \<exists>k \<ge> n. Sql (EvQueryInt (cfg_TargetDBUserDsn cfg) (Q_TableCount t) (Inr k)) \<in> set es)))"
  using migration_loop_post [OF assms(1) _ assms(3)] assms(2)
  unfolding loop_post_def recorded_def validated_def revoked_def by blast

theorem migration_loop_refines_witness:
  "\<exists>s h c' h'. migrating sample_config s h \<and>
     migration_loop 16 sample_env sample_config_r [] sample_ci s
       (set_migration_state ''delete_publication'' sample_claim) h = (Ret (Some (Break c')), h') \<and>
     (\<exists>rows. Sql (EvQueryCounts (cfg_SourceDBUserDsn sample_config) Q_SourceTableCounts (Inr (rows, None))) \<in> set h')"
proof -
  let ?c = "set_migration_state ''delete_publication'' sample_claim"
  from sample_migrates [of 14] obtain s h where s: "migrating sample_config s h" "State_Id s = S_DeletePublication"
    by (auto simp: eval_nat_numeral)
  have cfg: "config_of s = sample_config" using migrating_inv [OF s(1)] by (simp add: migration_inv_def)
  with sample_progress [of s h] s(2) obtain s' h1 where
    ex: "Execute sample_env s h = (Ret (Inr (Some s')), h1)" "State_Id s' = S_Completed" by auto
  have roles: "e_ListRoleClaims (e_k8s sample_env) h' ns = Inr []" for h' ns by (simp add: sample_defs)
  have rec: "GetReplicatorState (s_MigrationState (dc_Status ?c)) (config_of s) = Inr s"
    using recorded_String [of ?c s] s(2)
    by (simp add: recorded_def set_migration_state_def claim_upds State_String_def)
  have "\<exists>h'. migration_loop 16 sample_env sample_config_r [] sample_ci s ?c h = (Ret (Some (Break ?c)), h')"
    by (simp add: numeral_eq_Suc run_bnd run_ret ex turn_def copy_role_claims_def attempt_err_def k8s_calls run_call roles)
  then obtain h' where run: "migration_loop 16 sample_env sample_config_r [] sample_ci s ?c h = (Ret (Some (Break ?c)), h')"
    by blast
  from migration_loop_refines [OF s(1) rec run] obtain es rows h0 later where
    "h' = later @ es @ Sql (EvQueryCounts (cfg_SourceDBUserDsn sample_config) Q_SourceTableCounts (Inr (rows, None))) # h0"
    by blast
  then have "Sql (EvQueryCounts (cfg_SourceDBUserDsn sample_config) Q_SourceTableCounts (Inr (rows, None))) \<in> set h'" by simp
  with s(1) run show ?thesis by blast
qed

end
