(* ===== verification/Databaseclaim.thy ===== *)
theory Databaseclaim
  imports Migration
begin

text \<open>
  The reconciler of claims (\<^verbatim>\<open>pkg/databaseclaim/databaseclaim.go\<close>): \<^verbatim>\<open>Reconcile\<close> with its finalizer,
  and \<^verbatim>\<open>executeDbClaimRequest\<close>, which picks the work by the operation mode.
\<close>

section \<open>Whose claim it is\<close>

definition isClassPermitted :: "string \<Rightarrow> string option \<Rightarrow> bool" where
  "isClassPermitted ctrlClass ptrClaimClass =
     (let claimClass = (case ptrClaimClass of None \<Rightarrow> ''default'' | Some s \<Rightarrow> s) in claimClass = ctrlClass)"

definition validateDBClaim :: "DatabaseClaim \<Rightarrow> DatabaseClaim \<times> goerror option" where
  "validateDBClaim c =
     (let c = (if spec_DSNName (dc_Spec c) = [] then upd_spec (\<lambda>s. s\<lparr>spec_DSNName := DSNKey\<rparr>) c else c) in
      (c, if spec_DSNName (dc_Spec c) \<noteq> DSNKey then Some (Sentinel ErrInvalidDSNName) else None))"

section \<open>The work of a mode\<close>

definition use_existing :: "env \<Rightarrow> DatabaseClaimReconciler \<Rightarrow> requestInfo \<Rightarrow> DatabaseClaim \<Rightarrow> answer go_prog" where
  "use_existing E r reqInfo c =
     bnd (reconcileUseExistingDB E r reqInfo c M_UseExistingDB) (\<lambda>(c, reqInfo, er). case er of
       Some e \<Rightarrow> SetError E c e
     | None \<Rightarrow>
         let c = upd_new (\<lambda>_. empty_Status) (upd_active (\<lambda>_. dc_NewDB c) c) in
         if st_ConnectionInfo (dc_ActiveDB c) = None then SetError E c (ErrMsg ''invalid new db connection'')
         else SuccessAndUpdateCondition E (rec_statusManager r) c)"

text \<open>Whether the active connection is not that of the existing database; the comparison of host and
  port is the source's.\<close>

definition not_reconciled :: "ConnInfo \<Rightarrow> ConnInfo \<Rightarrow> bool" where
  "not_reconciled activeConn existingDbConn \<longleftrightarrow>
     ci_DatabaseName activeConn \<noteq> ci_DatabaseName existingDbConn \<or>
     ci_Host activeConn \<noteq> ci_Host existingDbConn \<and> ci_Port activeConn \<noteq> ci_Port existingDbConn"

definition migrate_existing :: "env \<Rightarrow> DatabaseClaimReconciler \<Rightarrow> requestInfo \<Rightarrow> DatabaseClaim \<Rightarrow> answer go_prog" where
  "migrate_existing E r reqInfo c = (case spec_SourceDataFrom (dc_Spec c) of None \<Rightarrow> panic | Some sdf \<Rightarrow>
     case sdf_Database sdf of None \<Rightarrow> panic | Some db \<Rightarrow>
     case ParseUri (db_DSN db) of Inl e \<Rightarrow> SetError E c e | Inr existingDbConn \<Rightarrow>
     case st_ConnectionInfo (dc_ActiveDB c) of None \<Rightarrow> panic | Some activeConn \<Rightarrow>
     if not_reconciled activeConn existingDbConn then
       bnd (reconcileUseExistingDB E r reqInfo c M_MigrateExistingToNewDB) (\<lambda>(c, reqInfo, er). case er of
         Some e \<Rightarrow> SetError E c e
       | None \<Rightarrow> reconcileMigrateToNewDB E r reqInfo
           (upd_new (\<lambda>_. fresh_Status) (upd_active (\<lambda>_. dc_NewDB c) c)) M_MigrateExistingToNewDB)
     else reconcileMigrateToNewDB E r reqInfo c M_MigrateExistingToNewDB)"

definition use_new :: "env \<Rightarrow> DatabaseClaimReconciler \<Rightarrow> requestInfo \<Rightarrow> DatabaseClaim \<Rightarrow> answer go_prog" where
  "use_new E r reqInfo c =
     bnd (reconcileNewDB E r reqInfo c M_UseNewDB) (\<lambda>(c, reqInfo, result, er). case er of
       Some e \<Rightarrow> SetError E c e
     | None \<Rightarrow>
         if RequeueAfter result > 0 then ret (c, result, None) else
         bnd (publish_password E r c reqInfo) (\<lambda>er. case er of
           Some e \<Rightarrow> SetError E c e
         | None \<Rightarrow>
             let state = (if ri_SharedDBHost reqInfo then UsingSharedHost else Ready) in
             ActiveDBSuccessReconcile E (rec_statusManager r)
               (upd_new (\<lambda>_. empty_Status) (upd_active (\<lambda>_. (dc_NewDB c)\<lparr>st_DbState := state\<rparr>) c))))"

definition executeDbClaimRequest ::
  "env \<Rightarrow> DatabaseClaimReconciler \<Rightarrow> requestInfo \<Rightarrow> DatabaseClaim \<Rightarrow> answer go_prog" where
  "executeDbClaimRequest E r reqInfo c0 =
     (case getMode reqInfo c0 of (operationMode, c) \<Rightarrow>
      if operationMode = M_NotSupported then SetError E c (ErrMsg ''unsupported operation requested'') else
      bnd (UpdateStatus E c) (\<lambda>(c, er). case er of Some e \<Rightarrow> SetError E c e | None \<Rightarrow>
      (case operationMode of
         M_PostMigrationInProgress \<Rightarrow>
           bnd (postMigrationInProgress E (cfg_Viper r) c) (\<lambda>(c, result, er). case er of
             Some e \<Rightarrow> bnd (SetError E c e) (\<lambda>(c, _, _). ret (c, result, Some e))
           | None \<Rightarrow> ret (c, result, None))
       | M_UseExistingDB \<Rightarrow> use_existing E r reqInfo c
       | M_MigrateExistingToNewDB \<Rightarrow> migrate_existing E r reqInfo c
       | M_InitiateDBUpgrade \<Rightarrow> reconcileMigrateToNewDB E r reqInfo c M_InitiateDBUpgrade
       | M_MigrationInProgress \<Rightarrow> reconcileMigrationInProgress E r reqInfo c M_MigrationInProgress
       | M_UpgradeDBInProgress \<Rightarrow> reconcileMigrationInProgress E r reqInfo c M_UpgradeDBInProgress
       | M_UseNewDB \<Rightarrow> use_new E r reqInfo c
       | M_NotSupported \<Rightarrow> SetError E c (ErrMsg ''unhandled mode''))))"

section \<open>Reconcile\<close>

abbreviation dbFinalizerName :: string where
  "dbFinalizerName \<equiv> ''databaseclaims.persistance.atlas.infoblox.com/finalizer''"

definition ContainsFinalizer :: "DatabaseClaim \<Rightarrow> string \<Rightarrow> bool" where
  "ContainsFinalizer c f = (f \<in> set (m_Finalizers (dc_Meta c)))"

definition AddFinalizer :: "string \<Rightarrow> DatabaseClaim \<Rightarrow> DatabaseClaim" where
  "AddFinalizer f c = (if ContainsFinalizer c f then c else upd_meta (\<lambda>m. m\<lparr>m_Finalizers := m_Finalizers m @ [f]\<rparr>) c)"

definition RemoveFinalizer :: "string \<Rightarrow> DatabaseClaim \<Rightarrow> DatabaseClaim" where
  "RemoveFinalizer f = upd_meta (\<lambda>m. m\<lparr>m_Finalizers := filter (\<lambda>g. g \<noteq> f) (m_Finalizers m)\<rparr>)"

definition createMetricsDeployment :: "env \<Rightarrow> DatabaseClaim \<Rightarrow> goerror option go_prog" where
  "createMetricsDeployment E c = applyMetrics E (dc_Namespace c) (dc_Name c)"

type_synonym reconciled = "Result \<times> goerror option"

definition deleteExternalResources :: "env \<Rightarrow> viper \<Rightarrow> requestInfo \<Rightarrow> DatabaseClaim \<Rightarrow> goerror option go_prog" where
  "deleteExternalResources E v reqInfo c =
     (if GetCloud v = ''aws'' then deleteExternalResourcesAWS E v reqInfo c
      else deleteExternalResourcesGCP E v reqInfo c)"

definition answered :: "answer go_prog \<Rightarrow> reconciled go_prog" where
  "answered m = bnd m (\<lambda>(_, res, er). ret (res, er))"

text \<open>The branch of a claim that is being deleted and still has the finalizer.\<close>

definition finalize :: "env \<Rightarrow> DatabaseClaimReconciler \<Rightarrow> requestInfo \<Rightarrow> DatabaseClaim \<Rightarrow> reconciled go_prog" where
  "finalize E r reqInfo c =
     bnd (SetConditionAndUpdateStatus E c DeletingCondition) (\<lambda>(c, er). case er of
       Some e \<Rightarrow> ret (empty_Result, Some e)
     | None \<Rightarrow>
         let st = s_MigrationState (dc_Status c) in
         if st \<noteq> [] \<and> st \<noteq> StateEnum_String S_Completed then
           bnd (updateClaimStatus E
                 (upd_status (\<lambda>s. s\<lparr>s_Error := ''dbc cannot be deleted while migration is in progress''\<rparr>) c))
             (\<lambda>(c, _). answered (executeDbClaimRequest E r reqInfo c))
         else
           bnd (deleteExternalResources E (cfg_Viper r) reqInfo c) (\<lambda>er. case er of
             Some e \<Rightarrow> ret (empty_Result, Some e)
           | None \<Rightarrow> bnd (updateClaim E (RemoveFinalizer dbFinalizerName c)) (\<lambda>(_, er). ret (empty_Result, er))))"

definition ensure_finalizer :: "env \<Rightarrow> DatabaseClaim \<Rightarrow> (DatabaseClaim \<times> goerror option) go_prog" where
  "ensure_finalizer E c =
     (if ContainsFinalizer c dbFinalizerName then ret (c, None) else updateClaim E (AddFinalizer dbFinalizerName c))"

definition init_connections :: "DatabaseClaim \<Rightarrow> DatabaseClaim" where
  "init_connections c =
     (let fill = (\<lambda>st. if st_ConnectionInfo st = None then st\<lparr>st_ConnectionInfo := Some empty_ConnInfo\<rparr> else st)
      in upd_new fill (upd_active fill c))"

definition default_class :: "DatabaseClaim \<Rightarrow> DatabaseClaim" where
  "default_class = upd_spec (\<lambda>s. if spec_Class s = None then s\<lparr>spec_Class := Some ''default''\<rparr> else s)"

text \<open>What \<^verbatim>\<open>Reconcile\<close> does with a claim it has found.\<close>

definition reconcile_claim ::
  "(string \<Rightarrow> string) \<Rightarrow> env \<Rightarrow> DatabaseClaimReconciler \<Rightarrow> DatabaseClaim \<Rightarrow> reconciled go_prog" where
  "reconcile_claim title E r c0 =
     (if \<not> isClassPermitted (cfg_Class r) (spec_Class (dc_Spec c0)) then ret (empty_Result, None) else
     let c = init_connections (default_class (fst (validateDBClaim c0))) in
     bnd (of_go (NewRequestInfo title (cfg_Viper r) c)) (\<lambda>ri. case ri of
       Inl e \<Rightarrow> answered (SetError E c e)
     | Inr reqInfo \<Rightarrow>
     if m_DeletionTimestamp (dc_Meta c) \<noteq> None then
       (if ContainsFinalizer c dbFinalizerName then finalize E r reqInfo c else ret (empty_Result, None))
     else
       bnd (ensure_finalizer E c) (\<lambda>(c, er). case er of Some e \<Rightarrow> ret (empty_Result, Some e) | None \<Rightarrow>
       bnd (if cfg_MetricsEnabled r then createMetricsDeployment E c else ret None) (\<lambda>er. case er of
         Some e \<Rightarrow> ret (empty_Result, Some e)
       | None \<Rightarrow> answered (executeDbClaimRequest E r reqInfo c)))))"

definition Reconcile ::
  "(string \<Rightarrow> string) \<Rightarrow> env \<Rightarrow> DatabaseClaimReconciler \<Rightarrow> string \<Rightarrow> string \<Rightarrow> reconciled go_prog" where
  "Reconcile title E r ns n = bnd (getClaim E ns n) (\<lambda>rg. case rg of
     Inl e \<Rightarrow> if IsNotFound e then ret (empty_Result, None) else ret (empty_Result, Some e)
   | Inr c0 \<Rightarrow> reconcile_claim title E r c0)"

section \<open>What a reconciliation may call\<close>

text \<open>A predicate on calls is ordinary when it holds of everything but updates of whole claims and
  deletions in the cloud.\<close>

definition ordinary :: "(event \<Rightarrow> bool) \<Rightarrow> bool" where
  "ordinary P \<longleftrightarrow> clerical P \<and> quiet P \<and> (\<forall>a. aws_delete a = None \<longrightarrow> P (Aws a)) \<and> (\<forall>g. gcp_delete g = None \<longrightarrow> P (Gcp g))"

lemma ordinaryD:
  assumes "ordinary P"
  shows "clerical P" and "quiet P" and "P (K8s (EvGetSecret ns n r))"
    and "aws_delete a = None \<Longrightarrow> P (Aws a)" and "gcp_delete g = None \<Longrightarrow> P (Gcp g)"
  using assms by (simp_all add: ordinary_def clerical_def)

lemma emits_manage_cloud_host:
  assumes "ordinary P" and "manage_cloud_host E r ri c m = Some prog"
  shows "emits P prog"
proof -
  note P = ordinaryD [OF assms(1)]
  have "P e" if "provisions host pg e" for e host pg
    using that P assms(1)
    by (cases e) (auto simp: ordinary_def clerical_def quiet_def split: k8s_event.splits)
  moreover have "P e" if "gcp_provisions host e" for e host
    using that P assms(1)
    by (cases e) (auto simp: ordinary_def clerical_def quiet_def split: k8s_event.splits)
  ultimately show ?thesis using assms(2)
    by (auto simp: manage_cloud_host_def Let_def split: if_splits
        intro: emits_mono [OF emits_manageCloudHostAWS] emits_mono [OF emits_manageCloudHostGCP])
qed

lemma emits_Execute: "quiet P \<Longrightarrow> emits P (Execute E s)"
  by (cases s)
    (auto simp: exec_defs pg_helpers Let_def
      intro!: trace_intros emits_quiet_calls read_sequences_emits compare_counts_emits split: exec_result.split)

lemma emits_credentials:
  assumes "ordinary P"
  shows "emits P (GetMasterCredsDeprecated E sns sn d ssl)" "emits P (GetSourceDataFromDSN E c)"
    "emits P (PopulateCreds E c sns)" "emits P (validateAndUpdateCredsDSN E a u)"
  unfolding GetSourceDataFromDSN_def
  using ordinaryD [OF assms]
  by (auto intro!: emits_GetMasterCreds emits_fetchAdmin emits_PopulateCreds emits_validateAndUpdateCredsDSN)

lemmas emits_parts = emits_credentials emits_status [OF ordinaryD(1)] emits_secrets [OF ordinaryD(1)]
  emits_dbclient [OF ordinaryD(2)] emits_quiet_calls [OF ordinaryD(2)] emits_clerical_calls [OF ordinaryD(1)]
  emits_manageUser [OF ordinaryD(2)] emits_copy_role_claims [OF ordinaryD(1)] emits_turn [OF ordinaryD(1)]

lemma emits_prod_app [trace_intros]:
  "(\<And>a b. emits P (f a b y)) \<Longrightarrow> emits P ((case x of (a, b) \<Rightarrow> f a b) y)"
  by (simp add: case_prod_unfold)

lemma emits_loop_end [trace_intros]:
  "(\<And>c. emits P (f c)) \<Longrightarrow> (\<And>a. emits P (g a)) \<Longrightarrow> emits P (case le of Break c \<Rightarrow> f c | Return a \<Rightarrow> g a)"
  by (cases le) simp_all

lemma emits_databases:
  assumes "ordinary P"
  shows "emits P (getClientForExistingDB E st ci)" "emits P (createDatabaseAndExtensions E pc c m)"
    "emits P (manage_claim_users E v pc d m c ri)" "emits P (publish_password E r c ri)"
    "emits P (updated_recently E v st)" "emits P (set_error E c ri e)"
  unfolding getClientForExistingDB_def createDatabaseAndExtensions_def record_database_def manage_claim_users_def
    publish_password_def updated_recently_def Since_def set_error_def Let_def
  by (intro trace_intros emits_parts assms)+

lemma emits_reconcileNewDB:
  assumes "ordinary P"
  shows "emits P (reconcileNewDB E r ri c m)"
proof -
  have "emits P (case manage_cloud_host E r ri c' m of None \<Rightarrow> k | Some prog \<Rightarrow> bnd prog f)"
    if "emits P k" "\<And>x. emits P (f x)" for c' k f
    using that emits_manage_cloud_host [OF assms]
    by (auto split: option.split intro: emits_bnd)
  note host = this
  show ?thesis unfolding reconcileNewDB_def setup_database_def Let_def
    by (rule emits_bnd, rule emits_status, rule ordinaryD(1) [OF assms], rule emits_prod, rule emits_option, rule host)
      (intro trace_intros emits_parts emits_databases assms)+
qed

lemma emits_reconcileUseExistingDB: "ordinary P \<Longrightarrow> emits P (reconcileUseExistingDB E r ri c m)"
  unfolding reconcileUseExistingDB_def Let_def by (intro trace_intros emits_parts emits_databases)

lemma emits_migration_loop: "ordinary P \<Longrightarrow> emits P (migration_loop n E r src tgt s c)"
proof (induction n arbitrary: s c)
  case (Suc n)
  note emits_Execute [OF ordinaryD(2) [OF Suc.prems]]
  with Suc show ?case unfolding migration_loop.simps by (intro trace_intros emits_parts) simp_all
qed (simp add: emits_ret)

lemma emits_migrations:
  assumes "ordinary P"
  shows "emits P (reconcileMigrateToNewDB E r ri c m)" "emits P (reconcileMigrationInProgress E r ri c m)"
proof -
  show "emits P (reconcileMigrateToNewDB E r ri c m)"
    unfolding reconcileMigrateToNewDB_def save_credentials_def
    by (intro trace_intros emits_parts emits_reconcileNewDB assms)
  have prep: "emits P (prepare_migration E r c m mi ni)" for mi ni
    unfolding prepare_migration_def target_app_conn_def source_app_dsn_def source_master_def Let_def
    by (intro trace_intros emits_parts assms)
  have fin: "emits P (finish_migration E v c)" for v c
    unfolding finish_migration_def Let_def by (intro trace_intros emits_parts assms)
  show "emits P (reconcileMigrationInProgress E r ri c m)"
    unfolding reconcileMigrationInProgress_def
    by (intro trace_intros emits_parts emits_migration_loop prep fin assms)
qed

text \<open>What decides about deletions is not touched before the request is executed.\<close>

definition frame :: "DatabaseClaim \<Rightarrow> DatabaseClaim \<Rightarrow> bool" where
  "frame c c' \<longleftrightarrow> dc_OldDB c' = dc_OldDB c \<and> st_DbState (dc_ActiveDB c') = st_DbState (dc_ActiveDB c) \<and>
     migration_state c' = migration_state c \<and> dc_Name c' = dc_Name c"

lemma frame_written: "frame c d \<Longrightarrow> frame c (fst (written d r))"
  by (auto simp: frame_def written_def claim_upds split: sum.split)

lemma frame_error: "frame c d \<Longrightarrow> frame c (upd_status (\<lambda>s. s\<lparr>s_Error := e\<rparr>) d)"
  by (simp add: frame_def claim_upds)

lemma returns_frame:
  "frame c d \<Longrightarrow> returns (\<lambda>a. frame c (fst a)) (updateClaimStatus E d)"
  "frame c d \<Longrightarrow> returns (\<lambda>a. frame c (fst a)) (updateClaim E d)"
  "frame c d \<Longrightarrow> returns (\<lambda>a. frame c (fst a)) (SetConditionAndUpdateStatus E d cond)"
proof -
  show upd: "returns (\<lambda>a. frame c (fst a)) (updateClaimStatus E d)" if "frame c d" for d
    unfolding updateClaimStatus_def by (intro returns_bnd returns_ret frame_written that)
  show "returns (\<lambda>a. frame c (fst a)) (updateClaim E d)" if "frame c d"
    unfolding updateClaim_def by (intro returns_bnd returns_ret frame_written that)
  have "returns (\<lambda>x. frame c x) (SetStatusCondition E d cond)" if "frame c d"
    unfolding SetStatusCondition_def Let_def
    by (intro returns_bnd returns_ret) (use that in \<open>simp add: frame_def claim_upds\<close>)
  then show "returns (\<lambda>a. frame c (fst a)) (SetConditionAndUpdateStatus E d cond)" if "frame c d"
    unfolding SetConditionAndUpdateStatus_def UpdateStatus_def using that by (intro returns_bnd_of upd)
qed

abbreviation prepared :: "DatabaseClaim \<Rightarrow> DatabaseClaim" where
  "prepared c \<equiv> init_connections (default_class (fst (validateDBClaim c)))"

lemma frame_prepared: "frame c (init_connections (default_class (fst (validateDBClaim c))))"
  by (simp add: frame_def init_connections_def default_class_def validateDBClaim_def claim_upds Let_def)

lemma frame_prepared_meta:
  "dc_Meta (init_connections (default_class (fst (validateDBClaim c)))) = dc_Meta c"
  by (simp add: init_connections_def default_class_def validateDBClaim_def claim_upds Let_def)

subsection \<open>What a deletion names\<close>

text \<open>A \<^verbatim>\<open>Get\<close> of the API server answers the object of the name that was asked for.\<close>

definition answers_named :: "env \<Rightarrow> bool" where
  "answers_named E \<longleftrightarrow>
     (\<forall>h n d. e_GetInstance (e_aws E) h n = Inr d \<longrightarrow> cr_Name (ins_Meta d) = n) \<and>
     (\<forall>h n d. e_GetCluster (e_aws E) h n = Inr d \<longrightarrow> cr_Name (clu_Meta d) = n) \<and>
     (\<forall>h n g. e_GetParamGroup (e_aws E) h n = Inr g \<longrightarrow> cr_Name (pg_Meta g) = n) \<and>
     (\<forall>h n g. e_GetClusterParamGroup (e_aws E) h n = Inr g \<longrightarrow> cr_Name (pg_Meta g) = n) \<and>
     (\<forall>h n d. e_GetGcpInstance (e_gcp E) h n = Inr d \<longrightarrow> cr_Name (gi_Meta d) = n) \<and>
     (\<forall>h n d. e_GetGcpCluster (e_gcp E) h n = Inr d \<longrightarrow> cr_Name (gc_Meta d) = n)"

lemma returns_named:
  assumes "answers_named E"
  shows "returns (\<lambda>r. \<forall>d. r = Inr d \<longrightarrow> cr_Name (ins_Meta d) = n) (getInstance E n)"
    "returns (\<lambda>r. \<forall>d. r = Inr d \<longrightarrow> cr_Name (clu_Meta d) = n) (getCluster E n)"
    "returns (\<lambda>r. \<forall>g. r = Inr g \<longrightarrow> cr_Name (pg_Meta g) = n) (getParamGroup E n)"
    "returns (\<lambda>r. \<forall>g. r = Inr g \<longrightarrow> cr_Name (pg_Meta g) = n) (getClusterParamGroup E n)"
    "returns (\<lambda>r. \<forall>d. r = Inr d \<longrightarrow> cr_Name (gi_Meta d) = n) (getGcpInstance E n)"
    "returns (\<lambda>r. \<forall>d. r = Inr d \<longrightarrow> cr_Name (gc_Meta d) = n) (getGcpCluster E n)"
  using assms by (simp_all add: answers_named_def returns_def aws_calls gcp_calls prog_simps)

text \<open>A predicate on calls permits the deletion of resources when it holds of the ordinary calls and of
  their deletions.\<close>

definition permits :: "string set \<Rightarrow> (event \<Rightarrow> bool) \<Rightarrow> bool" where
  "permits N P \<longleftrightarrow> ordinary P \<and> (\<forall>a n r. aws_delete a = Some (n, r) \<longrightarrow> n \<in> N \<longrightarrow> P (Aws a)) \<and>
     (\<forall>g n r. gcp_delete g = Some (n, r) \<longrightarrow> n \<in> N \<longrightarrow> P (Gcp g))"

lemma permitsD:
  assumes "permits N P"
  shows "ordinary P" and "aws_delete a = None \<Longrightarrow> P (Aws a)" and "gcp_delete g = None \<Longrightarrow> P (Gcp g)"
    and "aws_delete a = Some (n, r) \<Longrightarrow> n \<in> N \<Longrightarrow> P (Aws a)" and "gcp_delete g = Some (n, r) \<Longrightarrow> n \<in> N \<Longrightarrow> P (Gcp g)"
  using assms by (auto simp: permits_def ordinary_def)

lemma emits_cloud_gets:
  assumes "ordinary P"
  shows "emits P (getInstance E n)" "emits P (getCluster E n)" "emits P (getParamGroup E n)"
    "emits P (getClusterParamGroup E n)" "emits P (getGcpInstance E n)" "emits P (getGcpCluster E n)"
  unfolding aws_calls gcp_calls using ordinaryD [OF assms] by (auto intro!: emits_call)

lemma emits_cloud_deletes:
  assumes "permits N P" and "n \<in> N"
  shows "emits P (deleteInstance E n)" "emits P (deleteCluster E n)" "emits P (deleteParamGroup E n)"
    "emits P (deleteClusterParamGroup E n)" "emits P (deleteGcpInstance E n)" "emits P (deleteGcpCluster E n)"
  unfolding aws_calls gcp_calls using permitsD(4,5) [OF assms(1) _ assms(2)] by (auto intro!: emits_call)

lemma emits_delete_named:
  assumes E: "answers_named E" and P: "permits N P" and n: "n \<in> N"
  shows "emits P (delete_instance E n)" "emits P (delete_cluster E n)" "emits P (deleteParameterGroupAWS E n)"
    "emits P (delete_gcp_instance E n)"
    "emits P (bnd (getGcpCluster E n) (\<lambda>r. case r of
       Inl e \<Rightarrow> ret (if IsNotFound e then None else Some e)
     | Inr d \<Rightarrow> if cr_DeletionTimestamp (gc_Meta d) = None then deleteGcpCluster E (cr_Name (gc_Meta d)) else ret None))"
  unfolding delete_instance_def delete_cluster_def deleteParameterGroupAWS_def delete_gcp_instance_def
  using emits_cloud_deletes [OF P n]
  by (auto intro!: emits_check emits_ret emits_bnd_of [OF emits_cloud_gets(1) [OF permitsD(1) [OF P]] returns_named(1) [OF E]]
      emits_bnd_of [OF emits_cloud_gets(2) [OF permitsD(1) [OF P]] returns_named(2) [OF E]]
      emits_bnd_of [OF emits_cloud_gets(3) [OF permitsD(1) [OF P]] returns_named(3) [OF E]]
      emits_bnd_of [OF emits_cloud_gets(4) [OF permitsD(1) [OF P]] returns_named(4) [OF E]]
      emits_bnd_of [OF emits_cloud_gets(5) [OF permitsD(1) [OF P]] returns_named(5) [OF E]]
      emits_bnd_of [OF emits_cloud_gets(6) [OF permitsD(1) [OF P]] returns_named(6) [OF E]] split: sum.split)

lemma emits_delete_database:
  assumes "answers_named E" and "permits N P" and "n \<in> N" and "n @ ''-2'' \<in> N"
  shows "emits P (deleteCloudDatabaseAWS E v n)" "emits P (deleteCloudDatabaseGCP E v n)"
  unfolding deleteCloudDatabaseAWS_def deleteCloudDatabaseGCP_def
  by (intro emits_check emits_if emits_ret emits_delete_named [OF assms(1,2)] assms(3,4))+

text \<open>The names of the resources of a claim: its host, the second instance of it and its parameter
  group; and those of the old database that its status records.\<close>

definition own_names :: "viper \<Rightarrow> requestInfo \<Rightarrow> DatabaseClaim \<Rightarrow> string set" where
  "own_names v ri c = (let host = getDynamicHostName v (Hash (ri_HostParams ri)) c
     in {host, host @ ''-2'', getParameterGroupName v (ri_HostParams ri) c (ri_DbType ri)})"

definition old_names :: "StatusForOldDB \<Rightarrow> string set" where
  "old_names old = (case old_ConnectionInfo old of None \<Rightarrow> {} | Some ci \<Rightarrow>
     (let host = Split (ci_Host ci) (CHR ''.'') ! 0 in {host, host @ ''-2'', old_param_group old host}))"

lemma own_names_frame: "dc_Name d = dc_Name c \<Longrightarrow> own_names v ri d = own_names v ri c"
  by (simp add: own_names_def getDynamicHostName_def getParameterGroupName_def Let_def)

lemma emits_deleteExternalResources:
  assumes "answers_named E" and "permits (own_names v ri c) P"
  shows "emits P (deleteExternalResources E v ri c)"
  unfolding deleteExternalResources_def deleteExternalResourcesAWS_def deleteExternalResourcesGCP_def
  by (intro emits_if emits_check emits_ret emits_delete_database [OF assms] emits_delete_named [OF assms])
    (simp_all add: own_names_def Let_def)

lemma emits_tagging:
  assumes "ordinary P"
  shows "emits P (manageOperationalTagging E v n g b)"
  unfolding aws_tag_defs aws_calls
  by (intro trace_intros) (simp_all add: ordinaryD [OF assms])

lemma emits_postMigration:
  assumes E: "answers_named E" and P: "permits (old_names (dc_OldDB c)) P"
  shows "emits P (postMigrationInProgress E v c)"
proof (cases "old_ConnectionInfo (dc_OldDB c)")
  case (Some ci)
  let ?host = "Split (ci_Host ci) (CHR ''.'') ! 0"
  from Some have n: "?host \<in> old_names (dc_OldDB c)" "?host @ ''-2'' \<in> old_names (dc_OldDB c)"
    "old_param_group (dc_OldDB c) ?host \<in> old_names (dc_OldDB c)" by (simp_all add: old_names_def Let_def)
  show ?thesis
    unfolding postMigrationInProgress_def waited_enough_def Since_def Let_def Some option.case
    by (auto intro!: trace_intros emits_parts emits_tagging emits_delete_database [OF E P] emits_delete_named [OF E P]
        n permitsD(1) [OF P] split: sum.split bool.split option.split)
qed (simp add: postMigrationInProgress_def emits_panic)

definition post_migration :: "DatabaseClaim \<Rightarrow> bool" where
  "post_migration c \<longleftrightarrow> old_DbState (dc_OldDB c) = PostMigrationInProgress \<and> st_DbState (dc_ActiveDB c) = Ready"

lemma getMode_post: "getMode ri c = (M_PostMigrationInProgress, c') \<Longrightarrow> post_migration c"
  by (auto simp: getMode_defs post_migration_def split: if_splits option.splits)

lemma emits_execute:
  assumes P: "ordinary P" and c: "post_migration c \<Longrightarrow> answers_named E \<and> permits (old_names (dc_OldDB c)) P"
  shows "emits P (executeDbClaimRequest E r ri c)"
proof -
  obtain m c1 where m: "getMode ri c = (m, c1)" by fastforce
  show ?thesis
  proof (cases "m = M_PostMigrationInProgress")
    case True
    with m getMode_post c have E: "answers_named E" and D: "permits (old_names (dc_OldDB c)) P" by blast+
    have old: "returns (\<lambda>a. dc_OldDB (fst a) = dc_OldDB c) (UpdateStatus E c1)"
      unfolding UpdateStatus_def updateClaimStatus_def written_def
      by (auto intro!: returns_bnd returns_ret simp: getMode_frame(3) [OF m] claim_upds split: sum.split)
    have post: "emits P (postMigrationInProgress E v d)" if "dc_OldDB d = dc_OldDB c" for v d
      using emits_postMigration [OF E] D that by simp
    show ?thesis unfolding executeDbClaimRequest_def m prod.case True
      by (auto intro!: emits_bnd_of [OF emits_status(1) [OF ordinaryD(1) [OF P]] old] trace_intros emits_parts post P
          split: option.split)
  next
    case False
    then show ?thesis
      unfolding executeDbClaimRequest_def m use_existing_def migrate_existing_def use_new_def Let_def
      by (cases m)
        (auto intro!: trace_intros emits_parts emits_databases emits_migrations emits_reconcileNewDB
          emits_reconcileUseExistingDB P)
  qed
qed

section \<open>Properties\<close>

subsection \<open>Deletions\<close>

text \<open>The name of the resource whose deletion a call asks for.\<close>

primrec deleted_name :: "event \<Rightarrow> string option" where
  "deleted_name (Aws a) = map_option fst (aws_delete a)"
| "deleted_name (Gcp g) = map_option fst (gcp_delete g)"
| "deleted_name (K8s e) = None"
| "deleted_name (Sys e) = None"
| "deleted_name (Sql e) = None"

text \<open>When a claim may lose resources: it is being deleted with no migration under way and the
  configuration reclaims databases, or its old database is retired after a migration.\<close>

definition deletable :: "viper \<Rightarrow> DatabaseClaim \<Rightarrow> bool" where
  "deletable v c \<longleftrightarrow> m_DeletionTimestamp (dc_Meta c) \<noteq> None \<and> dbFinalizerName \<in> set (m_Finalizers (dc_Meta c)) \<and>
     migration_state c \<in> {[], ''completed''} \<and> GetDefaultReclaimPolicy v = ''delete''"

lemma frame_post: "frame c c' \<Longrightarrow> post_migration c' = post_migration c" "frame c c' \<Longrightarrow> dc_OldDB c' = dc_OldDB c"
  by (simp_all add: frame_def post_migration_def)

lemma emits_updateClaim: "(\<And>r. P (K8s (EvUpdateClaim c r))) \<Longrightarrow> emits P (updateClaim E c)"
  unfolding updateClaim_def by (intro trace_intros) simp

lemma emits_finalize:
  assumes P: "ordinary P" "\<And>c r. P (K8s (EvUpdateClaim c r))"
    and c: "post_migration c \<Longrightarrow> answers_named E \<and> permits (old_names (dc_OldDB c)) P"
      "migration_state c \<in> {[], ''completed''} \<Longrightarrow> GetDefaultReclaimPolicy (cfg_Viper r) = ''delete'' \<Longrightarrow>
         answers_named E \<and> permits (own_names (cfg_Viper r) ri c) P"
  shows "emits P (finalize E r ri c)"
  unfolding finalize_def
proof (rule emits_bnd_of [OF emits_status(2) [OF ordinaryD(1) [OF P(1)]] returns_frame(3)])
  show "frame c c" by (simp add: frame_def)
  fix x :: "DatabaseClaim \<times> goerror option"
  assume x: "frame c (fst x)"
  have exec: "emits P (executeDbClaimRequest E r ri d)" if "frame c d" for d
    by (rule emits_execute [OF P(1)]) (use c(1) frame_post [OF that] in simp)
  have del: "emits P (deleteExternalResources E (cfg_Viper r) ri d)"
    if "migration_state c \<in> {[], ''completed''}" "frame c d" for d
  proof (cases "GetDefaultReclaimPolicy (cfg_Viper r) = ''delete''")
    case True
    with c(2) [OF that(1)] have "answers_named E" "permits (own_names (cfg_Viper r) ri d) P"
      using own_names_frame [of d c] that(2) by (simp_all add: frame_def)
    then show ?thesis by (rule emits_deleteExternalResources)
  qed (simp add: deleteExternalResources_def deleteExternalResourcesAWS_def deleteExternalResourcesGCP_def emits_ret)
  show "emits P (case x of (c, er) \<Rightarrow> case er of Some e \<Rightarrow> ret (empty_Result, Some e) | None \<Rightarrow>
         let st = migration_state c in
         if st \<noteq> [] \<and> st \<noteq> StateEnum_String S_Completed then
           bnd (updateClaimStatus E
                 (upd_status (\<lambda>s. s\<lparr>s_Error := ''dbc cannot be deleted while migration is in progress''\<rparr>) c))
             (\<lambda>(c, _). answered (executeDbClaimRequest E r ri c))
         else
           bnd (deleteExternalResources E (cfg_Viper r) ri c) (\<lambda>er. case er of
             Some e \<Rightarrow> ret (empty_Result, Some e)
           | None \<Rightarrow> bnd (updateClaim E (RemoveFinalizer dbFinalizerName c)) (\<lambda>(_, er). ret (empty_Result, er))))"
  proof (cases x)
    case (Pair d er)
    have in_progress: "emits P (bnd (updateClaimStatus E
        (upd_status (\<lambda>s. s\<lparr>s_Error := ''dbc cannot be deleted while migration is in progress''\<rparr>) d))
        (\<lambda>(c, _). answered (executeDbClaimRequest E r ri c)))"
      using x Pair
      by (intro emits_bnd_of [OF emits_clerical_calls(4) [OF ordinaryD(1) [OF P(1)]] returns_frame(1) [OF frame_error]])
        (auto simp: answered_def intro!: trace_intros exec)
    show ?thesis
    proof (cases "migration_state c \<in> {[], ''completed''}")
      case True
      with x Pair del [OF True, of d] show ?thesis
        by (cases er) (auto simp: frame_def intro!: emits_bnd emits_prod emits_ret emits_option emits_updateClaim P)
    next
      case False
      with x Pair in_progress show ?thesis by (cases er) (auto simp: frame_def emits_ret)
    qed
  qed
qed

lemma emits_reconcile_claim:
  assumes P: "ordinary P" "\<And>c r. P (K8s (EvUpdateClaim c r))"
    and c: "post_migration c0 \<Longrightarrow> answers_named E \<and> permits (old_names (dc_OldDB c0)) P"
      "\<And>ri. deletable (cfg_Viper r) c0 \<Longrightarrow> NewRequestInfo title (cfg_Viper r) (prepared c0) = Ret (Inr ri) \<Longrightarrow>
         answers_named E \<and> permits (own_names (cfg_Viper r) ri c0) P"
  shows "emits P (reconcile_claim title E r c0)"
proof -
  let ?c = "prepared c0"
  note fr = frame_prepared [of c0] frame_prepared_meta [of c0]
  have post: "post_migration ?c \<Longrightarrow> answers_named E \<and> permits (old_names (dc_OldDB ?c)) P"
    using frame_post [OF fr(1)] c(1) by simp
  have fin: "emits P (finalize E r ri ?c)"
    if del: "m_DeletionTimestamp (dc_Meta ?c) \<noteq> None" "ContainsFinalizer ?c dbFinalizerName"
      and ri: "NewRequestInfo title (cfg_Viper r) ?c = Ret (Inr ri)" for ri
  proof (rule emits_finalize [OF P post])
    assume "migration_state ?c \<in> {[], ''completed''}" "GetDefaultReclaimPolicy (cfg_Viper r) = ''delete''"
    with del fr have "deletable (cfg_Viper r) c0" by (simp add: deletable_def ContainsFinalizer_def frame_def)
    from c(2) [OF this ri] show "answers_named E \<and> permits (own_names (cfg_Viper r) ri ?c) P"
      using own_names_frame [of ?c c0] fr(1) by (simp add: frame_def)
  qed
  have ens: "emits P (bnd (ensure_finalizer E ?c) (\<lambda>(c, er). case er of Some e \<Rightarrow> ret (empty_Result, Some e) | None \<Rightarrow>
       bnd (if cfg_MetricsEnabled r then createMetricsDeployment E c else ret None) (\<lambda>er. case er of
         Some e \<Rightarrow> ret (empty_Result, Some e)
       | None \<Rightarrow> answered (executeDbClaimRequest E r ri c))))" for ri
  proof (rule emits_bnd_of [where Q = "\<lambda>a. frame c0 (fst a)"])
    show "emits P (ensure_finalizer E ?c)"
      unfolding ensure_finalizer_def by (intro trace_intros emits_updateClaim P)
    have "frame c0 (AddFinalizer f ?c)" for f
      using fr(1) by (simp add: frame_def AddFinalizer_def claim_upds)
    then show "returns (\<lambda>a. frame c0 (fst a)) (ensure_finalizer E ?c)"
      unfolding ensure_finalizer_def using fr(1) by (auto intro!: returns_ret returns_frame)
    fix x :: "DatabaseClaim \<times> goerror option"
    assume x: "frame c0 (fst x)"
    have "emits P (executeDbClaimRequest E r ri (fst x))"
      by (rule emits_execute [OF P(1)]) (use c(1) frame_post [OF x] in simp)
    then show "emits P (case x of (c, er) \<Rightarrow> case er of Some e \<Rightarrow> ret (empty_Result, Some e) | None \<Rightarrow>
       bnd (if cfg_MetricsEnabled r then createMetricsDeployment E c else ret None) (\<lambda>er. case er of
         Some e \<Rightarrow> ret (empty_Result, Some e)
       | None \<Rightarrow> answered (executeDbClaimRequest E r ri c)))"
      by (cases x) (auto simp: createMetricsDeployment_def answered_def intro!: trace_intros emits_parts P)
  qed
  have err: "emits P (answered (SetError E ?c e))" for e
    unfolding answered_def by (intro trace_intros emits_parts P)
  have req: "returns (\<lambda>x. NewRequestInfo title (cfg_Viper r) ?c = Ret x) (of_go (NewRequestInfo title (cfg_Viper r) ?c))"
    by (cases "NewRequestInfo title (cfg_Viper r) ?c") (auto simp: of_go_def intro: returns_ret returns_panic)
  show ?thesis unfolding reconcile_claim_def Let_def
    by (rule emits_if, rule emits_ret, rule emits_bnd_of [OF emits_of_go req])
      (use fin ens err in \<open>auto simp: emits_ret split: sum.split\<close>)
qed

lemma Reconcile_found:
  "e_GetClaim (e_k8s E) h ns n = Inr c \<Longrightarrow>
     Reconcile title E r ns n h = reconcile_claim title E r c (K8s (EvGetClaim ns n (Inr c)) # h)"
  by (simp add: Reconcile_def k8s_calls prog_simps)

text \<open>
  C1: no reconciliation deletes a database it should not. If reconciling a claim calls the deletion of
  a cloud resource, then the claim is one of this controller's class, and either it is being deleted,
  holds the finalizer, has no migration under way, the configuration reclaims databases, and the
  resource is the host that the claim resolves to, the second instance of that host or its parameter
  group; or a migration of the claim is finished, its active database is ready, and the resource is
  named after the host that the status records for the old database: that host, its second instance or
  its parameter group. The server is assumed to answer the objects it is asked for by name.
\<close>

theorem Reconcile_deletes_only:
  assumes "Reconcile title E r ns n h = (res, es @ h)" and "e_GetClaim (e_k8s E) h ns n = Inr c"
    and "e \<in> set es" and "deleted_name e = Some name" and "answers_named E"
  shows "isClassPermitted (cfg_Class r) (spec_Class (dc_Spec c)) \<and>
    (m_DeletionTimestamp (dc_Meta c) \<noteq> None \<and> dbFinalizerName \<in> set (m_Finalizers (dc_Meta c)) \<and>
       s_MigrationState (dc_Status c) \<in> {[], ''completed''} \<and> GetDefaultReclaimPolicy (cfg_Viper r) = ''delete'' \<and>
       (\<exists>ri. NewRequestInfo title (cfg_Viper r) (init_connections (default_class (fst (validateDBClaim c)))) = Ret (Inr ri) \<and>
         (let host = getDynamicHostName (cfg_Viper r) (Hash (ri_HostParams ri)) c
          in name \<in> {host, host @ ''-2'', getParameterGroupName (cfg_Viper r) (ri_HostParams ri) c (ri_DbType ri)})) \<or>
     old_DbState (dc_OldDB c) = PostMigrationInProgress \<and> st_DbState (dc_ActiveDB c) = Ready \<and>
       (\<exists>ci. old_ConnectionInfo (dc_OldDB c) = Some ci \<and>
         (let host = Split (ci_Host ci) (CHR ''.'') ! 0
          in name \<in> {host, host @ ''-2'', old_param_group (dc_OldDB c) host})))"
proof -
  let ?g = "K8s (EvGetClaim ns n (Inr c))" and ?P = "\<lambda>e. deleted_name e \<noteq> Some name"
  from assms(1) have run: "reconcile_claim title E r c (?g # h) = (res, es @ h)"
    by (simp add: Reconcile_found [OF assms(2)])
  have P: "ordinary ?P" "?P (K8s (EvUpdateClaim c' r'))" for c' r' by (auto simp: ordinary_def clerical_def quiet_def)
  have permits: "permits N ?P" if "name \<notin> N" for N using P(1) that by (auto simp: permits_def)
  have no: "\<not> emits ?P (reconcile_claim title E r c)"
  proof
    assume "emits ?P (reconcile_claim title E r c)"
    from emits_run [OF this run] obtain es' where "es @ h = es' @ ?g # h" "\<And>e. e \<in> set es' \<Longrightarrow> ?P e" by metis
    moreover from this(1) have "es = es' @ [?g]" by (metis append.assoc append_Cons append_Nil append_same_eq)
    ultimately show False using assms(3,4) by auto
  qed
  have "isClassPermitted (cfg_Class r) (spec_Class (dc_Spec c))"
    using no by (auto simp: reconcile_claim_def emits_ret split: if_splits)
  moreover have "post_migration c \<and> name \<in> old_names (dc_OldDB c) \<or> (\<exists>ri. deletable (cfg_Viper r) c \<and>
      NewRequestInfo title (cfg_Viper r) (prepared c) = Ret (Inr ri) \<and> name \<in> own_names (cfg_Viper r) ri c)"
    using no emits_reconcile_claim [OF P, where E = E] permits assms(5) by blast
  ultimately show ?thesis
    by (auto simp: post_migration_def deletable_def own_names_def old_names_def Let_def split: option.splits)
qed

text \<open>A claim that is being deleted, in a cloud that has its instance.\<close>

definition sample_deleted :: DatabaseClaim where
  "sample_deleted = upd_meta (\<lambda>m. m\<lparr>m_DeletionTimestamp := Some 1, m_Finalizers := [dbFinalizerName]\<rparr>) sample_claim"

definition deleting_env :: env where
  "deleting_env = sample_env\<lparr>e_k8s := sample_k8s\<lparr>e_GetClaim := \<lambda>h ns n. Inr sample_deleted\<rparr>,
     e_aws := sample_aws\<lparr>e_GetInstance := \<lambda>h n. Inr (sample_instance\<lparr>ins_Meta := (ins_Meta sample_instance)\<lparr>cr_Name := n\<rparr>\<rparr>)\<rparr>\<rparr>"

lemma deleting_env_named: "answers_named deleting_env"
  by (simp add: answers_named_def deleting_env_def sample_defs)

definition reclaiming_config :: DatabaseClaimReconciler where
  "reclaiming_config = sample_config_r\<lparr>cfg_Viper := sample_viper\<lparr>GetString :=
     (GetString sample_viper)(''defaultReclaimPolicy'' := ''delete'')\<rparr>\<rparr>"

lemma sample_deleted_request:
  "\<exists>ri. NewRequestInfo id (cfg_Viper reclaiming_config)
     (init_connections (default_class (fst (validateDBClaim sample_deleted)))) = Ret (Inr ri)"
  by (simp add: NewRequestInfo_def New_requested requested_def reclaiming_config_def sample_viper_def
      sample_deleted_def sample_claim_def sample_port Let_def claim_upds validateDBClaim_def default_class_def
      init_connections_def getStorageType_def max_storage_error_def empty_Status_def GetSuperUserElevation_def)

lemmas deleting_run = reconcile_claim_def finalize_def deleteExternalResources_def aws_delete_defs
  SetConditionAndUpdateStatus_def SetStatusCondition_def UpdateStatus_def Let_def of_go_def

lemma sample_deletes:
  "\<exists>es. Reconcile id deleting_env reclaiming_config ''shop'' ''orders'' [] = (Ret (empty_Result, None), es) \<and>
     list_ex (\<lambda>e. deleted_name e \<noteq> None) es \<and> (\<exists>c. K8s (EvUpdateClaim c None) \<in> set es \<and> m_Finalizers (dc_Meta c) = [])"
proof -
  from sample_deleted_request obtain ri where ri: "NewRequestInfo id (cfg_Viper reclaiming_config)
     (init_connections (default_class (fst (validateDBClaim sample_deleted)))) = Ret (Inr ri)" by blast
  have c: "m_DeletionTimestamp (dc_Meta (init_connections (default_class (fst (validateDBClaim sample_deleted))))) = Some 1"
    "ContainsFinalizer (init_connections (default_class (fst (validateDBClaim sample_deleted)))) dbFinalizerName"
    "migration_state (init_connections (default_class (fst (validateDBClaim sample_deleted)))) = []"
    "m_Finalizers (dc_Meta (init_connections (default_class (fst (validateDBClaim sample_deleted))))) = [dbFinalizerName]"
    by (simp_all add: ContainsFinalizer_def frame_prepared_meta sample_deleted_def claim_upds sample_claim_def
        init_connections_def default_class_def validateDBClaim_def)
  have cls: "isClassPermitted (cfg_Class reclaiming_config) (spec_Class (dc_Spec sample_deleted))"
    by (simp add: isClassPermitted_def reclaiming_config_def sample_deleted_def claim_upds sample_claim_def)
  have v: "GetCloud (cfg_Viper reclaiming_config) = ''aws''" "GetDefaultReclaimPolicy (cfg_Viper reclaiming_config) = ''delete''"
    "GetMultiAZEnabled (cfg_Viper reclaiming_config) = False"
    by (simp_all add: reclaiming_config_def GetCloud_def GetDefaultReclaimPolicy_def
        GetMultiAZEnabled_def sample_viper_def)
  have i: "cr_DeletionTimestamp (ins_Meta sample_instance) = None"
    by (simp add: sample_instance_def new_instance_def cr_meta_def Let_def)
  show ?thesis
    by (simp add: Reconcile_def deleting_run ri c cls v i k8s_calls aws_calls sys_calls prog_simps deleting_env_def
        sample_defs written_def claim_upds RemoveFinalizer_def as_error_def)
qed

theorem Reconcile_deletes_only_witness:
  "\<exists>es e (ri :: requestInfo). Reconcile id deleting_env reclaiming_config ''shop'' ''orders'' [] = (Ret (empty_Result, None), es) \<and>
     e \<in> set es \<and> (\<exists>name. deleted_name e = Some name \<and>
       (let host = getDynamicHostName (cfg_Viper reclaiming_config) (Hash (ri_HostParams ri)) sample_deleted
        in name \<in> {host, host @ ''-2'',
             getParameterGroupName (cfg_Viper reclaiming_config) (ri_HostParams ri) sample_deleted (ri_DbType ri)}))"
proof -
  from sample_deletes obtain es where
    run: "Reconcile id deleting_env reclaiming_config ''shop'' ''orders'' [] = (Ret (empty_Result, None), es @ [])"
    and del: "list_ex (\<lambda>e. deleted_name e \<noteq> None) es" by auto
  from del obtain e name where e: "e \<in> set es" "deleted_name e = Some name" by (auto simp: list_ex_iff)
  have c: "e_GetClaim (e_k8s deleting_env) [] ''shop'' ''orders'' = Inr sample_deleted" by (simp add: deleting_env_def)
  have "old_DbState (dc_OldDB sample_deleted) \<noteq> PostMigrationInProgress"
    by (simp add: sample_deleted_def claim_upds sample_claim_def empty_StatusForOldDB_def)
  with Reconcile_deletes_only [OF run c e deleting_env_named] obtain ri :: requestInfo where
    "let host = getDynamicHostName (cfg_Viper reclaiming_config) (Hash (ri_HostParams ri)) sample_deleted
     in name \<in> {host, host @ ''-2'',
          getParameterGroupName (cfg_Viper reclaiming_config) (ri_HostParams ri) sample_deleted (ri_DbType ri)}" unfolding Let_def by blast
  with run e show ?thesis by (intro exI [of _ es] exI [of _ e] exI [of _ ri]) simp
qed

subsection \<open>The finalizer\<close>

lemma emits_aws_calls:
  assumes "\<And>a. P (Aws a)"
  shows "emits P (manageOperationalTagging E v n g b)" "emits P (deleteParameterGroupAWS E g)"
    "emits P (deleteCloudDatabaseAWS E v n)"
  unfolding aws_tag_defs aws_delete_defs aws_calls by (intro trace_intros assms)+

lemma emits_execute_all:
  assumes P: "ordinary P" "\<And>a. P (Aws a)"
  shows "emits P (executeDbClaimRequest E r ri c)"
proof (cases "fst (getMode ri c) = M_PostMigrationInProgress")
  case True
  have "emits P (postMigrationInProgress E v c)" for v c
    unfolding postMigrationInProgress_def waited_enough_def Since_def Let_def
    by (auto intro!: trace_intros emits_parts emits_aws_calls P split: sum.split bool.split option.split)
  with True show ?thesis
    by (cases "getMode ri c") (auto simp: executeDbClaimRequest_def intro!: trace_intros emits_parts P)
next
  case False
  then show ?thesis
    unfolding executeDbClaimRequest_def use_existing_def migrate_existing_def use_new_def Let_def
    by (cases "getMode ri c"; cases "fst (getMode ri c)")
      (auto intro!: trace_intros emits_parts emits_databases emits_migrations emits_reconcileNewDB
        emits_reconcileUseExistingDB P)
qed

text \<open>Calls that are no update of a claim without the finalizer.\<close>

definition keeps_finalizer :: "event \<Rightarrow> bool" where
  "keeps_finalizer e \<longleftrightarrow> (\<forall>c er. e = K8s (EvUpdateClaim c er) \<longrightarrow> dbFinalizerName \<in> set (m_Finalizers (dc_Meta c)))"

lemma keeps_finalizer_ordinary: "ordinary keeps_finalizer" "keeps_finalizer (Aws a)" "keeps_finalizer (Gcp g)"
  by (simp_all add: keeps_finalizer_def ordinary_def clerical_def quiet_def)

definition no_failure :: "event \<Rightarrow> bool" where
  "no_failure e \<longleftrightarrow> no_failed_delete e \<and> no_failed_gcp_delete e"

lemma no_failure_ordinary: "ordinary no_failure"
  by (simp add: no_failure_def no_failed_gcp_delete_def ordinary_def clerical_def quiet_def)

lemma ok_emits_mono:
  assumes "ok_emits K m" and "emits Q m" and "\<And>e. K e \<Longrightarrow> Q e \<Longrightarrow> P e"
  shows "ok_emits P m"
  unfolding ok_emits_def
proof (intro allI impI)
  fix h h' assume run: "m h = (Ret None, h')"
  from ok_emitsD [OF assms(1) run] emits_run [OF assms(2) run]
  obtain es where "h' = es @ h" "list_all K es" "\<And>e. e \<in> set es \<Longrightarrow> Q e" by (metis same_append_eq append_same_eq)
  with assms(3) show "\<exists>es. h' = es @ h \<and> list_all P es" by (auto simp: list_all_iff)
qed

lemma deleteExternalResources_ok:
  "ok_emits no_failure (deleteExternalResources E v ri c)" "emits keeps_finalizer (deleteExternalResources E v ri c)"
proof -
  have aws: "ok_emits no_failure (deleteExternalResourcesAWS E v ri c)"
  proof (rule ok_emits_mono [OF delete_ok(5)])
    show "emits (\<lambda>e. \<exists>a. e = Aws a) (deleteExternalResourcesAWS E v ri c)"
      unfolding deleteExternalResourcesAWS_def by (intro trace_intros emits_aws_calls) simp_all
  qed (auto simp: no_failure_def no_failed_gcp_delete_def)
  have gcp: "ok_emits no_failure (deleteExternalResourcesGCP E v ri c)"
  proof (rule ok_emits_mono)
    show "ok_emits no_failed_gcp_delete (deleteExternalResourcesGCP E v ri c)"
      unfolding deleteExternalResourcesGCP_def deleteCloudDatabaseGCP_split
      by (auto intro!: ok_emits_check_err ok_emits_ret delete_gcp_ok)
    show "emits (\<lambda>e. \<exists>g. e = Gcp g) (deleteExternalResourcesGCP E v ri c)"
      unfolding deleteExternalResourcesGCP_def deleteCloudDatabaseGCP_def delete_gcp_instance_def gcp_calls
      by (intro trace_intros) simp_all
  qed (auto simp: no_failure_def)
  show "ok_emits no_failure (deleteExternalResources E v ri c)"
    using aws gcp by (simp add: deleteExternalResources_def)
  show "emits keeps_finalizer (deleteExternalResources E v ri c)"
    unfolding deleteExternalResources_def deleteExternalResourcesAWS_def deleteExternalResourcesGCP_def
      deleteCloudDatabaseGCP_def delete_gcp_instance_def gcp_calls
    by (intro trace_intros emits_aws_calls keeps_finalizer_ordinary)
qed

text \<open>A run of \<open>finalize\<close> either never gives up the finalizer, or ends with doing so.\<close>

lemma finalize_run:
  assumes "finalize E r ri c h = (res, h')"
  shows "(\<exists>es. h' = es @ h \<and> list_all keeps_finalizer es) \<or>
    migration_state c \<in> {[], ''completed''} \<and>
    (\<exists>c' er before. h' = K8s (EvUpdateClaim c' er) # before @ h \<and> list_all keeps_finalizer before \<and> list_all no_failure before)"
proof -
  obtain a h1 where cond: "SetConditionAndUpdateStatus E c DeletingCondition h = (a, h1)" by fastforce
  have "emits (\<lambda>e. keeps_finalizer e \<and> no_failure e) (SetConditionAndUpdateStatus E c DeletingCondition)"
    by (rule emits_status) (use keeps_finalizer_ordinary no_failure_ordinary in \<open>simp add: ordinary_def clerical_def\<close>)
  from emits_run [OF this cond] obtain es1 where es1: "h1 = es1 @ h" "list_all keeps_finalizer es1" "list_all no_failure es1"
    by (metis list_all_iff)
  have keep: ?thesis if "emits keeps_finalizer m" "m h1 = (res, h')" for m :: "reconciled go_prog"
    using emits_run [OF that] es1 by (metis append_assoc list_all_append list_all_iff)
  show ?thesis
  proof (cases "\<exists>c1. a = Ret (c1, None)")
    case False
    with assms cond have "h' = h1" unfolding finalize_def
      by (cases a) (auto simp: run_bnd run_ret split: option.splits)
    with es1 show ?thesis by blast
  next
    case True
    then obtain c1 where a: "a = Ret (c1, None)" by blast
    have st: "migration_state c1 = migration_state c" using SetConditionAndUpdateStatus_state cond a by blast
    show ?thesis
    proof (cases "migration_state c \<in> {[], ''completed''}")
      case False
      then have "finalize E r ri c h = bnd (updateClaimStatus E
           (upd_status (\<lambda>s. s\<lparr>s_Error := ''dbc cannot be deleted while migration is in progress''\<rparr>) c1))
         (\<lambda>(c, _). answered (executeDbClaimRequest E r ri c)) h1"
        unfolding finalize_def by (simp add: run_bnd [of "SetConditionAndUpdateStatus E c DeletingCondition"] cond a st)
      then show ?thesis using assms
        by (intro keep) (auto simp: answered_def
            intro!: trace_intros emits_execute_all emits_parts keeps_finalizer_ordinary)
    next
      case idle: True
      obtain d h2 where del: "deleteExternalResources E (cfg_Viper r) ri c1 h1 = (d, h2)" by fastforce
      have fin: "finalize E r ri c h = bnd (deleteExternalResources E (cfg_Viper r) ri c1) (\<lambda>er. case er of
             Some e \<Rightarrow> ret (empty_Result, Some e)
           | None \<Rightarrow> bnd (updateClaim E (RemoveFinalizer dbFinalizerName c1)) (\<lambda>(_, er). ret (empty_Result, er))) h1"
        using idle unfolding finalize_def
        by (auto simp: run_bnd [of "SetConditionAndUpdateStatus E c DeletingCondition"] cond a st)
      from emits_run [OF deleteExternalResources_ok(2) del] obtain es2 where es2: "h2 = es2 @ h1" "list_all keeps_finalizer es2"
        by (metis list_all_iff)
      show ?thesis
      proof (cases "d = Ret None")
        case False
        with fin assms del have "h' = h2" by (cases d) (auto simp: run_bnd run_ret split: option.splits)
        with es1 es2 show ?thesis by (intro disjI1 exI [of _ "es2 @ es1"]) simp
      next
        case True
        from ok_emitsD [OF deleteExternalResources_ok(1) del [unfolded True]] es2 have "list_all no_failure es2" by auto
        moreover from fin assms del True obtain c' er where "h' = K8s (EvUpdateClaim c' er) # h2"
          by (auto simp: run_bnd run_ret run_call k8s_calls split: prod.splits)
        ultimately show ?thesis using es1 es2 idle by (intro disjI2 conjI exI [of _ "es2 @ es1"]) auto
      qed
    qed
  qed
qed

lemma reconcile_claim_finalizer:
  "emits keeps_finalizer (reconcile_claim title E r c) \<or> m_DeletionTimestamp (dc_Meta c) \<noteq> None \<and>
     (\<exists>ri. reconcile_claim title E r c = finalize E r ri (init_connections (default_class (fst (validateDBClaim c)))))"
proof -
  let ?c = "init_connections (default_class (fst (validateDBClaim c)))"
  have ens: "emits keeps_finalizer (ensure_finalizer E ?c)"
    unfolding ensure_finalizer_def updateClaim_def AddFinalizer_def
    by (intro trace_intros) (auto simp: keeps_finalizer_def ContainsFinalizer_def claim_upds)
  have exec: "emits keeps_finalizer (answered (executeDbClaimRequest E r ri c'))"
    "emits keeps_finalizer (answered (SetError E c' e))"
    "emits keeps_finalizer (createMetricsDeployment E c')" for ri c' e
    unfolding answered_def createMetricsDeployment_def
    by (intro trace_intros emits_execute_all emits_parts keeps_finalizer_ordinary)+
  show ?thesis
  proof (cases "NewRequestInfo title (cfg_Viper r) ?c")
    case (Ret x)
    then show ?thesis unfolding reconcile_claim_def Let_def
      by (cases x) (auto simp: of_go_def frame_prepared_meta
          intro!: emits_bnd [OF ens] emits_ret exec emits_option emits_prod emits_bnd [OF emits_if [OF exec(3) emits_ret]])
  qed (auto simp: reconcile_claim_def of_go_def Let_def intro!: trace_intros)
qed

text \<open>
  C3: a claim is released last. If a reconciliation writes the claim back without the controller's
  finalizer, which lets Kubernetes drop it, then the claim was being deleted with no migration under
  way, that update is the last thing the reconciliation does, and every deletion of a cloud resource
  it called before had succeeded.
\<close>

theorem finalizer_removed_last:
  assumes "Reconcile title E r ns n h = (res, es @ h)" and "e_GetClaim (e_k8s E) h ns n = Inr c"
    and "K8s (EvUpdateClaim c' er) \<in> set es" and "dbFinalizerName \<notin> set (m_Finalizers (dc_Meta c'))"
  shows "m_DeletionTimestamp (dc_Meta c) \<noteq> None \<and> s_MigrationState (dc_Status c) \<in> {[], ''completed''} \<and>
    (\<exists>before. es = K8s (EvUpdateClaim c' er) # before \<and> list_all no_failure before)"
proof -
  let ?g = "K8s (EvGetClaim ns n (Inr c))" and ?c = "init_connections (default_class (fst (validateDBClaim c)))"
  from assms(1) have run: "reconcile_claim title E r c (?g # h) = (res, es @ h)"
    by (simp add: Reconcile_found [OF assms(2)])
  have lost: "\<not> list_all keeps_finalizer before"
    if "K8s (EvUpdateClaim c' er) \<in> set before" for before
    using that assms(4) by (auto simp: list_all_iff keeps_finalizer_def)
  have strip: "es = xs @ [?g]" if "es @ h = xs @ ?g # h" for xs
    using that by (metis append.assoc append_Cons append_Nil append_same_eq)
  have no: "\<not> list_all keeps_finalizer es'" if "es @ h = es' @ ?g # h" for es'
    using lost assms(3) strip [OF that] by auto
  then have "\<not> emits keeps_finalizer (reconcile_claim title E r c)"
    using emits_run [where m = "reconcile_claim title E r c"] run by (metis list_all_iff)
  with reconcile_claim_finalizer obtain ri where del: "m_DeletionTimestamp (dc_Meta c) \<noteq> None"
    and fin: "finalize E r ri ?c (?g # h) = (res, es @ h)" using run by metis
  from finalize_run [OF fin] no obtain c2 er2 before where st: "migration_state ?c \<in> {[], ''completed''}"
    and es: "es @ h = (K8s (EvUpdateClaim c2 er2) # before) @ ?g # h"
    and ok: "list_all keeps_finalizer before" "list_all no_failure before" by auto
  from strip [OF es] assms(3) lost ok(1) have "es = K8s (EvUpdateClaim c' er) # before @ [?g]" by auto
  moreover have "no_failure ?g" by (simp add: no_failure_def no_failed_gcp_delete_def)
  ultimately show ?thesis using del st ok(2) frame_prepared [of c] by (simp add: frame_def)
qed

theorem finalizer_removed_last_witness:
  "\<exists>c before. Reconcile id deleting_env reclaiming_config ''shop'' ''orders'' [] =
       (Ret (empty_Result, None), K8s (EvUpdateClaim c None) # before) \<and> list_all no_failure before"
proof -
  from sample_deletes obtain es c where
    run: "Reconcile id deleting_env reclaiming_config ''shop'' ''orders'' [] = (Ret (empty_Result, None), es @ [])"
    and upd: "K8s (EvUpdateClaim c None) \<in> set es" "dbFinalizerName \<notin> set (m_Finalizers (dc_Meta c))" by auto
  have "e_GetClaim (e_k8s deleting_env) [] ''shop'' ''orders'' = Inr sample_deleted" by (simp add: deleting_env_def)
  from finalizer_removed_last [OF run this upd] run show ?thesis by auto
qed

end
