(* ===== verification/Published.thy ===== *)
theory Published
  imports Databaseclaim
begin

text \<open>
  What a reconciliation of a claim promises to the application: the credentials in the secret of the
  claim are credentials of the database. The parts are the management of users (\<open>Claimdb\<close>), the
  secret (\<open>Secrets\<close>) and the two modes that publish, for a new database and for an existing one
  (\<open>Databaseclaim\<close>).
\<close>

section \<open>Errors of others\<close>

text \<open>The sentinel \<^verbatim>\<open>ErrDoNotUpdateStatus\<close> makes \<^verbatim>\<open>SetError\<close> report success. Only the reconciler itself
  creates it: what the database driver and the generator of passwords answer is another error.\<close>

definition proper :: "goerror option \<Rightarrow> bool" where
  "proper er \<longleftrightarrow> (\<forall>e. er = Some e \<longrightarrow> \<not> errors_Is e ErrDoNotUpdateStatus)"

definition foreign_errors :: "env \<Rightarrow> bool" where
  "foreign_errors E \<longleftrightarrow>
     (\<forall>h d. proper (e_Open (e_sql E) h d)) \<and> (\<forall>h d. proper (e_Ping (e_sql E) h d)) \<and>
     (\<forall>h d q. proper (e_Exec (e_sql E) h d q)) \<and> (\<forall>h d q. proper (as_error (e_QueryBool (e_sql E) h d q))) \<and>
     (\<forall>h d q. proper (as_error (e_QueryString (e_sql E) h d q))) \<and>
     (\<forall>h n d s. proper (as_error (e_GeneratePassword (e_sys E) h n d s)))"

lemma proper_simps [simp]:
  "proper None" "proper (Some (ErrMsg m)) " "proper (Some (UrlError u))"
  "proper (Some (Wrapped a e b)) = proper (Some e)"
  "as_error (Inl e) = Some e" "as_error (Inr x) = None"
  by (simp_all add: proper_def as_error_def)

abbreviation returns_proper :: "goerror option go_prog \<Rightarrow> bool" where
  "returns_proper m \<equiv> returns proper m"

abbreviation returns_proper_res :: "(goerror + 'a) go_prog \<Rightarrow> bool" where
  "returns_proper_res m \<equiv> returns (\<lambda>r. proper (as_error r)) m"

named_theorems proper_intros \<open>programs whose errors are proper\<close>

lemma proper_calls [proper_intros]:
  assumes "foreign_errors E"
  shows "returns_proper (sql_open E d)" "returns_proper (sql_ping E d)" "returns_proper (sql_exec E d q)"
    "returns_proper_res (sql_bool E d qu)" "returns_proper_res (sql_string E d qu)" "returns_proper_res (generate E n k s)"
  using assms by (simp_all add: returns_def foreign_errors_def sql_calls sys_calls call_def Let_def)

lemma proper_combinators [proper_intros]:
  fixes m :: "(goerror + 'a) go_prog" and f :: "'a \<Rightarrow> goerror option go_prog" and g :: "'a \<Rightarrow> (goerror + 'b) go_prog"
  shows "returns_proper_res m \<Longrightarrow> (\<And>x. returns_proper (f x)) \<Longrightarrow> returns_proper (attempt_err m f)"
    "returns_proper_res m \<Longrightarrow> (\<And>x. returns_proper_res (g x)) \<Longrightarrow> returns_proper_res (attempt m g)"
  unfolding attempt_err_def attempt_def
  by (auto elim!: returns_bnd_of intro!: returns_ret split: sum.split)

lemma proper_checks [proper_intros]:
  fixes m k :: "goerror option go_prog" and l :: "(goerror + 'b) go_prog"
  shows "returns_proper m \<Longrightarrow> returns_proper k \<Longrightarrow> returns_proper (check_err m k)"
    "returns_proper m \<Longrightarrow> returns_proper_res l \<Longrightarrow> returns_proper_res (check m l)"
  unfolding check_err_def check_def
  by (auto elim!: returns_bnd_of intro!: returns_ret split: option.split)

lemma proper_for_each [proper_intros]: "(\<And>x. returns_proper (f x)) \<Longrightarrow> returns_proper (for_each xs f)"
  by (induction xs) (auto intro!: returns_ret returns_bnd_of [where Q = proper] split: option.split)


lemma proper_functions [proper_intros]: "foreign_errors E \<Longrightarrow> returns_proper (manage_functions E db v fs)"
proof (induction fs arbitrary: v)
  case (Cons f fs)
  obtain f0 v0 where f: "f = (f0, v0)" by fastforce
  obtain sch fn where sp: "split_function f0 = (sch, fn)" by fastforce
  show ?case unfolding f manage_functions.simps sp prod.case
    by (rule returns_bnd_of [OF proper_calls(5) [OF Cons.prems]])
      (auto intro!: returns_ret proper_checks(1) proper_calls(3) Cons split: sum.split)
qed (auto intro: returns_ret)

lemma proper_dbclient [proper_intros]:
  assumes "foreign_errors E"
  shows "returns_proper_res (client_getDB E pc d)" "returns_proper_res (CreateDatabase E pc d)"
    "returns_proper_res (SchemaExists E pc sch)" "returns_proper (CreateDefaultExtensions E pc d)"
    "returns_proper (specialExtensionsMap x E pc d b)"
    "returns_proper (grantRolePrivileges E pc d b sch)"
    "returns_proper (RenameUser E pc u u')" "returns_proper (UpdatePassword E pc u w)" "returns_proper (UpdateUser E pc u u' b w)"
    "returns_proper (ManageSuperUserRole E pc u en)" "returns_proper (ManageCreateRole E pc u en)"
    "returns_proper (ManageReplicationRole E pc u en)" "returns_proper (ManageSystemFunctions E pc d fs)"
proof -
  have quiet: "returns_proper (bnd m (\<lambda>r. case r of Some e \<Rightarrow> ret (Some (ErrMsg (f e))) | None \<Rightarrow> ret None))" for m f
    by (auto intro!: returns_bnd returns_ret split: option.split)
  show db: "returns_proper_res (client_getDB E pc d)" for d
    unfolding client_getDB_def Let_def using assms
    by (auto intro!: returns_ret proper_intros split: sum.split)
  show schema: "returns_proper_res (SchemaExists E pc sch)" for sch
    unfolding SchemaExists_def
    by (rule returns_bnd_of [OF proper_calls(4) [OF assms]]) (auto intro!: returns_ret split: sum.split)
  have create: "returns_proper_res (createDatabase E pc d)"
    unfolding createDatabase_def by (intro proper_intros assms) (auto intro!: returns_ret)
  show "returns_proper_res (CreateDatabase E pc d)"
    unfolding CreateDatabase_def
    by (rule returns_bnd_of [OF proper_calls(4) [OF assms]]) (auto intro!: returns_ret create split: sum.split)
  show "returns_proper (CreateDefaultExtensions E pc d)"
    unfolding CreateDefaultExtensions_def by (intro proper_intros db quiet)
  show "returns_proper (specialExtensionsMap x E pc d b)"
    by (cases x) (auto simp: CreatePgPartmanExtension_def CreatePgCronExtension_def
        intro!: proper_intros db assms returns_bnd_of [OF proper_calls(3) [OF assms]] returns_ret split: option.split)
  show "returns_proper (grantRolePrivileges E pc d b sch)"
    unfolding grantRolePrivileges_def by (intro proper_intros db assms)
  show ren: "returns_proper (RenameUser E pc u u')" for u u'
    unfolding RenameUser_def by (auto intro!: proper_intros assms returns_ret)
  show pw: "returns_proper (UpdatePassword E pc u w)" for u w
    unfolding UpdatePassword_def by (auto intro!: proper_intros assms returns_ret)
  show "returns_proper (UpdateUser E pc u u' b w)"
    unfolding UpdateUser_def AssignRoleToUser_def by (auto intro!: proper_intros assms ren pw returns_ret)
  show "returns_proper (ManageSuperUserRole E pc u en)"
    unfolding ManageSuperUserRole_def by (intro proper_intros assms)
  show "returns_proper (ManageCreateRole E pc u en)"
    unfolding ManageCreateRole_def by (auto intro!: proper_intros assms returns_ret)
  show "returns_proper (ManageReplicationRole E pc u en)"
    unfolding ManageReplicationRole_def Let_def by (auto intro!: proper_intros assms returns_ret)
  show "returns_proper (ManageSystemFunctions E pc d fs)"
    unfolding ManageSystemFunctions_def
    by (auto intro!: proper_intros assms db schema returns_bnd [where m = "map_order E fs"])
qed

text \<open>Steps that answer a state beside their error.\<close>

abbreviation returns_proper_snd :: "('s \<times> goerror option) go_prog \<Rightarrow> bool" where
  "returns_proper_snd m \<equiv> returns (\<lambda>x. proper (snd x)) m"

lemma proper_bnds:
  fixes m :: "goerror option go_prog" and l :: "(goerror + 'a) go_prog" and k :: "('s \<times> goerror option) go_prog"
  shows "returns_proper m \<Longrightarrow> returns_proper_snd n \<Longrightarrow>
      returns_proper_snd (bnd m (\<lambda>er. case er of Some e \<Rightarrow> ret (s, Some e) | None \<Rightarrow> n))"
    and "returns_proper_res l \<Longrightarrow> (\<And>x. returns_proper_snd (f x)) \<Longrightarrow>
      returns_proper_snd (bnd l (\<lambda>r. case r of Inl e \<Rightarrow> ret (s, Some e) | Inr x \<Rightarrow> f x))"
    and "returns_proper_snd k \<Longrightarrow> (\<And>s. returns_proper_snd (g s)) \<Longrightarrow>
      returns_proper_snd (bnd k (\<lambda>(s, er). case er of Some e \<Rightarrow> ret (t s, Some e) | None \<Rightarrow> g s))"
    and "returns_proper m \<Longrightarrow> returns_proper_snd (bnd m (\<lambda>er. ret (s, er)))"
  by (auto elim!: returns_bnd_of intro!: returns_ret split: option.split sum.split)

lemma proper_roles:
  assumes "foreign_errors E"
  shows "returns_proper_snd (CreateRole E pc d b sch)" "returns_proper_snd (CreateUser E pc u b w)"
    "returns_proper (CreateSpecialExtensions E pc d b)" "returns_proper_res (generatePassword E v)"
proof -
  have create: "returns_proper (if ex then ret None else createRole E pc b)" for ex
    by (auto simp: createRole_def intro!: proper_intros assms returns_ret)
  show "returns_proper_snd (CreateRole E pc d b sch)"
    unfolding CreateRole_def Let_def by (intro proper_bnds proper_intros assms create)
  have assign: "returns_proper (AssignRoleToUser E pc u b)"
    unfolding AssignRoleToUser_def by (intro proper_intros assms)
  show "returns_proper_snd (CreateUser E pc u b w)"
    unfolding CreateUser_def
    by (intro proper_bnds proper_intros assms) (auto intro!: returns_ret proper_bnds proper_intros assms assign)
  show "returns_proper (CreateSpecialExtensions E pc d b)"
    unfolding CreateSpecialExtensions_def by (intro proper_intros returns_bnd assms)
  show "returns_proper_res (generatePassword E v)"
    unfolding generatePassword_def Let_def by (auto intro!: proper_intros assms)
qed

lemma proper_users:
  assumes "foreign_errors E"
  shows "returns_proper_snd (rename_users E v pc dbu cur b sr)" "returns_proper_snd (rotate_user E v pc dbu cur b sr)"
    "returns_proper (manage_privileges E pc dbu cur b ri)"
    "returns_proper_snd (manageUserAndExtensions E v pc act d b mode sr)"
proof -
  note base = proper_intros proper_roles assms
  show ren: "returns_proper_snd (rename_users E v pc dbu cur b sr)" for cur sr dbu
    unfolding rename_users_def Let_def by (intro proper_bnds base returns_bnd)
  show rot: "returns_proper_snd (rotate_user E v pc dbu cur b sr)" for cur sr dbu
    unfolding rotate_user_def Let_def by (intro proper_bnds base returns_bnd returns_ret) simp
  have wrap: "returns_proper (bnd m (\<lambda>er. case (if en then er else None) of Some e \<Rightarrow> ret (Some (Wrapped msg e [])) | None \<Rightarrow> k))"
    if "returns_proper m" "returns_proper k" for m en msg k
    using that by (auto elim!: returns_bnd_of intro!: returns_ret split: option.split)
  have wrap1: "returns_proper (bnd m (\<lambda>er. case er of Some e \<Rightarrow> ret (Some (Wrapped msg e [])) | None \<Rightarrow> k))"
    if "returns_proper m" "returns_proper k" for m msg k
    using that by (auto elim!: returns_bnd_of intro!: returns_ret split: option.split)
  show priv: "returns_proper (manage_privileges E pc dbu cur b ri)" for dbu cur ri
    unfolding manage_privileges_def by (intro wrap wrap1 base returns_ret) simp
  have opt: "returns_proper_snd (if c then m else ret (s, None))" if "returns_proper_snd m" for c m s
    using that by (auto intro!: returns_ret)
  have opt1: "returns_proper (if c then n else ret None)" if "returns_proper n" for c n
    using that by (auto intro!: returns_ret)
  show "returns_proper_snd (manageUserAndExtensions E v pc act d b mode sr)"
  proof (cases "st_ConnectionInfo (fst sr)")
    case (Some ci)
    then show ?thesis unfolding manageUserAndExtensions_def Let_def case_prod_beta [of _ sr] option.case
      by (simp only: option.case)
        (intro proper_bnds base returns_bnd [where m = "rotation_due E v _ act"] opt opt1 ren rot priv)
  qed (auto simp: manageUserAndExtensions_def case_prod_beta intro!: returns_ret)
qed

lemma proper_createDatabase:
  assumes "foreign_errors E"
  shows "returns_proper_snd (createDatabaseAndExtensions E pc c m)"
proof -
  have rec: "returns_proper_snd (record_database E created d c)" for created d c
    unfolding record_database_def Let_def by (auto intro!: returns_bnd returns_ret returns_panic split: option.split)
  have schema: "returns_proper_snd (bnd (SchemaExists E pc IBSchema) (\<lambda>r. case r of
      Inl e \<Rightarrow> ret (c, Some (Wrapped msg e [])) | Inr x \<Rightarrow> f x))" if "\<And>x. returns_proper_snd (f x)" for f msg
    by (rule returns_bnd_of [OF proper_dbclient(3) [OF assms]]) (auto intro!: returns_ret that split: sum.split)
  have opt: "returns_proper (if b then CreateDefaultExtensions E pc d else ret None)" for b d
    by (auto intro!: returns_ret proper_intros assms)
  show ?thesis unfolding createDatabaseAndExtensions_def Let_def
    by (intro proper_bnds proper_intros assms opt rec) (auto intro!: schema returns_ret)
qed

section \<open>What reporting keeps of a claim\<close>

text \<open>The parts of a claim that the secret depends on.\<close>

definition core :: "DatabaseClaim \<Rightarrow> Status \<times> string \<times> string \<times> string \<times> string" where
  "core c = (dc_NewDB c, dc_Namespace c, spec_SecretName (dc_Spec c), spec_DSNName (dc_Spec c), spec_Username (dc_Spec c))"

lemma core_written: "core (fst (written c r)) = core c"
  by (auto simp: core_def written_def claim_upds split: sum.split)

lemma core_upds [simp]: "core (upd_status (\<lambda>s. s\<lparr>s_Error := e\<rparr>) c) = core c"
  "core (upd_status (\<lambda>s. s\<lparr>s_Conditions := f s\<rparr>) c) = core c"
  by (simp_all add: core_def claim_upds)

lemma core_reporting:
  "returns (\<lambda>a. core (fst a) = core c) (UpdateStatus E c)"
  "returns (\<lambda>a. core (fst a) = core c) (SetConditionAndUpdateStatus E c cond)"
  "returns (\<lambda>a. core (fst a) = core c) (ClearError E c)"
  "returns (\<lambda>a. core (fst a) = core c) (SetError E c e)"
proof -
  have upd: "returns (\<lambda>a. core (fst a) = core c) (updateClaimStatus E d)" if "core d = core c" for d
    unfolding updateClaimStatus_def by (intro returns_bnd returns_ret) (simp add: core_written that)
  then show "returns (\<lambda>a. core (fst a) = core c) (UpdateStatus E c)" by (simp add: UpdateStatus_def)
  show cond: "returns (\<lambda>a. core (fst a) = core c) (SetConditionAndUpdateStatus E c cond)" for cond
    unfolding SetConditionAndUpdateStatus_def SetStatusCondition_def UpdateStatus_def Let_def
    by (rule returns_bnd_of [where Q = "\<lambda>d. core d = core c"]) (auto intro!: returns_bnd returns_ret upd)
  show "returns (\<lambda>a. core (fst a) = core c) (ClearError E c)"
    unfolding ClearError_def UpdateStatus_def by (auto intro!: upd returns_ret)
  show "returns (\<lambda>a. core (fst a) = core c) (SetError E c e)"
  proof (cases "errors_Is e ErrDoNotUpdateStatus")
    case False
    then show ?thesis unfolding SetError_def Let_def
      by (simp only: if_False) (rule returns_bnd_of [OF cond];
        auto intro!: returns_bnd returns_ret split: option.split sum.split)
  qed (auto simp: SetError_def intro: returns_ret)
qed

lemma SetError_proper: "proper (Some e) \<Longrightarrow> returns (\<lambda>a. snd (snd a) \<noteq> None) (SetError E c e)"
  unfolding SetError_def Let_def
  by (auto simp: proper_def intro!: returns_bnd returns_ret split: option.split sum.split)

lemma set_error_fails: "proper (Some e) \<Longrightarrow> set_error E c ri e h \<noteq> (Ret (c', ri', res, None), h')"
  unfolding set_error_def bnd_Ret by (auto simp: run_ret dest!: returnsD [OF SetError_proper])

lemma core_host:
  assumes "manage_cloud_host E r ri c m = Some prog"
  shows "returns (\<lambda>a. core (fst a) = core c) prog" and "emits keeps_passwords prog"
proof -
  have tags: "core c' = core c" if "tags_only c c'" for c'
    using that by (auto simp: core_def tags_only_def claim_upds)
  have "returns (\<lambda>a. tags_only c (fst a)) prog"
    using assms returns_manageCloudHostAWS returns_manageCloudHostGCP
    by (auto simp: manage_cloud_host_def Let_def split: if_splits)
  then show "returns (\<lambda>a. core (fst a) = core c) prog" by (rule returns_mono) (rule tags)
  have "keeps_passwords e" if "provisions host pg e \<or> gcp_provisions host e" for e host pg
    using that by (cases e) auto
  then show "emits keeps_passwords prog" using assms
    by (auto simp: manage_cloud_host_def Let_def split: if_splits
        intro: emits_mono [OF emits_manageCloudHostAWS] emits_mono [OF emits_manageCloudHostGCP])
qed

section \<open>From the users of a database to the secret\<close>

text \<open>What is known once the users of a claim were managed on the database \<open>db\<close>, for a connection to
  host and port \<open>hp\<close>: from the history \<open>h0\<close> to \<open>h\<close> no password was touched and none is pending; or the
  pending password is that of the user in the status; or the first user of another role was looked
  for in vain.\<close>

definition not_found :: "string \<Rightarrow> string \<Rightarrow> history \<Rightarrow> history \<Rightarrow> bool" where
  "not_found db base h0 h \<longleftrightarrow> (\<exists>es old. h = es @ h0 \<and> old \<noteq> base \<and>
     Sql (EvQueryBool db (Q_RoleExists (old @ ''_a'')) (Inr False)) \<in> set es)"

definition managed_users ::
  "string \<Rightarrow> string \<Rightarrow> string \<times> string \<Rightarrow> DatabaseClaim \<Rightarrow> requestInfo \<Rightarrow> history \<Rightarrow> history \<Rightarrow> bool" where
  "managed_users db base hp c ri h0 h \<longleftrightarrow>
     ri_TempSecret ri = [] \<and> (\<forall>d u. password_of d u h = password_of d u h0) \<or>
     (\<exists>ci. st_ConnectionInfo (dc_NewDB c) = Some ci \<and> (ci_Host ci, ci_Port ci) = hp \<and>
        ci_Username ci \<in> {base @ ''_a'', base @ ''_b''} \<and> ri_TempSecret ri \<noteq> [] \<and>
        password_of db (ci_Username ci) h = Some (ri_TempSecret ri)) \<or>
     not_found db base h0 h"

lemma not_found_mono: "not_found db base h1 h2 \<Longrightarrow> h1 = es1 @ h0 \<Longrightarrow> h3 = es2 @ h2 \<Longrightarrow> not_found db base h0 h3"
  unfolding not_found_def by (elim exE conjE, rule exI [of _ "es2 @ _ @ es1"]) auto

lemma managed_users_step:
  assumes "managed_users db base hp c ri h0 h" and "emits keeps_passwords m" and "m h = (r, h')"
    and "dc_NewDB c' = dc_NewDB c"
  shows "managed_users db base hp c' ri h0 h'"
proof -
  from emits_extends [OF assms(2,3)] obtain es where "h' = es @ h" by blast
  with assms(1,4) passwords_kept [OF assms(2,3)] not_found_mono [of db base h0 h "[]" h0 h' es] show ?thesis
    unfolding managed_users_def by auto
qed

lemma managed_users_before:
  assumes "emits keeps_passwords m" and "m h0 = (r, h1)" and "managed_users db base hp c ri h1 h"
  shows "managed_users db base hp c ri h0 h"
proof -
  from emits_extends [OF assms(1,2)] obtain es where "h1 = es @ h0" by blast
  with assms(3) passwords_kept [OF assms(1,2)] not_found_mono [of db base h1 h es h0 h "[]"] show ?thesis
    unfolding managed_users_def by auto
qed

lemma manage_claim_users_ok:
  assumes "manage_claim_users E v pc d mode c ri h = (Ret (c', ri', None), h')"
    and "endpoint (dc_NewDB c) = Some hp" and "ri_TempSecret ri = []"
  shows "managed_users (pc_DB pc) (spec_Username (dc_Spec c)) hp c' ri' h h'" and "snd (core c') = snd (core c)"
proof -
  from assms(1) obtain st where run: "manageUserAndExtensions E v pc (dc_ActiveDB c) d (spec_Username (dc_Spec c)) mode
      (dc_NewDB c, ri) h = (Ret ((st, ri'), None), h')" and c': "c' = upd_new (\<lambda>_. st) c"
    by (auto simp: manage_claim_users_def run_ok)
  then show "snd (core c') = snd (core c)" by (simp add: core_def claim_upds)
  from returnsD [OF manageUser_endpoint [OF assms(2)] run] have hp: "endpoint st = Some hp" by simp
  from manageUser_credentials [OF run] show "managed_users (pc_DB pc) (spec_Username (dc_Spec c)) hp c' ri' h h'"
    using hp assms(3) unfolding managed_users_def not_found_def c' endpoint_def
    by (auto simp: creds_set_def missing_def claim_upds)
qed

section \<open>The secret\<close>

definition keeps_secrets :: "event \<Rightarrow> bool" where
  "keeps_secrets e \<longleftrightarrow> (\<forall>ns n h. last_secret ns n (e # h) = last_secret ns n h)"

lemma keeps_secrets_simps [simp]:
  "keeps_secrets (Sql s)" "keeps_secrets (Sys y)" "keeps_secrets (K8s (EvUpdateClaimStatus c r1))"
  "keeps_secrets (K8s (EvGetClaim ns n r2))"
  by (simp_all add: keeps_secrets_def)

lemma secrets_kept:
  assumes "emits keeps_secrets m" and "m h = (r, h')"
  shows "last_secret ns n h' = last_secret ns n h"
proof -
  have "last_secret ns n (es @ h) = last_secret ns n h" if "\<And>e. e \<in> set es \<Longrightarrow> keeps_secrets e" for es
    using that by (induction es) (simp_all add: keeps_secrets_def)
  then show ?thesis using emits_run [OF assms] by metis
qed

lemma keeps_secrets_parts:
  "emits keeps_secrets (CreateDefaultExtensions E pc d)" "emits keeps_secrets (ManageSystemFunctions E pc d fs)"
  "emits keeps_secrets (SuccessAndUpdateCondition E sm c)" "emits keeps_secrets (ActiveDBSuccessReconcile E sm c)"
proof -
  have q: "quiet keeps_secrets" by (simp add: quiet_def)
  show "emits keeps_secrets (CreateDefaultExtensions E pc d)" "emits keeps_secrets (ManageSystemFunctions E pc d fs)"
    by (intro emits_dbclient q)+
  show "emits keeps_secrets (SuccessAndUpdateCondition E sm c)" "emits keeps_secrets (ActiveDBSuccessReconcile E sm c)"
    unfolding status_defs Let_def case_prod_unfold k8s_calls sys_calls by (intro trace_intros; simp)+
qed

text \<open>The secret of a claim names the connection to the server of \<open>m\<close>, one of the two users of the role and
  the password that this user has there.\<close>

definition published :: "ConnInfo \<Rightarrow> DatabaseClaim \<Rightarrow> history \<Rightarrow> bool" where
  "published m c h \<longleftrightarrow> (\<exists>s ci. last_secret (dc_Namespace c) (spec_SecretName (dc_Spec c)) h = Some s \<and>
     data_get s DSNURIKey = Uri (Some ci) \<and> data_get s ''username'' = ci_Username ci \<and> data_get s ''password'' = ci_Password ci \<and>
     ci_Host ci = ci_Host m \<and> ci_Port ci = ci_Port m \<and>
     ci_Username ci \<in> {spec_Username (dc_Spec c) @ ''_a'', spec_Username (dc_Spec c) @ ''_b''} \<and>
     password_of (Uri (Some m)) (ci_Username ci) h = Some (ci_Password ci))"

lemma published_core: "snd (core c') = snd (core c) \<Longrightarrow> published m c' h = published m c h"
  by (simp add: published_def core_def)

lemma publish_password_ok:
  assumes rw: "reads_own_writes E" and run: "publish_password E r c ri h = (Ret None, h')"
    and users: "managed_users (Uri (Some m)) (spec_Username (dc_Spec c)) (ci_Host m, ci_Port m) c ri h0 h"
    and key: "spec_DSNName (dc_Spec c) \<in> {[], DSNKey}"
  shows "(\<forall>d u. password_of d u h' = password_of d u h0) \<or> published m c h' \<or>
    not_found (Uri (Some m)) (spec_Username (dc_Spec c)) h0 h'"
proof -
  have "emits keeps_passwords (publish_password E r c ri)"
    unfolding publish_password_def
    by (auto intro!: trace_intros emits_secrets simp: clerical_def split: option.split)
  note kept = passwords_kept [OF this run] and more = emits_extends [OF this run]
  consider "ri_TempSecret ri = []" "\<And>d u. password_of d u h = password_of d u h0"
    | ci where "st_ConnectionInfo (dc_NewDB c) = Some ci" "(ci_Host ci, ci_Port ci) = (ci_Host m, ci_Port m)"
        "ci_Username ci \<in> {spec_Username (dc_Spec c) @ ''_a'', spec_Username (dc_Spec c) @ ''_b''}" "ri_TempSecret ri \<noteq> []"
        "password_of (Uri (Some m)) (ci_Username ci) h = Some (ri_TempSecret ri)"
    | "not_found (Uri (Some m)) (spec_Username (dc_Spec c)) h0 h"
    using users unfolding managed_users_def by blast
  then show ?thesis
  proof cases
    case 1
    with kept show ?thesis by simp
  next
    case (2 ci)
    let ?ci = "ci\<lparr>ci_Password := ri_TempSecret ri\<rparr>"
    from run 2(1,4) have "createOrUpdateSecret E c ?ci (GetCloud (cfg_Viper r)) h = (Ret None, h')"
      by (simp add: publish_password_def)
    from last_secret_written [OF rw this key] obtain s where
      s: "last_secret (dc_Namespace c) (spec_SecretName (dc_Spec c)) h' = Some s" "data_get s DSNURIKey = Uri (Some ?ci)"
      and fields: "\<lparr>ci_Host = data_get s ''hostname'', ci_Port = data_get s ''port'', ci_DatabaseName = data_get s ''database'',
        ci_Username = data_get s ''username'', ci_Password = data_get s ''password'', ci_SSLMode = data_get s ''sslmode''\<rparr> = ?ci"
      by blast
    have "data_get s ''username'' = ci_Username ?ci" "data_get s ''password'' = ci_Password ?ci"
      using arg_cong [OF fields, of ci_Username] arg_cong [OF fields, of ci_Password] by simp_all
    with 2 kept s have "published m c h'"
      unfolding published_def by (intro exI [of _ s] exI [of _ ?ci]) simp
    then show ?thesis by blast
  next
    case 3
    with more show ?thesis using not_found_mono [of _ _ h0 h "[]" h0 h'] by auto
  qed
qed

section \<open>A new database\<close>

lemma UpdateDBStatus_endpoint:
  "endpoint st = Some hp \<Longrightarrow> returns (\<lambda>st'. endpoint st' = Some hp) (UpdateDBStatus E d st)"
  unfolding UpdateDBStatus_def Let_def
  by (intro returns_bnd returns_ret) (auto simp: endpoint_def conn_or_empty_def)

lemma record_database_endpoint:
  assumes "endpoint (dc_NewDB c) = Some hp"
  shows "returns (\<lambda>a. endpoint (dc_NewDB (fst a)) = Some hp \<and> snd (core (fst a)) = snd (core c)) (record_database E created d c)"
    (is "returns ?Q _")
proof -
  have "returns ?Q (bnd (UpdateDBStatus E d (dc_NewDB c)) (\<lambda>st. ret (upd_new (\<lambda>_. st) c, None)))"
    by (rule returns_bnd_of [OF UpdateDBStatus_endpoint [OF assms]]) (auto intro!: returns_ret simp: core_def claim_upds)
  with assms show ?thesis unfolding record_database_def Let_def
    by (auto intro!: returns_ret returns_panic split: option.split)
qed

lemma createDatabase_endpoint:
  assumes "endpoint (dc_NewDB c) = Some hp"
  shows "returns (\<lambda>a. endpoint (dc_NewDB (fst a)) = Some hp \<and> snd (core (fst a)) = snd (core c)) (createDatabaseAndExtensions E pc c m)"
proof -
  let ?Q = "\<lambda>a. endpoint (dc_NewDB (fst a)) = Some hp \<and> snd (core (fst a)) = snd (core c)"
  have rec: "returns ?Q (record_database E created d c')"
    if "endpoint (dc_NewDB c') = Some hp" "snd (core c') = snd (core c)" for c' created d
    using record_database_endpoint [OF that(1)] by (simp add: that(2))
  have abort: "returns ?Q (if b then bnd (SchemaExists E pc IBSchema) (\<lambda>r. case r of
      Inl e \<Rightarrow> ret (c, Some (f e))
    | Inr exists \<Rightarrow> if exists then ret (upd_status (\<lambda>s. s\<lparr>s_MigrationState := []\<rparr>) c, Some g) else ret (c, None)) else ret (c, None))" for b f g
    using assms by (auto intro!: returns_bnd returns_ret simp: core_def claim_upds split: sum.split)
  show ?thesis unfolding createDatabaseAndExtensions_def Let_def
    by (rule returns_bnd)
      (use assms in \<open>auto intro!: returns_ret returns_bnd [where m = "if _ then CreateDefaultExtensions E pc _ else ret None"]
          returns_bnd_of [OF abort] rec simp del: if_cancel split del: if_split split: sum.split option.split prod.split\<close>)
qed

lemma keeps_passwords_create:
  "emits keeps_passwords (createDatabaseAndExtensions E pc c m)" "emits keeps_passwords (UpdateHostPortStatus E a b s st)"
  unfolding createDatabaseAndExtensions_def record_database_def UpdateDBStatus_def UpdateHostPortStatus_def sys_calls Let_def
  by (intro trace_intros keeps_passwords_db; simp)+

lemma setup_database_ok:
  assumes F: "foreign_errors E" and run: "setup_database E r ri c M_UseNewDB m h = (Ret (c', ri', res, None), h')"
    and ri: "ri_TempSecret ri = []"
  shows "managed_users (Uri (Some m)) (spec_Username (dc_Spec c)) (ci_Host m, ci_Port m) c' ri' h h'"
    and "snd (core c') = snd (core c)"
proof -
  let ?d = "spec_DatabaseName (dc_Spec c)" and ?ri = "ri\<lparr>ri_MasterConnInfo := m\<rparr>"
  from run obtain rc h1 where rc: "dbclient_New E (Uri (Some m)) h = (Ret rc, h1)"
    by (auto simp: setup_database_def Let_def bnd_Ret)
  with run obtain pc where new: "dbclient_New E (Uri (Some m)) h = (Ret (Inr pc), h1)"
    by (cases rc) (auto simp: setup_database_def Let_def bnd_Ret run_ret)
  with run obtain st h2 c2 er2 h3 where
    st: "UpdateHostPortStatus E (ci_Host m) (ci_Port m) (ci_SSLMode m) (dc_NewDB c) h1 = (Ret st, h2)"
    and cr: "createDatabaseAndExtensions E pc (upd_new (\<lambda>_. UpdateClusterStatus (ri_HostParams ?ri) st) c) M_UseNewDB h2 = (Ret (c2, er2), h3)"
    and rest: "(case er2 of Some e \<Rightarrow> set_error E c2 ?ri e | None \<Rightarrow>
      bnd (manage_claim_users E (cfg_Viper r) pc ?d M_UseNewDB c2 ?ri)
        (\<lambda>(c, reqInfo, er). case er of Some e \<Rightarrow> set_error E c reqInfo e | None \<Rightarrow>
      bnd (ManageSystemFunctions E pc ?d (GetSystemFunctions (cfg_Viper r)))
        (\<lambda>er. case er of Some e \<Rightarrow> set_error E c reqInfo e
         | None \<Rightarrow> ret (c, reqInfo, empty_Result, None)))) h3 = (Ret (c', ri', res, None), h')"
    by (auto simp: setup_database_def Let_def bnd_Ret run_ret)
  have "proper er2" using returnsD [OF proper_createDatabase [OF F] cr] by simp
  with rest have er2: "er2 = None" by (auto simp: set_error_fails split: option.splits)
  from rest obtain c3 ri3 er3 h4 where man: "manage_claim_users E (cfg_Viper r) pc ?d M_UseNewDB c2 ?ri h3 = (Ret (c3, ri3, er3), h4)"
    and rest3: "(case er3 of Some e \<Rightarrow> set_error E c3 ri3 e | None \<Rightarrow>
      bnd (ManageSystemFunctions E pc ?d (GetSystemFunctions (cfg_Viper r)))
        (\<lambda>er. case er of Some e \<Rightarrow> set_error E c3 ri3 e | None \<Rightarrow> ret (c3, ri3, empty_Result, None))) h4 = (Ret (c', ri', res, None), h')"
    by (auto simp: er2 bnd_Ret)
  from man obtain x where "manageUserAndExtensions E (cfg_Viper r) pc (dc_ActiveDB c2) ?d (spec_Username (dc_Spec c2)) M_UseNewDB
      (dc_NewDB c2, ?ri) h3 = (Ret x, h4)" and "er3 = snd x"
    by (auto simp: manage_claim_users_def bnd_Ret run_ret)
  with returnsD [OF proper_users(4) [OF F]] have "proper er3" by blast
  with rest3 have er3: "er3 = None" by (auto simp: set_error_fails split: option.splits)
  from rest3 obtain er4 h5 where fns: "ManageSystemFunctions E pc ?d (GetSystemFunctions (cfg_Viper r)) h4 = (Ret er4, h5)"
    and rest4: "(case er4 of Some e \<Rightarrow> set_error E c3 ri3 e | None \<Rightarrow> ret (c3, ri3, empty_Result, None)) h5 = (Ret (c', ri', res, None), h')"
    by (auto simp: er3 bnd_Ret)
  have "proper er4" using returnsD [OF proper_dbclient(13) [OF F] fns] .
  with rest4 have fin: "er4 = None" "c' = c3" "ri' = ri3" "h' = h5" by (auto simp: set_error_fails run_ret split: option.splits)
  have "endpoint (UpdateClusterStatus (ri_HostParams ?ri) st) = Some (ci_Host m, ci_Port m)"
    using st by (auto simp: UpdateHostPortStatus_def UpdateClusterStatus_def bnd_Ret run_ret endpoint_def Let_def)
  then have "endpoint (dc_NewDB (upd_new (\<lambda>_. UpdateClusterStatus (ri_HostParams ?ri) st) c)) = Some (ci_Host m, ci_Port m)"
    by (simp add: claim_upds)
  from returnsD [OF createDatabase_endpoint [OF this] cr]
  have c2: "endpoint (dc_NewDB c2) = Some (ci_Host m, ci_Port m)" "snd (core c2) = snd (core c)" by (simp_all add: core_def claim_upds)
  note users = manage_claim_users_ok [OF man [unfolded er3] c2(1)]
  show "snd (core c') = snd (core c)" using users(2) c2(2) ri by (simp add: fin)
  have "managed_users (Uri (Some m)) (spec_Username (dc_Spec c)) (ci_Host m, ci_Port m) c3 ri3 h3 h4"
    using users(1) c2(2) ri dbclient_New_DB(1) [OF new] by (simp add: core_def)
  from managed_users_step [OF this keeps_passwords_db(7) fns refl]
  have "managed_users (Uri (Some m)) (spec_Username (dc_Spec c)) (ci_Host m, ci_Port m) c' ri' h3 h'" by (simp add: fin)
  then show "managed_users (Uri (Some m)) (spec_Username (dc_Spec c)) (ci_Host m, ci_Port m) c' ri' h h'"
    by (intro managed_users_before [OF keeps_passwords_db(1) new] managed_users_before [OF keeps_passwords_create(2) st]
        managed_users_before [OF keeps_passwords_create(1) cr])
qed

lemma keeps_passwords_clerical: "clerical keeps_passwords"
  by (simp add: clerical_def)

text \<open>A claim as it is after some steps: what the secret depends on is unchanged, and there is a
  connection for the new database.\<close>

definition steady :: "DatabaseClaim \<Rightarrow> DatabaseClaim \<Rightarrow> bool" where
  "steady c c' \<longleftrightarrow> snd (core c') = snd (core c) \<and> endpoint (dc_NewDB c') \<noteq> None"

lemma steady_core: "steady c d \<Longrightarrow> core d' = core d \<Longrightarrow> steady c d'"
  by (simp add: steady_def core_def)

lemma steady_endpoint: "snd (core d) = snd (core c) \<Longrightarrow> endpoint (dc_NewDB d) = Some hp \<Longrightarrow> steady c d"
  by (simp add: steady_def)

lemma steady_trans: "steady c d \<Longrightarrow> steady d e \<Longrightarrow> steady c e"
  by (simp add: steady_def)

lemma steady_reporting:
  assumes "steady c d"
  shows "returns (\<lambda>a. steady c (fst a)) (SetConditionAndUpdateStatus E d cond)"
    "returns (\<lambda>a. steady c (fst a)) (ClearError E d)" "returns (\<lambda>a. steady c (fst a)) (SetError E d e)"
    "returns (\<lambda>a. steady c (fst a)) (set_error E d ri e)" "returns (\<lambda>a. steady c (fst a)) (UpdateStatus E d)"
proof -
  show "returns (\<lambda>a. steady c (fst a)) (SetConditionAndUpdateStatus E d cond)" "returns (\<lambda>a. steady c (fst a)) (ClearError E d)"
    "returns (\<lambda>a. steady c (fst a)) (UpdateStatus E d)"
    by (rule returns_mono [OF core_reporting(2)], rule steady_core [OF assms], assumption,
      rule returns_mono [OF core_reporting(3)], rule steady_core [OF assms], assumption,
      rule returns_mono [OF core_reporting(1)], rule steady_core [OF assms], assumption)
  show err: "returns (\<lambda>a. steady c (fst a)) (SetError E d e)"
    by (rule returns_mono [OF core_reporting(4)]) (rule steady_core [OF assms])
  show "returns (\<lambda>a. steady c (fst a)) (set_error E d ri e)"
    unfolding set_error_def by (rule returns_bnd_of [OF err]) (auto intro!: returns_ret)
qed

lemma steady_users:
  assumes "steady c d"
  shows "returns (\<lambda>a. steady c (fst a)) (manage_claim_users E v pc dn m d ri)"
proof -
  from assms obtain hp where "endpoint (dc_NewDB d) = Some hp" by (auto simp: steady_def)
  from manageUser_endpoint [OF this] show ?thesis unfolding manage_claim_users_def
    by (rule returns_bnd_of) (use assms in \<open>auto intro!: returns_ret simp: steady_def core_def claim_upds\<close>)
qed

lemma steady_setup_database:
  assumes "steady c d"
  shows "returns (\<lambda>a. steady c (fst a)) (setup_database E r ri d m ci)" (is "returns ?Q _")
proof -
  have host: "returns (\<lambda>st. endpoint (UpdateClusterStatus hp st) = Some (ci_Host ci, ci_Port ci))
      (UpdateHostPortStatus E (ci_Host ci) (ci_Port ci) (ci_SSLMode ci) (dc_NewDB d))" for hp
    unfolding UpdateHostPortStatus_def
    by (intro returns_bnd returns_ret) (simp add: endpoint_def UpdateClusterStatus_def Let_def)
  have create: "returns (\<lambda>a. steady c (fst a)) (createDatabaseAndExtensions E pc (upd_new (\<lambda>_. UpdateClusterStatus hp st) d) m)"
    if "endpoint (UpdateClusterStatus hp st) = Some (ci_Host ci, ci_Port ci)" for pc hp st
    by (rule returns_mono [OF createDatabase_endpoint]) (use that assms in \<open>auto simp: steady_def core_def claim_upds\<close>)
  have users: "returns ?Q (bnd (manage_claim_users E (cfg_Viper r) pc dn m d1 ri) (\<lambda>(c, ri, er). case er of Some e \<Rightarrow> set_error E c ri e | None \<Rightarrow>
      bnd (ManageSystemFunctions E pc dn fs) (\<lambda>er. case er of Some e \<Rightarrow> set_error E c ri e | None \<Rightarrow> ret (c, ri, empty_Result, None))))"
    if "steady c d1" for pc dn d1 ri fs
    by (rule returns_bnd_of [OF steady_users [OF that]])
      (auto intro!: steady_reporting returns_bnd [where m = "ManageSystemFunctions E pc dn fs"] returns_ret split: option.split)
  have rest: "returns ?Q (bnd (UpdateHostPortStatus E (ci_Host ci) (ci_Port ci) (ci_SSLMode ci) (dc_NewDB d)) (\<lambda>st.
      bnd (createDatabaseAndExtensions E pc (upd_new (\<lambda>_. UpdateClusterStatus hp st) d) m) (\<lambda>(c, er). case er of
        Some e \<Rightarrow> set_error E c ri e | None \<Rightarrow> k c)))" if "\<And>d1. steady c d1 \<Longrightarrow> returns ?Q (k d1)" for pc hp ri k
    by (rule returns_bnd_of [OF host], rule returns_bnd_of [OF create])
      (auto intro!: steady_reporting that split: option.split)
  show ?thesis unfolding setup_database_def Let_def
    by (rule returns_bnd) (auto intro!: returns_ret rest users simp: assms split: sum.split)
qed

text \<open>Whatever a step towards a new database answers, the claim still has a connection for it; without
  an error the users are managed on some server.\<close>

definition publishes :: "DatabaseClaim \<Rightarrow> outcome go_prog \<Rightarrow> bool" where
  "publishes c m \<longleftrightarrow> (\<forall>h c' ri res er h'. m h = (Ret (c', ri, res, er), h') \<longrightarrow> steady c c' \<and>
     (er = None \<longrightarrow> (\<exists>s. managed_users (Uri (Some s)) (spec_Username (dc_Spec c)) (ci_Host s, ci_Port s) c' ri h h')))"

lemma publishes_ret:
  "steady c d \<Longrightarrow> er \<noteq> None \<or> ri_TempSecret ri = [] \<Longrightarrow> publishes c (ret (d, ri, res, er))"
  by (auto simp: publishes_def run_ret managed_users_def)

lemma publishes_bnd:
  assumes "emits keeps_passwords m" and "returns Q m" and "\<And>x. Q x \<Longrightarrow> publishes c (f x)"
  shows "publishes c (bnd m f)"
  unfolding publishes_def
proof (intro allI impI)
  fix h c' ri res er h'
  assume "bnd m f h = (Ret (c', ri, res, er), h')"
  then obtain x h1 where m: "m h = (Ret x, h1)" and f: "f x h1 = (Ret (c', ri, res, er), h')"
    by (auto simp: bnd_Ret)
  from assms(3) [OF returnsD [OF assms(2) m]] f managed_users_before [OF assms(1) m]
  show "steady c c' \<and>
     (er = None \<longrightarrow> (\<exists>s. managed_users (Uri (Some s)) (spec_Username (dc_Spec c)) (ci_Host s, ci_Port s) c' ri h h'))"
    unfolding publishes_def by blast
qed

lemma publishes_set_error: "proper (Some e) \<Longrightarrow> steady c d \<Longrightarrow> publishes c (set_error E d ri e)"
  unfolding publishes_def
  by (intro allI impI conjI) (auto simp: set_error_fails dest: returnsD [OF steady_reporting(4)])

lemma publishes_setup_database:
  assumes "foreign_errors E" and "steady c d" and "ri_TempSecret ri = []"
  shows "publishes c (setup_database E r ri d M_UseNewDB m)"
  unfolding publishes_def
proof (intro allI impI)
  fix h c' ri' res er h' assume run: "setup_database E r ri d M_UseNewDB m h = (Ret (c', ri', res, er), h')"
  from returnsD [OF steady_setup_database [OF assms(2)] run] have "steady c c'" by simp
  moreover have "spec_Username (dc_Spec c) = spec_Username (dc_Spec d)" using assms(2) by (simp add: steady_def core_def)
  ultimately show "steady c c' \<and>
     (er = None \<longrightarrow> (\<exists>s. managed_users (Uri (Some s)) (spec_Username (dc_Spec c)) (ci_Host s, ci_Port s) c' ri' h h'))"
    using setup_database_ok(1) [OF assms(1) _ assms(3)] run by (cases er) (simp_all, blast)
qed

lemma publishes_reconcileNewDB:
  assumes F: "foreign_errors E" and c: "steady c c" and ri: "ri_TempSecret ri = []"
  shows "publishes c (reconcileNewDB E r ri c M_UseNewDB)"
proof -
  note clerical = emits_status [OF keeps_passwords_clerical]
  have answer: "publishes c (ret (d, ri, res, er))" if "steady c d" for d res er
    by (rule publishes_ret [OF that]) (simp add: ri)
  have ready: "publishes c (bnd (GetMasterCredsDeprecated E sns sn dn ssl) (\<lambda>rm. case rm of
      Inl _ \<Rightarrow> ret (d, ri, w, None) | Inr ci \<Rightarrow> setup_database E r ri d M_UseNewDB ci))" if "steady c d" for d sns sn dn ssl w
    by (rule publishes_bnd [where Q = "\<lambda>_. True"])
      (auto intro!: emits_GetMasterCreds answer publishes_setup_database F that ri simp: returns_def split: sum.split)
  have cleared: "publishes c (bnd (ClearError E d) (\<lambda>(c, er). case er of Some e \<Rightarrow> ret (c, ri, empty_Result, Some e) | None \<Rightarrow> k c))"
    if "steady c d" "\<And>d. steady c d \<Longrightarrow> publishes c (k d)" for d k
    by (rule publishes_bnd [where Q = "\<lambda>a. steady c (fst a)", OF clerical(4) steady_reporting(2) [OF that(1)]])
      (auto intro!: answer that(2) split: option.split)
  have host: "publishes c (bnd prog (\<lambda>(c, rr). case rr of Inl e \<Rightarrow> ret (c, ri, empty_Result, Some e) | Inr b \<Rightarrow> k c b))"
    if "steady c d" "manage_cloud_host E r ri d M_UseNewDB = Some prog" "\<And>d b. steady c d \<Longrightarrow> publishes c (k d b)" for d prog k
  proof (rule publishes_bnd [OF core_host(2) [OF that(2)]])
    show "returns (\<lambda>a. steady c (fst a)) prog"
      by (rule returns_mono [OF core_host(1) [OF that(2)]]) (rule steady_core [OF that(1)])
  qed (auto intro!: answer that(3) split: sum.split)
  show ?thesis unfolding reconcileNewDB_def Let_def
    by (rule publishes_bnd [OF clerical(2) steady_reporting(1) [OF c]])
      (auto intro!: answer host cleared ready publishes_set_error split: option.split)
qed

lemma keeps_passwords_reporting:
  "emits keeps_passwords (ActiveDBSuccessReconcile E sm c)" "emits keeps_passwords (SuccessAndUpdateCondition E sm c)"
  "emits keeps_passwords (UpdateStatus E c)"
  by (intro emits_status keeps_passwords_clerical)+

text \<open>What a successful publication has to show, from the history \<open>h0\<close> on.\<close>

definition credentials_ok :: "DatabaseClaim \<Rightarrow> history \<Rightarrow> history \<Rightarrow> bool" where
  "credentials_ok c h0 h \<longleftrightarrow> (\<forall>d u. password_of d u h = password_of d u h0) \<or>
     (\<exists>m. published m c h \<or> not_found (Uri (Some m)) (spec_Username (dc_Spec c)) h0 h)"

lemma credentials_ok_step:
  assumes "credentials_ok c h0 h" and "emits keeps_passwords p" and "emits keeps_secrets p" and "p h = (r, h')"
  shows "credentials_ok c h0 h'"
proof -
  note kept = passwords_kept [OF assms(2,4)] and same = secrets_kept [OF assms(3,4)]
  from emits_extends [OF assms(2,4)] obtain es where "h' = es @ h" by blast
  then have "not_found db base h0 h'" if "not_found db base h0 h" for db base
    using that by (intro not_found_mono [of db base h0 h "[]" h0 h' es]) simp_all
  moreover have "published m c h' = published m c h" for m by (simp add: published_def kept same)
  ultimately show ?thesis using assms(1) kept unfolding credentials_ok_def by metis
qed

lemma use_new_ok:
  assumes F: "foreign_errors E" and rw: "reads_own_writes E" and run: "use_new E r ri c h = (Ret (c', res, er), h')"
    and c: "steady c c" and ri: "ri_TempSecret ri = []" and key: "spec_DSNName (dc_Spec c) \<in> {[], DSNKey}"
    and switched: "endpoint (dc_NewDB c') = None"
  shows "credentials_ok c h h'"
proof -
  from run [unfolded use_new_def Let_def] obtain c1 ri1 res1 er1 h1 where new: "reconcileNewDB E r ri c M_UseNewDB h = (Ret (c1, ri1, res1, er1), h1)"
    and rest: "(case er1 of Some e \<Rightarrow> SetError E c1 e | None \<Rightarrow>
         if RequeueAfter res1 > 0 then ret (c1, res1, None) else
         bnd (publish_password E r c1 ri1) (\<lambda>er. case er of Some e \<Rightarrow> SetError E c1 e
         | None \<Rightarrow> ActiveDBSuccessReconcile E (rec_statusManager r) (upd_new (\<lambda>_. empty_Status) (upd_active
             (\<lambda>_. (dc_NewDB c1)\<lparr>st_DbState := if ri_SharedDBHost ri1 then UsingSharedHost else Ready\<rparr>) c1)))) h1 = (Ret (c', res, er), h')"
    by (auto simp: bnd_Ret)
  from publishes_reconcileNewDB [OF F c ri] new have c1: "steady c c1"
    and users: "er1 = None \<Longrightarrow> \<exists>s. managed_users (Uri (Some s)) (spec_Username (dc_Spec c)) (ci_Host s, ci_Port s) c1 ri1 h h1"
    by (auto simp: publishes_def)
  have stuck: "SetError E c1 e hx \<noteq> (Ret (c', res, er), h')" for e hx
  proof
    assume "SetError E c1 e hx = (Ret (c', res, er), h')"
    from returnsD [OF steady_reporting(3) [OF c1] this] switched show False by (simp add: steady_def)
  qed
  have "c1 \<noteq> c'" using c1 switched by (auto simp: steady_def)
  with rest stuck obtain h2 where er1: "er1 = None" and pub: "publish_password E r c1 ri1 h1 = (Ret None, h2)"
    and fin: "ActiveDBSuccessReconcile E (rec_statusManager r) (upd_new (\<lambda>_. empty_Status) (upd_active
             (\<lambda>_. (dc_NewDB c1)\<lparr>st_DbState := if ri_SharedDBHost ri1 then UsingSharedHost else Ready\<rparr>) c1)) h2 = (Ret (c', res, er), h')"
    by (auto simp: bnd_Ret run_ret split: option.splits if_splits)
  have eq: "snd (core c1) = snd (core c)" using c1 by (simp add: steady_def)
  then have spec: "spec_Username (dc_Spec c1) = spec_Username (dc_Spec c)" "spec_DSNName (dc_Spec c1) = spec_DSNName (dc_Spec c)"
    by (simp_all add: core_def)
  from users [OF er1] obtain s where s: "managed_users (Uri (Some s)) (spec_Username (dc_Spec c1)) (ci_Host s, ci_Port s) c1 ri1 h h1"
    by (auto simp: spec)
  have "credentials_ok c h h2"
    using publish_password_ok [OF rw pub s] key unfolding credentials_ok_def spec published_core [OF eq] by auto
  then show ?thesis by (rule credentials_ok_step) (rule keeps_passwords_reporting keeps_secrets_parts fin)+
qed

section \<open>An existing database\<close>

lemma getClient_returns:
  assumes "endpoint st \<noteq> None"
  shows "returns (\<lambda>(st', rc). endpoint st' \<noteq> None \<and>
    (\<forall>pc. rc = Inr pc \<longrightarrow> pc_DB pc = Uri (Some m) \<and> endpoint st' = Some (ci_Host m, ci_Port m))) (getClientForExistingDB E st m)"
proof -
  have host: "returns (\<lambda>st'. endpoint st' = Some (ci_Host m, ci_Port m)) (UpdateHostPortStatus E (ci_Host m) (ci_Port m) (ci_SSLMode m) st)"
    unfolding UpdateHostPortStatus_def by (intro returns_bnd returns_ret) (simp add: endpoint_def)
  have new: "returns (\<lambda>rc. \<forall>pc. rc = Inr pc \<longrightarrow> pc_DB pc = Uri (Some m)) (dbclient_New E (Uri (Some m)))"
    by (auto simp: returns_def dest: dbclient_New_DB)
  show ?thesis unfolding getClientForExistingDB_def
    using assms by (auto intro!: returns_ret returns_bnd_of [OF host] returns_bnd_of [OF new])
qed

lemma adopt_active_steady:
  assumes "steady c c"
  shows "returns (steady c) (of_go (adopt_active c m))"
  using assms unfolding adopt_active_def of_go_def
  by (auto intro!: returns_ret returns_panic simp: steady_def endpoint_def core_def claim_upds split: option.split)

lemma keeps_passwords_existing:
  "emits keeps_passwords (getClientForExistingDB E st m)" "emits keeps_passwords (updated_recently E v st)"
  "emits keeps_passwords (GetSourceDataFromDSN E c)" "emits keeps_passwords (setMasterPasswordInTempSecret E d c)"
  "emits keeps_passwords (UpdateDBStatus E dn st)"
  unfolding getClientForExistingDB_def updated_recently_def Since_def GetSourceDataFromDSN_def
  by (intro trace_intros keeps_passwords_db keeps_passwords_create emits_secrets emits_status emits_clerical_calls
      emits_fetchAdmin keeps_passwords_clerical keeps_passwords_other)+

lemma credentials_ok_before:
  assumes "emits keeps_passwords p" and "p h0 = (r, h1)" and "credentials_ok c h1 h"
  shows "credentials_ok c h0 h"
proof -
  from emits_extends [OF assms(1,2)] obtain es where "h1 = es @ h0" by blast
  then have "not_found db base h0 h" if "not_found db base h1 h" for db base
    using that by (intro not_found_mono [of db base h1 h es h0 h "[]"]) simp_all
  with assms(3) passwords_kept [OF assms(1,2)] show ?thesis unfolding credentials_ok_def by metis
qed

text \<open>The counterpart of \<open>publishes\<close> for the steps with an existing database, which publish themselves.\<close>

definition publishes_existing :: "DatabaseClaim \<Rightarrow> work go_prog \<Rightarrow> bool" where
  "publishes_existing c m \<longleftrightarrow> (\<forall>h c' ri er h'. m h = (Ret (c', ri, er), h') \<longrightarrow>
     steady c c' \<and> (er = None \<longrightarrow> credentials_ok c h h'))"

lemma publishes_existing_ret: "steady c d \<Longrightarrow> publishes_existing c (ret (d, ri, Some e))"
  by (simp add: publishes_existing_def run_ret)

lemma publishes_existing_bnd:
  assumes "emits keeps_passwords m" and "returns Q m" and "\<And>x. Q x \<Longrightarrow> publishes_existing c (f x)"
  shows "publishes_existing c (bnd m f)"
  unfolding publishes_existing_def
proof (intro allI impI)
  fix h c' ri er h'
  assume "bnd m f h = (Ret (c', ri, er), h')"
  then obtain x h1 where m: "m h = (Ret x, h1)" and f: "f x h1 = (Ret (c', ri, er), h')" by (auto simp: bnd_Ret)
  from assms(3) [OF returnsD [OF assms(2) m]] f credentials_ok_before [OF assms(1) m]
  show "steady c c' \<and> (er = None \<longrightarrow> credentials_ok c h h')"
    unfolding publishes_existing_def by blast
qed

lemma publishes_existing_users:
  assumes rw: "reads_own_writes E" and d: "snd (core d) = snd (core c)" "endpoint (dc_NewDB d) = Some (ci_Host m, ci_Port m)"
    and pc: "pc_DB pc = Uri (Some m)" and ri: "ri_TempSecret ri = []" and key: "spec_DSNName (dc_Spec c) \<in> {[], DSNKey}"
  shows "publishes_existing c (bnd (manage_claim_users E v pc dn mode d ri) (\<lambda>(c, reqInfo, er). case er of Some e \<Rightarrow> ret (c, reqInfo, Some e) | None \<Rightarrow>
     bnd (UpdateStatus E c) (\<lambda>(c, er). case er of Some e \<Rightarrow> ret (c, reqInfo, Some e) | None \<Rightarrow>
     bnd (check_err (publish_password E r c reqInfo) (check_err (CreateDefaultExtensions E pc dn) (ManageSystemFunctions E pc dn fs)))
       (\<lambda>er. ret (c, reqInfo, er)))))" (is "publishes_existing c ?m")
  unfolding publishes_existing_def
proof (intro allI impI conjI)
  fix h c' ri' er h' assume run: "?m h = (Ret (c', ri', er), h')"
  have "steady c d" using d by (rule steady_endpoint)
  moreover have "returns (\<lambda>a. steady c (fst a)) (bnd (UpdateStatus E c1) (\<lambda>(c, er). case er of Some e \<Rightarrow> ret (c, ri1, Some e) | None \<Rightarrow>
     bnd (n c) (\<lambda>er. ret (c, ri1, er))))" if "steady c c1" for c1 ri1 n
    by (rule returns_bnd_of [OF steady_reporting(5) [OF that]]) (auto intro!: returns_ret returns_bnd split: option.split)
  ultimately have "returns (\<lambda>a. steady c (fst a)) ?m"
    by (intro returns_bnd_of [OF steady_users]) (auto intro!: returns_ret split: option.split)
  from returnsD [OF this run] show "steady c c'" by simp
  assume "er = None"
  with run obtain c1 ri1 h1 h2 h3 h4 where man: "manage_claim_users E v pc dn mode d ri h = (Ret (c1, ri1, None), h1)"
    and st: "UpdateStatus E c1 h1 = (Ret (c', None), h2)" and pub: "publish_password E r c' ri1 h2 = (Ret None, h3)"
    and ext: "CreateDefaultExtensions E pc dn h3 = (Ret None, h4)" and fns: "ManageSystemFunctions E pc dn fs h4 = (Ret None, h')"
    by (auto simp: bnd_Ret run_ret check_err_def split: option.splits)
  note users = manage_claim_users_ok [OF man d(2) ri]
  from returnsD [OF core_reporting(1) st] have core': "core c' = core c1" by simp
  then have eq: "snd (core c') = snd (core c)" using users(2) d(1) by simp
  then have spec: "spec_Username (dc_Spec c') = spec_Username (dc_Spec c)" "spec_DSNName (dc_Spec c') = spec_DSNName (dc_Spec c)"
    "spec_Username (dc_Spec d) = spec_Username (dc_Spec c)" using d(1) by (simp_all add: core_def)
  from users(1) have "managed_users (Uri (Some m)) (spec_Username (dc_Spec c)) (ci_Host m, ci_Port m) c1 ri1 h h1"
    by (simp add: pc spec)
  from managed_users_step [OF this keeps_passwords_reporting(3) st]
  have "managed_users (Uri (Some m)) (spec_Username (dc_Spec c')) (ci_Host m, ci_Port m) c' ri1 h h2"
    using core' by (simp add: spec core_def)
  from publish_password_ok [OF rw pub this] key have "credentials_ok c h h3"
    unfolding credentials_ok_def spec published_core [OF eq] by auto
  then have "credentials_ok c h h4" by (rule credentials_ok_step) (rule keeps_passwords_db keeps_secrets_parts ext)+
  then show "credentials_ok c h h'" by (rule credentials_ok_step) (rule keeps_passwords_db keeps_secrets_parts fns)+
qed

lemma publishes_reconcileUseExistingDB:
  assumes rw: "reads_own_writes E" and c: "steady c c" and ri: "ri_TempSecret ri = []" and key: "spec_DSNName (dc_Spec c) \<in> {[], DSNKey}"
  shows "publishes_existing c (reconcileUseExistingDB E r ri c mode)"
proof -
  have any: "returns (\<lambda>_. True) m" for m :: "'b go_prog" by (simp add: returns_def)
  have adopted: "emits keeps_passwords (of_go (adopt_active c m))" for m
    by (auto simp: of_go_def intro!: trace_intros split: go.split)
  have client: "publishes_existing c (bnd (getClientForExistingDB E (dc_NewDB d) m) (\<lambda>(st, rc).
     case rc of Inl e \<Rightarrow> ret (upd_new (\<lambda>_. st) d, ri, Some e) | Inr dbClient \<Rightarrow>
     bnd (UpdateDBStatus E dn (dc_NewDB (upd_new (\<lambda>_. st) d))) (\<lambda>st'.
     bnd (manage_claim_users E v dbClient dn mode (upd_new (\<lambda>_. st') (upd_new (\<lambda>_. st) d)) ri)
       (\<lambda>(c, reqInfo, er). case er of Some e \<Rightarrow> ret (c, reqInfo, Some e) | None \<Rightarrow>
     bnd (UpdateStatus E c) (\<lambda>(c, er). case er of Some e \<Rightarrow> ret (c, reqInfo, Some e) | None \<Rightarrow>
     bnd (check_err (publish_password E r c reqInfo) (check_err (CreateDefaultExtensions E dbClient dn) (ManageSystemFunctions E dbClient dn fs)))
       (\<lambda>er. ret (c, reqInfo, er)))))))" if "steady c d" for d m dn v fs
  proof (rule publishes_existing_bnd [OF keeps_passwords_existing(1) getClient_returns])
    show "endpoint (dc_NewDB d) \<noteq> None" using that by (simp add: steady_def)
  qed (use that in \<open>auto intro!: publishes_existing_ret publishes_existing_bnd [OF keeps_passwords_existing(5) UpdateDBStatus_endpoint]
      publishes_existing_users [OF rw _ _ _ ri key] simp: steady_def core_def claim_upds split: sum.split\<close>)
  have temp: "publishes_existing c (bnd (setMasterPasswordInTempSecret E pw d) (\<lambda>er. case er of Some e \<Rightarrow> ret (d, ri, Some e) | None \<Rightarrow> k))"
    if "steady c d" "publishes_existing c k" for pw d k
    by (rule publishes_existing_bnd [OF keeps_passwords_existing(4) any])
      (auto intro!: publishes_existing_ret that split: option.split)
  have source: "publishes_existing c (bnd (GetSourceDataFromDSN E c) (\<lambda>rs. case rs of Inl e \<Rightarrow> ret (c, ri, Some e) | Inr x \<Rightarrow> k x))"
    if "\<And>x. publishes_existing c (k x)" for k
    by (rule publishes_existing_bnd [OF keeps_passwords_existing(3) any])
      (auto intro!: publishes_existing_ret c that split: sum.split)
  have state: "steady c (upd_new (\<lambda>st. st\<lparr>st_DbState := a, st_SourceDataFrom := b\<rparr>) d)" if "steady c d" for d a b
    using that by (simp add: steady_def core_def endpoint_def claim_upds)
  show ?thesis unfolding reconcileUseExistingDB_def Let_def
    by (rule publishes_existing_bnd [OF keeps_passwords_existing(2) any])
      (auto intro!: publishes_existing_ret c source publishes_existing_bnd [OF adopted adopt_active_steady [OF c]] temp client state
        split: sum.split)
qed

lemma use_existing_ok:
  assumes rw: "reads_own_writes E" and run: "use_existing E r ri c h = (Ret (c', res, er), h')"
    and c: "steady c c" and ri: "ri_TempSecret ri = []" and key: "spec_DSNName (dc_Spec c) \<in> {[], DSNKey}"
    and switched: "endpoint (dc_NewDB c') = None"
  shows "credentials_ok c h h'"
proof -
  from run [unfolded use_existing_def Let_def] obtain c1 ri1 er1 h1 where old: "reconcileUseExistingDB E r ri c M_UseExistingDB h = (Ret (c1, ri1, er1), h1)"
    and rest: "(case er1 of Some e \<Rightarrow> SetError E c1 e | None \<Rightarrow>
         if st_ConnectionInfo (dc_ActiveDB (upd_new (\<lambda>_. empty_Status) (upd_active (\<lambda>_. dc_NewDB c1) c1))) = None
         then SetError E (upd_new (\<lambda>_. empty_Status) (upd_active (\<lambda>_. dc_NewDB c1) c1)) (ErrMsg ''invalid new db connection'')
         else SuccessAndUpdateCondition E (rec_statusManager r) (upd_new (\<lambda>_. empty_Status) (upd_active (\<lambda>_. dc_NewDB c1) c1))) h1 =
           (Ret (c', res, er), h')"
    by (auto simp: bnd_Ret)
  from publishes_reconcileUseExistingDB [OF rw c ri key] old have c1: "steady c c1" and ok: "er1 = None \<Longrightarrow> credentials_ok c h h1"
    by (auto simp: publishes_existing_def)
  have stuck: "SetError E c1 e hx \<noteq> (Ret (c', res, er), h')" for e hx
    by (rule notI, drule returnsD [OF steady_reporting(3) [OF c1]]) (use switched in \<open>simp add: steady_def\<close>)
  have "st_ConnectionInfo (dc_NewDB c1) \<noteq> None" using c1 by (auto simp: steady_def endpoint_def)
  with rest stuck have er1: "er1 = None" and fin: "SuccessAndUpdateCondition E (rec_statusManager r)
      (upd_new (\<lambda>_. empty_Status) (upd_active (\<lambda>_. dc_NewDB c1) c1)) h1 = (Ret (c', res, er), h')"
    by (auto simp: claim_upds split: option.splits)
  from ok [OF er1] show ?thesis by (rule credentials_ok_step) (rule keeps_passwords_reporting keeps_secrets_parts fin)+
qed

section \<open>Properties\<close>

text \<open>
  C7: the credentials that a claim publishes are the credentials the database has. In the modes that
  provide a claim with a database, a new one or an existing one, when the request gets so far that the claim
  switches to the database, then either no password of any user was touched, or the secret of the claim
  has the URI of a connection to the server, names one of the two users of the claim's role, and the
  password in it is the one that this user was given there. The one exception is a renamed role
  whose first user the server does not know.
\<close>

theorem published_credentials_work:
  assumes "foreign_errors E" and "reads_own_writes E"
    and "executeDbClaimRequest E r ri c h = (Ret (c', res, er), h')"
    and "fst (getMode ri c) \<in> {M_UseNewDB, M_UseExistingDB}"
    and "ri_TempSecret ri = []" and "spec_DSNName (dc_Spec c) \<in> {[], DSNKey}"
    and "st_ConnectionInfo (dc_NewDB c) \<noteq> None" and "st_ConnectionInfo (dc_NewDB c') = None"
  shows "(\<forall>db u. password_of db u h' = password_of db u h) \<or>
    (\<exists>m. published m c h' \<or> not_found (Uri (Some m)) (spec_Username (dc_Spec c)) h h')"
proof -
  obtain mode c1 where mode: "getMode ri c = (mode, c1)" by fastforce
  with assms(4) have cases: "mode = M_UseNewDB \<or> mode = M_UseExistingDB" by auto
  from mode have "snd (core c1) = snd (core c)" "endpoint (dc_NewDB c1) = endpoint (dc_NewDB c)"
    by (auto simp: getMode_defs core_def endpoint_def claim_upds split: if_splits option.splits)
  then have c1: "steady c c1" using assms(7) by (simp add: steady_def endpoint_def)
  from assms(3) cases obtain c2 er2 h1 where st: "UpdateStatus E c1 h = (Ret (c2, er2), h1)"
    and rest: "(case er2 of Some e \<Rightarrow> SetError E c2 e | None \<Rightarrow>
        (if mode = M_UseNewDB then use_new E r ri c2 else use_existing E r ri c2)) h1 = (Ret (c', res, er), h')"
    by (auto simp: executeDbClaimRequest_def mode bnd_Ret)
  from returnsD [OF steady_reporting(5) [OF c1] st] have c2: "steady c c2" by simp
  have switched: "endpoint (dc_NewDB c') = None" using assms(8) by (simp add: endpoint_def)
  have "SetError E c2 e h1 \<noteq> (Ret (c', res, er), h')" for e
    by (rule notI, drule returnsD [OF steady_reporting(3) [OF c2]]) (use switched in \<open>simp add: steady_def\<close>)
  with rest have er2: "er2 = None" by (auto split: option.splits)
  have eq: "snd (core c2) = snd (core c)" and self: "steady c2 c2" using c2 by (simp_all add: steady_def)
  then have key: "spec_DSNName (dc_Spec c2) \<in> {[], DSNKey}" using assms(6) by (simp add: core_def)
  from rest er2 have "credentials_ok c2 h1 h'"
    using use_new_ok [OF assms(1,2) _ self assms(5) key switched] use_existing_ok [OF assms(2) _ self assms(5) key switched]
    by (auto split: if_splits)
  from credentials_ok_before [OF keeps_passwords_reporting(3) st this] eq show ?thesis
    by (simp add: credentials_ok_def published_core [OF eq]) (simp add: core_def)
qed

section \<open>Witness\<close>

text \<open>A claim for an existing database, whose connection string is in the secret \<open>src\<close>.\<close>

definition source_conn :: ConnInfo where
  "source_conn = \<lparr>ci_Host = ''h'', ci_Port = ''1'', ci_DatabaseName = ''d'', ci_Username = ''u'', ci_Password = ''p'', ci_SSLMode = ''require''\<rparr>"

lemma source_conn_dsn: "Uri (Some source_conn) = sample_dsn"
  by (simp add: source_conn_def sample_dsn_def)

lemma ParseUri_sample: "ParseUri sample_dsn = Inr source_conn"
  unfolding source_conn_dsn [symmetric]
  by (rule uri_codec.dec_enc) (simp add: source_conn_def uri_safe_def plain_char_def is_alnum_def is_digit_def)

definition source_history :: history where
  "source_history = [K8s (EvCreateSecret (empty_Secret\<lparr>sec_Namespace := ''shop'', sec_Name := ''src'', sec_Data := Some [DSNURIKey \<mapsto> sample_dsn]\<rparr>) None)]"

definition existing_claim :: DatabaseClaim where
  "existing_claim = upd_spec (\<lambda>s. s\<lparr>spec_UseExistingSource := Some True, spec_SourceDataFrom := Some \<lparr>sdf_Type = ''database'',
     sdf_Database = Some \<lparr>db_DSN = [], db_SecretRef = Some \<lparr>sr_Namespace = [], sr_Name = ''src''\<rparr>\<rparr>\<rparr>\<rparr>)
     (upd_new (\<lambda>_. fresh_Status) sample_claim)"

lemma existing_claim_fields:
  "dc_Namespace existing_claim = ''shop''" "spec_SecretName (dc_Spec existing_claim) = ''orders-secret''"
  "spec_Username (dc_Spec existing_claim) = ''app''" "spec_DSNName (dc_Spec existing_claim) = DSNKey"
  by (simp_all add: existing_claim_def sample_claim_def claim_upds)

lemma source_conn_fields:
  "ci_Host source_conn = ''h''" "ci_Port source_conn = ''1''" "ci_Username source_conn = ''u''" "ci_Password source_conn = ''p''"
  "ci_SSLMode source_conn = ''require''" "ci_DatabaseName source_conn = ''d''"
  by (simp_all add: source_conn_def)

text \<open>Running a program without looking into its continuation before the step is done.\<close>

lemma bnd_stop: "bnd m f = bnd m f" by (rule refl)

lemma store_env_answers:
  "e_Open (e_sql store_env) h d = None" "e_Ping (e_sql store_env) h d = None" "e_Exec (e_sql store_env) h d q = None"
  "qu \<in> {Q_RoleExists u, Q_SchemaExists u, Q_UserExists u, Q_HasCreateRole u} \<Longrightarrow> e_QueryBool (e_sql store_env) h d qu = Inr True"
  "e_Now (e_sys store_env) h = 1000000000" "e_GeneratePassword (e_sys store_env) h n k s = Inr ''pw''"
  "e_UpdateClaimStatus (e_k8s store_env) h c = Inr ''8''"
  by (auto simp: store_env_def sample_defs)

lemmas store_env_runs = prog_simps sys_calls sql_calls store_env_answers Parse_sample_dsn Let_def

text \<open>The claims that a reconciliation of \<open>existing_claim\<close> goes through.\<close>

definition like_existing :: "DatabaseClaim \<Rightarrow> bool" where
  "like_existing c \<longleftrightarrow> dc_Spec c = dc_Spec existing_claim \<and> dc_ActiveDB c = dc_ActiveDB existing_claim \<and>
     dc_Namespace c = ''shop'' \<and> m_DeletionTimestamp (dc_Meta c) = None"

lemma like_existing_upd:
  "like_existing (upd_new f c) = like_existing c" "dc_NewDB (upd_new f c) = f (dc_NewDB c)"
  "like_existing (upd_meta (\<lambda>m. m\<lparr>m_ResourceVersion := v\<rparr>) c) = like_existing c"
  "dc_NewDB (upd_meta g c) = dc_NewDB c"
  by (simp_all add: like_existing_def claim_upds)

lemma like_existing_fields:
  assumes "like_existing c"
  shows "spec_Type (dc_Spec c) = Postgres" "dc_Namespace c = ''shop''" "spec_SecretName (dc_Spec c) = ''orders-secret''"
    "spec_Username (dc_Spec c) = ''app''" "st_ConnectionInfo (dc_ActiveDB c) = None"
    "st_UserUpdatedAt (dc_ActiveDB c) = None" "st_DbState (dc_ActiveDB c) = Ready" "m_DeletionTimestamp (dc_Meta c) = None"
    "spec_SourceDataFrom (dc_Spec c) = Some \<lparr>sdf_Type = ''database'',
      sdf_Database = Some \<lparr>db_DSN = [], db_SecretRef = Some \<lparr>sr_Namespace = [], sr_Name = ''src''\<rparr>\<rparr>\<rparr>"
  using assms by (simp_all add: like_existing_def existing_claim_def sample_claim_def empty_Status_def claim_upds)

lemma UpdateStatus_store: "UpdateStatus store_env c h =
  (Ret (upd_meta (\<lambda>m. m\<lparr>m_ResourceVersion := ''8''\<rparr>) c, None), K8s (EvUpdateClaimStatus c None) # h)"
  by (simp add: UpdateStatus_def updateClaimStatus_def written_def store_env_runs)

lemma source_read:
  assumes "like_existing c" and "lookup_secret ''shop'' ''src'' h = lookup_secret ''shop'' ''src'' source_history"
  shows "\<exists>h'. GetSourceDataFromDSN store_env c h = (Ret (Inr sample_dsn), h') \<and> (\<forall>ns n. last_secret ns n h' = last_secret ns n h)"
  by (simp add: assms(2) GetSourceDataFromDSN_def fetchAdminFromSourceDataFrom_def getSourceDataFromSecretRef_def
    like_existing_fields [OF assms(1)] getSecret_run [OF store_env_reads] source_history_def prog_simps
    parseExistingDSN_def data_lookup_def ParseUri_sample source_conn_dsn Let_def)

lemma master_password_kept:
  assumes "like_existing c" and "last_secret ''shop'' ''temp-orders-secret'' h = None"
  shows "\<exists>h'. setMasterPasswordInTempSecret store_env pw c h = (Ret None, h') \<and>
    last_secret ''shop'' ''orders-secret'' h' = last_secret ''shop'' ''orders-secret'' h"
  by (simp add: assms(2) like_existing_fields [OF assms(1)] setMasterPasswordInTempSecret_def set_in_temp_secret_def
    getTempSecret_def getTempSecretName_def new_temp_secret_def getSecret_run [OF store_env_reads] createSecretObj_def
    updateSecretObj_def prog_simps)

definition no_user :: "Status \<Rightarrow> bool" where
  "no_user st \<longleftrightarrow> st_UserUpdatedAt st = None \<and> (\<exists>ci. st_ConnectionInfo st = Some ci \<and> ci_Username ci = [])"

definition sample_pool :: "client \<Rightarrow> bool" where
  "sample_pool pc \<longleftrightarrow> pc_DB pc = sample_dsn \<and> pc_dbURL pc = sample_dsn"

lemma client_opens:
  "no_user st \<Longrightarrow> \<exists>h' st' pc. getClientForExistingDB store_env st source_conn h = (Ret (st', Inr pc), h') \<and> no_user st' \<and>
     sample_pool pc \<and> last_secret ns n h' = last_secret ns n h"
  by (auto simp: getClientForExistingDB_def source_conn_fields UpdateHostPortStatus_def dbclient_New_def newPostgresClient_def
     source_conn_dsn no_user_def sample_pool_def conn_or_empty_def store_env_runs)

lemma status_recorded:
  "no_user st \<Longrightarrow> \<exists>st' h'. UpdateDBStatus store_env d st h = (Ret st', h') \<and> no_user st' \<and> last_secret ns n h' = last_secret ns n h"
  by (auto simp: UpdateDBStatus_def no_user_def conn_or_empty_def store_env_runs)

lemma users_managed:
  assumes "sample_pool pc" and "no_user (dc_NewDB c)" and "like_existing c"
  shows "\<exists>c' ri h'. manage_claim_users store_env v pc ''d'' M_UseExistingDB c (sample_reqInfo hp) h = (Ret (c', ri, None), h') \<and>
     (\<exists>ci. st_ConnectionInfo (dc_NewDB c') = Some ci) \<and> like_existing c' \<and> last_secret ns n h' = last_secret ns n h"
proof -
  from assms(2) obtain ci where ci: "st_ConnectionInfo (dc_NewDB c) = Some ci" "ci_Username ci = []" "st_UserUpdatedAt (dc_NewDB c) = None"
    by (auto simp: no_user_def)
  from assms(1,3) show ?thesis
    by (simp cong: bnd_stop add: ci like_existing_fields [OF assms(3)] sample_pool_def manage_claim_users_def users_run
      sample_reqInfo_def IsUserChanged_def NextUser_def HasSuffix_def like_existing_upd store_env_runs)
qed

lemma password_published:
  assumes "like_existing c" and "last_secret ''shop'' ''orders-secret'' h = None" and "st_ConnectionInfo (dc_NewDB c) = Some ci"
  shows "\<exists>h'. publish_password store_env r c ri h = (Ret None, h')"
  by (simp add: assms(2,3) like_existing_fields [OF assms(1)] publish_password_def createOrUpdateSecret_def createSecret_def
    getSecret_run [OF store_env_reads] createSecretObj_def prog_simps Let_def)

lemma extensions_created:
  "sample_pool pc \<Longrightarrow> \<exists>h'. check_err (CreateDefaultExtensions store_env pc d)
     (ManageSystemFunctions store_env pc d (GetSystemFunctions (cfg_Viper sample_config_r))) h = (Ret None, h')"
  by (simp cong: bnd_stop add: sample_pool_def dbclient_defs sample_config_fields sample_viper_def GetSystemFunctions_def store_env_runs)

lemma success_reported:
  "m_DeletionTimestamp (dc_Meta c) = None \<Longrightarrow>
   \<exists>c' res h'. SuccessAndUpdateCondition store_env m c h = (Ret (c', res, None), h') \<and> dc_NewDB c' = dc_NewDB c"
  by (simp cong: bnd_stop add: SuccessAndUpdateCondition_def ClearError_def SetStatusCondition_def UpdateStatus_store
    store_env_runs claim_upds)

lemma existing_reconciled:
  assumes c: "like_existing c" and new: "no_user (dc_NewDB c)"
    and h: "lookup_secret ''shop'' ''src'' h = lookup_secret ''shop'' ''src'' source_history"
      "last_secret ''shop'' ''temp-orders-secret'' h = None" "last_secret ''shop'' ''orders-secret'' h = None"
  shows "\<exists>c1 ri1 h1 ci. reconcileUseExistingDB store_env sample_config_r (sample_reqInfo hp) c M_UseExistingDB h =
     (Ret (c1, ri1, None), h1) \<and> st_ConnectionInfo (dc_NewDB c1) = Some ci \<and> like_existing c1"
proof -
  from source_read [OF c h(1)] h obtain h1 where src: "GetSourceDataFromDSN store_env c h = (Ret (Inr sample_dsn), h1)"
    and h1: "last_secret ''shop'' ''temp-orders-secret'' h1 = None" "last_secret ''shop'' ''orders-secret'' h1 = None" by auto
  define d where "d = upd_new (\<lambda>st. st\<lparr>st_DbState := UsingExistingDB, st_SourceDataFrom := spec_SourceDataFrom (dc_Spec c)\<rparr>) c"
  have d: "like_existing d" "no_user (dc_NewDB d)" using c new by (simp_all add: d_def like_existing_upd no_user_def)
  from master_password_kept [OF d(1) h1(1)] h1(2) obtain h2 where
    temp: "setMasterPasswordInTempSecret store_env ''p'' d h1 = (Ret None, h2)" and h2: "last_secret ''shop'' ''orders-secret'' h2 = None"
    by auto
  from client_opens [OF d(2), of h2 "''shop''" "''orders-secret''"] h2 obtain st1 pc h3 where
    client: "getClientForExistingDB store_env (dc_NewDB d) source_conn h2 = (Ret (st1, Inr pc), h3)"
    and st1: "no_user st1" and pc: "sample_pool pc" and h3: "last_secret ''shop'' ''orders-secret'' h3 = None" by auto
  from status_recorded [OF st1, of "''d''" h3 "''shop''" "''orders-secret''"] h3 obtain st2 h4 where
    status: "UpdateDBStatus store_env ''d'' st1 h3 = (Ret st2, h4)" and st2: "no_user st2"
    and h4: "last_secret ''shop'' ''orders-secret'' h4 = None" by auto
  have e: "like_existing (upd_new (\<lambda>_. st2) (upd_new (\<lambda>_. st1) d))" "no_user (dc_NewDB (upd_new (\<lambda>_. st2) (upd_new (\<lambda>_. st1) d)))"
    using d(1) st2 by (simp_all add: like_existing_upd)
  from users_managed [OF pc e(2,1), of "cfg_Viper sample_config_r" hp h4 "''shop''" "''orders-secret''"] h4 obtain g ri h5 ci where
    users: "manage_claim_users store_env (cfg_Viper sample_config_r) pc ''d'' M_UseExistingDB
      (upd_new (\<lambda>_. st2) (upd_new (\<lambda>_. st1) d)) (sample_reqInfo hp) h4 = (Ret (g, ri, None), h5)"
    and g: "st_ConnectionInfo (dc_NewDB g) = Some ci" "like_existing g" and h5: "last_secret ''shop'' ''orders-secret'' h5 = None" by auto
  let ?f = "upd_meta (\<lambda>m. m\<lparr>m_ResourceVersion := ''8''\<rparr>) g" and ?h6 = "K8s (EvUpdateClaimStatus g None) # h5"
  have f: "like_existing ?f" "st_ConnectionInfo (dc_NewDB ?f) = Some ci" using g by (simp_all add: like_existing_upd)
  from password_published [OF f(1) _ f(2), of ?h6 sample_config_r ri] h5 obtain h7 where
    pub: "publish_password store_env sample_config_r ?f ri ?h6 = (Ret None, h7)" by auto
  from extensions_created [OF pc, of "''d''" h7] obtain h8 where
    ext: "check_err (CreateDefaultExtensions store_env pc ''d'')
      (ManageSystemFunctions store_env pc ''d'' (GetSystemFunctions (cfg_Viper sample_config_r))) h7 = (Ret None, h8)" by blast
  have "reconcileUseExistingDB store_env sample_config_r (sample_reqInfo hp) c M_UseExistingDB h = (Ret (?f, ri, None), h8)"
    using ext by (simp cong: bnd_stop del: sample_config_fields add: reconcileUseExistingDB_def updated_recently_def adopt_active_def of_go_def like_existing_fields(6,7) [OF c]
      src ParseUri_sample d_def [symmetric] source_conn_fields temp
      client like_existing_upd status users UpdateStatus_store run_bnd check_err_def pub run_ret Let_def)
  with f show ?thesis by blast
qed

lemma existing_run:
  "\<exists>c' res h'. executeDbClaimRequest store_env sample_config_r (sample_reqInfo hp_15_3) existing_claim source_history =
     (Ret (c', res, None), h') \<and> st_ConnectionInfo (dc_NewDB c') = None"
proof -
  let ?c = "upd_meta (\<lambda>m. m\<lparr>m_ResourceVersion := ''8''\<rparr>) existing_claim"
  let ?h = "K8s (EvUpdateClaimStatus existing_claim None) # source_history"
  have c: "like_existing ?c" "no_user (dc_NewDB ?c)"
    by (simp_all add: like_existing_def no_user_def existing_claim_def sample_claim_def claim_upds empty_Status_def empty_ConnInfo_def)
  have h: "lookup_secret ''shop'' ''src'' ?h = lookup_secret ''shop'' ''src'' source_history"
    "last_secret ''shop'' ''temp-orders-secret'' ?h = None" "last_secret ''shop'' ''orders-secret'' ?h = None"
    by (simp_all add: source_history_def lookup_secret_def)
  have mode: "getMode (sample_reqInfo hp_15_3) existing_claim = (M_UseExistingDB, existing_claim)"
    by (simp add: getMode_def existing_claim_def sample_claim_def sample_reqInfo_def claim_upds empty_StatusForOldDB_def)
  from existing_reconciled [OF c h, of hp_15_3] obtain c1 ri1 h1 ci where
    run: "reconcileUseExistingDB store_env sample_config_r (sample_reqInfo hp_15_3) ?c M_UseExistingDB ?h = (Ret (c1, ri1, None), h1)"
    and c1: "st_ConnectionInfo (dc_NewDB c1) = Some ci" "like_existing c1" by blast
  let ?d = "upd_new (\<lambda>_. empty_Status) (upd_active (\<lambda>_. dc_NewDB c1) c1)"
  have d: "m_DeletionTimestamp (dc_Meta ?d) = None" "dc_ActiveDB ?d = dc_NewDB c1"
    using like_existing_fields [OF c1(2)] by (simp_all add: claim_upds)
  from success_reported [OF d(1), of "rec_statusManager sample_config_r" h1] obtain c' res h' where
    fin: "SuccessAndUpdateCondition store_env (rec_statusManager sample_config_r) ?d h1 = (Ret (c', res, None), h')"
      "dc_NewDB c' = empty_Status" by (auto simp: like_existing_upd)
  have "executeDbClaimRequest store_env sample_config_r (sample_reqInfo hp_15_3) existing_claim source_history = (Ret (c', res, None), h')"
    by (simp add: executeDbClaimRequest_def mode UpdateStatus_store use_existing_def run_bnd run d(2) c1(1) fin(1) Let_def)
  with fin(2) show ?thesis by (auto simp: empty_Status_def)
qed

theorem published_credentials_work_witness:
  "\<exists>c' res h'. executeDbClaimRequest store_env sample_config_r (sample_reqInfo hp_15_3) existing_claim source_history =
      (Ret (c', res, None), h') \<and>
    ((\<forall>db u. password_of db u h' = password_of db u source_history) \<or>
     (\<exists>m. published m existing_claim h' \<or> not_found (Uri (Some m)) ''app'' source_history h'))"
proof -
  from existing_run obtain c' res h' where
    run: "executeDbClaimRequest store_env sample_config_r (sample_reqInfo hp_15_3) existing_claim source_history = (Ret (c', res, None), h')"
    and switched: "st_ConnectionInfo (dc_NewDB c') = None" by blast
  have env: "foreign_errors store_env" by (simp add: foreign_errors_def store_env_def sample_defs)
  have mode: "fst (getMode (sample_reqInfo hp_15_3) existing_claim) \<in> {M_UseNewDB, M_UseExistingDB}"
    and ri: "ri_TempSecret (sample_reqInfo hp_15_3) = []" and new: "st_ConnectionInfo (dc_NewDB existing_claim) \<noteq> None"
    by (simp_all add: getMode_def existing_claim_def sample_claim_def sample_reqInfo_def claim_upds empty_StatusForOldDB_def)
  have "(\<forall>db u. password_of db u h' = password_of db u source_history) \<or>
     (\<exists>m. published m existing_claim h' \<or> not_found (Uri (Some m)) (spec_Username (dc_Spec existing_claim)) source_history h')"
    by (rule published_credentials_work [OF env store_env_reads run mode ri _ new switched]) (simp add: existing_claim_fields)
  with run show ?thesis by (auto simp: existing_claim_fields)
qed

end
