(* ===== verification/Roleclaim.thy ===== *)
theory Roleclaim
  imports Resources Dbuser Keyed_List
begin

text \<open>
  The reconciler of role claims (\<^verbatim>\<open>pkg/roleclaim/roleclaim.go\<close>). A role claim names a claim and either
  gets a copy of its secret or, where it maps schemas to roles, users of its own that are members of
  these roles. Schemas and roles are created as needed, and the two users take turns at each rotation
  of the password.
\<close>

section \<open>Configuration and the source of a role claim\<close>

record RoleConfig =
  rcfg_Viper :: viper
  rcfg_Class :: string
  rcfg_Namespace :: string

record dbcBaseConfig =
  bc_HostParams :: HostParams
  bc_DbHostIdentifier :: string
  bc_EnableSuperUser :: bool

abbreviation rc_Name :: "DbRoleClaim \<Rightarrow> string" where "rc_Name c \<equiv> m_Name (rc_Meta c)"
abbreviation rc_Namespace :: "DbRoleClaim \<Rightarrow> string" where "rc_Namespace c \<equiv> m_Namespace (rc_Meta c)"
abbreviation upd_rc_status :: "(DbRoleClaimStatus \<Rightarrow> DbRoleClaimStatus) \<Rightarrow> DbRoleClaim \<Rightarrow> DbRoleClaim" where
  "upd_rc_status f c \<equiv> c\<lparr>rc_Status := f (rc_Status c)\<rparr>"

text \<open>The error of \<^verbatim>\<open>getServiceNamespace\<close> is dropped by its only caller, which then uses the empty name.\<close>

definition rc_getServiceNamespace :: "RoleConfig \<Rightarrow> goerror + string" where
  "rc_getServiceNamespace r =
     (if rcfg_Namespace r = [] then Inl (ErrMsg ''service namespace env SERVICE_NAMESPACE must be set'')
      else Inr (rcfg_Namespace r))"

definition rc_getDynamicHostName :: "RoleConfig \<Rightarrow> DatabaseClaim \<Rightarrow> HostParams \<Rightarrow> string" where
  "rc_getDynamicHostName r dbClaim hp =
     (let suffix = ''-'' @ Hash hp;
          pre = (if GetDBIdentifierPrefix (rcfg_Viper r) \<noteq> [] then GetDBIdentifierPrefix (rcfg_Viper r) @ ''-'' else [])
      in pre @ dc_Name dbClaim @ suffix)"

definition setDbClaimReqInfo ::
  "(string \<Rightarrow> string) \<Rightarrow> RoleConfig \<Rightarrow> DatabaseClaim \<Rightarrow> (goerror + dbcBaseConfig) go_prog" where
  "setDbClaimReqInfo title r dbClaim = (case New title (rcfg_Viper r) dbClaim of
     Inl e \<Rightarrow> ret (Inl e)
   | Inr hostParams \<Rightarrow>
       bnd (if GetSuperUserElevation (rcfg_Viper r)
            then (case spec_EnableSuperUser (dc_Spec dbClaim) of None \<Rightarrow> panic | Some b \<Rightarrow> ret b) else ret False) (\<lambda>super.
         ret (Inr \<lparr>bc_HostParams = hostParams, bc_DbHostIdentifier = rc_getDynamicHostName r dbClaim hostParams,
           bc_EnableSuperUser = super\<rparr>)))"

definition readResourceSecret ::
  "env \<Rightarrow> RoleConfig \<Rightarrow> dbcBaseConfig \<Rightarrow> DatabaseClaim \<Rightarrow> (ConnInfo \<times> goerror option) go_prog" where
  "readResourceSecret E r dbcBaseConfig dbClaim =
     (let serviceNS = (case rc_getServiceNamespace r of Inl _ \<Rightarrow> [] | Inr ns \<Rightarrow> ns) in
      bnd (getSecret E serviceNS (bc_DbHostIdentifier dbcBaseConfig)) (\<lambda>rg. case rg of
        Inl e \<Rightarrow> ret (empty_ConnInfo, Some e)
      | Inr rs \<Rightarrow>
          (let connInfo = \<lparr>ci_Host = data_get rs ''endpoint'', ci_Port = data_get rs ''port'',
                 ci_DatabaseName = spec_DatabaseName (dc_Spec dbClaim), ci_Username = data_get rs ''username'',
                 ci_Password = data_get rs ''password'', ci_SSLMode = GetDefaultSSLMode (rcfg_Viper r)\<rparr>
           in ret (connInfo,
                if ci_Host connInfo = [] \<or> ci_Port connInfo = [] \<or> ci_Username connInfo = [] \<or> ci_Password connInfo = []
                then Some (ErrMsg ''generated secret is incomplete'') else None))))"

definition GetClientForExistingDB :: "env \<Rightarrow> ConnInfo \<Rightarrow> (goerror + client) go_prog" where
  "GetClientForExistingDB E connInfo = (case ValidateConnectionParameters (Some connInfo) of
     Some e \<Rightarrow> ret (Inl e)
   | None \<Rightarrow> dbclient_New E (Uri (Some connInfo)))"

definition getSourceDBClaim :: "env \<Rightarrow> DbRoleClaim \<Rightarrow> (DbRoleClaim \<times> (goerror + DatabaseClaim)) go_prog" where
  "getSourceDBClaim E rc = (case rcs_SourceDatabaseClaim (rc_Spec rc) of
     None \<Rightarrow> panic
   | Some (dbclaimNamespace, dbclaimName) \<Rightarrow>
       bnd (getClaim E dbclaimNamespace dbclaimName) (\<lambda>rg. case rg of
         Inl e \<Rightarrow> ret (rc, Inl e)
       | Inr c \<Rightarrow> ret (upd_rc_status (\<lambda>s. s\<lparr>rct_MatchedSourceClaim := dc_Namespace c @ ''/'' @ dc_Name c\<rparr>) rc, Inr c)))"

definition getSourceSecret :: "env \<Rightarrow> string \<Rightarrow> DbRoleClaim \<Rightarrow> (DbRoleClaim \<times> (goerror + Secret)) go_prog" where
  "getSourceSecret E secretName rc = (case rcs_SourceDatabaseClaim (rc_Spec rc) of
     None \<Rightarrow> panic
   | Some (ns, _) \<Rightarrow>
       bnd (getSecret E ns secretName) (\<lambda>rg. case rg of
         Inl e \<Rightarrow> ret (rc, Inl e)
       | Inr s \<Rightarrow> ret (upd_rc_status (\<lambda>t. t\<lparr>rct_SourceSecret := sec_Namespace s @ ''/'' @ sec_Name s\<rparr>) rc, Inr s)))"

section \<open>Schemas, roles and users\<close>

text \<open>The status maps are lists of entries; an assignment replaces the entry of its key.\<close>

definition put_entry :: "string \<times> string \<Rightarrow> (string \<times> string) list \<Rightarrow> (string \<times> string) list" where
  "put_entry = put_with fst (\<lambda>_ x. x)"

definition initStatusValues :: "DbRoleClaim \<Rightarrow> DbRoleClaim" where
  "initStatusValues rc =
     (if rct_Username (rc_Status rc) = [] then upd_rc_status (\<lambda>s. s\<lparr>rct_Username := rc_Name rc\<rparr>) rc else rc)"

definition rc_createSchema :: "env \<Rightarrow> client \<Rightarrow> string \<Rightarrow> goerror option go_prog" where
  "rc_createSchema E dbClient schemaName =
     attempt_err (SchemaExists E dbClient schemaName) (\<lambda>schemaExists.
       if schemaExists then ret None
       else attempt_err (CreateSchema E dbClient schemaName) (\<lambda>_. ret None))"

definition rc_createRole :: "env \<Rightarrow> client \<Rightarrow> string \<Rightarrow> string \<Rightarrow> string \<Rightarrow> goerror option go_prog" where
  "rc_createRole E dbClient roleName databaseName schemaName =
     attempt_err (RoleExists E dbClient roleName) (\<lambda>roleExists.
       if roleExists then ret None
       else
         bnd (if HasSuffix roleName ''admin''
              then CreateAdminRole E dbClient (ToLower databaseName) (ToLower roleName) (ToLower schemaName)
              else if HasSuffix roleName ''regular''
              then CreateRegularRole E dbClient (ToLower databaseName) (ToLower roleName) (ToLower schemaName)
              else if HasSuffix roleName ''readonly''
              then CreateReadOnlyRole E dbClient (ToLower databaseName) (ToLower roleName) (ToLower schemaName)
              else ret (False, None)) (\<lambda>(_, er). ret er))"

definition role_name :: "string \<Rightarrow> string \<Rightarrow> string" where
  "role_name schema role = ToLower (ToLower schema @ ''_'' @ ToLower role)"

fun schemas_and_roles ::
  "env \<Rightarrow> client \<Rightarrow> string \<Rightarrow> (string \<times> string) list \<Rightarrow> DbRoleClaim \<Rightarrow> (DbRoleClaim \<times> goerror option) go_prog" where
  "schemas_and_roles E cli databaseName [] rc = ret (rc, None)"
| "schemas_and_roles E cli databaseName ((schema, role) # rest) rc =
     (let schemaName = ToLower schema; roleName = role_name schema role in
      bnd (rc_createSchema E cli schemaName) (\<lambda>er. case er of Some e \<Rightarrow> ret (rc, Some e) | None \<Rightarrow>
      let rc = upd_rc_status (\<lambda>s. s\<lparr>rct_SchemaStatus := put_entry (schemaName, ''valid'') (rct_SchemaStatus s)\<rparr>) rc in
      bnd (rc_createRole E cli roleName databaseName schemaName) (\<lambda>er. case er of Some e \<Rightarrow> ret (rc, Some e) | None \<Rightarrow>
      schemas_and_roles E cli databaseName rest
        (upd_rc_status (\<lambda>s. s\<lparr>rct_RoleStatus := put_entry (roleName, ''valid'') (rct_RoleStatus s)\<rparr>) rc))))"

definition rc_generatePassword :: "env \<Rightarrow> viper \<Rightarrow> (goerror + string) go_prog" where
  "rc_generatePassword E v =
     call (\<lambda>h. GeneratePassword (e_GeneratePassword (e_sys E) h) v) (\<lambda>r. Sys (EvGeneratePassword r))"

text \<open>The user gets a password, loses the roles it has and becomes a member of the roles of the claim.\<close>

definition set_up_user ::
  "env \<Rightarrow> client \<Rightarrow> string \<Rightarrow> string \<Rightarrow> (string \<times> string) list \<Rightarrow> goerror option go_prog" where
  "set_up_user E dbClient nextUser userPassword roleMap =
     bnd (CreateUser E dbClient nextUser [] userPassword) (\<lambda>(created, er). case er of Some e \<Rightarrow> ret (Some e) | None \<Rightarrow>
     check_err (if \<not> created then UpdatePassword E dbClient nextUser userPassword else ret None)
     (attempt_err (GetUserRoles E dbClient nextUser) (\<lambda>curUserRoles.
      check_err (for_each curUserRoles (\<lambda>userRole. RevokeAccessToRole E dbClient nextUser userRole))
      (bnd (map_order E roleMap) (\<lambda>entries.
       for_each entries (\<lambda>(schema, role). AssignRoleToUser E dbClient nextUser (role_name schema role)))))))"

section \<open>The secret of a role claim\<close>

definition copied_data :: "(string \<rightharpoonup> string) \<Rightarrow> (string \<rightharpoonup> string) option" where
  "copied_data d =
     (case (d ''database'', d ''hostname'', d ''password'', d ''port'', d ''sslmode'', d ''username'') of
        (Some database, Some hostname, Some password, Some port, Some sslmode, Some username) \<Rightarrow>
          (let uri = PostgresURI hostname port username password database sslmode;
               d' = d(''dsn.txt'' \<mapsto> PostgresConnectionString hostname port username password database sslmode,
                      ''uri_dsn.txt'' \<mapsto> uri)
           in Some (if d' ''ro_uri_dsn.txt'' \<noteq> None
                    then d'(''ro_uri_dsn.txt'' \<mapsto> ReplaceAll uri ''.cluster-'' ''.cluster-ro-'') else d'))
      | _ \<Rightarrow> None)"

definition copySourceSecret :: "env \<Rightarrow> Secret \<Rightarrow> DbRoleClaim \<Rightarrow> string \<Rightarrow> string \<Rightarrow> goerror option go_prog" where
  "copySourceSecret E sourceSecret rc newUser newPassword =
     (if sec_Data sourceSecret = None \<and> (newUser \<noteq> [] \<or> newPassword \<noteq> []) then panic else
      let d0 = (case sec_Data sourceSecret of None \<Rightarrow> Map.empty | Some d \<Rightarrow> d);
          d1 = (if newUser \<noteq> [] then d0(''username'' \<mapsto> newUser) else d0);
          d2 = (if newPassword \<noteq> [] then d1(''password'' \<mapsto> newPassword) else d1)
      in case copied_data d2 of
           None \<Rightarrow> ret (Some (ErrMsg ''source secret data is incomplete''))
         | Some sourceSecretData \<Rightarrow>
             bnd (getSecret E (rc_Namespace rc) (rcs_SecretName (rc_Spec rc))) (\<lambda>rg. case rg of
               Inr roleSecret \<Rightarrow> updateSecretObj E (roleSecret\<lparr>sec_Data := Some sourceSecretData\<rparr>)
             | Inl e \<Rightarrow>
                 if \<not> IsNotFound e then ret (Some e)
                 else createSecretObj E \<lparr>sec_Namespace = rc_Namespace rc, sec_Name = rcs_SecretName (rc_Spec rc),
                   sec_Labels = [(''app.kubernetes.io/managed-by'', ''dbrole-controller'')],
                   sec_Owner = [\<lparr>or_Kind = ''DbRoleClaim'', or_Name = rc_Name rc, or_UID = m_UID (rc_Meta rc)\<rparr>], sec_ResourceVersion = [],
                   sec_Data = Some sourceSecretData\<rparr>))"

section \<open>Deletion\<close>

text \<open>As for claims, a write answers the object with the server's resource version.\<close>

definition rc_written :: "DbRoleClaim \<Rightarrow> goerror + string \<Rightarrow> DbRoleClaim \<times> goerror option" where
  "rc_written rc r = (case r of
     Inl e \<Rightarrow> (rc, Some e)
   | Inr rv \<Rightarrow> (rc\<lparr>rc_Meta := (rc_Meta rc)\<lparr>m_ResourceVersion := rv\<rparr>\<rparr>, None))"

definition rc_deleteExternalResources ::
  "(string \<Rightarrow> string) \<Rightarrow> env \<Rightarrow> RoleConfig \<Rightarrow> DbRoleClaim \<Rightarrow> (DbRoleClaim \<times> goerror option) go_prog" where
  "rc_deleteExternalResources title E r rc0 =
     bnd (getSourceDBClaim E rc0) (\<lambda>(rc, sc). case sc of Inl e \<Rightarrow> ret (rc, Some e) | Inr sourceDbClaim \<Rightarrow>
     bnd (setDbClaimReqInfo title r sourceDbClaim) (\<lambda>bc. case bc of Inl e \<Rightarrow> ret (rc, Some e) | Inr dbcBaseConfig \<Rightarrow>
     bnd (readResourceSecret E r dbcBaseConfig sourceDbClaim) (\<lambda>(conn, _).
     bnd (GetClientForExistingDB E conn) (\<lambda>cl. case cl of Inl _ \<Rightarrow> ret (rc, None) | Inr dbClient \<Rightarrow>
     bnd (check_err
           (DeleteUser E dbClient (ci_DatabaseName conn) (rc_Name rc @ ''_user'' @ SuffixA) (ci_Username conn))
           (DeleteUser E dbClient (ci_DatabaseName conn) (rc_Name rc @ ''_user'' @ SuffixB) (ci_Username conn)))
       (\<lambda>er. ret (rc, er))))))"

abbreviation finalizerName :: string where
  "finalizerName \<equiv> ''dbroleclaims.persistance.atlas.infoblox.com/finalizer''"

definition rc_set_finalizers :: "string list \<Rightarrow> DbRoleClaim \<Rightarrow> DbRoleClaim" where
  "rc_set_finalizers fs rc = rc\<lparr>rc_Meta := (rc_Meta rc)\<lparr>m_Finalizers := fs\<rparr>\<rparr>"

definition deleteWorkflow ::
  "(string \<Rightarrow> string) \<Rightarrow> env \<Rightarrow> RoleConfig \<Rightarrow> DbRoleClaim \<Rightarrow> (DbRoleClaim \<times> (goerror + bool)) go_prog" where
  "deleteWorkflow title E r rc =
     (let finalizers = m_Finalizers (rc_Meta rc) in
      if m_DeletionTimestamp (rc_Meta rc) = None then
        (if finalizerName \<in> set finalizers then ret (rc, Inr False)
         else
           (let rc = rc_set_finalizers (finalizers @ [finalizerName]) rc in
            bnd (updateRoleClaim E rc) (\<lambda>u. case rc_written rc u of
              (rc, Some e) \<Rightarrow> ret (rc, Inl e) | (rc, None) \<Rightarrow> ret (rc, Inr False))))
      else if finalizerName \<in> set finalizers then
        bnd (rc_deleteExternalResources title E r rc) (\<lambda>(rc, er). case er of
          Some e \<Rightarrow> ret (rc, Inl e)
        | None \<Rightarrow>
            (let rc = rc_set_finalizers (filter (\<lambda>f. f \<noteq> finalizerName) finalizers) rc in
             bnd (updateRoleClaim E rc) (\<lambda>u. case rc_written rc u of
               (rc, Some e) \<Rightarrow> ret (rc, Inl e) | (rc, None) \<Rightarrow> ret (rc, Inr True))))
      else ret (rc, Inr True))"

section \<open>Reconcile\<close>

type_synonym rc_answer = "Result \<times> goerror option"

definition manageError :: "env \<Rightarrow> DbRoleClaim \<Rightarrow> goerror \<Rightarrow> rc_answer go_prog" where
  "manageError E rc inErr =
     bnd (updateRoleClaimStatus E (upd_rc_status (\<lambda>s. s\<lparr>rct_Error := ErrorText inErr\<rparr>) rc)) (\<lambda>u. case u of
       Inl e \<Rightarrow> ret (empty_Result, if IsConflict e then None else Some e)
     | Inr _ \<Rightarrow> ret (empty_Result, Some inErr))"

definition manageSuccess :: "env \<Rightarrow> DbRoleClaim \<Rightarrow> rc_answer go_prog" where
  "manageSuccess E rc =
     bnd (updateRoleClaimStatus E (upd_rc_status (\<lambda>s. s\<lparr>rct_Error := []\<rparr>) rc)) (\<lambda>u. case u of
       Inl e \<Rightarrow> ret (empty_Result, if IsConflict e then None else Some e)
     | Inr _ \<Rightarrow> ret (empty_Result, None))"

definition updateClientStatus :: "env \<Rightarrow> DbRoleClaim \<Rightarrow> (DbRoleClaim \<times> goerror option) go_prog" where
  "updateClientStatus E rc = bnd (updateRoleClaimStatus E rc) (\<lambda>u. case rc_written rc u of
     (rc, Some e) \<Rightarrow> ret (rc, if IsConflict e then None else Some e) | (rc, None) \<Rightarrow> ret (rc, None))"

text \<open>\<^verbatim>\<open>time.Since\<close> saturates at the bounds of a duration.\<close>

definition rotation_needed :: "env \<Rightarrow> viper \<Rightarrow> DbRoleClaim \<Rightarrow> bool go_prog" where
  "rotation_needed E v rc = (case rct_SchemasRolesUpdatedAt (rc_Status rc) of
     None \<Rightarrow> ret True
   | Some t \<Rightarrow> bnd (now E) (\<lambda>n. ret (max (- (2 ^ 63)) (min (2 ^ 63 - 1) (n - t)) > GetPasswordRotationPeriod v)))"

text \<open>A rotation: schemas, roles and the next user, and then the secret. It ends with the claim, or the
  reconciliation returns.\<close>

definition rotate_role_user ::
  "env \<Rightarrow> RoleConfig \<Rightarrow> time \<Rightarrow> client \<Rightarrow> string \<Rightarrow> Secret \<Rightarrow> DbRoleClaim \<Rightarrow> (rc_answer + DbRoleClaim) go_prog" where
  "rotate_role_user E r timeNow dbClient databaseName sourceSecret rc =
     (let roleMap = rcs_SchemaRoleMap (rc_Spec rc); fail = (\<lambda>e. ret (Inl (empty_Result, Some e))) in
      bnd (map_order E roleMap) (\<lambda>entries.
      bnd (schemas_and_roles E dbClient databaseName entries rc) (\<lambda>(rc, er). case er of Some e \<Rightarrow> fail e | None \<Rightarrow>
      bnd (rc_generatePassword E (rcfg_Viper r)) (\<lambda>pw. case pw of Inl e \<Rightarrow> fail e | Inr userPassword \<Rightarrow>
      let nextUser = NextUser (NewDBUser (ToLower (rc_Name rc) @ ''_user'')) (rct_Username (rc_Status rc));
          rc = upd_rc_status (\<lambda>s. s\<lparr>rct_Username := nextUser\<rparr>) rc in
      bnd (set_up_user E dbClient nextUser userPassword roleMap) (\<lambda>er. case er of Some e \<Rightarrow> fail e | None \<Rightarrow>
      bnd (copySourceSecret E sourceSecret rc (rct_Username (rc_Status rc)) userPassword) (\<lambda>er. case er of
        Some e \<Rightarrow> bnd (manageError E rc e) (\<lambda>a. ret (Inl a))
      | None \<Rightarrow> ret (Inr (upd_rc_status (\<lambda>s. s\<lparr>rct_SecretUpdatedAt := Some timeNow,
          rct_SchemasRolesUpdatedAt := Some timeNow\<rparr>) rc))))))))"

definition reconcile_users ::
  "env \<Rightarrow> RoleConfig \<Rightarrow> time \<Rightarrow> dbcBaseConfig \<Rightarrow> DatabaseClaim \<Rightarrow> Secret \<Rightarrow> DbRoleClaim \<Rightarrow> rc_answer go_prog" where
  "reconcile_users E r timeNow dbcBaseConfig sourceDbClaim sourceSecret rc =
     (if list_ex (\<lambda>(schema, role). schema = [] \<or> role = []) (rcs_SchemaRoleMap (rc_Spec rc))
      then ret (empty_Result, Some (ErrMsg ''schema and role are mandatory when one of these fields are provided''))
      else
      bnd (readResourceSecret E r dbcBaseConfig sourceDbClaim) (\<lambda>(conn, er). case er of
        Some _ \<Rightarrow> ret (empty_Result, Some (ErrMsg ''reading resource secret''))
      | None \<Rightarrow>
      bnd (GetClientForExistingDB E conn) (\<lambda>cl. case cl of
        Inl e \<Rightarrow> ret (empty_Result, Some e)
      | Inr dbClient \<Rightarrow>
      let rc = initStatusValues rc in
      bnd (rotation_needed E (rcfg_Viper r) rc) (\<lambda>due.
      bnd (if due then rotate_role_user E r timeNow dbClient (ci_DatabaseName conn) sourceSecret rc else ret (Inr rc)) (\<lambda>res.
      case res of
        Inl a \<Rightarrow> ret a
      | Inr rc \<Rightarrow>
          bnd (updateClientStatus E rc) (\<lambda>(rc, er). case er of
            Some e \<Rightarrow> ret (empty_Result, Some e)
          | None \<Rightarrow> manageSuccess E rc))))))"

definition copy_secret :: "env \<Rightarrow> time \<Rightarrow> Secret \<Rightarrow> DbRoleClaim \<Rightarrow> rc_answer go_prog" where
  "copy_secret E timeNow sourceSecret rc =
     (if sec_ResourceVersion sourceSecret = rct_SourceSecretResourceVersion (rc_Status rc) then manageSuccess E rc
      else bnd (copySourceSecret E sourceSecret rc [] []) (\<lambda>er. case er of
        Some e \<Rightarrow> manageError E rc e
      | None \<Rightarrow> manageSuccess E (upd_rc_status (\<lambda>s. s\<lparr>rct_SourceSecretResourceVersion := sec_ResourceVersion sourceSecret,
          rct_SecretUpdatedAt := Some timeNow\<rparr>) rc)))"

definition reconcile_role_claim ::
  "(string \<Rightarrow> string) \<Rightarrow> env \<Rightarrow> RoleConfig \<Rightarrow> time \<Rightarrow> DbRoleClaim \<Rightarrow> rc_answer go_prog" where
  "reconcile_role_claim title E r timeNow rc0 =
     (case rcs_Class (rc_Spec rc0) of None \<Rightarrow> panic | Some cls \<Rightarrow>
      if \<not> IsClassPermitted (rcfg_Class r) cls then ret (empty_Result, None) else
      bnd (deleteWorkflow title E r rc0) (\<lambda>(rc, del). case del of
        Inl e \<Rightarrow> ret (empty_Result, Some e)
      | Inr isObjectDeleted \<Rightarrow>
      if isObjectDeleted then ret (empty_Result, None) else
      case rcs_SourceDatabaseClaim (rc_Spec rc) of None \<Rightarrow> panic | Some (_, srcName) \<Rightarrow>
      if srcName = [] then manageError E rc (ErrMsg ''sourcedatabaseclaim cannot be nil'') else
      bnd (getSourceDBClaim E rc) (\<lambda>(rc, sc). case sc of
        Inl _ \<Rightarrow> manageError E rc (ErrMsg (srcName @ '' dbclaim not found''))
      | Inr sourceDbClaim \<Rightarrow>
      bnd (setDbClaimReqInfo title r sourceDbClaim) (\<lambda>bc. case bc of
        Inl _ \<Rightarrow> manageError E rc (ErrMsg (''setting dbclaim required info: '' @ srcName))
      | Inr dbcBaseConfig \<Rightarrow>
      bnd (getSourceSecret E (spec_SecretName (dc_Spec sourceDbClaim)) rc) (\<lambda>(rc, ss). case ss of
        Inl _ \<Rightarrow> manageError E rc (ErrMsg (spec_SecretName (dc_Spec sourceDbClaim) @ '' source secret not found''))
      | Inr sourceSecret \<Rightarrow>
      if rcs_SchemaRoleMap (rc_Spec rc) \<noteq> []
      then reconcile_users E r timeNow dbcBaseConfig sourceDbClaim sourceSecret rc
      else copy_secret E timeNow sourceSecret rc)))))"

definition rc_Reconcile ::
  "(string \<Rightarrow> string) \<Rightarrow> env \<Rightarrow> RoleConfig \<Rightarrow> string \<Rightarrow> string \<Rightarrow> rc_answer go_prog" where
  "rc_Reconcile title E r ns n =
     bnd (now E) (\<lambda>timeNow. bnd (getRoleClaim E ns n) (\<lambda>rg. case rg of
       Inl e \<Rightarrow> ret (empty_Result, if IsNotFound e then None else Some e)
     | Inr rc \<Rightarrow> reconcile_role_claim title E r timeNow rc))"

interpretation entries: keyed_list fst put_entry
  by unfold_locales (simp_all add: put_entry_def put_with_keys put_with_others)

section \<open>Properties\<close>

subsection \<open>The user of a role claim\<close>

lemma revoke_all:
  assumes "for_each rows (\<lambda>userRole. RevokeAccessToRole E cli u userRole) h = (Ret None, h')"
  shows "member_of (pc_DB cli) u r h' \<longleftrightarrow> r \<notin> set rows \<and> member_of (pc_DB cli) u r h"
  using assms
proof (induction rows arbitrary: h)
  case (Cons x rows)
  then obtain h1 where one: "RevokeAccessToRole E cli u x h = (Ret None, h1)"
    and rest: "for_each rows (\<lambda>userRole. RevokeAccessToRole E cli u userRole) h1 = (Ret None, h')"
    unfolding ok_run by blast
  from one have "h1 = Sql (EvExec (pc_DB cli) (REVOKE_ROLE x u) None) # h" by (auto simp: RevokeAccessToRole_def sql_calls prog_simps)
  with Cons.IH [OF rest] show ?case by auto
qed (simp add: run_ret)

lemma assign_all:
  assumes "for_each es (\<lambda>(schema, role). AssignRoleToUser E cli u (role_name schema role)) h = (Ret None, h')"
  shows "member_of (pc_DB cli) u r h' \<longleftrightarrow> r \<in> case_prod role_name ` set es \<or> member_of (pc_DB cli) u r h"
  using assms
proof (induction es arbitrary: h)
  case (Cons x es)
  then obtain h1 where one: "AssignRoleToUser E cli u (case_prod role_name x) h = (Ret None, h1)"
    and rest: "for_each es (\<lambda>(schema, role). AssignRoleToUser E cli u (role_name schema role)) h1 = (Ret None, h')"
    unfolding ok_run by (auto split: prod.splits)
  from one have "h1 = Sql (EvExec (pc_DB cli) (SET_AND_GRANT_ROLE u (case_prod role_name x)) None) # h" by (auto simp: AssignRoleToUser_def sql_calls prog_simps)
  with Cons.IH [OF rest] show ?case by auto
qed (simp add: run_ret)

lemma keeps_password_roles:
  "emits (keeps_password u) (for_each rows (\<lambda>x. RevokeAccessToRole E cli v x))"
  "emits (keeps_password u) (for_each es (\<lambda>(schema, role). AssignRoleToUser E cli v (role_name schema role)))"
  "emits (keeps_password u) (GetUserRoles E cli v)" "emits (keeps_password u) (map_order E xs)"
  unfolding RevokeAccessToRole_def AssignRoleToUser_def GetUserRoles_def sql_calls map_order_def
  by (intro trace_intros keeps_password_exec keeps_password_other)+

text \<open>A database that answers the roles of a user completely.\<close>

definition answers_roles :: "env \<Rightarrow> string \<Rightarrow> string \<Rightarrow> bool" where
  "answers_roles E db u \<longleftrightarrow> (\<forall>h rows er. e_QueryStrings (e_sql E) h db (Q_UserRoles u) = Inr (rows, er) \<longrightarrow>
     (\<forall>r. member_of db u r h \<longrightarrow> r \<in> set rows))"

lemma set_up_user_run:
  assumes run: "set_up_user E cli u pw roleMap h = (Ret None, h')" and db: "answers_roles E (pc_DB cli) u"
  shows "password_of (pc_DB cli) u h' = Some pw"
    and "member_of (pc_DB cli) u r h' \<longleftrightarrow> r \<in> case_prod role_name ` set roleMap"
proof -
  let ?db = "pc_DB cli"
  from run obtain created h1 h2 h3 h4 h5 rows es where
    create: "CreateUser E cli u [] pw h = (Ret (created, None), h1)"
    and pass: "(if \<not> created then UpdatePassword E cli u pw else ret None) h1 = (Ret None, h2)"
    and roles: "GetUserRoles E cli u h2 = (Ret (Inr rows), h3)"
    and revoke: "for_each rows (\<lambda>x. RevokeAccessToRole E cli u x) h3 = (Ret None, h4)"
    and order: "map_order E roleMap h4 = (Ret es, h5)"
    and assign: "for_each es (\<lambda>(schema, role). AssignRoleToUser E cli u (role_name schema role)) h5 = (Ret None, h')"
    unfolding set_up_user_def by (auto simp: bnd_Ret ok_run)
  have "password_of ?db u h2 = Some pw"
    using create pass
    by (auto simp: CreateUser_def UpdatePassword_def sql_calls prog_simps split: if_splits sum.splits option.splits)
  then show "password_of ?db u h' = Some pw"
    using emits_keeps_password [OF keeps_password_roles(3) roles] emits_keeps_password [OF keeps_password_roles(1) revoke]
      emits_keeps_password [OF keeps_password_roles(4) order] emits_keeps_password [OF keeps_password_roles(2) assign]
    by simp
  from roles obtain er where q: "e_QueryStrings (e_sql E) h2 ?db (Q_UserRoles u) = Inr (rows, er)"
    and h3: "h3 = Sql (EvQueryStrings ?db (Q_UserRoles u) (Inr (rows, er))) # h2"
    by (auto simp: GetUserRoles_def sql_calls prog_simps split: sum.splits prod.splits)
  have "r \<in> set rows" if "member_of ?db u r h2" for r
    using db q that unfolding answers_roles_def by blast
  with h3 have h3: "\<not> member_of ?db u r h3" if "r \<notin> set rows" for r using that by auto
  have "set es = set roleMap" "member_of ?db u r h5 = member_of ?db u r h4"
    using order by (auto simp: map_order_def prog_simps)
  with assign_all [OF assign] revoke_all [OF revoke] h3
  show "member_of ?db u r h' \<longleftrightarrow> r \<in> case_prod role_name ` set roleMap" by auto
qed

subsection \<open>The secret of a role claim\<close>

lemma copied_data_entries:
  assumes "copied_data d = Some d'" and "d ''username'' = Some user" and "d ''password'' = Some pw"
  obtains host port db ssl where "d' ''username'' = Some user" "d' ''password'' = Some pw"
    "d' ''dsn.txt'' = Some (PostgresConnectionString host port user pw db ssl)"
    "d' ''uri_dsn.txt'' = Some (PostgresURI host port user pw db ssl)"
  using assms by (auto simp: copied_data_def Let_def split: option.splits if_splits)

definition writes_secret :: "event \<Rightarrow> Secret \<Rightarrow> bool" where
  "writes_secret e s \<longleftrightarrow> e = K8s (EvCreateSecret s None) \<or> e = K8s (EvUpdateSecret s None)"

lemma copySourceSecret_run:
  assumes "copySourceSecret E src rc u pw h = (Ret None, h')" and "u \<noteq> []" and "pw \<noteq> []"
  obtains s d d' e1 k where "h' = e1 # K8s k # h" "writes_secret e1 s"
    "sec_Data s = Some d" "copied_data (d'(''username'' \<mapsto> u, ''password'' \<mapsto> pw)) = Some d" "sec_Data src = Some d'"
proof (cases "sec_Data src")
  case None
  with assms show ?thesis by (simp add: copySourceSecret_def run_panic)
next
  case (Some d')
  with assms obtain d where d: "copied_data (d'(''username'' \<mapsto> u, ''password'' \<mapsto> pw)) = Some d"
    by (auto simp: copySourceSecret_def run_ret split: option.splits)
  show ?thesis
  proof (cases "e_GetSecret (e_k8s E) h (rc_Namespace rc) (rcs_SecretName (rc_Spec rc))")
    case (Inl e)
    with assms Some d show ?thesis
      by (auto simp: copySourceSecret_def writes_secret_def k8s_calls prog_simps split: if_splits intro!: that)
  next
    case (Inr s)
    with assms Some d show ?thesis
      by (auto simp: copySourceSecret_def writes_secret_def k8s_calls prog_simps intro!: that)
  qed
qed

text \<open>A run that goes on has not failed before.\<close>

lemma went_on:
  "(case r of Inl e \<Rightarrow> ret (Inl (g e)) | Inr x \<Rightarrow> f x) h = (Ret (Inr y), h') \<longleftrightarrow> (\<exists>x. r = Inr x \<and> f x h = (Ret (Inr y), h'))"
  "(case er of Some e \<Rightarrow> ret (Inl (g2 e)) | None \<Rightarrow> k) h = (Ret (Inr y), h') \<longleftrightarrow> er = None \<and> k h = (Ret (Inr y), h')"
  "(case er of Some e \<Rightarrow> bnd (m e) (\<lambda>a. ret (Inl a)) | None \<Rightarrow> k) h = (Ret (Inr y), h') \<longleftrightarrow> er = None \<and> k h = (Ret (Inr y), h')"
  by (cases r; cases er; simp add: run_ret bnd_Ret)+

lemma schemas_and_roles_frame:
  "returns (\<lambda>(rc', _). rc_Spec rc' = rc_Spec rc \<and> rc_Meta rc' = rc_Meta rc \<and>
     rct_Username (rc_Status rc') = rct_Username (rc_Status rc)) (schemas_and_roles E cli d es rc)"
proof (induction es arbitrary: rc)
  case (Cons x es)
  obtain schema role where x: "x = (schema, role)" by fastforce
  have step: "returns (\<lambda>(rc', _). rc_Spec rc' = rc_Spec rc \<and> rc_Meta rc' = rc_Meta rc \<and>
      rct_Username (rc_Status rc') = rct_Username (rc_Status rc)) (schemas_and_roles E cli d es rc1)"
    if "rc_Spec rc1 = rc_Spec rc" "rc_Meta rc1 = rc_Meta rc" "rct_Username (rc_Status rc1) = rct_Username (rc_Status rc)" for rc1
    using Cons.IH [of rc1] that by simp
  show ?case unfolding x schemas_and_roles.simps Let_def
    by (auto intro!: returns_bnd returns_ret step split: option.split)
qed (simp add: returns_ret)

text \<open>
  C9: the credentials a role claim publishes work and carry the claim's rights, no more and no less.
  When a rotation succeeds, its last call has written a secret with the next user of the claim and a
  password, with connection strings of that user and password; the user has that password in the
  database and is a member of exactly the roles that the claim maps its schemas to, provided that the
  database answers the roles of the user completely and the generator no empty password.
\<close>

theorem role_user_published:
  assumes run: "rotate_role_user E r t cli d src rc h = (Ret (Inr rc'), h')"
    and roles: "answers_roles E (pc_DB cli) (rct_Username (rc_Status rc'))"
    and gen: "\<forall>h n k m. e_GeneratePassword (e_sys E) h n k m \<noteq> Inr []"
  shows "rct_Username (rc_Status rc') = NextUser (NewDBUser (ToLower (rc_Name rc) @ ''_user'')) (rct_Username (rc_Status rc)) \<and>
    (\<exists>e before s dat pw host port db ssl. h' = e # before \<and> writes_secret e s \<and> sec_Data s = Some dat \<and>
       dat ''username'' = Some (rct_Username (rc_Status rc')) \<and> dat ''password'' = Some pw \<and>
       dat ''dsn.txt'' = Some (PostgresConnectionString host port (rct_Username (rc_Status rc')) pw db ssl) \<and>
       dat ''uri_dsn.txt'' = Some (PostgresURI host port (rct_Username (rc_Status rc')) pw db ssl) \<and>
       password_of (pc_DB cli) (rct_Username (rc_Status rc')) h' = Some pw) \<and>
    (\<forall>role. member_of (pc_DB cli) (rct_Username (rc_Status rc')) role h' \<longleftrightarrow>
       role \<in> (\<lambda>(schema, role). role_name schema role) ` set (rcs_SchemaRoleMap (rc_Spec rc)))"
proof -
  let ?u = "NextUser (NewDBUser (ToLower (rc_Name rc) @ ''_user'')) (rct_Username (rc_Status rc))" and ?db = "pc_DB cli"
  from run obtain es h1 rc1 h2 pw h3 h4 where
    sar: "schemas_and_roles E cli d es rc h1 = (Ret (rc1, None), h2)"
    and pw: "rc_generatePassword E (rcfg_Viper r) h2 = (Ret (Inr pw), h3)"
    and user: "set_up_user E cli (NextUser (NewDBUser (ToLower (rc_Name rc1) @ ''_user'')) (rct_Username (rc_Status rc1))) pw
        (rcs_SchemaRoleMap (rc_Spec rc)) h3 = (Ret None, h4)"
    and sec: "copySourceSecret E src (upd_rc_status (\<lambda>s. s\<lparr>rct_Username :=
        NextUser (NewDBUser (ToLower (rc_Name rc1) @ ''_user'')) (rct_Username (rc_Status rc1))\<rparr>) rc1)
        (NextUser (NewDBUser (ToLower (rc_Name rc1) @ ''_user'')) (rct_Username (rc_Status rc1))) pw h4 = (Ret None, h')"
    and rc': "rct_Username (rc_Status rc') = NextUser (NewDBUser (ToLower (rc_Name rc1) @ ''_user'')) (rct_Username (rc_Status rc1))"
    unfolding rotate_role_user_def Let_def by (auto simp: bnd_Ret run_ret went_on)
  from returnsD [OF schemas_and_roles_frame sar] have "rc_Meta rc1 = rc_Meta rc" "rct_Username (rc_Status rc1) = rct_Username (rc_Status rc)"
    by simp_all
  note eqs = this
  have u: "rct_Username (rc_Status rc') = ?u" using rc' eqs by simp
  from pw gen have pw': "pw \<noteq> []"
    by (auto simp: rc_generatePassword_def GeneratePassword_def prog_simps Let_def split: if_splits)
  have u': "?u \<noteq> []" by (simp add: NextUser_def NewDBUser_def GetUserA_def GetUserB_def)
  note set_up = set_up_user_run [OF user [unfolded eqs] roles [unfolded u]]
  obtain s dat d' e1 k where h': "h' = e1 # K8s k # h4" and w: "writes_secret e1 s"
    and dat: "sec_Data s = Some dat" "copied_data (d'(''username'' \<mapsto> ?u, ''password'' \<mapsto> pw)) = Some dat"
    by (rule copySourceSecret_run [OF sec [unfolded eqs] u' pw'])
  have same: "password_of ?db x h' = password_of ?db x h4" "member_of ?db x role h' = member_of ?db x role h4" for x role
    using w by (auto simp: h' writes_secret_def)
  obtain host port dbn ssl where "dat ''username'' = Some ?u" "dat ''password'' = Some pw"
    "dat ''dsn.txt'' = Some (PostgresConnectionString host port ?u pw dbn ssl)"
    "dat ''uri_dsn.txt'' = Some (PostgresURI host port ?u pw dbn ssl)"
    by (rule copied_data_entries [OF dat(2), of ?u pw]) simp_all
  with h' w dat(1) set_up(1) same(1) have "\<exists>e before s dat pw host port db ssl. h' = e # before \<and> writes_secret e s \<and>
       sec_Data s = Some dat \<and> dat ''username'' = Some ?u \<and> dat ''password'' = Some pw \<and>
       dat ''dsn.txt'' = Some (PostgresConnectionString host port ?u pw db ssl) \<and>
       dat ''uri_dsn.txt'' = Some (PostgresURI host port ?u pw db ssl) \<and> password_of ?db ?u h' = Some pw"
    by (intro exI conjI) (assumption | simp)+
  with set_up(2) same(2) show ?thesis unfolding u by simp
qed

text \<open>A database that names every role a statement has granted so far answers completely.\<close>

fun granted_by :: "event \<Rightarrow> string list" where
  "granted_by (Sql (EvExec db q None)) = (case q of SET_AND_GRANT_ROLE _ r \<Rightarrow> [r] | CREATE_ROLE_LOGIN _ _ r \<Rightarrow> [r]
     | GRANT_ROLE r _ \<Rightarrow> [r] | RENAME_USER _ r \<Rightarrow> [r] | _ \<Rightarrow> [])"
| "granted_by _ = []"

lemma member_granted: "member_of db u r h \<Longrightarrow> r \<in> set (concat (map granted_by h))"
  by (induction db u r h rule: member_of.induct) (auto split: sql.splits if_splits)

definition role_env :: env where
  "role_env = sample_env\<lparr>e_sql := sample_sql\<lparr>e_QueryStrings := \<lambda>h db q. Inr (concat (map granted_by h), None)\<rparr>\<rparr>"

lemma role_env_simps [simp]:
  "e_QueryBool (e_sql role_env) h db q = Inr (case q of Q_TemporarySlots _ \<Rightarrow> False | _ \<Rightarrow> True)"
  "e_Exec (e_sql role_env) h db st = None" "e_QueryStrings (e_sql role_env) h db q = Inr (concat (map granted_by h), None)"
  "e_MapOrder (e_sys role_env) h = 0" "e_GeneratePassword (e_sys role_env) h n k m = Inr ''pw''"
  "e_GetSecret (e_k8s role_env) h ns nm = Inl (NotFound nm)" "e_CreateSecret (e_k8s role_env) h s = None"
  by (simp_all add: role_env_def sample_defs)

lemma role_env_answers: "answers_roles role_env db u"
  using member_granted by (auto simp: answers_roles_def)

definition sample_role_claim :: DbRoleClaim where
  "sample_role_claim = \<lparr>rc_Meta = (dc_Meta sample_claim)\<lparr>m_Name := ''reporting''\<rparr>,
     rc_Spec = \<lparr>rcs_Class = Some ''default'', rcs_SourceDatabaseClaim = Some (''shop'', ''orders''),
       rcs_SecretName = ''reporting-secret'', rcs_SchemaRoleMap = [(''sales'', ''readonly'')]\<rparr>,
     rc_Status = empty_DbRoleClaimStatus\<rparr>"

definition sample_source_secret :: Secret where
  "sample_source_secret = \<lparr>sec_Namespace = ''shop'', sec_Name = ''orders-secret'', sec_Labels = [], sec_Owner = [],
     sec_ResourceVersion = ''7'', sec_Data = Some [''database'' \<mapsto> ''orders'', ''hostname'' \<mapsto> ''db.local'', ''password'' \<mapsto> ''old'',
       ''port'' \<mapsto> ''5432'', ''sslmode'' \<mapsto> ''require'', ''username'' \<mapsto> ''orders_a'']\<rparr>"

definition sample_client :: client where
  "sample_client = \<lparr>pc_cloud = ''aws'', pc_dbType = ''postgres'', pc_dbURL = [], pc_DB = ''db'', pc_adminDB = ''admin''\<rparr>"

definition sample_role_config :: RoleConfig where
  "sample_role_config = \<lparr>rcfg_Viper = sample_viper, rcfg_Class = ''default'', rcfg_Namespace = ''service''\<rparr>"

lemma sample_lower: "ToLower ''reporting'' = ''reporting''" "ToLower ''sales'' = ''sales''"
  "role_name ''sales'' ''readonly'' = ''sales_readonly''"
  by code_simp+

lemma sample_schemas:
  "\<exists>k1 k2 rc. schemas_and_roles role_env sample_client ''orders'' [(''sales'', ''readonly'')] sample_role_claim h =
     (Ret (rc, None), Sql (EvQueryBool ''db'' k1 (Inr True)) # Sql (EvQueryBool ''db'' k2 (Inr True)) # h) \<and>
     rc_Spec rc = rc_Spec sample_role_claim \<and> rc_Meta rc = rc_Meta sample_role_claim \<and> rct_Username (rc_Status rc) = []"
  by (simp add: rc_createSchema_def rc_createRole_def SchemaExists_def RoleExists_def sample_client_def sample_lower
      sql_calls prog_simps Let_def sample_role_claim_def empty_DbRoleClaimStatus_def)

lemma sample_revoke: "\<exists>h'. for_each rows (\<lambda>x. RevokeAccessToRole role_env cli u x) h = (Ret None, h')"
  by (induction rows arbitrary: h) (simp_all add: RevokeAccessToRole_def sql_calls prog_simps)

lemma sample_set_up: "\<exists>k. set_up_user role_env cli u ''pw'' [(''sales'', ''readonly'')] h = (Ret None, k)"
proof -
  have "\<exists>h1. UpdatePassword role_env cli u ''pw'' h = (Ret None, h1)" "\<exists>h1. CreateUser role_env cli u [] ''pw'' h = (Ret (False, None), h1)"
    "\<exists>rows h1. GetUserRoles role_env cli u h = (Ret (Inr rows), h1)" "\<exists>h1. map_order role_env [x] h = (Ret [x], h1)"
    "\<exists>h1. AssignRoleToUser role_env cli u r h = (Ret None, h1)" for h r and x :: "string \<times> string"
    by (simp_all add: UpdatePassword_def CreateUser_def GetUserRoles_def AssignRoleToUser_def map_order_def sql_calls prog_simps)
  note runs = this
  obtain h1 where 1: "CreateUser role_env cli u [] ''pw'' h = (Ret (False, None), h1)" using runs(2) ..
  obtain h2 where 2: "UpdatePassword role_env cli u ''pw'' h1 = (Ret None, h2)" using runs(1) ..
  obtain rows h3 where 3: "GetUserRoles role_env cli u h2 = (Ret (Inr rows), h3)" using runs(3) by metis
  obtain h4 where 4: "for_each rows (\<lambda>x. RevokeAccessToRole role_env cli u x) h3 = (Ret None, h4)" using sample_revoke ..
  obtain h5 where 5: "map_order role_env [(''sales'', ''readonly'')] h4 = (Ret [(''sales'', ''readonly'')], h5)" using runs(4) ..
  obtain h6 where 6: "AssignRoleToUser role_env cli u (role_name ''sales'' ''readonly'') h5 = (Ret None, h6)" using runs(5) ..
  show ?thesis unfolding set_up_user_def by (simp add: run_bnd check_err_def attempt_err_def run_ret 1 2 3 4 5 6)
qed

lemma sample_rotation:
  "\<exists>rc' h'. rotate_role_user role_env sample_role_config 5 sample_client ''orders'' sample_source_secret sample_role_claim [] =
     (Ret (Inr rc'), h') \<and> rct_Username (rc_Status rc') = ''reporting_user_a''"
proof -
  let ?g = "Sys (EvMapOrder 0)" and ?u = "''reporting_user_a''"
  obtain k1 k2 rc where
    sch: "schemas_and_roles role_env sample_client ''orders'' [(''sales'', ''readonly'')] sample_role_claim [?g] =
      (Ret (rc, None), Sql (EvQueryBool ''db'' k1 (Inr True)) # Sql (EvQueryBool ''db'' k2 (Inr True)) # [?g])"
    and rc: "rc_Spec rc = rc_Spec sample_role_claim" "rc_Meta rc = rc_Meta sample_role_claim" "rct_Username (rc_Status rc) = []"
    using sample_schemas [of "[?g]"] by (elim exE conjE)
  obtain k where usr: "set_up_user role_env sample_client ?u ''pw'' [(''sales'', ''readonly'')]
      (Sys (EvGeneratePassword (Inr ''pw'')) # Sql (EvQueryBool ''db'' k1 (Inr True)) # Sql (EvQueryBool ''db'' k2 (Inr True)) # [?g]) =
      (Ret None, k)" using sample_set_up ..
  have order: "map_order role_env [(''sales'', ''readonly'')] [] = (Ret [(''sales'', ''readonly'')], [?g])"
    by (simp add: map_order_def prog_simps)
  have gen: "rc_generatePassword role_env sample_viper h = (Ret (Inr ''pw''), Sys (EvGeneratePassword (Inr ''pw'')) # h)" for h
    by (simp add: rc_generatePassword_def GeneratePassword_def prog_simps Let_def)
  have sec: "\<exists>h'. copySourceSecret role_env sample_source_secret rc0 ?u ''pw'' k = (Ret None, h')" for rc0
    by (simp add: copySourceSecret_def copied_data_def sample_source_secret_def k8s_calls prog_simps Let_def)
  have user: "NextUser (NewDBUser (ToLower (rc_Name rc) @ ''_user'')) (rct_Username (rc_Status rc)) = ?u"
    by (simp add: rc sample_role_claim_def sample_lower)
  obtain h' where sec: "copySourceSecret role_env sample_source_secret (upd_rc_status (\<lambda>s. s\<lparr>rct_Username := ?u\<rparr>) rc) ?u ''pw'' k =
      (Ret None, h')" using sec ..
  have map: "rcs_SchemaRoleMap (rc_Spec sample_role_claim) = [(''sales'', ''readonly'')]" "rcfg_Viper sample_role_config = sample_viper"
    by (simp_all add: sample_role_claim_def sample_role_config_def)
  show ?thesis
    by (simp add: rotate_role_user_def run_bnd run_ret Let_def order sch gen user usr sec map del: schemas_and_roles.simps)
qed

theorem role_user_published_witness:
  "\<exists>rc' h' pw. rotate_role_user role_env sample_role_config 5 sample_client ''orders'' sample_source_secret sample_role_claim [] =
     (Ret (Inr rc'), h') \<and> password_of ''db'' ''reporting_user_a'' h' = Some pw \<and>
     member_of ''db'' ''reporting_user_a'' (role_name ''sales'' ''readonly'') h'"
proof -
  from sample_rotation obtain rc' h' where
    run: "rotate_role_user role_env sample_role_config 5 sample_client ''orders'' sample_source_secret sample_role_claim [] =
      (Ret (Inr rc'), h')" and u: "rct_Username (rc_Status rc') = ''reporting_user_a''" by blast
  have gen: "\<forall>h n k m. e_GeneratePassword (e_sys role_env) h n k m \<noteq> Inr []" by simp
  note pub = role_user_published [OF run role_env_answers gen, unfolded u]
  have db: "pc_DB sample_client = ''db''" by (simp add: sample_client_def)
  from pub obtain pw where "password_of ''db'' ''reporting_user_a'' h' = Some pw" unfolding db by (elim conjE exE)
  moreover have "member_of ''db'' ''reporting_user_a'' (role_name ''sales'' ''readonly'') h'"
    using conjunct2 [OF conjunct2 [OF pub]] by (simp add: db sample_role_claim_def)
  ultimately show ?thesis using run by (intro exI conjI)
qed

subsection \<open>What a role claim may touch\<close>

text \<open>The users that a role claim may create and change, in the spelling of the database, and those that its
  deletion drops, which are spelled as the role claim; for a name in lower case, as Kubernetes demands,
  these are the same two.\<close>

definition role_users :: "string \<Rightarrow> string set" where
  "role_users n = {ToLower n @ ''_user_a'', ToLower n @ ''_user_b''}"

definition dropped_users :: "string \<Rightarrow> string set" where
  "dropped_users n = {n @ ''_user_a'', n @ ''_user_b''}"

text \<open>The schemas of a map from schemas to roles, and each schema with the role made for it.\<close>

definition schema_roles :: "(string \<times> string) list \<Rightarrow> (string \<times> string) set" where
  "schema_roles m = (\<lambda>(schema, role). (ToLower schema, role_name schema role)) ` set m"

text \<open>The statements that a role claim of the name \<open>n\<close> with the map \<open>m\<close> may run.\<close>

primrec own_statement :: "string \<Rightarrow> (string \<times> string) list \<Rightarrow> sql \<Rightarrow> bool" where
  "own_statement n m (CREATE_DATABASE d) = False"
| "own_statement n m (CREATE_EXTENSION x) = False"
| "own_statement n m (CREATE_PG_CRON r) = False"
| "own_statement n m (CREATE_PG_PARTMAN r) = False"
| "own_statement n m CREATE_IB_SCHEMA = False"
| "own_statement n m (CREATE_FUNCTION a b c) = False"
| "own_statement n m (CREATE_SCHEMA x) = (x \<in> fst ` schema_roles m)"
| "own_statement n m (CREATE_ROLE_NOLOGIN r) = (r \<in> snd ` schema_roles m)"
| "own_statement n m (GRANT_ALL_ON_DATABASE d r) = (r \<in> snd ` schema_roles m)"
| "own_statement n m (GRANT_ALL_ON_SCHEMA x r) = ((x, r) \<in> schema_roles m)"
| "own_statement n m (GRANT_ALL_TABLES x r) = ((x, r) \<in> schema_roles m)"
| "own_statement n m (GRANT_ALL_SEQUENCES x r) = ((x, r) \<in> schema_roles m)"
| "own_statement n m (GRANT_ADMIN d r x) = ((x, r) \<in> schema_roles m)"
| "own_statement n m (GRANT_REGULAR d r x) = ((x, r) \<in> schema_roles m)"
| "own_statement n m (GRANT_READONLY d r x) = ((x, r) \<in> schema_roles m)"
| "own_statement n m (SET_AND_GRANT_ROLE u r) = (u \<in> role_users n \<and> r \<in> snd ` schema_roles m)"
| "own_statement n m (DROP_USER u v d) = (u \<in> dropped_users n)"
| "own_statement n m (CREATE_ROLE_LOGIN u w r) = False"
| "own_statement n m (CREATE_USER u w) = (u \<in> role_users n)"
| "own_statement n m (RENAME_USER u v) = False"
| "own_statement n m (ALTER_PASSWORD u w) = (u \<in> role_users n)"
| "own_statement n m (ALTER_CREATEROLE r b) = False"
| "own_statement n m (ALTER_REPLICATION r b) = False"
| "own_statement n m (GRANT_ROLE r u) = False"
| "own_statement n m (REVOKE_ROLE r u) = (u \<in> role_users n)"
| "own_statement n m (CREATE_PUBLICATION p) = False"
| "own_statement n m (CREATE_SUBSCRIPTION x c p) = False"
| "own_statement n m (ENABLE_SUBSCRIPTION x) = False"
| "own_statement n m (DISABLE_SUBSCRIPTION x) = False"
| "own_statement n m (DROP_SUBSCRIPTION x) = False"
| "own_statement n m (DROP_PUBLICATION p) = False"
| "own_statement n m (SETVAL x k) = False"
| "own_statement n m (REVOKE_WRITES r) = False"

text \<open>The calls of a role claim \<open>n\<close> in the namespace \<open>ns\<close> with the specification \<open>sp\<close>.\<close>

fun own_call :: "string \<Rightarrow> string \<Rightarrow> DbRoleClaimSpec \<Rightarrow> event \<Rightarrow> bool" where
  "own_call ns n sp (Sql (EvExec db q r)) = own_statement n (rcs_SchemaRoleMap sp) q"
| "own_call ns n sp (Sql _) = True"
| "own_call ns n sp (Sys _) = True"
| "own_call ns n sp (Aws _) = False"
| "own_call ns n sp (Gcp _) = False"
| "own_call ns n sp (K8s k) = (case k of
     EvGetClaim _ _ _ \<Rightarrow> True | EvGetSecret _ _ _ \<Rightarrow> True | EvGetRoleClaim _ _ _ \<Rightarrow> True
   | EvCreateSecret s _ \<Rightarrow> sec_Namespace s = ns \<and> sec_Name s = rcs_SecretName sp
   | EvUpdateSecret s _ \<Rightarrow> sec_Namespace s = ns \<and> sec_Name s = rcs_SecretName sp
   | EvUpdateRoleClaim c _ \<Rightarrow> rc_Namespace c = ns \<and> rc_Name c = n
   | EvUpdateRoleClaimStatus c _ \<Rightarrow> rc_Namespace c = ns \<and> rc_Name c = n
   | _ \<Rightarrow> False)"

definition named :: "string \<Rightarrow> string \<Rightarrow> DbRoleClaimSpec \<Rightarrow> DbRoleClaim \<Rightarrow> bool" where
  "named ns n sp rc \<longleftrightarrow> rc_Namespace rc = ns \<and> rc_Name rc = n \<and> rc_Spec rc = sp"

text \<open>The server answers the secret that was asked for.\<close>

definition answers_secrets :: "env \<Rightarrow> bool" where
  "answers_secrets E \<longleftrightarrow> (\<forall>h ns n s. e_GetSecret (e_k8s E) h ns n = Inr s \<longrightarrow> sec_Namespace s = ns \<and> sec_Name s = n)"

lemma NextUser_own: "NextUser (NewDBUser (ToLower n @ ''_user'')) u \<in> role_users n"
  by (simp add: NextUser_def NewDBUser_def GetUserA_def GetUserB_def role_users_def)

lemma own_sql_calls:
  "emits (own_call ns n sp) (sql_open E db)" "emits (own_call ns n sp) (sql_ping E db)"
  "emits (own_call ns n sp) (sql_bool E db q)" "emits (own_call ns n sp) (sql_strings E db q)"
  "own_statement n (rcs_SchemaRoleMap sp) st \<Longrightarrow> emits (own_call ns n sp) (sql_exec E db st)"
  "emits (own_call ns n sp) (map_order E xs)" "emits (own_call ns n sp) (now E)"
  unfolding sql_calls sys_calls by (intro trace_intros; simp)+

lemma own_client_calls:
  "emits (own_call ns n sp) (dbclient_New E dsn)" "emits (own_call ns n sp) (client_getDB E cli d)"
  unfolding dbclient_New_def newPostgresClient_def client_getDB_def Let_def
  by (auto intro!: trace_intros own_sql_calls)

lemma schema_roles_parts:
  "(x, r) \<in> schema_roles m \<Longrightarrow> x \<in> fst ` schema_roles m" "(x, r) \<in> schema_roles m \<Longrightarrow> r \<in> snd ` schema_roles m"
  by (simp_all add: image_eqI [where x = "(x, r)"])

lemma schema_roles_entry: "(schema, role) \<in> set m \<Longrightarrow> (ToLower schema, role_name schema role) \<in> schema_roles m"
  unfolding schema_roles_def by (rule image_eqI [where x = "(schema, role)"]) simp_all

lemma emits_for_each_in:
  "(\<And>x. x \<in> set xs \<Longrightarrow> emits P (body x)) \<Longrightarrow> emits P (for_each xs body)"
  by (induction xs) (auto intro!: trace_intros)

lemma own_grants:
  assumes "(x, r) \<in> schema_roles (rcs_SchemaRoleMap sp)"
  shows "emits (own_call ns n sp) (grantRolePrivileges E cli d r x)"
proof -
  have "own_statement n (rcs_SchemaRoleMap sp) q"
    if "q \<in> set [GRANT_ALL_ON_DATABASE d r, GRANT_ALL_ON_SCHEMA x r, GRANT_ALL_TABLES x r, GRANT_ALL_SEQUENCES x r]" for q
    using that assms by (auto intro: schema_roles_parts)
  then show ?thesis unfolding grantRolePrivileges_def
    by (intro emits_attempt own_client_calls emits_for_each_in own_sql_calls)
qed

lemma own_create_role:
  assumes entry: "(x, r) \<in> schema_roles (rcs_SchemaRoleMap sp)" and "x \<noteq> []"
    and stmt: "own_statement n (rcs_SchemaRoleMap sp) (stmt d r x)"
  shows "emits (own_call ns n sp) (create_role_with stmt E cli d r x)"
proof -
  have "own_statement n (rcs_SchemaRoleMap sp) (CREATE_ROLE_NOLOGIN r)" using schema_roles_parts(2) [OF entry] by simp
  from own_sql_calls(5) [OF this] assms show ?thesis unfolding create_role_with_def CreateRole_def createRole_def Let_def
    by (auto intro!: trace_intros own_sql_calls(3) own_sql_calls(5) [OF stmt] own_client_calls own_grants)
qed

lemma ToLower_idem [simp]: "ToLower (ToLower s) = ToLower s"
  by (auto simp: ToLower_def ToLower_char_def Let_def)

lemma role_name_lower [simp]: "ToLower (role_name a b) = role_name a b"
  by (simp add: role_name_def)

lemma own_schema_entry:
  assumes "(schema, role) \<in> set (rcs_SchemaRoleMap sp)" and "schema \<noteq> []"
  shows "emits (own_call ns n sp) (rc_createSchema E cli (ToLower schema))"
    "emits (own_call ns n sp) (rc_createRole E cli (role_name schema role) d (ToLower schema))"
proof -
  from assms have entry: "(ToLower schema, role_name schema role) \<in> schema_roles (rcs_SchemaRoleMap sp)" "ToLower schema \<noteq> []"
    by (blast intro: schema_roles_entry, simp add: ToLower_def)
  have "own_statement n (rcs_SchemaRoleMap sp) (CREATE_SCHEMA (ToLower schema))"
    using schema_roles_parts(1) [OF entry(1)] by simp
  then show "emits (own_call ns n sp) (rc_createSchema E cli (ToLower schema))"
    unfolding rc_createSchema_def SchemaExists_def CreateSchema_def by (intro trace_intros own_sql_calls)
  show "emits (own_call ns n sp) (rc_createRole E cli (role_name schema role) d (ToLower schema))"
    unfolding rc_createRole_def RoleExists_def CreateAdminRole_def CreateRegularRole_def CreateReadOnlyRole_def
    using entry by (auto intro!: trace_intros own_sql_calls own_create_role)
qed

lemma own_set_up_user:
  assumes "u \<in> role_users n" and "set m \<subseteq> set (rcs_SchemaRoleMap sp)"
  shows "emits (own_call ns n sp) (set_up_user E cli u w m)"
proof -
  have "emits (own_call ns n sp) (for_each (permute k m) (\<lambda>(schema, role). AssignRoleToUser E cli u (role_name schema role)))" for k
  proof -
    have "emits (own_call ns n sp) (AssignRoleToUser E cli u (role_name schema role))" if "(schema, role) \<in> set m" for schema role
      unfolding AssignRoleToUser_def using schema_roles_parts(2) [OF schema_roles_entry, of schema role] that assms
      by (intro own_sql_calls) (simp add: subsetD)
    then show ?thesis by (intro emits_for_each_in) auto
  qed
  then have assign: "emits (own_call ns n sp) (bnd (map_order E m) (\<lambda>entries.
      for_each entries (\<lambda>(schema, role). AssignRoleToUser E cli u (role_name schema role))))"
    unfolding map_order_def bnd_assoc bnd_ret by (intro emits_bnd emits_call) simp_all
  have user: "emits (own_call ns n sp) (CreateUser E cli u [] w)" "emits (own_call ns n sp) (UpdatePassword E cli u w)"
    "emits (own_call ns n sp) (GetUserRoles E cli u)" "emits (own_call ns n sp) (RevokeAccessToRole E cli u x)" for x
    unfolding CreateUser_def UpdatePassword_def GetUserRoles_def RevokeAccessToRole_def
    using assms(1) by (auto intro!: trace_intros own_sql_calls)
  show ?thesis unfolding set_up_user_def
    by (intro emits_bnd [OF user(1)] emits_prod emits_option emits_ret emits_check emits_if emits_attempt
        emits_for_each [OF user(4)] user assign)
qed

lemma own_delete_user:
  "u \<in> dropped_users n \<Longrightarrow> emits (own_call ns n sp) (DeleteUser E cli d u v)"
  unfolding DeleteUser_def by (auto intro!: trace_intros own_sql_calls)

lemma own_status_calls:
  assumes "named ns n sp rc"
  shows "emits (own_call ns n sp) (updateRoleClaim E rc)" "emits (own_call ns n sp) (manageError E rc e)"
    "emits (own_call ns n sp) (manageSuccess E rc)" "emits (own_call ns n sp) (updateClientStatus E rc)"
  using assms unfolding manageError_def manageSuccess_def updateClientStatus_def k8s_calls
  by (auto intro!: trace_intros simp: named_def)

lemma own_secret:
  assumes "named ns n sp rc" and "answers_secrets E"
  shows "emits (own_call ns n sp) (copySourceSecret E src rc u w)"
proof -
  have get: "returns (\<lambda>r. \<forall>s. r = Inr s \<longrightarrow> sec_Namespace s = ns \<and> sec_Name s = rcs_SecretName sp)
      (getSecret E (rc_Namespace rc) (rcs_SecretName (rc_Spec rc)))"
    using assms by (auto simp: returns_def getSecret_def run_call answers_secrets_def named_def)
  have "emits (own_call ns n sp) (getSecret E a b)" for a b unfolding getSecret_def by (intro trace_intros) simp
  note bind = emits_bnd_of [OF this get]
  show ?thesis unfolding copySourceSecret_def Let_def
    by (intro emits_if emits_panic emits_option emits_ret bind)
      (use assms(1) in \<open>auto simp: named_def createSecretObj_def updateSecretObj_def intro!: trace_intros split: sum.split\<close>)
qed

lemma named_upd [simp]:
  "named ns n sp (rc\<lparr>rc_Status := st\<rparr>) = named ns n sp rc" "named ns n sp (initStatusValues rc) = named ns n sp rc"
  "named ns n sp (rc_set_finalizers fs rc) = named ns n sp rc" "named ns n sp (fst (rc_written rc r)) = named ns n sp rc"
  by (auto simp: named_def initStatusValues_def rc_set_finalizers_def rc_written_def split: sum.split)

lemma own_reads:
  "emits (own_call ns n sp) (getClaim E a b)" "emits (own_call ns n sp) (getSecret E a b)"
  "emits (own_call ns n sp) (getSourceDBClaim E rc)" "emits (own_call ns n sp) (getSourceSecret E x rc)"
  "emits (own_call ns n sp) (readResourceSecret E r bc c)" "emits (own_call ns n sp) (setDbClaimReqInfo title r c)"
  "emits (own_call ns n sp) (GetClientForExistingDB E conn)" "emits (own_call ns n sp) (rotation_needed E v rc)"
  "emits (own_call ns n sp) (rc_generatePassword E v)"
proof -
  show get: "emits (own_call ns n sp) (getClaim E a b)" "emits (own_call ns n sp) (getSecret E a b)" for a b
    unfolding k8s_calls by (intro trace_intros; simp)+
  show "emits (own_call ns n sp) (getSourceDBClaim E rc)" "emits (own_call ns n sp) (getSourceSecret E x rc)"
    "emits (own_call ns n sp) (readResourceSecret E r bc c)" "emits (own_call ns n sp) (setDbClaimReqInfo title r c)"
    unfolding getSourceDBClaim_def getSourceSecret_def readResourceSecret_def setDbClaimReqInfo_def Let_def
    by (intro trace_intros get)+
  show "emits (own_call ns n sp) (GetClientForExistingDB E conn)" "emits (own_call ns n sp) (rotation_needed E v rc)"
    "emits (own_call ns n sp) (rc_generatePassword E v)"
    unfolding GetClientForExistingDB_def rotation_needed_def rc_generatePassword_def
    by (intro trace_intros own_client_calls own_sql_calls; simp)+
qed

lemma keeps_name:
  assumes "named ns n sp rc"
  shows "returns (\<lambda>x. named ns n sp (fst x)) (getSourceDBClaim E rc)"
    and "returns (\<lambda>x. named ns n sp (fst x)) (getSourceSecret E y rc)"
    and "returns (\<lambda>x. named ns n sp (fst x)) (schemas_and_roles E cli d es rc)"
    and "returns (\<lambda>x. named ns n sp (fst x)) (updateClientStatus E rc)"
proof -
  show "returns (\<lambda>x. named ns n sp (fst x)) (getSourceDBClaim E rc)" "returns (\<lambda>x. named ns n sp (fst x)) (getSourceSecret E y rc)"
    unfolding getSourceDBClaim_def getSourceSecret_def using assms
    by (auto intro!: returns_panic returns_bnd returns_ret split: option.split sum.split)
  show "returns (\<lambda>x. named ns n sp (fst x)) (schemas_and_roles E cli d es rc)"
    by (rule returns_mono [OF schemas_and_roles_frame]) (use assms in \<open>auto simp: named_def\<close>)
  show "returns (\<lambda>x. named ns n sp (fst x)) (updateClientStatus E rc)"
    unfolding updateClientStatus_def using assms
    by (auto simp: rc_written_def named_def intro!: returns_bnd returns_ret split: sum.split)
qed

text \<open>No schema of a map is empty.\<close>

abbreviation proper_map :: "(string \<times> string) list \<Rightarrow> bool" where
  "proper_map m \<equiv> \<forall>(schema, role) \<in> set m. schema \<noteq> []"

lemma own_schemas:
  assumes "set es \<subseteq> set (rcs_SchemaRoleMap sp)" and "proper_map (rcs_SchemaRoleMap sp)"
  shows "emits (own_call ns n sp) (schemas_and_roles E cli d es rc)"
  using assms(1)
proof (induction es arbitrary: rc)
  case (Cons x es)
  obtain schema role where x: "x = (schema, role)" by fastforce
  from Cons.prems have entry: "(schema, role) \<in> set (rcs_SchemaRoleMap sp)" by (simp add: x)
  with assms(2) have "schema \<noteq> []" by blast
  note entry = entry this
  show ?case using Cons unfolding x schemas_and_roles.simps Let_def
    by (intro trace_intros own_schema_entry [OF entry]) simp
qed (simp add: emits_ret)

lemma rotation_keeps_name:
  assumes "named ns n sp rc"
  shows "returns (\<lambda>x. \<forall>rc'. x = Inr rc' \<longrightarrow> named ns n sp rc') (rotate_role_user E r t cli d src rc)"
  unfolding rotate_role_user_def Let_def
  by (rule returns_bnd, rule returns_bnd_of [OF keeps_name(3) [OF assms]])
    (auto simp: named_def intro!: returns_bnd returns_ret split: option.split sum.split)

lemma own_rotation:
  assumes nm: "named ns n sp rc" and E: "answers_secrets E" and proper: "proper_map (rcs_SchemaRoleMap sp)"
  shows "emits (own_call ns n sp) (rotate_role_user E r t cli d src rc)"
proof -
  have user: "NextUser (NewDBUser (ToLower (rc_Name rc1) @ ''_user'')) u \<in> role_users n" if "named ns n sp rc1" for rc1 u
    using that NextUser_own by (auto simp: named_def)
  have order: "returns (\<lambda>es. set es = set m) (map_order E m)" for m :: "(string \<times> string) list"
    by (simp add: map_order_def returns_def prog_simps)
  have spec: "rc_Spec rc = sp" using nm by (simp add: named_def)
  have sch: "emits (own_call ns n sp) (schemas_and_roles E cli d es rc)" if "set es = set (rcs_SchemaRoleMap sp)" for es
    using own_schemas [of es sp] that proper by blast
  show ?thesis unfolding rotate_role_user_def Let_def spec
    by (rule emits_bnd_of [OF own_sql_calls(6) order], rule emits_bnd_of [OF sch keeps_name(3) [OF nm]])
      (auto intro!: trace_intros own_reads own_set_up_user user own_secret own_status_calls E)
qed

lemma own_reconcile_users:
  assumes "named ns n sp rc" and "answers_secrets E"
  shows "emits (own_call ns n sp) (reconcile_users E r t bc c src rc)"
proof -
  have rot: "emits (own_call ns n sp) (if due then rotate_role_user E r t cli d src (initStatusValues rc) else ret (Inr (initStatusValues rc)))"
    if "proper_map (rcs_SchemaRoleMap sp)" for due cli d
    using own_rotation assms that by (auto intro!: emits_ret)
  have kept: "returns (\<lambda>x. \<forall>rc'. x = Inr rc' \<longrightarrow> named ns n sp rc')
       (if due then rotate_role_user E r t cli d src (initStatusValues rc) else ret (Inr (initStatusValues rc)))" for due cli d
    using rotation_keeps_name assms by (auto intro!: returns_ret)
  have fin: "emits (own_call ns n sp) (bnd (updateClientStatus E rc') (\<lambda>(rc, er). case er of
            Some e \<Rightarrow> ret (empty_Result, Some e) | None \<Rightarrow> manageSuccess E rc))" if "named ns n sp rc'" for rc'
    using that by (intro emits_bnd_of [OF own_status_calls(4) keeps_name(4)]) (auto intro!: trace_intros own_status_calls)
  have tail: "emits (own_call ns n sp) (bnd (if due then rotate_role_user E r t cli d src (initStatusValues rc)
      else ret (Inr (initStatusValues rc))) (\<lambda>res. case res of Inl a \<Rightarrow> ret a | Inr rc \<Rightarrow>
          bnd (updateClientStatus E rc) (\<lambda>(rc, er). case er of
            Some e \<Rightarrow> ret (empty_Result, Some e) | None \<Rightarrow> manageSuccess E rc)))"
    if "proper_map (rcs_SchemaRoleMap sp)" for due cli d
    by (rule emits_bnd_of [OF rot [OF that] kept]) (auto intro!: emits_ret fin split: sum.split)
  show ?thesis
  proof (cases "list_ex (\<lambda>(schema, role). schema = [] \<or> role = []) (rcs_SchemaRoleMap sp)")
    case True
    with assms(1) show ?thesis by (simp add: reconcile_users_def named_def emits_ret)
  next
    case False
    then have proper: "proper_map (rcs_SchemaRoleMap sp)" by (auto simp: list_ex_iff)
    show ?thesis unfolding reconcile_users_def Let_def
      by (rule emits_if, rule emits_ret, rule emits_bnd, rule own_reads, rule emits_prod, rule emits_option)
        (rule emits_bnd, rule own_reads, rule emits_sum, rule emits_ret, rule emits_bnd, rule own_reads, rule tail [OF proper], rule emits_ret)
  qed
qed

lemma own_copy_secret:
  assumes "named ns n sp rc" and "answers_secrets E"
  shows "emits (own_call ns n sp) (copy_secret E t src rc)"
  unfolding copy_secret_def using assms by (auto intro!: trace_intros own_secret own_status_calls)

lemma own_deleteExternal:
  assumes "named ns n sp rc"
  shows "emits (own_call ns n sp) (rc_deleteExternalResources title E r rc)"
    and "returns (\<lambda>x. named ns n sp (fst x)) (rc_deleteExternalResources title E r rc)"
proof -
  have u: "rc_Name rc1 @ ''_user_a'' \<in> dropped_users n" "rc_Name rc1 @ ''_user_b'' \<in> dropped_users n" if "named ns n sp rc1" for rc1
    using that by (auto simp: named_def dropped_users_def)
  show "emits (own_call ns n sp) (rc_deleteExternalResources title E r rc)"
    unfolding rc_deleteExternalResources_def
    by (rule emits_bnd_of [OF own_reads(3) keeps_name(1) [OF assms]])
      (auto intro!: trace_intros own_reads own_delete_user u)
  show "returns (\<lambda>x. named ns n sp (fst x)) (rc_deleteExternalResources title E r rc)"
    unfolding rc_deleteExternalResources_def
    by (rule returns_bnd_of [OF keeps_name(1) [OF assms]])
      (auto intro!: returns_bnd returns_ret split: sum.split)
qed

lemma own_deleteWorkflow:
  assumes "named ns n sp rc"
  shows "emits (own_call ns n sp) (deleteWorkflow title E r rc)"
    and "returns (\<lambda>x. named ns n sp (fst x)) (deleteWorkflow title E r rc)"
proof -
  have upd: "returns (\<lambda>x. named ns n sp (fst x)) (bnd (updateRoleClaim E rc1) (\<lambda>u. case rc_written rc1 u of
      (rc, Some e) \<Rightarrow> ret (rc, Inl e) | (rc, None) \<Rightarrow> ret (rc, Inr b)))" if "named ns n sp rc1" for rc1 b
    using that by (auto simp: rc_written_def named_def intro!: returns_bnd returns_ret split: sum.split)
  have wr: "emits (own_call ns n sp) (bnd (updateRoleClaim E rc1) (\<lambda>u. case rc_written rc1 u of
      (rc, Some e) \<Rightarrow> ret (rc, Inl e) | (rc, None) \<Rightarrow> ret (rc, Inr b)))" if "named ns n sp rc1" for rc1 b
    using that by (intro trace_intros own_status_calls)
  show "emits (own_call ns n sp) (deleteWorkflow title E r rc)"
    unfolding deleteWorkflow_def Let_def
    by (rule emits_if, rule emits_if, rule emits_ret, rule wr, simp add: assms, rule emits_if,
        rule emits_bnd_of [OF own_deleteExternal [OF assms]])
      (auto intro!: emits_ret wr split: option.split)
  show "returns (\<lambda>x. named ns n sp (fst x)) (deleteWorkflow title E r rc)"
    unfolding deleteWorkflow_def Let_def using assms
    by (auto intro!: returns_ret upd returns_bnd_of [OF own_deleteExternal(2)] split: option.split)
qed

lemma own_reconcile:
  assumes nm: "named ns n sp rc" and E: "answers_secrets E"
  shows "emits (own_call ns n sp) (reconcile_role_claim title E r t rc)"
proof -
  have sec: "emits (own_call ns n sp) (bnd (getSourceSecret E x rc2) (\<lambda>(rc, ss). case ss of
        Inl _ \<Rightarrow> manageError E rc e3
      | Inr src \<Rightarrow> if rcs_SchemaRoleMap (rc_Spec rc) \<noteq> [] then reconcile_users E r t bc c src rc else copy_secret E t src rc))"
    if "named ns n sp rc2" for rc2 bc c x e3
    by (rule emits_bnd_of [OF own_reads(4) keeps_name(2) [OF that]])
      (use E in \<open>auto intro!: own_status_calls own_reconcile_users own_copy_secret split: sum.split\<close>)
  have main: "emits (own_call ns n sp) (bnd (getSourceDBClaim E rc1) (\<lambda>(rc, sc). case sc of
        Inl _ \<Rightarrow> manageError E rc e1
      | Inr c \<Rightarrow> bnd (setDbClaimReqInfo title r c) (\<lambda>bc. case bc of
        Inl _ \<Rightarrow> manageError E rc e2
      | Inr bc \<Rightarrow> bnd (getSourceSecret E (spec_SecretName (dc_Spec c)) rc) (\<lambda>(rc, ss). case ss of
        Inl _ \<Rightarrow> manageError E rc (e3 c)
      | Inr src \<Rightarrow> if rcs_SchemaRoleMap (rc_Spec rc) \<noteq> [] then reconcile_users E r t bc c src rc else copy_secret E t src rc))))"
    if "named ns n sp rc1" for rc1 e1 e2 e3
    by (rule emits_bnd_of [OF own_reads(3) keeps_name(1) [OF that]])
      (auto intro!: own_status_calls emits_bnd [OF own_reads(6)] sec split: sum.split)
  show ?thesis unfolding reconcile_role_claim_def
    by (rule emits_option, rule emits_panic, rule emits_if, rule emits_ret, rule emits_bnd_of [OF own_deleteWorkflow [OF nm]])
      (auto intro!: emits_ret emits_panic own_status_calls main split: sum.split option.split)
qed

lemma rc_Reconcile_found:
  "e_GetRoleClaim (e_k8s E) (Sys (EvNow (e_Now (e_sys E) h)) # h) ns n = Inr rc \<Longrightarrow>
     rc_Reconcile title E r ns n h = reconcile_role_claim title E r (e_Now (e_sys E) h) rc
       (K8s (EvGetRoleClaim ns n (Inr rc)) # Sys (EvNow (e_Now (e_sys E) h)) # h)"
  by (simp add: rc_Reconcile_def sys_calls k8s_calls prog_simps)


text \<open>A role claim that holds the finalizer.\<close>

definition held_role_claim :: DbRoleClaim where
  "held_role_claim = sample_role_claim\<lparr>rc_Meta := (rc_Meta sample_role_claim)\<lparr>m_Namespace := ''shop'', m_Finalizers := [finalizerName]\<rparr>\<rparr>"

lemma held_role_claim_simps [simp]:
  "m_Name (rc_Meta held_role_claim) = ''reporting''" "m_Namespace (rc_Meta held_role_claim) = ''shop''"
  "m_Finalizers (rc_Meta held_role_claim) = [finalizerName]" "rcs_Class (rc_Spec held_role_claim) = Some ''default''"
  "rcs_SourceDatabaseClaim (rc_Spec held_role_claim) = Some (''shop'', ''orders'')"
  "m_DeletionTimestamp (rc_Meta held_role_claim) = None" "rcs_SchemaRoleMap (rc_Spec held_role_claim) = [(''sales'', ''readonly'')]"
  "rcs_SecretName (rc_Spec held_role_claim) = ''reporting-secret''" "rc_Status held_role_claim = empty_DbRoleClaimStatus"
  by (simp_all add: held_role_claim_def sample_role_claim_def sample_claim_def)

text \<open>Its source exists, its secret and everything it needs in the database do not yet.\<close>

definition fresh_secret :: "string \<Rightarrow> string \<Rightarrow> Secret" where
  "fresh_secret ns n = \<lparr>sec_Namespace = ns, sec_Name = n, sec_Labels = [], sec_Owner = [], sec_ResourceVersion = ''7'',
     sec_Data = Some [''database'' \<mapsto> ''orders'', ''hostname'' \<mapsto> ''h'', ''endpoint'' \<mapsto> ''h'', ''password'' \<mapsto> ''old'',
       ''port'' \<mapsto> ''5432'', ''sslmode'' \<mapsto> ''require'', ''username'' \<mapsto> ''root'']\<rparr>"

definition fresh_env :: env where
  "fresh_env = sample_env\<lparr>e_k8s := sample_k8s\<lparr>e_GetRoleClaim := \<lambda>h ns n. Inr held_role_claim,
       e_GetClaim := \<lambda>h ns n. Inr sample_claim,
       e_GetSecret := \<lambda>h ns n. if ns = ''shop'' \<and> n = ''reporting-secret'' then Inl (NotFound n) else Inr (fresh_secret ns n)\<rparr>,
     e_sql := sample_sql\<lparr>e_QueryBool := \<lambda>h d q. Inr False, e_QueryStrings := \<lambda>h d q. Inr ([], None)\<rparr>\<rparr>"

lemma fresh_env_simps [simp]:
  "e_GetRoleClaim (e_k8s fresh_env) h ns n = Inr held_role_claim" "e_GetClaim (e_k8s fresh_env) h ns n = Inr sample_claim"
  "e_GetSecret (e_k8s fresh_env) h ns n = (if ns = ''shop'' \<and> n = ''reporting-secret'' then Inl (NotFound n) else Inr (fresh_secret ns n))"
  "e_CreateSecret (e_k8s fresh_env) h s = None" "e_UpdateRoleClaimStatus (e_k8s fresh_env) h c = Inr ''8''"
  "e_Now (e_sys fresh_env) h = 1000000000" "e_MapOrder (e_sys fresh_env) h = 0"
  "e_GeneratePassword (e_sys fresh_env) h k l m = Inr ''pw''"
  "e_Open (e_sql fresh_env) h d = None" "e_Ping (e_sql fresh_env) h d = None" "e_Exec (e_sql fresh_env) h d q = None"
  "e_QueryBool (e_sql fresh_env) h d k' = Inr False" "e_QueryStrings (e_sql fresh_env) h d k' = Inr ([], None)"
  by (simp_all add: fresh_env_def sample_defs)

lemma fresh_env_answers: "answers_secrets fresh_env"
  by (simp add: answers_secrets_def fresh_secret_def)

lemma fresh_client:
  "\<exists>pc h'. GetClientForExistingDB fresh_env \<lparr>ci_Host = ''h'', ci_Port = ''5432'', ci_DatabaseName = ''orders'', ci_Username = ''root'',
     ci_Password = ''old'', ci_SSLMode = ''require''\<rparr> h = (Ret (Inr pc), h') \<and> (\<exists>u. Parse (pc_dbURL pc) = Inr u)"
proof -
  let ?c = "\<lparr>ci_Host = ''h'', ci_Port = ''5432'', ci_DatabaseName = ''orders'', ci_Username = ''root'',
     ci_Password = ''old'', ci_SSLMode = ''require''\<rparr>"
  have "uri_safe ?c" by (simp add: uri_safe_def plain_char_def is_alnum_def is_digit_def)
  from Parse_Uri [OF this] show ?thesis
    by (simp add: GetClientForExistingDB_def ValidateConnectionParameters_def dbclient_New_def newPostgresClient_def
        sql_calls prog_simps Let_def)
qed

lemma sample_suffix:
  "\<not> HasSuffix ''sales_readonly'' ''admin''" "\<not> HasSuffix ''sales_readonly'' ''regular''" "HasSuffix ''sales_readonly'' ''readonly''"
  "ToLower ''sales_readonly'' = ''sales_readonly''"
  by code_simp+

lemma fresh_schemas:
  assumes "Parse (pc_dbURL pc) = Inr u"
  shows "\<exists>rc' h'. schemas_and_roles fresh_env pc d [(''sales'', ''readonly'')] rc h = (Ret (rc', None), h') \<and>
    Sql (EvExec (pc_DB pc) (CREATE_SCHEMA ''sales'') None) \<in> set h'"
  by (simp add: assms rc_createSchema_def rc_createRole_def SchemaExists_def RoleExists_def CreateSchema_def sample_lower
      CreateReadOnlyRole_def create_role_with_def CreateRole_def createRole_def grantRolePrivileges_def client_getDB_def
      sample_suffix sql_calls prog_simps Let_def)

lemma fresh_user:
  "\<exists>h'. set_up_user fresh_env pc u ''pw'' [(''sales'', ''readonly'')] h = (Ret None, h') \<and>
     Sql (EvExec (pc_DB pc) (CREATE_USER u ''pw'') None) \<in> set h'"
  by (simp add: set_up_user_def CreateUser_def GetUserRoles_def AssignRoleToUser_def map_order_def sql_calls prog_simps Let_def)

lemma fresh_secret_copied:
  "rc_Namespace rc = ''shop'' \<Longrightarrow> rcs_SecretName (rc_Spec rc) = ''reporting-secret'' \<Longrightarrow>
   \<exists>h'. copySourceSecret fresh_env (fresh_secret ns n) rc u ''pw'' h = (Ret None, h') \<and> set h \<subseteq> set h'"
  by (auto simp: copySourceSecret_def copied_data_def fresh_secret_def k8s_calls prog_simps Let_def)

lemma fresh_rotation:
  assumes "Parse (pc_dbURL pc) = Inr u" and rc: "rc_Spec rc = rc_Spec held_role_claim" "rc_Meta rc = rc_Meta held_role_claim"
  shows "\<exists>rc' h' v. rotate_role_user fresh_env sample_role_config t pc d (fresh_secret ns n) rc h = (Ret (Inr rc'), h') \<and>
    Sql (EvExec (pc_DB pc) (CREATE_USER v ''pw'') None) \<in> set h'"
proof -
  let ?g = "Sys (EvMapOrder 0)" and ?p = "Sys (EvGeneratePassword (Inr ''pw''))"
  obtain rc1 h1 where sch: "schemas_and_roles fresh_env pc d [(''sales'', ''readonly'')] rc (?g # h) = (Ret (rc1, None), h1)"
    using fresh_schemas [OF assms(1)] by blast
  from returnsD [OF schemas_and_roles_frame sch] rc have rc1: "rc_Spec rc1 = rc_Spec held_role_claim" "rc_Meta rc1 = rc_Meta held_role_claim"
    by simp_all
  let ?u = "NextUser (NewDBUser (ToLower (rc_Name rc1) @ ''_user'')) (rct_Username (rc_Status rc1))"
  obtain h2 where usr: "set_up_user fresh_env pc ?u ''pw'' [(''sales'', ''readonly'')] (?p # h1) = (Ret None, h2)"
    and ev: "Sql (EvExec (pc_DB pc) (CREATE_USER ?u ''pw'') None) \<in> set h2" using fresh_user by blast
  have "\<exists>h3. copySourceSecret fresh_env (fresh_secret ns n) (upd_rc_status (\<lambda>s. s\<lparr>rct_Username := ?u\<rparr>) rc1) ?u ''pw'' h2 =
      (Ret None, h3) \<and> set h2 \<subseteq> set h3"
    by (rule fresh_secret_copied) (simp_all add: rc1)
  then obtain h3 where sec: "copySourceSecret fresh_env (fresh_secret ns n) (upd_rc_status (\<lambda>s. s\<lparr>rct_Username := ?u\<rparr>) rc1) ?u ''pw'' h2 =
      (Ret None, h3)" "set h2 \<subseteq> set h3" by blast
  have gen: "rc_generatePassword fresh_env v h = (Ret (Inr ''pw''), ?p # h)" for v h
    by (simp add: rc_generatePassword_def GeneratePassword_def prog_simps Let_def)
  have order: "map_order fresh_env [(''sales'', ''readonly'')] h = (Ret [(''sales'', ''readonly'')], ?g # h)"
    by (simp add: map_order_def prog_simps)
  have "\<exists>rc'. rotate_role_user fresh_env sample_role_config t pc d (fresh_secret ns n) rc h = (Ret (Inr rc'), h3)"
    by (simp add: rotate_role_user_def run_bnd run_ret Let_def order sch gen usr sec(1) rc del: schemas_and_roles.simps held_role_claim_simps(1,2))
  with ev sec(2) show ?thesis by blast
qed

lemma fresh_users:
  assumes rc: "rc_Spec rc = rc_Spec held_role_claim" "rc_Meta rc = rc_Meta held_role_claim" "rct_SchemasRolesUpdatedAt (rc_Status rc) = None"
  shows "\<exists>h' db u. reconcile_users fresh_env sample_role_config t bc sample_claim (fresh_secret ns n) rc h = (Ret (empty_Result, None), h') \<and>
    Sql (EvExec db (CREATE_USER u ''pw'') None) \<in> set h'"
proof -
  let ?conn = "\<lparr>ci_Host = ''h'', ci_Port = ''5432'', ci_DatabaseName = ''orders'', ci_Username = ''root'',
     ci_Password = ''old'', ci_SSLMode = ''require''\<rparr>"
  obtain h1 where res: "readResourceSecret fresh_env sample_role_config bc sample_claim h = (Ret (?conn, None), h1)"
    by (simp add: readResourceSecret_def rc_getServiceNamespace_def sample_role_config_def k8s_calls prog_simps fresh_secret_def
        data_get_def sample_claim_def GetDefaultSSLMode_def sample_viper_def Let_def)
  obtain pc h2 u where cli: "GetClientForExistingDB fresh_env ?conn h1 = (Ret (Inr pc), h2)" "Parse (pc_dbURL pc) = Inr u"
    using fresh_client by blast
  have init: "rc_Spec (initStatusValues rc) = rc_Spec held_role_claim" "rc_Meta (initStatusValues rc) = rc_Meta held_role_claim"
    "rct_SchemasRolesUpdatedAt (rc_Status (initStatusValues rc)) = None"
    using rc by (simp_all add: initStatusValues_def)
  obtain rc' h3 v where rot: "rotate_role_user fresh_env sample_role_config t pc ''orders'' (fresh_secret ns n) (initStatusValues rc) h2 =
      (Ret (Inr rc'), h3)" and ev: "Sql (EvExec (pc_DB pc) (CREATE_USER v ''pw'') None) \<in> set h3"
    using fresh_rotation [OF cli(2) init(1,2)] by blast
  have "\<exists>h'. reconcile_users fresh_env sample_role_config t bc sample_claim (fresh_secret ns n) rc h = (Ret (empty_Result, None), h') \<and>
      set h3 \<subseteq> set h'"
    by (auto simp: reconcile_users_def rc(1) res cli(1) rot rotation_needed_def init(3) updateClientStatus_def manageSuccess_def
        rc_written_def k8s_calls prog_simps Let_def)
  with ev show ?thesis by blast
qed

lemma fresh_reconcile:
  "\<exists>es db u. rc_Reconcile id fresh_env sample_role_config ''shop'' ''reporting'' [] = (Ret (empty_Result, None), es) \<and>
     Sql (EvExec db (CREATE_USER u ''pw'') None) \<in> set es"
proof -
  obtain hp where hp: "New id sample_viper sample_claim = Inr hp" using sample_New_ok by blast
  have "GetSuperUserElevation sample_viper = False" by (simp add: GetSuperUserElevation_def sample_viper_def)
  with hp obtain bc where info: "setDbClaimReqInfo id sample_role_config sample_claim = ret (Inr bc)"
    by (simp add: setDbClaimReqInfo_def sample_role_config_def)
  have cls: "IsClassPermitted (rcfg_Class sample_role_config) ''default''" by (simp add: IsClassPermitted_def sample_role_config_def)
  have del: "deleteWorkflow id fresh_env sample_role_config held_role_claim = ret (held_role_claim, Inr False)"
    by (simp add: deleteWorkflow_def)
  obtain rc1 h1 where src: "getSourceDBClaim fresh_env held_role_claim
      [K8s (EvGetRoleClaim ''shop'' ''reporting'' (Inr held_role_claim)), Sys (EvNow 1000000000)] = (Ret (rc1, Inr sample_claim), h1)"
    and rc1: "rc_Spec rc1 = rc_Spec held_role_claim" "rc_Meta rc1 = rc_Meta held_role_claim" "rct_SchemasRolesUpdatedAt (rc_Status rc1) = None"
    by (simp add: getSourceDBClaim_def k8s_calls prog_simps empty_DbRoleClaimStatus_def)
  obtain rc2 h2 ns n where sec: "getSourceSecret fresh_env (spec_SecretName (dc_Spec sample_claim)) rc1 h1 = (Ret (rc2, Inr (fresh_secret ns n)), h2)"
    and rc2: "rc_Spec rc2 = rc_Spec held_role_claim" "rc_Meta rc2 = rc_Meta held_role_claim" "rct_SchemasRolesUpdatedAt (rc_Status rc2) = None"
    using rc1 by (simp add: getSourceSecret_def sample_claim_def k8s_calls prog_simps)
  from fresh_users [OF rc2] obtain h' db u where
    run: "reconcile_users fresh_env sample_role_config 1000000000 bc sample_claim (fresh_secret ns n) rc2 h2 = (Ret (empty_Result, None), h')"
    and ev: "Sql (EvExec db (CREATE_USER u ''pw'') None) \<in> set h'" by blast
  have "rc_Reconcile id fresh_env sample_role_config ''shop'' ''reporting'' [] = (Ret (empty_Result, None), h')"
    by (simp add: rc_Reconcile_def reconcile_role_claim_def cls del info sys_calls getRoleClaim_def prog_simps src sec rc2(1) run)
  with ev show ?thesis by blast
qed


text \<open>
  C40: a role claim whose source claim is gone cannot be deleted. While the claim it names is not found,
  every reconciliation of a role claim that is being deleted answers that error and writes nothing, so
  that its finalizer is never removed.
\<close>

theorem orphan_role_claim_stuck:
  assumes "e_GetRoleClaim (e_k8s E) (Sys (EvNow (e_Now (e_sys E) h)) # h) ns n = Inr rc"
    and "rcs_Class (rc_Spec rc) = Some cls" and "IsClassPermitted (rcfg_Class r) cls"
    and "m_DeletionTimestamp (rc_Meta rc) \<noteq> None" and "finalizerName \<in> set (m_Finalizers (rc_Meta rc))"
    and "rcs_SourceDatabaseClaim (rc_Spec rc) = Some (sns, src)"
    and "\<forall>h. e_GetClaim (e_k8s E) h sns src = Inl (NotFound src)"
  shows "\<exists>t. rc_Reconcile title E r ns n h = (Ret (empty_Result, Some (NotFound src)),
    [K8s (EvGetClaim sns src (Inl (NotFound src))), K8s (EvGetRoleClaim ns n (Inr rc)), Sys (EvNow t)] @ h)"
  using assms
  by (auto simp: rc_Reconcile_def reconcile_role_claim_def deleteWorkflow_def rc_deleteExternalResources_def
      getSourceDBClaim_def sys_calls k8s_calls prog_simps Let_def)

theorem orphan_role_claim_stuck_witness:
  "\<exists>es. rc_Reconcile id (sample_env\<lparr>e_k8s := sample_k8s\<lparr>e_GetRoleClaim := \<lambda>h ns n.
        Inr (held_role_claim\<lparr>rc_Meta := (rc_Meta held_role_claim)\<lparr>m_DeletionTimestamp := Some 1\<rparr>\<rparr>)\<rparr>\<rparr>)
      sample_role_config ''shop'' ''reporting'' [] = (Ret (empty_Result, Some (NotFound ''orders'')), es)"
proof -
  have "IsClassPermitted (rcfg_Class sample_role_config) ''default''"
    by (simp add: IsClassPermitted_def sample_role_config_def)
  from orphan_role_claim_stuck [where E = "sample_env\<lparr>e_k8s := sample_k8s\<lparr>e_GetRoleClaim := \<lambda>h ns n.
        Inr (held_role_claim\<lparr>rc_Meta := (rc_Meta held_role_claim)\<lparr>m_DeletionTimestamp := Some 1\<rparr>\<rparr>)\<rparr>\<rparr>" and h = "[]" and title = id
      and r = sample_role_config and ns = "''shop''" and n = "''reporting''" and src = "''orders''" and sns = "''shop''",
      OF _ _ this]
  show ?thesis by (fastforce simp: sample_k8s_def)
qed

end
