(* ===== verification/Md5.thy ===== *)
theory Md5
  imports "HOL-Library.Word"
begin

text \<open>
  Go's \<^verbatim>\<open>crypto/md5\<close>, with which the proxy notices that a file event has not changed its
  configuration. Bytes are characters, words of a block are little-endian.
\<close>

unbundle bit_operations_syntax

section \<open>The message\<close>

definition le_bytes :: "nat \<Rightarrow> 'a::len word \<Rightarrow> string" where
  "le_bytes k w = map (\<lambda>i. char_of (unat (take_bit 8 (drop_bit (8 * i) w)))) [0..<k]"

definition md5_pad :: "string \<Rightarrow> string" where
  "md5_pad s = s @ [char_of (0x80 :: nat)] @ replicate ((119 - length s mod 64) mod 64) (char_of (0 :: nat)) @
     le_bytes 8 (push_bit 3 (word_of_nat (length s)) :: 64 word)"

fun le_word :: "string \<Rightarrow> 32 word" where
  "le_word [] = 0"
| "le_word (c # cs) = word_of_nat (of_char c) + push_bit 8 (le_word cs)"

fun chunks :: "nat \<Rightarrow> 'a list \<Rightarrow> 'a list list" where
  "chunks k [] = []"
| "chunks k (x # xs) = take (Suc k) (x # xs) # chunks k (drop k xs)"

section \<open>The compression function\<close>

definition md5_table :: "32 word list" where
  "md5_table = [
     0xd76aa478, 0xe8c7b756, 0x242070db, 0xc1bdceee, 0xf57c0faf, 0x4787c62a, 0xa8304613, 0xfd469501,
     0x698098d8, 0x8b44f7af, 0xffff5bb1, 0x895cd7be, 0x6b901122, 0xfd987193, 0xa679438e, 0x49b40821,
     0xf61e2562, 0xc040b340, 0x265e5a51, 0xe9b6c7aa, 0xd62f105d, 0x02441453, 0xd8a1e681, 0xe7d3fbc8,
     0x21e1cde6, 0xc33707d6, 0xf4d50d87, 0x455a14ed, 0xa9e3e905, 0xfcefa3f8, 0x676f02d9, 0x8d2a4c8a,
     0xfffa3942, 0x8771f681, 0x6d9d6122, 0xfde5380c, 0xa4beea44, 0x4bdecfa9, 0xf6bb4b60, 0xbebfbc70,
     0x289b7ec6, 0xeaa127fa, 0xd4ef3085, 0x04881d05, 0xd9d4d039, 0xe6db99e5, 0x1fa27cf8, 0xc4ac5665,
     0xf4292244, 0x432aff97, 0xab9423a7, 0xfc93a039, 0x655b59c3, 0x8f0ccc92, 0xffeff47d, 0x85845dd1,
     0x6fa87e4f, 0xfe2ce6e0, 0xa3014314, 0x4e0811a1, 0xf7537e82, 0xbd3af235, 0x2ad7d2bb, 0xeb86d391]"

definition md5_shift :: "nat \<Rightarrow> nat" where
  "md5_shift i = [[7, 12, 17, 22], [5, 9, 14, 20], [4, 11, 16, 23], [6, 10, 15, 21]] ! (i div 16) ! (i mod 4)"

definition md5_index :: "nat \<Rightarrow> nat" where
  "md5_index i = [i, 5 * i + 1, 3 * i + 5, 7 * i] ! (i div 16) mod 16"

definition md5_mix :: "nat \<Rightarrow> 32 word \<Rightarrow> 32 word \<Rightarrow> 32 word \<Rightarrow> 32 word" where
  "md5_mix i b c d = [(b AND c) OR (NOT b AND d), (d AND b) OR (NOT d AND c), b XOR c XOR d, c XOR (b OR NOT d)] ! (i div 16)"

type_synonym md5_state = "32 word \<times> 32 word \<times> 32 word \<times> 32 word"

definition md5_step :: "32 word list \<Rightarrow> md5_state \<Rightarrow> nat \<Rightarrow> md5_state" where
  "md5_step m = (\<lambda>(a, b, c, d) i.
     (d, b + word_rotl (md5_shift i) (a + md5_mix i b c d + md5_table ! i + m ! md5_index i), b, c))"

definition md5_block :: "md5_state \<Rightarrow> string \<Rightarrow> md5_state" where
  "md5_block = (\<lambda>(a, b, c, d) block.
     case foldl (md5_step (map le_word (chunks 3 block))) (a, b, c, d) [0..<64] of
       (a', b', c', d') \<Rightarrow> (a + a', b + b', c + c', d + d'))"

definition md5 :: "string \<Rightarrow> string" where
  "md5 s = (case foldl md5_block (0x67452301, 0xefcdab89, 0x98badcfe, 0x10325476) (chunks 63 (md5_pad s)) of
     (a, b, c, d) \<Rightarrow> concat (map (le_bytes 4) [a, b, c, d]))"

section \<open>Facts\<close>

lemma length_le_bytes [simp]: "length (le_bytes k n) = k"
  by (simp add: le_bytes_def)

lemma length_md5 [simp]: "length (md5 s) = 16"
  by (simp add: md5_def split: prod.split)

end
