(* ===== verification/Pgbouncer.thy ===== *)
theory Pgbouncer
  imports Api_Types Md5
begin

text \<open>
  The configuration that the proxy of an application's pod writes for pgbouncer
  (\<^verbatim>\<open>dbproxy/pgbouncer/config.go\<close>): \<open>NewConfig\<close>, \<open>parseURI\<close> and \<open>Write\<close> over a file system that maps
  paths to contents; and the scripts that start and reload it (\<^verbatim>\<open>pgbouncer.go\<close>). The connection string it
  reads is the one the controller publishes, \<open>Uri\<close> of \<open>Api_Types\<close>.
\<close>

section \<open>Paths and addresses\<close>

text \<open>\<^verbatim>\<open>filepath.Clean\<close>, \<^verbatim>\<open>Dir\<close> and \<^verbatim>\<open>Join\<close> of Unix paths.\<close>

definition clean_segment :: "bool \<Rightarrow> string list \<Rightarrow> string \<Rightarrow> string list" where
  "clean_segment rooted out s =
     (if s = [] \<or> s = ''.'' then out
      else if s = ''..'' then
        (if out \<noteq> [] \<and> last out \<noteq> ''..'' then butlast out
         else if rooted then out else out @ [''..''])
      else out @ [s])"

definition Clean :: "string \<Rightarrow> string" where
  "Clean path =
     (let rooted = HasPrefix path ''/'';
          p = JoinWith ''/'' (foldl (clean_segment rooted) [] (Split path (CHR ''/'')))
      in if rooted then ''/'' @ p else if p = [] then ''.'' else p)"

definition Dir :: "string \<Rightarrow> string" where
  "Dir path = Clean (case split_last path (CHR ''/'') of None \<Rightarrow> [] | Some (dir, _) \<Rightarrow> dir @ ''/'')"

definition Join2 :: "string \<Rightarrow> string \<Rightarrow> string" where
  "Join2 a b = (if a = [] then (if b = [] then [] else Clean b) else if b = [] then Clean a else Clean (a @ ''/'' @ b))"

text \<open>\<^verbatim>\<open>net.SplitHostPort\<close>.\<close>

definition addrErr :: "string \<Rightarrow> string \<Rightarrow> goerror" where
  "addrErr addr why = ErrMsg (''address '' @ addr @ '': '' @ why)"

definition SplitHostPort :: "string \<Rightarrow> goerror + (string \<times> string)" where
  "SplitHostPort hostport =
     (case split_last hostport (CHR '':'') of
        None \<Rightarrow> Inl (addrErr hostport ''missing port in address'')
      | Some (host, port) \<Rightarrow>
          if HasPrefix hostport ''['' then
            (case Cut hostport (CHR '']'') of (bracketed, rest, found) \<Rightarrow>
               if \<not> found then Inl (addrErr hostport ''missing ']' in address'')
               else if rest = [] \<or> hd rest \<noteq> CHR '':'' then Inl (addrErr hostport ''missing port in address'')
               else if tl rest \<noteq> port then Inl (addrErr hostport ''too many colons in address'')
               else if CHR ''['' \<in> set (tl hostport) then Inl (addrErr hostport ''unexpected '[' in address'')
               else if CHR '']'' \<in> set rest then Inl (addrErr hostport ''unexpected ']' in address'')
               else Inr (tl bracketed, port))
          else if CHR '':'' \<in> set host then Inl (addrErr hostport ''too many colons in address'')
          else if CHR ''['' \<in> set hostport then Inl (addrErr hostport ''unexpected '[' in address'')
          else if CHR '']'' \<in> set hostport then Inl (addrErr hostport ''unexpected ']' in address'')
          else Inr (host, port))"

section \<open>The configuration\<close>

record PGBouncerConfig =
  pgb_configPath :: string
  pgb_authPath :: string
  pgb_dsnPath :: string
  pgb_hash :: string
  pgb_LocalDbName :: string
  pgb_LocalHost :: string
  pgb_LocalPort :: string
  pgb_RemoteHost :: string
  pgb_RemotePort :: "16 word"
  pgb_UserName :: string
  pgb_Password :: string
  pgb_SSLMode :: string
  pgb_RoleName :: string

text \<open>A Go \<^verbatim>\<open>int16\<close> is printed as a signed number.\<close>

definition port_text :: "PGBouncerConfig \<Rightarrow> string" where
  "port_text cfg = Itoa (sint (pgb_RemotePort cfg))"

definition Config_String :: "PGBouncerConfig \<Rightarrow> string" where
  "Config_String pgb =
     (let pass = pgb_Password pgb;
          pass = (if length pass > 4 then ''****'' @ drop (length pass - 4) pass else pass)
      in ''postgres://'' @ pgb_UserName pgb @ '':'' @ pass @ ''@'' @ pgb_RemoteHost pgb @ '':'' @ port_text pgb @
         ''/'' @ pgb_LocalDbName pgb)"

record Params =
  par_LocalAddr :: string
  par_DSNPath :: string
  par_OutPath :: string

text \<open>The template is a constant that parses, so \<^verbatim>\<open>template.Parse\<close> does not fail.\<close>

definition NewConfig :: "Params \<Rightarrow> goerror + PGBouncerConfig" where
  "NewConfig p =
     (if par_DSNPath p = [] then Inl (ErrMsg ''dsn path is required'')
      else case SplitHostPort (par_LocalAddr p) of
        Inl e \<Rightarrow> Inl e
      | Inr (host, port) \<Rightarrow>
          Inr \<lparr>pgb_configPath = par_OutPath p, pgb_authPath = Join2 (Dir (par_OutPath p)) ''userlist.txt'',
            pgb_dsnPath = par_DSNPath p, pgb_hash = [], pgb_LocalDbName = [], pgb_LocalHost = host,
            pgb_LocalPort = port, pgb_RemoteHost = [], pgb_RemotePort = 0, pgb_UserName = [], pgb_Password = [],
            pgb_SSLMode = [], pgb_RoleName = []\<rparr>)"

text \<open>\<^verbatim>\<open>parseURI\<close> sets the fields one by one: on an error it leaves those before it changed.\<close>

definition parseURI :: "PGBouncerConfig \<Rightarrow> string \<Rightarrow> PGBouncerConfig \<times> goerror option" where
  "parseURI c dsn =
     (case Parse dsn of
        Inl e \<Rightarrow> (c, Some (UrlError e))
      | Inr u \<Rightarrow>
          if Scheme u \<noteq> ''postgres'' \<and> Scheme u \<noteq> ''postgresql'' then
            (c, Some (ErrMsg (''invalid_scheme: '' @ Scheme u)))
          else
            (let c = c\<lparr>pgb_RoleName := TrimSuffix (TrimSuffix (Username (User u)) ''_a'') ''_b'',
                   pgb_RemoteHost := Hostname u, pgb_UserName := Username (User u)\<rparr>
             in case Atoi (PortOf u) of
                  None \<Rightarrow> (c, Some (ErrMsg (''strconv.Atoi: parsing '' @ PortOf u)))
                | Some remotePort \<Rightarrow>
                    (let c = c\<lparr>pgb_RemotePort := word_of_int remotePort, pgb_Password := fst (Password (User u))\<rparr>;
                         c = (if Path u \<noteq> [] then c\<lparr>pgb_LocalDbName := tl (Path u)\<rparr> else c)
                     in (c\<lparr>pgb_SSLMode := ValuesGet (ParseQuery (RawQuery u)) ''sslmode''\<rparr>, None))))"

definition templateText :: "PGBouncerConfig \<Rightarrow> string" where
  "templateText cfg = concat (map (\<lambda>l. l @ [CHR 0x0A]) [
     [],
     ''[databases]'',
     pgb_LocalDbName cfg @ '' = host='' @ pgb_RemoteHost cfg @ '' port='' @ port_text cfg @ '' dbname='' @ pgb_LocalDbName cfg,
     [],
     ''[pgbouncer]'',
     ''listen_port = '' @ pgb_LocalPort cfg,
     ''listen_addr = '' @ pgb_LocalHost cfg,
     ''auth_type = trust'',
     ''auth_file = userlist.txt'',
     ''logfile = pgbouncer.log'',
     ''pidfile = pgbouncer.pid'',
     ''admin_users = '' @ pgb_UserName cfg,
     ''remote_user_override = '' @ pgb_UserName cfg,
     ''remote_db_override = '' @ pgb_LocalDbName cfg,
     ''ignore_startup_parameters = extra_float_digits'',
     ''client_tls_sslmode = prefer'',
     ''client_tls_key_file=dbproxy-client.key'',
     ''client_tls_cert_file=dbproxy-client.crt'',
     ''server_tls_sslmode = '' @ pgb_SSLMode cfg,
     ''server_reset_query = SET ROLE '' @ pgb_RoleName cfg,
     ''#server_tls_key_file=dbproxy-server.key'',
     ''#server_tls_cert_file=dbproxy-server.crt''])"

text \<open>\<^verbatim>\<open>strconv.Quote\<close>, on bytes: user names are ASCII, and a byte above it (of a printable character)
  stands for itself.\<close>

definition lowerhex :: "nat \<Rightarrow> char" where
  "lowerhex n = char_of (if n < 10 then n + 48 else n + 87)"

definition quote_char :: "char \<Rightarrow> string" where
  "quote_char c =
     (let n = of_char c :: nat in
      if c = CHR 0x22 \<or> c = CHR 0x5C then [CHR 0x5C, c]
      else if 32 \<le> n \<and> n \<noteq> 127 then [c]
      else if 7 \<le> n \<and> n \<le> 13 then [CHR 0x5C, ''abtnvfr'' ! (n - 7)]
      else [CHR 0x5C, CHR ''x'', lowerhex (n div 16), lowerhex (n mod 16)])"

definition Quote :: "string \<Rightarrow> string" where
  "Quote s = [CHR 0x22] @ concat (map quote_char s) @ [CHR 0x22]"

definition userBS :: "PGBouncerConfig \<Rightarrow> string" where
  "userBS cfg = Quote (pgb_UserName cfg) @ [CHR '' '', CHR 0x22] @
     ReplaceAll (pgb_Password cfg) [CHR 0x22] [CHR 0x22, CHR 0x22] @ [CHR 0x22]"

section \<open>Writing it\<close>

text \<open>Files are a map from paths to contents. Every call of the operating system may fail
  (\<open>faults\<close>); a write that fails has written some of its bytes. A file is opened for writing with
  \<^verbatim>\<open>O_TRUNC|O_CREATE\<close>, and what is written through the handle goes to the start of the file.\<close>

type_synonym files = "string \<rightharpoonup> string"

record faults =
  flt_read :: "string \<Rightarrow> goerror option"
  flt_open :: "string \<Rightarrow> goerror option"
  flt_write :: "string \<Rightarrow> (nat \<times> goerror) option"

definition ReadFile :: "faults \<Rightarrow> files \<Rightarrow> string \<Rightarrow> goerror + string" where
  "ReadFile F fs path = (case flt_read F path of
     Some e \<Rightarrow> Inl e
   | None \<Rightarrow> (case fs path of None \<Rightarrow> Inl (NotFound path) | Some s \<Rightarrow> Inr s))"

definition OpenTrunc :: "faults \<Rightarrow> files \<Rightarrow> string \<Rightarrow> goerror + files" where
  "OpenTrunc F fs path = (case flt_open F path of Some e \<Rightarrow> Inl e | None \<Rightarrow> Inr (fs(path \<mapsto> [])))"

definition overwrite :: "string \<Rightarrow> string option \<Rightarrow> string" where
  "overwrite data old = data @ (case old of None \<Rightarrow> [] | Some s \<Rightarrow> drop (length data) s)"

definition WriteOut :: "faults \<Rightarrow> files \<Rightarrow> string \<Rightarrow> string \<Rightarrow> goerror option \<times> files" where
  "WriteOut F fs path data = (case flt_write F path of
     Some (n, e) \<Rightarrow> (Some e, fs(path \<mapsto> overwrite (take n data) (fs path)))
   | None \<Rightarrow> (None, fs(path \<mapsto> overwrite data (fs path))))"

text \<open>\<^verbatim>\<open>m.Sum(userBS)\<close> appends the digest of what was written to \<^verbatim>\<open>m\<close> to its argument.\<close>

definition config_sum :: "PGBouncerConfig \<Rightarrow> string" where
  "config_sum cfg = userBS cfg @ md5 (templateText cfg)"

definition write_files :: "faults \<Rightarrow> PGBouncerConfig \<Rightarrow> files \<Rightarrow> goerror option \<times> PGBouncerConfig \<times> files" where
  "write_files F cfg fs =
     (if config_sum cfg = [] then (Some (ErrMsg ''empty config''), cfg, fs)
      else if config_sum cfg = pgb_hash cfg then (Some (Sentinel ErrDuplicateWrite), cfg, fs)
      else let cfg = cfg\<lparr>pgb_hash := config_sum cfg\<rparr> in
        (case WriteOut F fs (pgb_configPath cfg) (templateText cfg) of
           (Some e, fs) \<Rightarrow> (Some e, cfg, fs)
         | (None, fs) \<Rightarrow>
             (case WriteOut F fs (pgb_authPath cfg) (userBS cfg) of (err, fs) \<Rightarrow> (err, cfg, fs))))"

definition Write :: "faults \<Rightarrow> PGBouncerConfig \<Rightarrow> files \<Rightarrow> goerror option \<times> PGBouncerConfig \<times> files" where
  "Write F cfg fs =
     (case ReadFile F fs (pgb_dsnPath cfg) of
        Inl e \<Rightarrow> (Some (Wrapped ''failed to read database dsn file: '' e []), cfg, fs)
      | Inr bs \<Rightarrow>
          (case parseURI cfg bs of
             (cfg, Some e) \<Rightarrow> (Some e, cfg, fs)
           | (cfg, None) \<Rightarrow>
               (case OpenTrunc F fs (pgb_configPath cfg) of
                  Inl e \<Rightarrow> (Some e, cfg, fs)
                | Inr fs \<Rightarrow>
                    (case OpenTrunc F fs (pgb_authPath cfg) of
                       Inl e \<Rightarrow> (Some e, cfg, fs)
                     | Inr fs \<Rightarrow> write_files F cfg fs))))"

section \<open>Prefix codes\<close>

text \<open>An escape of single bytes whose output can be cut off the front of what follows it: the bytes
  before a terminator, and the whole of a text, are determined by their escapes.\<close>

locale prefix_code =
  fixes enc :: "'a \<Rightarrow> 'b list" and cut :: "'b list \<Rightarrow> ('a \<times> 'b list) option"
  assumes cut_enc: "cut (enc c @ rest) = Some (c, rest)"
    and cut_end: "cut [] = None"
begin

lemma enc_eq: "enc c @ x = enc d @ y \<longleftrightarrow> c = d \<and> x = y"
  by (metis cut_enc option.inject prod.inject)

lemma enc_nonempty: "enc c \<noteq> []"
proof
  assume "enc c = []"
  with cut_enc [of c "[]"] cut_end show False by simp
qed

lemma text_inj: "concat (map enc u) = concat (map enc v) \<longleftrightarrow> u = v"
proof (induction u arbitrary: v)
  case Nil
  then show ?case by (cases v) (simp_all add: enc_nonempty)
next
  case (Cons c u)
  then show ?case by (cases v) (simp_all add: enc_nonempty enc_eq)
qed

lemma terminated_inj:
  assumes "\<And>x. cut (t # x) = None"
  shows "concat (map enc u) @ t # x = concat (map enc v) @ t # y \<longleftrightarrow> u = v \<and> x = y"
proof -
  have no_code: "t # x \<noteq> enc c @ r" "enc c @ r \<noteq> t # x" for c x r
    using assms [of x] cut_enc [of c r] by (metis option.distinct(1))+
  show ?thesis
  proof (induction u arbitrary: v)
    case Nil
    then show ?case by (cases v) (simp_all add: no_code)
  next
    case (Cons c u)
    then show ?case by (cases v) (simp_all add: no_code enc_eq)
  qed
qed

end

section \<open>What is written identifies the credentials\<close>

definition double_quote :: "char \<Rightarrow> string" where
  "double_quote c = (if c = CHR 0x22 then [CHR 0x22, CHR 0x22] else [c])"

definition cut_doubled :: "string \<Rightarrow> (char \<times> string) option" where
  "cut_doubled s = (case s of [] \<Rightarrow> None | c # r \<Rightarrow> Some (c, if c = CHR 0x22 then tl r else r))"

interpretation doubled: prefix_code double_quote cut_doubled
  by unfold_locales (simp_all add: double_quote_def cut_doubled_def)

lemma ReplaceAll_doubled: "ReplaceAll s [CHR 0x22] [CHR 0x22, CHR 0x22] = concat (map double_quote s)"
  by (induction s) (auto simp: double_quote_def HasPrefix_def)

definition cut_quoted :: "string \<Rightarrow> (char \<times> string) option" where
  "cut_quoted s = (case s of
     [] \<Rightarrow> None
   | c # r \<Rightarrow>
       if c = CHR 0x22 then None
       else if c \<noteq> CHR 0x5C then Some (c, r)
       else (case r of
         [] \<Rightarrow> None
       | d # r2 \<Rightarrow>
           if d = CHR 0x22 \<or> d = CHR 0x5C then Some (d, r2)
           else if d = CHR ''x'' then
             (case r2 of
                a # b # r3 \<Rightarrow> Some (char_of (16 * the (unhex a) + the (unhex b)), r3)
              | _ \<Rightarrow> None)
           else map_option (\<lambda>e. (e, r2)) (map_of (zip ''abtnvfr'' (map char_of [7..<14::nat])) d)))"

lemma unhex_lowerhex [simp]: "n < 16 \<Longrightarrow> unhex (lowerhex n) = Some n"
  by (auto simp: unhex_def lowerhex_def Let_def)

lemma cut_quote_char: "cut_quoted (quote_char c @ rest) = Some (c, rest)"
proof (cases "7 \<le> (of_char c :: nat) \<and> of_char c \<le> (13 :: nat)")
  case True
  then have "of_char c \<in> {7, 8, 9, 10, 11, 12, 13 :: nat}" by auto
  then obtain n where "n \<in> {7, 8, 9, 10, 11, 12, 13 :: nat}" "c = char_of n" by (metis char_of_char)
  then show ?thesis by (auto simp: quote_char_def cut_quoted_def upt_rec)
next
  case False
  then show ?thesis
    by (auto simp: quote_char_def cut_quoted_def Let_def of_char_nibbles byte_of_nibbles)
qed

interpretation quoted: prefix_code quote_char cut_quoted
  by unfold_locales (rule cut_quote_char, simp add: cut_quoted_def)

lemma userBS_inj:
  "userBS c = userBS d \<longleftrightarrow> pgb_UserName c = pgb_UserName d \<and> pgb_Password c = pgb_Password d"
  by (auto simp: userBS_def Quote_def ReplaceAll_doubled doubled.text_inj quoted.terminated_inj cut_quoted_def)

lemma config_sum_users: "config_sum c = config_sum d \<Longrightarrow> userBS c = userBS d"
  by (simp add: config_sum_def append_eq_append_conv)

section \<open>Reading the controller's connection string\<close>

text \<open>The configuration for a connection: what the fields are to be.\<close>

definition config_for :: "PGBouncerConfig \<Rightarrow> ConnInfo \<Rightarrow> int \<Rightarrow> PGBouncerConfig" where
  "config_for cfg c p = cfg\<lparr>pgb_RoleName := TrimSuffix (TrimSuffix (ci_Username c) ''_a'') ''_b'',
     pgb_RemoteHost := ci_Host c, pgb_UserName := ci_Username c, pgb_RemotePort := word_of_int p,
     pgb_Password := ci_Password c, pgb_LocalDbName := ci_DatabaseName c, pgb_SSLMode := ci_SSLMode c\<rparr>"

lemma parseURI_Uri:
  assumes safe: "uri_safe c" and port: "Atoi (ci_Port c) = Some p"
  shows "parseURI cfg (Uri (Some c)) = (config_for cfg c p, None)"
proof -
  let ?u = "postgres_url (ci_Username c) (ci_Password c) (ci_Host c) (ci_Port c) (ci_DatabaseName c) (ci_SSLMode c)"
  have chars: "list_all plain_char (ci_Host c)" "list_all is_digit (ci_Port c)" "list_all plain_char (ci_SSLMode c)"
    using safe by (simp_all add: uri_safe_def)
  have "HostPort ?u = ci_Host c @ '':'' @ ci_Port c" by (simp add: postgres_url_def)
  note host = Hostname_plain [OF chars(1,2) this]
  have q: "ValuesGet (ParseQuery (RawQuery ?u)) ''sslmode'' = ci_SSLMode c"
    using ParseQuery_sslmode [OF chars(3)] by (simp add: postgres_url_def)
  have u: "Scheme ?u = ''postgres''" "User ?u = Some (ci_Username c, Some (ci_Password c))"
    "Path ?u = CHR ''/'' # ci_DatabaseName c"
    by (simp_all add: postgres_url_def)
  show ?thesis
    unfolding parseURI_def Parse_Uri [OF safe] sum.case host q u port
    by (simp add: Let_def Username_def Password_def config_for_def)
qed

lemma parseURI_paths:
  assumes "parseURI cfg dsn = (cfg', e)"
  shows "pgb_configPath cfg' = pgb_configPath cfg" "pgb_authPath cfg' = pgb_authPath cfg"
    "pgb_dsnPath cfg' = pgb_dsnPath cfg" "pgb_hash cfg' = pgb_hash cfg"
    "pgb_LocalHost cfg' = pgb_LocalHost cfg" "pgb_LocalPort cfg' = pgb_LocalPort cfg"
  using assms by (auto simp: parseURI_def Let_def split: sum.splits option.splits if_splits)

lemma parseURI_again:
  assumes "parseURI cfg dsn = (cfg', None)"
  shows "parseURI (cfg'\<lparr>pgb_hash := h\<rparr>) dsn = (cfg'\<lparr>pgb_hash := h\<rparr>, None)"
proof -
  from assms obtain u p where u: "Parse dsn = Inr u" "Scheme u = ''postgres'' \<or> Scheme u = ''postgresql''"
    "Atoi (PortOf u) = Some p"
    by (auto simp: parseURI_def Let_def split: sum.splits option.splits if_splits)
  with assms show ?thesis by (auto simp: parseURI_def Let_def)
qed

lemma Atoi_digits: "Atoi s = Some n \<Longrightarrow> list_all is_digit s \<Longrightarrow> 0 \<le> n"
  by (cases s) (auto simp: Atoi_def ParseInt_def unsigned_decimal_def is_digit_def Let_def
      split: option.splits if_splits dest!: decimal_nonneg digit_val_bounds)

lemma sint_int16:
  assumes "0 \<le> p" and "p \<le> 65535"
  shows "sint (word_of_int p :: 16 word) = (if p < 32768 then p else p - 65536)"
proof -
  have "(p + 32768) mod 65536 = p - 32768" if "\<not> p < 32768"
    using assms that mod_add_self2 [of "p - 32768" "65536 :: int"] by (simp add: add.commute)
  then have "(p + 32768) mod 65536 = (if p < 32768 then p + 32768 else p - 32768)"
    using assms by simp
  then show ?thesis by (simp add: sint_sbintrunc' signed_take_bit_eq_take_bit_shift take_bit_eq_mod)
qed

text \<open>
  C35: the port of a connection string keeps its value only below 32768. Ports up to 65535 are
  valid, but the upper half turns negative on its way into the configuration.
\<close>

theorem remote_port_bounds:
  assumes "uri_safe c" and "Atoi (ci_Port c) = Some p" and "p \<le> 65535"
  shows "port_text (fst (parseURI cfg (Uri (Some c)))) = (if p < 32768 then Itoa p else ''-'' @ Itoa (65536 - p))"
proof -
  have "0 \<le> p" using assms(1,2) by (auto simp: uri_safe_def intro: Atoi_digits)
  with assms show ?thesis by (simp add: parseURI_Uri port_text_def config_for_def Itoa_def sint_int16)
qed


section \<open>Writes\<close>

definition same_paths :: "PGBouncerConfig \<Rightarrow> PGBouncerConfig \<Rightarrow> bool" where
  "same_paths c d \<longleftrightarrow> pgb_configPath c = pgb_configPath d \<and> pgb_authPath c = pgb_authPath d \<and> pgb_dsnPath c = pgb_dsnPath d"

lemma config_sum_nonempty: "config_sum cfg \<noteq> []"
  by (simp add: config_sum_def userBS_def)

lemma config_sum_hash [simp]: "config_sum (cfg\<lparr>pgb_hash := h\<rparr>) = config_sum cfg"
  "templateText (cfg\<lparr>pgb_hash := h\<rparr>) = templateText cfg" "userBS (cfg\<lparr>pgb_hash := h\<rparr>) = userBS cfg"
  by (simp_all add: config_sum_def userBS_def templateText_def port_text_def)

text \<open>What a successful write has done.\<close>

lemma Write_ok:
  assumes "Write F cfg fs = (None, cfg', fs')" and "pgb_configPath cfg \<noteq> pgb_authPath cfg"
  obtains dsn cfg1 where "ReadFile F fs (pgb_dsnPath cfg) = Inr dsn" and "parseURI cfg dsn = (cfg1, None)"
    and "cfg' = cfg1\<lparr>pgb_hash := config_sum cfg1\<rparr>" and "pgb_hash cfg \<noteq> config_sum cfg1"
    and "flt_open F (pgb_configPath cfg) = None" and "flt_open F (pgb_authPath cfg) = None"
    and "fs' = fs(pgb_configPath cfg \<mapsto> templateText cfg', pgb_authPath cfg \<mapsto> userBS cfg')"
proof -
  from assms(1) obtain dsn cfg1 where run: "ReadFile F fs (pgb_dsnPath cfg) = Inr dsn"
    "parseURI cfg dsn = (cfg1, None)"
    by (auto simp: Write_def split: sum.splits prod.splits option.splits)
  note paths = parseURI_paths [OF run(2)]
  have opened: "flt_open F (pgb_configPath cfg) = None" "flt_open F (pgb_authPath cfg) = None"
    using assms(1) run paths by (auto simp: Write_def OpenTrunc_def split: option.splits)
  then have "write_files F cfg1 (fs(pgb_configPath cfg \<mapsto> [], pgb_authPath cfg \<mapsto> [])) = (None, cfg', fs')"
    using assms(1) run paths by (simp add: Write_def OpenTrunc_def)
  then have "cfg' = cfg1\<lparr>pgb_hash := config_sum cfg1\<rparr> \<and> pgb_hash cfg1 \<noteq> config_sum cfg1 \<and>
      fs' = fs(pgb_configPath cfg \<mapsto> templateText cfg', pgb_authPath cfg \<mapsto> userBS cfg')"
    using assms(2) paths
    by (auto simp: write_files_def WriteOut_def overwrite_def Let_def config_sum_nonempty fun_upd_twist split: if_splits option.splits)
  with run opened paths that show thesis by auto
qed

text \<open>A write that nothing stops.\<close>

lemma Write_succeeds:
  assumes "ReadFile F fs (pgb_dsnPath cfg) = Inr dsn" and "parseURI cfg dsn = (cfg1, None)"
    and "pgb_configPath cfg \<noteq> pgb_authPath cfg" and "config_sum cfg1 \<noteq> pgb_hash cfg"
    and "\<And>path. flt_open F path = None" and "\<And>path. flt_write F path = None"
  shows "Write F cfg fs = (None, cfg1\<lparr>pgb_hash := config_sum cfg1\<rparr>,
    fs(pgb_configPath cfg \<mapsto> templateText cfg1, pgb_authPath cfg \<mapsto> userBS cfg1))"
proof -
  note paths = parseURI_paths [OF assms(2)]
  have "fs(pgb_configPath cfg \<mapsto> [], pgb_authPath cfg \<mapsto> [], pgb_configPath cfg \<mapsto> t, pgb_authPath cfg \<mapsto> u) =
      fs(pgb_configPath cfg \<mapsto> t, pgb_authPath cfg \<mapsto> u)" for t u
    by auto
  with assms paths show ?thesis
    by (simp add: Write_def OpenTrunc_def write_files_def WriteOut_def overwrite_def config_sum_nonempty)
qed

text \<open>
  C37: an event that changes nothing empties the files. After a write that succeeded, the next one
  for the same connection string is recognised as a duplicate, but the files have been opened for
  writing by then: pgbouncer's configuration and its user list are left empty.
\<close>

theorem duplicate_write_truncates:
  assumes "Write F cfg fs = (None, cfg1, fs1)"
    and "distinct [pgb_configPath cfg, pgb_authPath cfg, pgb_dsnPath cfg]"
  shows "Write F cfg1 fs1 = (Some (Sentinel ErrDuplicateWrite), cfg1, fs1(pgb_configPath cfg \<mapsto> [], pgb_authPath cfg \<mapsto> []))"
proof -
  from assms obtain dsn cfg0 where ok: "ReadFile F fs (pgb_dsnPath cfg) = Inr dsn" "parseURI cfg dsn = (cfg0, None)"
    "cfg1 = cfg0\<lparr>pgb_hash := config_sum cfg0\<rparr>" "flt_open F (pgb_configPath cfg) = None" "flt_open F (pgb_authPath cfg) = None"
    "fs1 = fs(pgb_configPath cfg \<mapsto> templateText cfg1, pgb_authPath cfg \<mapsto> userBS cfg1)"
    by (auto elim: Write_ok)
  note paths = parseURI_paths [OF ok(2)]
  have "ReadFile F fs1 (pgb_dsnPath cfg1) = Inr dsn"
    using ok assms(2) paths by (auto simp: ReadFile_def split: option.splits)
  moreover have "parseURI cfg1 dsn = (cfg1, None)"
    unfolding ok(3) by (rule parseURI_again) (rule ok(2))
  ultimately show ?thesis
    using ok(3-5) paths by (simp add: Write_def OpenTrunc_def write_files_def config_sum_nonempty)
qed

text \<open>A connection string with another user or another password is never taken for a duplicate of
  the last configuration written.\<close>

lemma rotation_written:
  assumes "pgb_hash cfg = config_sum cfg" and "distinct [pgb_configPath cfg, pgb_authPath cfg, pgb_dsnPath cfg]"
    and "uri_safe c" and "Atoi (ci_Port c) = Some p"
    and "(ci_Username c, ci_Password c) \<noteq> (pgb_UserName cfg, pgb_Password cfg)"
    and "flt_read F (pgb_dsnPath cfg) = None" and "\<And>path. flt_open F path = None" and "\<And>path. flt_write F path = None"
  shows "\<exists>cfg'. same_paths cfg' cfg \<and> Write F cfg (fs(pgb_dsnPath cfg \<mapsto> Uri (Some c))) =
      (None, cfg', fs(pgb_dsnPath cfg \<mapsto> Uri (Some c), pgb_configPath cfg \<mapsto> templateText (config_for cfg c p),
         pgb_authPath cfg \<mapsto> userBS (config_for cfg c p)))"
proof -
  have "config_sum (config_for cfg c p) \<noteq> config_sum cfg"
  proof
    assume "config_sum (config_for cfg c p) = config_sum cfg"
    from config_sum_users [OF this] assms(5) show False by (simp add: userBS_inj config_for_def)
  qed
  then have new: "config_sum (config_for cfg c p) \<noteq> pgb_hash cfg" by (simp add: assms(1))
  have read: "ReadFile F (fs(pgb_dsnPath cfg \<mapsto> Uri (Some c))) (pgb_dsnPath cfg) = Inr (Uri (Some c))"
    using assms(6) by (simp add: ReadFile_def)
  from assms(2) have "pgb_configPath cfg \<noteq> pgb_authPath cfg" by simp
  from Write_succeeds [OF read parseURI_Uri [OF assms(3,4)] this new assms(7,8)]
  show ?thesis by (auto simp: same_paths_def config_for_def)
qed

section \<open>Scripts\<close>

text \<open>\<^verbatim>\<open>pgbouncer.go\<close>: a script is run to its end; the fields are what the four steps answer. Its output is only
  logged.\<close>

record script_env =
  sc_stdoutPipe :: "goerror option"
  sc_stderrPipe :: "goerror option"
  sc_start :: "goerror option"
  sc_wait :: "goerror option"

definition pgbouncer_run :: "script_env \<Rightarrow> goerror option" where
  "pgbouncer_run E = (case sc_stdoutPipe E of
     Some e \<Rightarrow> Some (Wrapped ''error creating stdout pipe: '' e [])
   | None \<Rightarrow> (case sc_stderrPipe E of
       Some e \<Rightarrow> Some (Wrapped ''error creating stderr pipe: '' e [])
     | None \<Rightarrow> (case sc_start E of
         Some e \<Rightarrow> Some (Wrapped ''error starting command: '' e [])
       | None \<Rightarrow> map_option (\<lambda>e. Wrapped ''error waiting for command: '' e []) (sc_wait E))))"

definition pgbouncer_Start :: "script_env \<Rightarrow> goerror option" where
  "pgbouncer_Start = pgbouncer_run"

definition pgbouncer_Reload :: "script_env \<Rightarrow> goerror option" where
  "pgbouncer_Reload = pgbouncer_run"

definition script_ok :: script_env where
  "script_ok = \<lparr>sc_stdoutPipe = None, sc_stderrPipe = None, sc_start = None, sc_wait = None\<rparr>"

lemma script_ok_runs [simp]: "pgbouncer_Start script_ok = None" "pgbouncer_Reload script_ok = None"
  by (simp_all add: pgbouncer_Start_def pgbouncer_Reload_def pgbouncer_run_def script_ok_def)

section \<open>Witnesses\<close>

definition sample_cfg :: PGBouncerConfig where
  "sample_cfg = \<lparr>pgb_configPath = ''./pgbouncer.ini'', pgb_authPath = ''userlist.txt'', pgb_dsnPath = ''/dbproxy/uri_dsn.txt'',
     pgb_hash = [], pgb_LocalDbName = [], pgb_LocalHost = ''0.0.0.0'', pgb_LocalPort = ''5432'', pgb_RemoteHost = [],
     pgb_RemotePort = 0, pgb_UserName = [], pgb_Password = [], pgb_SSLMode = [], pgb_RoleName = []\<rparr>"

lemma sample_cfg_new:
  "NewConfig \<lparr>par_LocalAddr = ''0.0.0.0:5432'', par_DSNPath = ''/dbproxy/uri_dsn.txt'', par_OutPath = ''./pgbouncer.ini''\<rparr> = Inr sample_cfg"
  by code_simp

definition sample_conn :: "string \<Rightarrow> ConnInfo" where
  "sample_conn user = \<lparr>ci_Host = ''db.local'', ci_Port = ''5432'', ci_DatabaseName = ''app'', ci_Username = user,
     ci_Password = ''p%w'', ci_SSLMode = ''require''\<rparr>"

definition no_faults :: faults where
  "no_faults = \<lparr>flt_read = \<lambda>_. None, flt_open = \<lambda>_. None, flt_write = \<lambda>_. None\<rparr>"

lemma no_faults_simps [simp]: "flt_read no_faults p = None" "flt_open no_faults p = None" "flt_write no_faults p = None"
  by (simp_all add: no_faults_def)

lemma sample_conn_safe: "uri_safe (sample_conn ''app_a'')" "uri_safe (sample_conn ''app_b'')"
    "Atoi (ci_Port (sample_conn u)) = Some 5432"
  by code_simp+

lemma sample_paths: "distinct [pgb_configPath sample_cfg, pgb_authPath sample_cfg, pgb_dsnPath sample_cfg]"
  by (simp add: sample_cfg_def)

lemma sample_write:
  obtains cfg1 fs1 where
    "Write no_faults sample_cfg [pgb_dsnPath sample_cfg \<mapsto> Uri (Some (sample_conn ''app_a''))] = (None, cfg1, fs1)"
    and "fs1 (pgb_configPath sample_cfg) = Some (templateText (config_for sample_cfg (sample_conn ''app_a'') 5432))"
    and "pgb_UserName cfg1 = ''app_a''" and "pgb_hash cfg1 = config_sum cfg1"
proof -
  let ?fs = "[pgb_dsnPath sample_cfg \<mapsto> Uri (Some (sample_conn ''app_a''))]"
  let ?cfg = "config_for sample_cfg (sample_conn ''app_a'') 5432"
  have "config_sum (config_for sample_cfg (sample_conn ''app_a'') 5432) \<noteq> pgb_hash sample_cfg"
    by (simp add: config_sum_nonempty sample_cfg_def)
  moreover have "ReadFile no_faults ?fs (pgb_dsnPath sample_cfg) = Inr (Uri (Some (sample_conn ''app_a'')))"
    by (simp add: ReadFile_def)
  moreover have "pgb_configPath sample_cfg \<noteq> pgb_authPath sample_cfg" using sample_paths by simp
  ultimately have run: "Write no_faults sample_cfg ?fs = (None, ?cfg\<lparr>pgb_hash := config_sum ?cfg\<rparr>,
      ?fs(pgb_configPath sample_cfg \<mapsto> templateText ?cfg, pgb_authPath sample_cfg \<mapsto> userBS ?cfg))"
    by (intro Write_succeeds [OF _ parseURI_Uri [OF sample_conn_safe(1,3)]]) simp_all
  have "pgb_UserName (?cfg\<lparr>pgb_hash := h\<rparr>) = ''app_a''" for h by (simp add: config_for_def sample_conn_def)
  with sample_paths show thesis by (intro that [OF run]) simp_all
qed

theorem remote_port_bounds_witness:
  "port_text (fst (parseURI sample_cfg (Uri (Some (empty_ConnInfo\<lparr>ci_Host := ''db'', ci_Port := ''40000''\<rparr>))))) = ''-25536''"
proof -
  let ?c = "empty_ConnInfo\<lparr>ci_Host := ''db'', ci_Port := ''40000''\<rparr>"
  have "uri_safe ?c" "Atoi (ci_Port ?c) = Some 40000" by code_simp+
  moreover have "''-'' @ Itoa (65536 - 40000) = ''-25536''" by (simp add: Itoa_def nat_digits.simps) code_simp
  ultimately show ?thesis using remote_port_bounds [of ?c 40000 sample_cfg] by (simp only:) simp
qed

theorem duplicate_write_truncates_witness:
  "\<exists>cfg1 fs1. Write no_faults sample_cfg [''/dbproxy/uri_dsn.txt'' \<mapsto> Uri (Some (sample_conn ''app_a''))] = (None, cfg1, fs1) \<and>
     fs1 ''./pgbouncer.ini'' \<noteq> Some [] \<and>
     Write no_faults cfg1 fs1 = (Some (Sentinel ErrDuplicateWrite), cfg1, fs1(''./pgbouncer.ini'' \<mapsto> [], ''userlist.txt'' \<mapsto> []))"
proof -
  obtain cfg1 fs1 where run: "Write no_faults sample_cfg [pgb_dsnPath sample_cfg \<mapsto> Uri (Some (sample_conn ''app_a''))] = (None, cfg1, fs1)"
    and new: "fs1 (pgb_configPath sample_cfg) = Some (templateText (config_for sample_cfg (sample_conn ''app_a'') 5432))"
    by (rule sample_write)
  have "templateText cfg \<noteq> []" for cfg by (simp add: templateText_def)
  with duplicate_write_truncates [OF run sample_paths] run new show ?thesis by (auto simp: sample_cfg_def)
qed

end
