(* ===== verification/Dbproxy.thy ===== *)
theory Dbproxy
  imports Pgbouncer
begin

text \<open>
  The proxy in an application's pod (\<^verbatim>\<open>dbproxy/dbproxy.go\<close>): it waits for the file with the connection
  string, writes pgbouncer's configuration, starts pgbouncer, and rewrites and reloads the
  configuration on every event of the watched file. What the scripts, the watcher and the clock answer are fields of
  \<open>start_env\<close> and \<open>turn_env\<close>.
\<close>

section \<open>Waiting for a file\<close>

text \<open>What the \<open>i\<close>-th turn of the loop sees: the context is done, or the file is looked at.\<close>

datatype probe = CtxDone | OpenFails goerror | StatFails goerror | Irregular | Regular

partial_function (option) waitForFile :: "(nat \<Rightarrow> probe) \<Rightarrow> nat \<Rightarrow> string \<Rightarrow> goerror option option" where
  "waitForFile sees i path = (case sees i of
     CtxDone \<Rightarrow> Some (Some (ErrMsg (''timeout_wait_for_file: '' @ path)))
   | OpenFails _ \<Rightarrow> waitForFile sees (Suc i) path
   | StatFails _ \<Rightarrow> waitForFile sees (Suc i) path
   | Irregular \<Rightarrow> waitForFile sees (Suc i) path
   | Regular \<Rightarrow> Some None)"

declare waitForFile.simps [code]

definition decisive :: "probe \<Rightarrow> bool" where
  "decisive p \<longleftrightarrow> p = CtxDone \<or> p = Regular"

lemma waitForFile_skips:
  assumes "\<And>j. i \<le> j \<Longrightarrow> j < n \<Longrightarrow> \<not> decisive (sees j)" and "i \<le> n"
  shows "waitForFile sees i path = waitForFile sees n path"
  using assms(2,1)
proof (induction i rule: inc_induct)
  case (step i)
  then have "\<not> decisive (sees i)" by simp
  then have "waitForFile sees i path = waitForFile sees (Suc i) path"
    by (subst waitForFile.simps) (auto simp: decisive_def split: probe.splits)
  with step show ?case by simp
qed simp

text \<open>The context has a deadline: once it is done, or the file is regular, the loop ends, with an error
  exactly if the deadline came first.\<close>

lemma waitForFile_returns:
  assumes "decisive (sees n)" and "\<And>j. j < n \<Longrightarrow> \<not> decisive (sees j)"
  shows "waitForFile sees 0 path =
    Some (if sees n = Regular then None else Some (ErrMsg (''timeout_wait_for_file: '' @ path)))"
proof -
  have "waitForFile sees 0 path = waitForFile sees n path"
    by (rule waitForFile_skips) (simp_all add: assms(2))
  with assms(1) show ?thesis by (subst (asm) (2) waitForFile.simps) (auto simp: decisive_def)
qed

text \<open>\<^verbatim>\<open>waitForFiles\<close> waits for all paths at once and joins the errors; both callers pass one path.\<close>

definition waitForFiles :: "(string \<Rightarrow> nat \<Rightarrow> probe) \<Rightarrow> string list \<Rightarrow> goerror option option" where
  "waitForFiles sees paths =
     (let rs = map (\<lambda>p. waitForFile (sees p) 0 p) paths
      in if None \<in> set rs then None
         else let errs = concat (map (\<lambda>r. case r of Some (Some e) \<Rightarrow> [ErrorText e] | _ \<Rightarrow> []) rs)
              in Some (if errs = [] then None else Some (ErrMsg (JoinWith [CHR 0x0A] errs))))"

section \<open>The manager\<close>

record ProxyConfig =
  px_StartUpTime :: int
  px_DBCredentialPath :: string
  px_PGCredentialPath :: string
  px_PGBStartScript :: string
  px_PGBReloadScript :: string
  px_LocalAddr :: string

text \<open>A run of one of pgbouncer's scripts: its path, what the two files held when it was run, and what it
  answered. When pgbouncer itself reads the files is not part of the program (the reload script only
  sends it a signal), so the model says no more than with which files the scripts were run.\<close>

record script_run =
  run_Path :: string
  run_Config :: "string option"
  run_Users :: "string option"
  run_Error :: "goerror option"

definition run_script :: "string \<Rightarrow> goerror option \<Rightarrow> PGBouncerConfig \<Rightarrow> files \<Rightarrow> script_run" where
  "run_script path err cfg fs =
     \<lparr>run_Path = path, run_Config = fs (pgb_configPath cfg), run_Users = fs (pgb_authPath cfg), run_Error = err\<rparr>"

text \<open>The running proxy: the \<^verbatim>\<open>cfg\<close> of \<^verbatim>\<open>DBProxy\<close>, the configuration of pgbouncer, the file system, whether the
  connection string's file is watched, and the scripts run so far (newest first).\<close>

record proxy =
  px_conf :: ProxyConfig
  px_cfg :: PGBouncerConfig
  px_files :: files
  px_watched :: bool
  px_ran :: "script_run list"

text \<open>\<open>30 * 10 ^ 9\<close> nanoseconds are the default deadline, which the probes reflect.\<close>

definition proxy_New :: "(string \<Rightarrow> nat \<Rightarrow> probe) \<Rightarrow> ProxyConfig \<Rightarrow> (goerror + ProxyConfig) option" where
  "proxy_New sees cfg =
     (let cfg = (if px_StartUpTime cfg = 0 then cfg\<lparr>px_StartUpTime := 30 * 10 ^ 9\<rparr> else cfg)
      in case waitForFiles sees [px_DBCredentialPath cfg] of
           None \<Rightarrow> None
         | Some (Some e) \<Rightarrow> Some (Inl e)
         | Some None \<Rightarrow> Some (Inr cfg))"

text \<open>The deadline makes \<open>New\<close> return, with an error unless the file became regular in time.\<close>

lemma proxy_New_returns:
  assumes "decisive (sees (px_DBCredentialPath cfg) n)" and "\<And>j. j < n \<Longrightarrow> \<not> decisive (sees (px_DBCredentialPath cfg) j)"
  shows "\<exists>r. proxy_New sees cfg = Some r \<and> (isl r \<longleftrightarrow> sees (px_DBCredentialPath cfg) n \<noteq> Regular)"
proof -
  note ret = waitForFile_returns [of "sees (px_DBCredentialPath cfg)" n, OF assms]
  show ?thesis by (simp add: proxy_New_def waitForFiles_def ret Let_def)
qed

record start_env =
  se_faults :: faults
  se_script :: script_env
  se_watcher :: "goerror option"
  se_add :: "goerror option"

datatype start_result = StartError goerror | StartExit | Running proxy

definition proxy_Start :: "start_env \<Rightarrow> ProxyConfig \<Rightarrow> files \<Rightarrow> start_result" where
  "proxy_Start E cfg fs =
     (case NewConfig \<lparr>par_LocalAddr = px_LocalAddr cfg, par_DSNPath = px_DBCredentialPath cfg,
             par_OutPath = px_PGCredentialPath cfg\<rparr> of
        Inl e \<Rightarrow> StartError e
      | Inr pgb \<Rightarrow>
          (case Write (se_faults E) pgb fs of
             (Some e, _, _) \<Rightarrow> StartError (Wrapped ''pgbCfg.Write failed: '' e [])
           | (None, pgb, fs) \<Rightarrow>
               if pgbouncer_Start (se_script E) \<noteq> None then StartExit
               else (case se_watcher E of
                  Some e \<Rightarrow> StartError (Wrapped ''fsnotify.NewWatcher failed: '' e [])
                | None \<Rightarrow>
                    if se_add E \<noteq> None then StartExit
                    else Running \<lparr>px_conf = cfg, px_cfg = pgb, px_files = fs, px_watched = True,
                           px_ran = [run_script (px_PGBStartScript cfg) None pgb fs]\<rparr>)))"

text \<open>One turn of the loop. The watch may be gone already (\<^verbatim>\<open>ErrNonExistentWatch\<close>); that the file does
  not come back in time is only logged, and so is an error of the reload script.\<close>

datatype watch_error = NonExistentWatch | OtherWatchError goerror

record turn_env =
  te_remove :: "watch_error option"
  te_waited :: "goerror option"
  te_add :: "goerror option"
  te_faults :: faults
  te_reload :: script_env

datatype watched = ContextDone | EventsClosed | FileEvent turn_env | WatcherError goerror | ErrorsClosed

datatype turn_result = GoesOn | Ends | ExitsProcess

definition file_event :: "turn_env \<Rightarrow> proxy \<Rightarrow> turn_result \<times> proxy" where
  "file_event E px =
     (case te_remove E of
        Some (OtherWatchError _) \<Rightarrow> (ExitsProcess, px)
      | _ \<Rightarrow>
          if te_add E \<noteq> None then (ExitsProcess, px\<lparr>px_watched := False\<rparr>)
          else (case Write (te_faults E) (px_cfg px) (px_files px) of
             (err, cfg, fs) \<Rightarrow>
               let px = px\<lparr>px_watched := True, px_cfg := cfg, px_files := fs\<rparr>
               in if err \<noteq> None then (GoesOn, px)
                  else (GoesOn, px\<lparr>px_ran := run_script (px_PGBReloadScript (px_conf px)) (pgbouncer_Reload (te_reload E)) cfg fs
                          # px_ran px\<rparr>)))"

definition proxy_turn :: "watched \<Rightarrow> proxy \<Rightarrow> turn_result \<times> proxy" where
  "proxy_turn w px = (case w of
     ContextDone \<Rightarrow> (Ends, px)
   | EventsClosed \<Rightarrow> (Ends, px)
   | FileEvent E \<Rightarrow> file_event E px
   | WatcherError _ \<Rightarrow> (GoesOn, px)
   | ErrorsClosed \<Rightarrow> (Ends, px))"

section \<open>Runs\<close>

text \<open>The proxy started, turns of its loop, and the file of the connection string replaced between
  them; the third argument collects the contents the file has had.\<close>

inductive proxying :: "ProxyConfig \<Rightarrow> proxy \<Rightarrow> string set \<Rightarrow> bool" for cfg where
  started: "proxy_Start E cfg fs = Running px \<Longrightarrow> fs (px_DBCredentialPath cfg) = Some d \<Longrightarrow> proxying cfg px {d}"
| replaced: "proxying cfg px ds \<Longrightarrow>
    proxying cfg (px\<lparr>px_files := (px_files px)(px_DBCredentialPath cfg \<mapsto> d)\<rparr>) (insert d ds)"
| turned: "proxying cfg px ds \<Longrightarrow> proxy_turn w px = (GoesOn, px') \<Longrightarrow> proxying cfg px' ds"

lemma write_files_frame:
  assumes "write_files F cfg fs = (e, cfg', fs')"
  shows "same_paths cfg' cfg" and "p \<notin> {pgb_configPath cfg, pgb_authPath cfg} \<Longrightarrow> fs' p = fs p"
  using assms
  by (auto simp: write_files_def WriteOut_def same_paths_def Let_def split: prod.splits option.splits if_splits)

lemma Write_frame:
  assumes run: "Write F cfg fs = (e, cfg', fs')"
  shows "same_paths cfg' cfg" and "p \<notin> {pgb_configPath cfg, pgb_authPath cfg} \<Longrightarrow> fs' p = fs p"
proof -
  obtain cfg1 e1 where parsed: "parseURI cfg (projr (ReadFile F fs (pgb_dsnPath cfg))) = (cfg1, e1)" by fastforce
  note paths = parseURI_paths [OF parsed]
  show "same_paths cfg' cfg" "p \<notin> {pgb_configPath cfg, pgb_authPath cfg} \<Longrightarrow> fs' p = fs p"
    using run parsed paths write_files_frame(1) [of F cfg1 _ e cfg' fs'] write_files_frame(2) [of F cfg1 _ e cfg' fs' p]
    by (auto simp: Write_def OpenTrunc_def same_paths_def split: sum.splits option.splits)
qed

text \<open>A script run with the complete files of a connection string that was once in the watched file.\<close>

definition complete_run :: "string set \<Rightarrow> script_run \<Rightarrow> bool" where
  "complete_run ds r \<longleftrightarrow> (\<exists>d\<in>ds. \<exists>c0 c. parseURI c0 d = (c, None) \<and>
     run_Config r = Some (templateText c) \<and> run_Users r = Some (userBS c))"

lemma complete_run_mono: "complete_run ds r \<Longrightarrow> ds \<subseteq> es \<Longrightarrow> complete_run es r"
  unfolding complete_run_def by blast

abbreviation distinct_paths :: "PGBouncerConfig \<Rightarrow> bool" where
  "distinct_paths cfg \<equiv> distinct [pgb_configPath cfg, pgb_authPath cfg, pgb_dsnPath cfg]"

lemma Write_complete:
  assumes "Write F cfg fs = (None, cfg', fs')" and "distinct_paths cfg" and "fs (pgb_dsnPath cfg) = Some d"
  shows "complete_run {d} (run_script path err cfg' fs')"
proof -
  from assms obtain cfg1 where "parseURI cfg d = (cfg1, None)" "cfg' = cfg1\<lparr>pgb_hash := config_sum cfg1\<rparr>"
    "fs' = fs(pgb_configPath cfg \<mapsto> templateText cfg', pgb_authPath cfg \<mapsto> userBS cfg')"
    by (auto simp: ReadFile_def elim!: Write_ok split: option.splits)
  moreover from this(3) assms(2) Write_frame(1) [OF assms(1)]
  have "run_Config (run_script path err cfg' fs') = Some (templateText cfg')"
    "run_Users (run_script path err cfg' fs') = Some (userBS cfg')"
    by (auto simp: run_script_def same_paths_def)
  ultimately show ?thesis unfolding complete_run_def by auto
qed

definition proxy_inv :: "ProxyConfig \<Rightarrow> proxy \<Rightarrow> string set \<Rightarrow> bool" where
  "proxy_inv cfg px ds \<longleftrightarrow> px_conf px = cfg \<and> distinct_paths (px_cfg px) \<and> pgb_dsnPath (px_cfg px) = px_DBCredentialPath cfg \<and>
     (\<exists>d\<in>ds. px_files px (px_DBCredentialPath cfg) = Some d) \<and> list_all (complete_run ds) (px_ran px) \<and>
     (\<exists>rs. map run_Path (px_ran px) = rs @ [px_PGBStartScript cfg] \<and> set rs \<subseteq> {px_PGBReloadScript cfg})"

lemma proxy_turn_cases [consumes 1]:
  assumes "proxy_turn w px = (GoesOn, px')"
  obtains (idle) "px' = px"
  | (wrote) E :: turn_env and e cfg1 fs1 where "Write (te_faults E) (px_cfg px) (px_files px) = (e, cfg1, fs1)"
      and "px' = px\<lparr>px_watched := True, px_cfg := cfg1, px_files := fs1,
        px_ran := (if e = None then run_script (px_PGBReloadScript (px_conf px)) (pgbouncer_Reload (te_reload E)) cfg1 fs1 # px_ran px
          else px_ran px)\<rparr>"
proof (cases "\<exists>E. w = FileEvent E")
  case True
  then obtain E where w: "w = FileEvent E" ..
  obtain e cfg1 fs1 where run: "Write (te_faults E) (px_cfg px) (px_files px) = (e, cfg1, fs1)"
    by (cases "Write (te_faults E) (px_cfg px) (px_files px)") auto
  with assms w
  have "px' = px\<lparr>px_watched := True, px_cfg := cfg1, px_files := fs1,
      px_ran := (if e = None then run_script (px_PGBReloadScript (px_conf px)) (pgbouncer_Reload (te_reload E)) cfg1 fs1 # px_ran px
          else px_ran px)\<rparr>"
    by (auto simp: proxy_turn_def file_event_def Let_def split: if_splits option.splits watch_error.splits)
  with run show thesis by (rule wrote)
next
  case False
  with assms have "px' = px" by (cases w) (simp_all add: proxy_turn_def)
  then show thesis by (rule idle)
qed

lemma proxying_inv:
  assumes "proxying cfg px ds"
    and "distinct [px_PGCredentialPath cfg, Join2 (Dir (px_PGCredentialPath cfg)) ''userlist.txt'', px_DBCredentialPath cfg]"
  shows "proxy_inv cfg px ds"
  using assms(1)
proof induction
  case (started E fs px d)
  then obtain pgb pgb1 fs1 where new: "NewConfig \<lparr>par_LocalAddr = px_LocalAddr cfg, par_DSNPath = px_DBCredentialPath cfg,
             par_OutPath = px_PGCredentialPath cfg\<rparr> = Inr pgb" and run: "Write (se_faults E) pgb fs = (None, pgb1, fs1)"
    and px: "px = \<lparr>px_conf = cfg, px_cfg = pgb1, px_files = fs1, px_watched = True,
      px_ran = [run_script (px_PGBStartScript cfg) None pgb1 fs1]\<rparr>"
    by (auto simp: proxy_Start_def split: sum.splits prod.splits option.splits if_splits)
  from new assms(2) have paths: "distinct_paths pgb" "pgb_dsnPath pgb = px_DBCredentialPath cfg"
    by (auto simp: NewConfig_def split: if_splits sum.splits prod.splits)
  with started(2) Write_frame(1) [OF run] Write_frame(2) [OF run, of "px_DBCredentialPath cfg"] Write_complete [OF run] px
  show ?case by (auto simp: proxy_inv_def same_paths_def run_script_def)
next
  case (replaced px ds d)
  then show ?case by (auto simp: proxy_inv_def list_all_iff intro: complete_run_mono)
next
  case (turned px ds w px')
  from turned(2) show ?case
  proof (cases rule: proxy_turn_cases)
    case (wrote E e cfg1 fs1)
    note inv = turned(3) [unfolded proxy_inv_def]
    from inv obtain d where d: "d \<in> ds" "px_files px (px_DBCredentialPath cfg) = Some d" by blast
    have "distinct_paths cfg1" "pgb_dsnPath cfg1 = px_DBCredentialPath cfg" "fs1 (px_DBCredentialPath cfg) = Some d"
      using inv d Write_frame(1) [OF wrote(1)] Write_frame(2) [OF wrote(1), of "px_DBCredentialPath cfg"]
      by (auto simp: same_paths_def)
    moreover have "complete_run ds (run_script path err cfg1 fs1)" if "e = None" for path err
      by (rule complete_run_mono [OF Write_complete [OF wrote(1) [unfolded that], of d]]) (use inv d in auto)
    moreover from inv obtain rs where "map run_Path (px_ran px) = rs @ [px_PGBStartScript cfg]" "set rs \<subseteq> {px_PGBReloadScript cfg}"
      by blast
    then have "\<exists>rs'. run_Path (run_script (px_PGBReloadScript (px_conf px)) err cfg1 fs1) # map run_Path (px_ran px) =
        rs' @ [px_PGBStartScript cfg] \<and> set rs' \<subseteq> {px_PGBReloadScript cfg}" for err
      using inv by (intro exI [of _ "px_PGBReloadScript cfg # rs"]) (simp add: run_script_def)
    ultimately show ?thesis using inv d(1) by (auto simp: proxy_inv_def wrote(2))
  qed (use turned in simp)
qed

text \<open>
  C13: the scripts are run with complete files. Whatever happens while the proxy runs (reads and writes
  that fail half-way, connection strings that do not parse, duplicate events, which leave truncated
  files behind, reloads that fail), the script that starts pgbouncer is the first script run and is run
  once, every other script run is the reload script, and each time a script is run the configuration and
  the user list on disk are the complete ones of one connection string that the watched file has held.
  When pgbouncer reads the files after that is not part of the statement.
\<close>

theorem scripts_run_with_complete_files:
  assumes "proxying cfg px ds"
    and "distinct [px_PGCredentialPath cfg, Join2 (Dir (px_PGCredentialPath cfg)) ''userlist.txt'', px_DBCredentialPath cfg]"
  shows "(\<exists>rs. map run_Path (px_ran px) = rs @ [px_PGBStartScript cfg] \<and> set rs \<subseteq> {px_PGBReloadScript cfg}) \<and>
    (\<forall>r \<in> set (px_ran px). \<exists>d\<in>ds. \<exists>c0 c. parseURI c0 d = (c, None) \<and>
       run_Config r = Some (templateText c) \<and> run_Users r = Some (userBS c))"
  using proxying_inv [OF assms] by (auto simp: proxy_inv_def complete_run_def list_all_iff)

text \<open>Rotated credentials reach pgbouncer's files: after a write that succeeded, when the watched file has the
  connection string of a connection with another user or another password and no file operation fails in
  the turn that follows, both files are those of that connection and the reload script is run with them.\<close>

lemma rotation_taken_up:
  assumes run: "proxying cfg px ds"
    and paths: "distinct [px_PGCredentialPath cfg, Join2 (Dir (px_PGCredentialPath cfg)) ''userlist.txt'', px_DBCredentialPath cfg]"
    and written: "pgb_hash (px_cfg px) = config_sum (px_cfg px)"
    and conn: "uri_safe c" "Atoi (ci_Port c) = Some p"
    and rotated: "(ci_Username c, ci_Password c) \<noteq> (pgb_UserName (px_cfg px), pgb_Password (px_cfg px))"
    and turn: "te_remove E = None \<or> te_remove E = Some NonExistentWatch" "te_add E = None" "te_faults E = no_faults"
    and content: "fs (px_DBCredentialPath cfg) = Some (Uri (Some c))"
  shows "\<exists>px'. proxy_turn (FileEvent E) (px\<lparr>px_files := fs\<rparr>) = (GoesOn, px') \<and>
    px_files px' (pgb_configPath (px_cfg px)) = Some (templateText (config_for (px_cfg px) c p)) \<and>
    px_files px' (pgb_authPath (px_cfg px)) = Some (userBS (config_for (px_cfg px) c p)) \<and>
    px_ran px' = \<lparr>run_Path = px_PGBReloadScript cfg, run_Config = Some (templateText (config_for (px_cfg px) c p)),
      run_Users = Some (userBS (config_for (px_cfg px) c p)), run_Error = pgbouncer_Reload (te_reload E)\<rparr> # px_ran px"
proof -
  have inv: "proxy_inv cfg px ds" by (rule proxying_inv [OF run paths])
  then have dist: "distinct_paths (px_cfg px)" and dsn: "pgb_dsnPath (px_cfg px) = px_DBCredentialPath cfg"
    and conf: "px_conf px = cfg" by (auto simp: proxy_inv_def)
  from content have fs: "fs(px_DBCredentialPath cfg \<mapsto> Uri (Some c)) = fs" by (rule fun_upd_idem)
  from rotation_written [OF written dist conn rotated, of no_faults fs] obtain cfg'
    where w: "Write no_faults (px_cfg px) fs = (None, cfg', fs(pgb_configPath (px_cfg px) \<mapsto> templateText (config_for (px_cfg px) c p),
         pgb_authPath (px_cfg px) \<mapsto> userBS (config_for (px_cfg px) c p)))" and same: "same_paths cfg' (px_cfg px)"
    by (auto simp: dsn fs)
  from dist same have "run_script path err cfg' (fs(pgb_configPath (px_cfg px) \<mapsto> t, pgb_authPath (px_cfg px) \<mapsto> u)) =
      \<lparr>run_Path = path, run_Config = Some t, run_Users = Some u, run_Error = err\<rparr>" for path err t u
    by (auto simp: run_script_def same_paths_def)
  with turn w dist conf show ?thesis by (auto simp: proxy_turn_def file_event_def split: option.splits)
qed

section \<open>Witnesses\<close>

definition sample_proxy :: ProxyConfig where
  "sample_proxy = \<lparr>px_StartUpTime = 30 * 10 ^ 9, px_DBCredentialPath = ''/dbproxy/uri_dsn.txt'', px_PGCredentialPath = ''./pgbouncer.ini'',
     px_PGBStartScript = ''/var/run/dbproxy/start-pgbouncer.sh'',
     px_PGBReloadScript = ''/var/run/dbproxy/reload-pgbouncer.sh'', px_LocalAddr = ''0.0.0.0:5432''\<rparr>"

definition sample_start :: start_env where
  "sample_start = \<lparr>se_faults = no_faults, se_script = script_ok, se_watcher = None, se_add = None\<rparr>"

definition sample_turn :: turn_env where
  "sample_turn = \<lparr>te_remove = None, te_waited = None, te_add = None, te_faults = no_faults, te_reload = script_ok\<rparr>"

lemma sample_proxy_paths:
  "distinct [px_PGCredentialPath sample_proxy, Join2 (Dir (px_PGCredentialPath sample_proxy)) ''userlist.txt'', px_DBCredentialPath sample_proxy]"
  by code_simp

lemma sample_proxying:
  obtains px where "proxying sample_proxy px {Uri (Some (sample_conn ''app_a''))}"
    and "pgb_hash (px_cfg px) = config_sum (px_cfg px)" and "pgb_UserName (px_cfg px) = ''app_a''"
proof -
  obtain cfg1 fs1 where run: "Write no_faults sample_cfg [pgb_dsnPath sample_cfg \<mapsto> Uri (Some (sample_conn ''app_a''))] = (None, cfg1, fs1)"
    and facts: "pgb_UserName cfg1 = ''app_a''" "pgb_hash cfg1 = config_sum cfg1"
    by (rule sample_write)
  let ?px = "\<lparr>px_conf = sample_proxy, px_cfg = cfg1, px_files = fs1, px_watched = True,
      px_ran = [run_script (px_PGBStartScript sample_proxy) None cfg1 fs1]\<rparr>"
  have "proxy_Start sample_start sample_proxy [''/dbproxy/uri_dsn.txt'' \<mapsto> Uri (Some (sample_conn ''app_a''))] = Running ?px"
    using run by (simp add: proxy_Start_def sample_proxy_def sample_start_def sample_cfg_new) (simp add: sample_cfg_def)
  then have "proxying sample_proxy ?px {Uri (Some (sample_conn ''app_a''))}"
    by (rule proxying.started) (simp add: sample_proxy_def)
  then show thesis by (rule that) (simp_all add: facts)
qed

theorem scripts_run_with_complete_files_witness:
  "\<exists>px d r c0 c. proxying sample_proxy px {d} \<and> last (px_ran px) = r \<and> run_Path r = px_PGBStartScript sample_proxy \<and>
     parseURI c0 d = (c, None) \<and> run_Config r = Some (templateText c) \<and> run_Users r = Some (userBS c)"
proof -
  obtain px where run: "proxying sample_proxy px {Uri (Some (sample_conn ''app_a''))}" by (rule sample_proxying)
  note props = scripts_run_with_complete_files [OF run sample_proxy_paths]
  then obtain rs where rs: "map run_Path (px_ran px) = rs @ [px_PGBStartScript sample_proxy]" by blast
  then have "px_ran px \<noteq> []" by auto
  then have "last (px_ran px) \<in> set (px_ran px)" "run_Path (last (px_ran px)) = px_PGBStartScript sample_proxy"
    using rs last_map [of "px_ran px" run_Path] by (simp_all del: last_map)
  with props run show ?thesis by blast
qed

end
