(* ===== verification/Webhooks.thy ===== *)
theory Webhooks
  imports Dbclient
begin

text \<open>
  The admission webhooks (\<^verbatim>\<open>internal/webhook\<close>): sidecars are injected into pods that name a claim, pods
  with deprecated annotations are converted to labels, and the deletion of claims is refused unless a
  label allows it. Labels and annotations are maps; the nil map reads like the empty one, and the code
  replaces it before it writes.
\<close>

section \<open>Pods\<close>

record Probe =
  pr_Command :: "string list"
  pr_InitialDelaySeconds :: int
  pr_PeriodSeconds :: int
  pr_TimeoutSeconds :: int

record VolumeMount =
  vm_Name :: string
  vm_MountPath :: string
  vm_ReadOnly :: bool

record Container =
  c_Name :: string
  c_Image :: string
  c_ImagePullPolicy :: string
  c_Args :: "string list"
  c_Env :: "(string \<times> string) list"
  c_LivenessProbe :: "Probe option"
  c_ReadinessProbe :: "Probe option"
  c_VolumeMounts :: "VolumeMount list"

text \<open>The secret of a volume, where it has that source.\<close>

record Volume =
  vol_Name :: string
  vol_Secret :: "string option"

record Pod =
  pod_Namespace :: string
  pod_Name :: string
  pod_Labels :: "string \<rightharpoonup> string"
  pod_Annotations :: "string \<rightharpoonup> string"
  pod_Volumes :: "Volume list"
  pod_Containers :: "Container list"

text \<open>Reading a key that a Go map does not have gives the zero value.\<close>

definition map_get :: "(string \<rightharpoonup> string) \<Rightarrow> string \<Rightarrow> string" where
  "map_get m k = (case m k of None \<Rightarrow> [] | Some v \<Rightarrow> v)"

definition LabelCheckProxy :: string where "LabelCheckProxy = ''persistance.atlas.infoblox.com/dbproxy''"
definition LabelCheckExec :: string where "LabelCheckExec = ''persistance.atlas.infoblox.com/dsnexec''"
definition LabelConfigExec :: string where "LabelConfigExec = ''persistance.atlas.infoblox.com/dsnexec-config''"
definition LabelClaim :: string where "LabelClaim = ''persistance.atlas.infoblox.com/claim''"
definition LabelClass :: string where "LabelClass = ''persistance.atlas.infoblox.com/class''"
definition AnnotationInjectedProxy :: string where "AnnotationInjectedProxy = ''persistance.atlas.infoblox.com/injected-dbproxy''"
definition AnnotationInjectedExec :: string where "AnnotationInjectedExec = ''persistance.atlas.infoblox.com/injected-dsnexec''"

definition set_label :: "string \<Rightarrow> string \<Rightarrow> Pod \<Rightarrow> Pod" where
  "set_label k v p = p\<lparr>pod_Labels := (pod_Labels p)(k \<mapsto> v)\<rparr>"

definition annotate :: "string \<Rightarrow> string \<Rightarrow> Pod \<Rightarrow> Pod" where
  "annotate k v p = p\<lparr>pod_Annotations := (pod_Annotations p)(k \<mapsto> v)\<rparr>"

text \<open>Volumes and containers are added unless one of that name exists.\<close>

definition add_secret_volume :: "string \<Rightarrow> string \<Rightarrow> Pod \<Rightarrow> Pod" where
  "add_secret_volume n secretName p =
     (if n \<in> vol_Name ` set (pod_Volumes p) then p
      else p\<lparr>pod_Volumes := pod_Volumes p @ [\<lparr>vol_Name = n, vol_Secret = Some secretName\<rparr>]\<rparr>)"

definition add_container :: "Container \<Rightarrow> Pod \<Rightarrow> Pod" where
  "add_container c p =
     (if c_Name c \<in> c_Name ` set (pod_Containers p) then p else p\<lparr>pod_Containers := pod_Containers p @ [c]\<rparr>)"

section \<open>Sidecars\<close>

definition sh_probe :: "string \<Rightarrow> int \<Rightarrow> Probe" where
  "sh_probe cmd delay = \<lparr>pr_Command = [''/bin/sh'', ''-c'', cmd], pr_InitialDelaySeconds = delay,
     pr_PeriodSeconds = 15, pr_TimeoutSeconds = 5\<rparr>"

definition dsn_probe :: "string \<Rightarrow> string" where
  "dsn_probe path = ''psql '' @ [CHR 0x22] @ ''$(cat '' @ path @ '')'' @ [CHR 0x22] @ '' -c '' @ [CHR 0x22] @ ''SELECT 1'' @ [CHR 0x22]"

definition proxy_container :: "string \<Rightarrow> bool \<Rightarrow> bool \<Rightarrow> Container" where
  "proxy_container dbProxyImg enableReady enableLiveness =
     \<lparr>c_Name = ''dbproxy'', c_Image = dbProxyImg, c_ImagePullPolicy = ''IfNotPresent'', c_Args = [],
      c_Env = [(''DBPROXY_CREDENTIAL'', ''/dbproxy/'' @ DSNURIKey)],
      c_LivenessProbe = (if enableLiveness then Some (sh_probe (dsn_probe (''/dbproxy/'' @ DSNURIKey)) 30) else None),
      c_ReadinessProbe = (if enableReady then Some (sh_probe
        (''psql -h localhost -c '' @ [CHR 0x22] @ ''SELECT 1'' @ [CHR 0x22]) 5) else None),
      c_VolumeMounts = [\<lparr>vm_Name = ''dbproxydsn'', vm_MountPath = ''/dbproxy'', vm_ReadOnly = True\<rparr>]\<rparr>"

definition mutatePodProxy :: "Pod \<Rightarrow> string \<Rightarrow> string \<Rightarrow> bool \<Rightarrow> bool \<Rightarrow> Pod \<times> goerror option" where
  "mutatePodProxy pod secretName dbProxyImg enableReady enableLiveness =
     (annotate AnnotationInjectedProxy ''true''
        (add_container (proxy_container dbProxyImg enableReady enableLiveness)
          (add_secret_volume ''dbproxydsn'' secretName pod)), None)"

definition exec_container :: "string \<Rightarrow> bool \<Rightarrow> Container" where
  "exec_container dsnExecImg enableReady =
     \<lparr>c_Name = ''dsnexec'', c_Image = dsnExecImg, c_ImagePullPolicy = ''IfNotPresent'',
      c_Args = [''run'', ''--config-file'', ''/var/run/dsn-exec/config.yaml''],
      c_Env = [(''DBPROXY_CREDENTIAL'', ''/var/run/db-dsn/'' @ DSNURIKey)],
      c_LivenessProbe = None,
      c_ReadinessProbe = (if enableReady then Some (sh_probe (dsn_probe (''/var/run/db-dsn/'' @ DSNURIKey)) 5) else None),
      c_VolumeMounts = [\<lparr>vm_Name = ''db-dsn'', vm_MountPath = ''/var/run/db-dsn'', vm_ReadOnly = True\<rparr>,
        \<lparr>vm_Name = ''dsnexec-config'', vm_MountPath = ''/var/run/dsn-exec'', vm_ReadOnly = True\<rparr>]\<rparr>"

definition mutatePodExec :: "Pod \<Rightarrow> string \<Rightarrow> string \<Rightarrow> bool \<Rightarrow> bool \<Rightarrow> Pod \<times> goerror option" where
  "mutatePodExec pod secretName dsnExecImg enableReady enableLiveness =
     (let fromAnnotation = map_get (pod_Annotations pod) ''infoblox.com/dsnexec-config-secret'';
          dsnExecConfigSecret = (if fromAnnotation = [] then map_get (pod_Labels pod) LabelConfigExec else fromAnnotation)
      in if dsnExecConfigSecret = [] then (pod, Some (ErrMsg (LabelConfigExec @ '' label was not found'')))
         else (annotate AnnotationInjectedExec ''true''
           (add_container (exec_container dsnExecImg enableReady)
             (add_secret_volume ''dsnexec-config'' dsnExecConfigSecret (add_secret_volume ''db-dsn'' secretName pod))), None))"

section \<open>The defaulter\<close>

record podAnnotator =
  pa_class :: string
  pa_namespace :: string
  pa_dbProxyImg :: string
  pa_dsnExecImg :: string
  pa_enableReady :: bool
  pa_enableLiveness :: bool

text \<open>The configuration is complete or the webhook is not set up.\<close>

definition SetupWebhookWithManager :: "podAnnotator \<Rightarrow> goerror + podAnnotator" where
  "SetupWebhookWithManager cfg =
     (if pa_namespace cfg = [] then Inl (ErrMsg ''namespace must be set'')
      else if pa_class cfg = [] then Inl (ErrMsg ''class must be set'')
      else if pa_dbProxyImg cfg = [] then Inl (ErrMsg ''dbproxy image must be set'')
      else if pa_dsnExecImg cfg = [] then Inl (ErrMsg ''dsnexec image must be set'')
      else Inr cfg)"

text \<open>A lookup that fails leaves the zero value, whose name is empty.\<close>

definition getSecretNameClass :: "DatabaseClaim option \<Rightarrow> DbRoleClaim option \<Rightarrow> goerror + string" where
  "getSecretNameClass claim role =
     (case (case role of
         Some r \<Rightarrow> if m_Name (rc_Meta r) \<noteq> [] then Some (m_Name (rc_Meta r), rcs_SecretName (rc_Spec r)) else None
       | None \<Rightarrow> None) of
        Some (claimName, secretName) \<Rightarrow>
          if secretName = [] then Inl (ErrMsg (''claim '' @ [CHR 0x22] @ claimName @ [CHR 0x22] @ '' does not have secret reference'')) else Inr secretName
      | None \<Rightarrow>
          (let claimName = (case claim of None \<Rightarrow> [] | Some c \<Rightarrow> dc_Name c);
               secretName = (case claim of None \<Rightarrow> [] | Some c \<Rightarrow> spec_SecretName (dc_Spec c))
           in if secretName = [] then Inl (ErrMsg (''claim '' @ [CHR 0x22] @ claimName @ [CHR 0x22] @ '' does not have secret reference''))
              else Inr secretName))"

definition found :: "goerror + 'a \<Rightarrow> 'a option" where
  "found r = (case r of Inl _ \<Rightarrow> None | Inr x \<Rightarrow> Some x)"

text \<open>The last part of \<^verbatim>\<open>Default\<close>, which has no name of its own in the source: what is done to a pod of this class
  whose claim has the secret \<open>secretName\<close>.\<close>

definition inject :: "podAnnotator \<Rightarrow> string \<Rightarrow> Pod \<Rightarrow> Pod \<times> goerror option" where
  "inject p secretName pod =
     (if map_get (pod_Labels pod) LabelCheckProxy = ''enabled'' \<and> map_get (pod_Annotations pod) AnnotationInjectedProxy \<noteq> ''true''
      then mutatePodProxy pod secretName (pa_dbProxyImg p) (pa_enableReady p) (pa_enableLiveness p)
      else if map_get (pod_Labels pod) LabelCheckExec = ''enabled'' \<and> map_get (pod_Annotations pod) AnnotationInjectedExec \<noteq> ''true''
      then mutatePodExec pod secretName (pa_dsnExecImg p) (pa_enableReady p) (pa_enableLiveness p)
      else (pod, None))"

definition Default :: "env \<Rightarrow> podAnnotator \<Rightarrow> Pod \<Rightarrow> (Pod \<times> goerror option) go_prog" where
  "Default E p pod =
     (let claimName = map_get (pod_Labels pod) LabelClaim in
      if claimName = [] then ret (pod, None) else
      bnd (getClaim E (pod_Namespace pod) claimName) (\<lambda>cg.
      bnd (getRoleClaim E (pod_Namespace pod) claimName) (\<lambda>rg.
      let claim = found cg; role = found rg in
      if (case role of None \<Rightarrow> True | Some r \<Rightarrow> m_Name (rc_Meta r) = []) \<and> (case claim of None \<Rightarrow> True | Some c \<Rightarrow> dc_Name c = [])
      then ret (pod, Some (ErrMsg (''unable to locate databaseclaim/dbroleclaim '' @ [CHR 0x22] @ claimName @ [CHR 0x22]))) else
      if map_get (pod_Labels pod) LabelClass \<noteq> pa_class p then ret (pod, None) else
      case getSecretNameClass claim role of
        Inl e \<Rightarrow> ret (pod, Some e)
      | Inr secretName \<Rightarrow> ret (inject p secretName pod))))"

section \<open>Conversion of deprecated annotations\<close>

definition DeprecatedAnnotationDSNExecConfig :: string where "DeprecatedAnnotationDSNExecConfig = ''infoblox.com/dsnexec-config-secret''"
definition DeprecatedAnnotationRemoteDBDSN :: string where "DeprecatedAnnotationRemoteDBDSN = ''infoblox.com/remote-db-dsn-secret''"
definition DeprecatedAnnotationDBSecretPath :: string where "DeprecatedAnnotationDBSecretPath = ''infoblox.com/db-secret-path''"
definition DeprecatedAnnotationMessages :: string where "DeprecatedAnnotationMessages = ''persistance.atlas.infoblox.com/deprecation-messages''"

text \<open>The last owner that is a claim or a role claim.\<close>

definition claim_owner :: "OwnerReference list \<Rightarrow> string" where
  "claim_owner owners = foldl (\<lambda>claimName ow.
     if or_Kind ow = ''DatabaseClaim'' \<or> or_Kind ow = ''DbRoleClaim'' then or_Name ow else claimName) [] owners"

definition getClaimName :: "env \<Rightarrow> string \<Rightarrow> string \<Rightarrow> (goerror + string) go_prog" where
  "getClaimName E ns secretName = attempt (getSecret E ns secretName) (\<lambda>secret.
     let claimName = claim_owner (sec_Owner secret)
     in ret (if claimName = [] then Inl (ErrMsg ''unable to find claim owner reference'') else Inr claimName))"

text \<open>The key in a path is cut off the name of the secret.\<close>

definition deprecated_secret :: "Pod \<Rightarrow> string" where
  "deprecated_secret pod =
     (let remoteDBDSNSecret = map_get (pod_Annotations pod) DeprecatedAnnotationRemoteDBDSN;
          dbSecretPath = map_get (pod_Annotations pod) DeprecatedAnnotationDBSecretPath;
          secretName = (if remoteDBDSNSecret = [] then dbSecretPath else remoteDBDSNSecret);
          parts = Split secretName (CHR ''/'')
      in if length parts > 1 then parts ! 0 else secretName)"

definition drop_deprecated :: "Pod \<Rightarrow> Pod" where
  "drop_deprecated pod = pod\<lparr>pod_Annotations := (pod_Annotations pod)(DeprecatedAnnotationRemoteDBDSN := None,
     DeprecatedAnnotationDSNExecConfig := None, DeprecatedAnnotationDBSecretPath := None)\<rparr>"

definition deprecation_note :: "string \<Rightarrow> string \<Rightarrow> string" where
  "deprecation_note label annotation = ''Use label '' @ [CHR 0x22] @ label @ [CHR 0x22] @ '', annotation '' @ [CHR 0x22] @
     annotation @ [CHR 0x22] @ '' is deprecated''"

text \<open>The labels a claim's pod gets, and the notes for its owner.\<close>

definition convert_labels :: "string \<Rightarrow> string \<Rightarrow> Pod \<Rightarrow> Pod \<times> string list" where
  "convert_labels class claimName pod =
     (let dsnExecConfigSecret = map_get (pod_Annotations pod) DeprecatedAnnotationDSNExecConfig;
          remoteDBDSNSecret = map_get (pod_Annotations pod) DeprecatedAnnotationRemoteDBDSN;
          dbSecretPath = map_get (pod_Annotations pod) DeprecatedAnnotationDBSecretPath;
          own = (\<lambda>p. set_label LabelClass class (set_label LabelClaim claimName p));
          exec = (dsnExecConfigSecret \<noteq> [] \<and> remoteDBDSNSecret \<noteq> []);
          pod1 = (if exec then set_label LabelCheckExec ''enabled'' (set_label LabelConfigExec dsnExecConfigSecret (own pod)) else pod);
          msgs1 = (if exec then [deprecation_note LabelConfigExec DeprecatedAnnotationDSNExecConfig,
            deprecation_note LabelClaim DeprecatedAnnotationRemoteDBDSN] else []);
          pod2 = (if dbSecretPath \<noteq> [] then set_label LabelCheckProxy ''enabled'' (own pod1) else pod1);
          msgs2 = (if dbSecretPath \<noteq> [] then [''Label '' @ [CHR 0x22] @ LabelClaim @ [CHR 0x22] @ '' replaces annotation '' @
            [CHR 0x22] @ DeprecatedAnnotationDBSecretPath @ [CHR 0x22]] else [])
      in (pod2, msgs1 @ msgs2))"

definition deprecation_text :: "string list \<Rightarrow> string" where
  "deprecation_text msgs = ''Warning: Deprecated annotations detected.'' @ [CHR 0x0A] @
     ''See docs for updated syntax: https://infobloxopen.github.io/db-controller/#quick-start'' @ [CHR 0x0A] @
     JoinWith [CHR 0x0A] msgs"

definition convertPod :: "env \<Rightarrow> string \<Rightarrow> Pod \<Rightarrow> (Pod \<times> goerror option) go_prog" where
  "convertPod E class pod =
     bnd (getClaimName E (pod_Namespace pod) (deprecated_secret pod)) (\<lambda>r. case r of
       Inl e \<Rightarrow> ret (pod, Some e)
     | Inr claimName \<Rightarrow>
         (case convert_labels class claimName pod of (pod1, deprecationMsgs) \<Rightarrow>
            let pod2 = drop_deprecated pod1 in
            ret (if deprecationMsgs = [] then pod2
              else annotate DeprecatedAnnotationMessages (deprecation_text deprecationMsgs) pod2, None)))"

text \<open>\<^verbatim>\<open>Handle\<close> on a decoded pod: it is left alone, refused, or replaced.\<close>

datatype admission = Allowed string | Errored goerror | Patched Pod

definition Handle :: "env \<Rightarrow> string \<Rightarrow> Pod \<Rightarrow> admission go_prog" where
  "Handle E class pod =
     (let dsnExecConfigSecret = map_get (pod_Annotations pod) DeprecatedAnnotationDSNExecConfig;
          remoteDBDSNSecret = map_get (pod_Annotations pod) DeprecatedAnnotationRemoteDBDSN;
          dbSecretPath = map_get (pod_Annotations pod) DeprecatedAnnotationDBSecretPath
      in if map_get (pod_Labels pod) LabelCheckExec = ''enabled'' \<or> map_get (pod_Labels pod) LabelCheckProxy = ''enabled''
         then ret (Allowed ''Skipped conversion, already converted'')
         else if dsnExecConfigSecret = [] \<and> remoteDBDSNSecret = [] \<and> dbSecretPath = []
         then ret (Allowed ''Skipped conversion, no deprecated annotations found'')
         else bnd (convertPod E class pod) (\<lambda>(pod, er). ret (case er of Some e \<Rightarrow> Errored e | None \<Rightarrow> Patched pod)))"

section \<open>Validation of deletions\<close>

abbreviation deletionOverrideLabel :: string where
  "deletionOverrideLabel \<equiv> ''persistance.atlas.infoblox.com/allow-deletion''"

definition deletion_denied :: "string \<Rightarrow> string \<Rightarrow> (string \<times> string) list \<Rightarrow> goerror option" where
  "deletion_denied kind name labels =
     (if map_of labels deletionOverrideLabel = Some ''enabled'' then None
      else Some (ErrMsg (''deletion is denied for '' @ kind @ '' '' @ [CHR 0x27] @ name @ [CHR 0x27] @ ''; set label '' @ [CHR 0x27] @
        deletionOverrideLabel @ ''=enabled'' @ [CHR 0x27] @ '' to override'')))"

definition ValidateDelete :: "DatabaseClaim \<Rightarrow> goerror option" where
  "ValidateDelete claim = deletion_denied ''DatabaseClaim'' (dc_Name claim) (m_Labels (dc_Meta claim))"

definition rc_ValidateDelete :: "DbRoleClaim \<Rightarrow> goerror option" where
  "rc_ValidateDelete roleClaim = deletion_denied ''DbRoleClaim'' (m_Name (rc_Meta roleClaim)) (m_Labels (rc_Meta roleClaim))"

section \<open>Properties\<close>

lemma label_keys [simp]:
  "LabelCheckProxy \<noteq> LabelCheckExec" "LabelCheckProxy \<noteq> LabelConfigExec" "LabelCheckProxy \<noteq> LabelClaim"
  "LabelCheckProxy \<noteq> LabelClass" "LabelCheckExec \<noteq> LabelCheckProxy" "LabelCheckExec \<noteq> LabelConfigExec"
  "LabelCheckExec \<noteq> LabelClaim" "LabelCheckExec \<noteq> LabelClass" "LabelConfigExec \<noteq> LabelCheckProxy"
  "LabelConfigExec \<noteq> LabelCheckExec" "LabelConfigExec \<noteq> LabelClaim" "LabelConfigExec \<noteq> LabelClass"
  "LabelClaim \<noteq> LabelCheckProxy" "LabelClaim \<noteq> LabelCheckExec" "LabelClaim \<noteq> LabelConfigExec"
  "LabelClaim \<noteq> LabelClass" "LabelClass \<noteq> LabelCheckProxy" "LabelClass \<noteq> LabelCheckExec"
  "LabelClass \<noteq> LabelConfigExec" "LabelClass \<noteq> LabelClaim"
  by (simp_all add: LabelCheckProxy_def LabelCheckExec_def LabelConfigExec_def LabelClaim_def LabelClass_def)

lemma annotation_keys [simp]:
  "AnnotationInjectedProxy \<noteq> AnnotationInjectedExec"
  "AnnotationInjectedProxy \<noteq> DeprecatedAnnotationDSNExecConfig"
  "AnnotationInjectedProxy \<noteq> DeprecatedAnnotationRemoteDBDSN"
  "AnnotationInjectedProxy \<noteq> DeprecatedAnnotationDBSecretPath"
  "AnnotationInjectedProxy \<noteq> DeprecatedAnnotationMessages"
  "AnnotationInjectedProxy \<noteq> ''infoblox.com/dsnexec-config-secret''"
  "AnnotationInjectedExec \<noteq> AnnotationInjectedProxy"
  "AnnotationInjectedExec \<noteq> DeprecatedAnnotationDSNExecConfig"
  "AnnotationInjectedExec \<noteq> DeprecatedAnnotationRemoteDBDSN"
  "AnnotationInjectedExec \<noteq> DeprecatedAnnotationDBSecretPath"
  "AnnotationInjectedExec \<noteq> DeprecatedAnnotationMessages"
  "AnnotationInjectedExec \<noteq> ''infoblox.com/dsnexec-config-secret''"
  "DeprecatedAnnotationDSNExecConfig \<noteq> AnnotationInjectedProxy"
  "DeprecatedAnnotationDSNExecConfig \<noteq> AnnotationInjectedExec"
  "DeprecatedAnnotationDSNExecConfig \<noteq> DeprecatedAnnotationRemoteDBDSN"
  "DeprecatedAnnotationDSNExecConfig \<noteq> DeprecatedAnnotationDBSecretPath"
  "DeprecatedAnnotationDSNExecConfig \<noteq> DeprecatedAnnotationMessages"
  "DeprecatedAnnotationRemoteDBDSN \<noteq> AnnotationInjectedProxy"
  "DeprecatedAnnotationRemoteDBDSN \<noteq> AnnotationInjectedExec"
  "DeprecatedAnnotationRemoteDBDSN \<noteq> DeprecatedAnnotationDSNExecConfig"
  "DeprecatedAnnotationRemoteDBDSN \<noteq> DeprecatedAnnotationDBSecretPath"
  "DeprecatedAnnotationRemoteDBDSN \<noteq> DeprecatedAnnotationMessages"
  "DeprecatedAnnotationRemoteDBDSN \<noteq> ''infoblox.com/dsnexec-config-secret''"
  "DeprecatedAnnotationDBSecretPath \<noteq> AnnotationInjectedProxy"
  "DeprecatedAnnotationDBSecretPath \<noteq> AnnotationInjectedExec"
  "DeprecatedAnnotationDBSecretPath \<noteq> DeprecatedAnnotationDSNExecConfig"
  "DeprecatedAnnotationDBSecretPath \<noteq> DeprecatedAnnotationRemoteDBDSN"
  "DeprecatedAnnotationDBSecretPath \<noteq> DeprecatedAnnotationMessages"
  "DeprecatedAnnotationDBSecretPath \<noteq> ''infoblox.com/dsnexec-config-secret''"
  "DeprecatedAnnotationMessages \<noteq> AnnotationInjectedProxy"
  "DeprecatedAnnotationMessages \<noteq> AnnotationInjectedExec"
  "DeprecatedAnnotationMessages \<noteq> DeprecatedAnnotationDSNExecConfig"
  "DeprecatedAnnotationMessages \<noteq> DeprecatedAnnotationRemoteDBDSN"
  "DeprecatedAnnotationMessages \<noteq> DeprecatedAnnotationDBSecretPath"
  "DeprecatedAnnotationMessages \<noteq> ''infoblox.com/dsnexec-config-secret''"
  "''infoblox.com/dsnexec-config-secret'' \<noteq> AnnotationInjectedProxy"
  "''infoblox.com/dsnexec-config-secret'' \<noteq> AnnotationInjectedExec"
  "''infoblox.com/dsnexec-config-secret'' \<noteq> DeprecatedAnnotationRemoteDBDSN"
  "''infoblox.com/dsnexec-config-secret'' \<noteq> DeprecatedAnnotationDBSecretPath"
  "''infoblox.com/dsnexec-config-secret'' \<noteq> DeprecatedAnnotationMessages"
  by (simp_all add: AnnotationInjectedProxy_def AnnotationInjectedExec_def DeprecatedAnnotationDSNExecConfig_def DeprecatedAnnotationRemoteDBDSN_def DeprecatedAnnotationDBSecretPath_def DeprecatedAnnotationMessages_def)

lemma map_get_upd [simp]: "map_get (m(k \<mapsto> v)) k' = (if k' = k then v else map_get m k')"
  by (simp add: map_get_def)

lemma pod_edits [simp]:
  "pod_Labels (annotate k v p) = pod_Labels p" "pod_Labels (add_container c p) = pod_Labels p"
  "pod_Labels (add_secret_volume n s p) = pod_Labels p"
  "pod_Annotations (annotate k v p) = (pod_Annotations p)(k \<mapsto> v)" "pod_Annotations (add_container c p) = pod_Annotations p"
  "pod_Annotations (add_secret_volume n s p) = pod_Annotations p"
  "pod_Containers (annotate k v p) = pod_Containers p" "pod_Containers (add_secret_volume n s p) = pod_Containers p"
  "pod_Volumes (annotate k v p) = pod_Volumes p" "pod_Volumes (add_container c p) = pod_Volumes p"
  by (simp_all add: annotate_def add_container_def add_secret_volume_def)

lemma pod_name_edits [simp]:
  "pod_Name (annotate k v p) = pod_Name p" "pod_Name (add_container c p) = pod_Name p" "pod_Name (add_secret_volume n s p) = pod_Name p"
  "pod_Namespace (annotate k v p) = pod_Namespace p" "pod_Namespace (add_container c p) = pod_Namespace p"
  "pod_Namespace (add_secret_volume n s p) = pod_Namespace p"
  by (simp_all add: annotate_def add_container_def add_secret_volume_def)

lemma container_names [simp]: "c_Name (proxy_container i a b) = ''dbproxy''" "c_Name (exec_container j a) = ''dsnexec''"
  by (simp_all add: proxy_container_def exec_container_def)

lemmas inject_defs = inject_def mutatePodProxy_def mutatePodExec_def

text \<open>The sidecars that a pod asks for and does not have.\<close>

definition needs_proxy :: "Pod \<Rightarrow> bool" where
  "needs_proxy pod \<longleftrightarrow> map_get (pod_Labels pod) LabelCheckProxy = ''enabled'' \<and> map_get (pod_Annotations pod) AnnotationInjectedProxy \<noteq> ''true''"

definition needs_exec :: "Pod \<Rightarrow> bool" where
  "needs_exec pod \<longleftrightarrow> map_get (pod_Labels pod) LabelCheckExec = ''enabled'' \<and> map_get (pod_Annotations pod) AnnotationInjectedExec \<noteq> ''true''"

lemma inject_needs:
  "inject p s pod = (if needs_proxy pod then mutatePodProxy pod s (pa_dbProxyImg p) (pa_enableReady p) (pa_enableLiveness p)
     else if needs_exec pod then mutatePodExec pod s (pa_dsnExecImg p) (pa_enableReady p) (pa_enableLiveness p) else (pod, None))"
  unfolding inject_def needs_proxy_def needs_exec_def by (rule refl)

lemma mutate_needs:
  "mutatePodProxy pod s i a b = (pod', e) \<Longrightarrow> e = None \<and> \<not> needs_proxy pod' \<and> needs_exec pod' = needs_exec pod"
  "mutatePodExec pod s j a b = (pod', e) \<Longrightarrow>
     needs_proxy pod' = needs_proxy pod \<and> (e = None \<and> \<not> needs_exec pod' \<or> pod' = pod)"
  by (auto simp: mutatePodProxy_def mutatePodExec_def needs_proxy_def needs_exec_def Let_def split: if_splits)

lemma inject_step:
  assumes "inject p s pod = (pod', e)"
  shows "\<not> needs_proxy pod'" and "needs_proxy pod \<Longrightarrow> e = None \<and> needs_exec pod' = needs_exec pod"
    and "\<not> needs_proxy pod \<Longrightarrow> needs_exec pod \<Longrightarrow> e = None \<and> \<not> needs_exec pod' \<or> pod' = pod"
    and "\<not> needs_proxy pod \<Longrightarrow> \<not> needs_exec pod \<Longrightarrow> pod' = pod \<and> e = None"
  using assms mutate_needs(1) [of pod s "pa_dbProxyImg p" "pa_enableReady p" "pa_enableLiveness p" pod' e]
    mutate_needs(2) [of pod s "pa_dsnExecImg p" "pa_enableReady p" "pa_enableLiveness p" pod' e]
  unfolding inject_needs by (auto split: if_splits)

text \<open>What an injection keeps of a pod and what it may add.\<close>

definition extends_pod :: "string \<Rightarrow> Pod \<Rightarrow> Pod \<Rightarrow> bool" where
  "extends_pod secretName pod pod' \<longleftrightarrow>
     pod_Labels pod' = pod_Labels pod \<and> pod_Name pod' = pod_Name pod \<and> pod_Namespace pod' = pod_Namespace pod \<and>
     (\<exists>cs. pod_Containers pod' = pod_Containers pod @ cs \<and> c_Name ` set cs \<subseteq> {''dbproxy'', ''dsnexec''}) \<and>
     (\<exists>vs. pod_Volumes pod' = pod_Volumes pod @ vs \<and> (\<forall>v\<in>set vs. vol_Name v = ''dsnexec-config'' \<or> vol_Secret v = Some secretName)) \<and>
     (distinct (map c_Name (pod_Containers pod)) \<longrightarrow> distinct (map c_Name (pod_Containers pod'))) \<and>
     (distinct (map vol_Name (pod_Volumes pod)) \<longrightarrow> distinct (map vol_Name (pod_Volumes pod')))"

lemma extends_pod_refl: "extends_pod s pod pod"
  by (simp add: extends_pod_def)

lemma extends_pod_trans:
  assumes "extends_pod s a b" and "extends_pod s b c"
  shows "extends_pod s a c"
proof -
  from assms obtain cs ds vs ws where
    "pod_Containers b = pod_Containers a @ cs" "c_Name ` set cs \<subseteq> {''dbproxy'', ''dsnexec''}"
    "pod_Containers c = pod_Containers b @ ds" "c_Name ` set ds \<subseteq> {''dbproxy'', ''dsnexec''}"
    "pod_Volumes b = pod_Volumes a @ vs" "\<forall>v\<in>set vs. vol_Name v = ''dsnexec-config'' \<or> vol_Secret v = Some s"
    "pod_Volumes c = pod_Volumes b @ ws" "\<forall>v\<in>set ws. vol_Name v = ''dsnexec-config'' \<or> vol_Secret v = Some s"
    unfolding extends_pod_def by (elim conjE exE)
  note parts = this
  have "\<exists>es. pod_Containers c = pod_Containers a @ es \<and> c_Name ` set es \<subseteq> {''dbproxy'', ''dsnexec''}"
    using parts by (intro exI [of _ "cs @ ds"]) (simp add: image_Un)
  moreover have "\<exists>xs. pod_Volumes c = pod_Volumes a @ xs \<and> (\<forall>v\<in>set xs. vol_Name v = ''dsnexec-config'' \<or> vol_Secret v = Some s)"
    using parts by (intro exI [of _ "vs @ ws"]) (simp add: ball_Un)
  ultimately show ?thesis using assms unfolding extends_pod_def by simp
qed

lemma extends_pod_edits:
  "extends_pod s pod (annotate k v pod)"
  "c_Name c \<in> {''dbproxy'', ''dsnexec''} \<Longrightarrow> extends_pod s pod (add_container c pod)"
  "n = ''dsnexec-config'' \<or> t = s \<Longrightarrow> extends_pod s pod (add_secret_volume n t pod)"
  by (auto simp: extends_pod_def add_container_def add_secret_volume_def)

lemma inject_extends: "extends_pod s pod (fst (inject p s pod))"
proof -
  note steps = extends_pod_trans [OF _ extends_pod_edits(1)] extends_pod_trans [OF _ extends_pod_edits(2)]
    extends_pod_trans [OF _ extends_pod_edits(3)] extends_pod_edits(3) extends_pod_refl
  show ?thesis by (auto simp: inject_defs Let_def intro!: steps)
qed

text \<open>
  C27: the injection of sidecars settles and disturbs nothing. However often the webhook is called for a
  pod, after two calls a further one changes nothing and answers what the second one answered; labels,
  name and namespace stay, containers and volumes are only appended, under names that are not taken, the
  containers are the two sidecars and every volume but the configuration's mounts the claim's secret.
\<close>

theorem injection_settles:
  "let pod1 = fst (inject p secretName pod); pod2 = fst (inject p secretName pod1)
   in inject p secretName pod2 = (pod2, snd (inject p secretName pod1)) \<and> extends_pod secretName pod pod2"
proof -
  have "extends_pod secretName pod (fst (inject p secretName (fst (inject p secretName pod))))"
    by (rule extends_pod_trans [OF inject_extends inject_extends])
  moreover obtain pod1 e1 pod2 e2 pod3 e3 where runs: "inject p secretName pod = (pod1, e1)" "inject p secretName pod1 = (pod2, e2)"
    "inject p secretName pod2 = (pod3, e3)" by fastforce
  have "pod3 = pod2 \<and> e3 = e2"
  proof (cases "needs_exec pod1")
    case False
    with inject_step [OF runs(1)] inject_step [OF runs(2)] have "pod2 = pod1 \<and> e2 = None" by auto
    with runs(2,3) show ?thesis by simp
  next
    case True
    with inject_step [OF runs(1)] inject_step [OF runs(2)]
    have "e2 = None \<and> \<not> needs_proxy pod2 \<and> \<not> needs_exec pod2 \<or> pod2 = pod1" by auto
    then show ?thesis using inject_step [OF runs(3)] runs(2,3) by auto
  qed
  ultimately show ?thesis using runs by (simp add: Let_def)
qed

lemma convert_labels_run:
  assumes "convert_labels class claimName pod = (pod', msgs)"
  shows "pod_Annotations pod' = pod_Annotations pod" and "pod_Name pod' = pod_Name pod"
    and "msgs = [] \<Longrightarrow> pod' = pod"
    and "msgs \<noteq> [] \<Longrightarrow> map_get (pod_Labels pod') LabelClaim = claimName \<and> map_get (pod_Labels pod') LabelClass = class \<and>
      (map_get (pod_Labels pod') LabelCheckExec = ''enabled'' \<or> map_get (pod_Labels pod') LabelCheckProxy = ''enabled'')"
  using assms by (auto simp: convert_labels_def set_label_def Let_def split: if_splits)

lemma map_get_None [simp]: "map_get (m(k := None)) k' = (if k' = k then [] else map_get m k')"
  by (simp add: map_get_def)

text \<open>
  C28: the conversion of a pod happens once and never half. A pod that was converted bears none of the
  deprecated annotations, and a second conversion leaves it alone without a call; it is labelled with a
  sidecar, its claim and its class together or its labels are those it had, which happens exactly when
  neither the path of a secret nor the pair of a secret and a configuration was annotated.
\<close>

theorem conversion_settles:
  assumes "Handle E class pod h = (Ret (Patched pod'), h')"
  shows "(\<exists>msg. Handle E' class pod' h2 = (Ret (Allowed msg), h2)) \<and>
    map_get (pod_Annotations pod') DeprecatedAnnotationRemoteDBDSN = [] \<and>
    map_get (pod_Annotations pod') DeprecatedAnnotationDBSecretPath = [] \<and>
    map_get (pod_Annotations pod') DeprecatedAnnotationDSNExecConfig = [] \<and>
    (pod_Labels pod' = pod_Labels pod \<and>
       map_get (pod_Annotations pod) DeprecatedAnnotationDBSecretPath = [] \<and>
       (map_get (pod_Annotations pod) DeprecatedAnnotationRemoteDBDSN = [] \<or>
        map_get (pod_Annotations pod) DeprecatedAnnotationDSNExecConfig = []) \<or>
     map_get (pod_Labels pod') LabelClaim \<noteq> [] \<and> map_get (pod_Labels pod') LabelClass = class \<and>
       (map_get (pod_Labels pod') LabelCheckExec = ''enabled'' \<or> map_get (pod_Labels pod') LabelCheckProxy = ''enabled''))"
proof -
  obtain g h1 where run: "getClaimName E (pod_Namespace pod) (deprecated_secret pod) h = (g, h1)" by fastforce
  with assms obtain claimName where name: "getClaimName E (pod_Namespace pod) (deprecated_secret pod) h = (Ret (Inr claimName), h1)"
    by (cases g) (auto simp: Handle_def convertPod_def Let_def run_bnd run_ret split: if_splits sum.splits)
  obtain pod1 msgs where labels: "convert_labels class claimName pod = (pod1, msgs)" by fastforce
  have pod': "pod' = drop_deprecated pod1 \<and> msgs = [] \<or> (\<exists>txt. pod' = annotate DeprecatedAnnotationMessages txt (drop_deprecated pod1)) \<and> msgs \<noteq> []"
    using assms name labels by (auto simp: Handle_def convertPod_def Let_def run_bnd run_ret split: if_splits)
  have "claimName \<noteq> []"
    using name by (auto simp: getClaimName_def getSecret_def prog_simps Let_def split: sum.splits if_splits)
  moreover have gone: "map_get (pod_Annotations pod') DeprecatedAnnotationRemoteDBDSN = []"
    "map_get (pod_Annotations pod') DeprecatedAnnotationDBSecretPath = []"
    "map_get (pod_Annotations pod') DeprecatedAnnotationDSNExecConfig = []"
    using pod' by (auto simp: drop_deprecated_def)
  moreover have "pod_Labels pod' = pod_Labels pod1" using pod' by (auto simp: drop_deprecated_def)
  moreover have "\<exists>msg. Handle E' class pod' h2 = (Ret (Allowed msg), h2)"
    using gone by (auto simp: Handle_def Let_def run_ret)
  moreover have "msgs = [] \<longleftrightarrow> map_get (pod_Annotations pod) DeprecatedAnnotationDBSecretPath = [] \<and>
       (map_get (pod_Annotations pod) DeprecatedAnnotationRemoteDBDSN = [] \<or>
        map_get (pod_Annotations pod) DeprecatedAnnotationDSNExecConfig = [])"
    using labels by (auto simp: convert_labels_def Let_def split: if_splits)
  ultimately show ?thesis using convert_labels_run(3,4) [OF labels] by (cases "msgs = []") auto
qed

text \<open>A pod with a deprecated annotation, and a secret that names its owner.\<close>

definition old_pod :: Pod where
  "old_pod = \<lparr>pod_Namespace = ''shop'', pod_Name = ''web'', pod_Labels = Map.empty,
     pod_Annotations = [DeprecatedAnnotationDBSecretPath \<mapsto> ''orders-secret/dsn.txt''], pod_Volumes = [], pod_Containers = []\<rparr>"

definition owned_secret :: Secret where
  "owned_secret = \<lparr>sec_Namespace = ''shop'', sec_Name = ''orders-secret'', sec_Labels = [],
     sec_Owner = [\<lparr>or_Kind = ''DatabaseClaim'', or_Name = ''orders'', or_UID = ''u''\<rparr>], sec_ResourceVersion = [], sec_Data = None\<rparr>"

theorem conversion_settles_witness:
  "\<exists>pod' h' msg. Handle (sample_env\<lparr>e_k8s := sample_k8s\<lparr>e_GetSecret := \<lambda>h ns n. Inr owned_secret\<rparr>\<rparr>) ''default'' old_pod [] =
       (Ret (Patched pod'), h') \<and> Handle sample_env ''default'' pod' [] = (Ret (Allowed msg), [])"
proof -
  let ?E = "sample_env\<lparr>e_k8s := sample_k8s\<lparr>e_GetSecret := \<lambda>h ns n. Inr owned_secret\<rparr>\<rparr>"
  have get: "\<exists>h'. getClaimName ?E ns n h = (Ret (Inr ''orders''), h')" for ns n h
    by (simp add: getClaimName_def getSecret_def prog_simps owned_secret_def claim_owner_def)
  have ann: "map_get (pod_Annotations old_pod) DeprecatedAnnotationDBSecretPath \<noteq> []"
    "map_get (pod_Labels old_pod) k = []" for k by (simp_all add: old_pod_def map_get_def)
  obtain h1 where h1: "getClaimName ?E (pod_Namespace old_pod) (deprecated_secret old_pod) [] = (Ret (Inr ''orders''), h1)"
    using get by blast
  obtain pod1 msgs where "convert_labels ''default'' ''orders'' old_pod = (pod1, msgs)" by fastforce
  with h1 ann obtain pod' where run: "Handle ?E ''default'' old_pod [] = (Ret (Patched pod'), h1)"
    by (auto simp: Handle_def convertPod_def Let_def run_bnd run_ret)
  from conversion_settles [OF run, of sample_env "[]"] run show ?thesis by blast
qed

end
