(* ===== verification/Sidecar.thy ===== *)
theory Sidecar
  imports Dbproxy Webhooks Secrets
begin

text \<open>
  From the controller to pgbouncer: the webhook injects the proxy into a pod (\<^verbatim>\<open>internal/webhook/dbproxy.go\<close>),
  the proxy reads its configuration from the environment of its container
  (\<^verbatim>\<open>dbproxy/cmd/dbproxy/main.go\<close>), and the kubelet keeps the keys of the mounted secret as files. The
  name of the file is agreed between three places that never call each other: the key that
  \<^verbatim>\<open>createOrUpdateSecret\<close> writes, the mount of the volume and the variable that the webhook sets.
\<close>

section \<open>The proxy's command\<close>

definition Getenv :: "Container \<Rightarrow> string \<Rightarrow> string" where
  "Getenv K k = (case map_of (c_Env K) k of None \<Rightarrow> [] | Some v \<Rightarrow> v)"

text \<open>A flag of the command line has its default unless it is set.\<close>

definition StringVar :: "(string \<rightharpoonup> string) \<Rightarrow> string \<Rightarrow> string \<Rightarrow> string" where
  "StringVar flags name dflt = (case flags name of None \<Rightarrow> dflt | Some v \<Rightarrow> v)"

definition proxy_main_config :: "(string \<Rightarrow> string) \<Rightarrow> (string \<rightharpoonup> string) \<Rightarrow> ProxyConfig" where
  "proxy_main_config getenv flags =
     \<lparr>px_StartUpTime = 0,
      px_DBCredentialPath = StringVar flags ''dbc'' (getenv ''DBPROXY_CREDENTIAL''),
      px_PGCredentialPath = StringVar flags ''pbc'' ''./pgbouncer.ini'',
      px_PGBStartScript = StringVar flags ''pgbouncer-start-script'' ''/var/run/dbproxy/start-pgbouncer.sh'',
      px_PGBReloadScript = StringVar flags ''pgbouncer-reload-script'' ''/var/run/dbproxy/reload-pgbouncer.sh'',
      px_LocalAddr = StringVar flags ''addr'' ''0.0.0.0:5432''\<rparr>"

section \<open>Mounted secrets\<close>

text \<open>Where a container sees which secrets.\<close>

definition secret_mounts :: "Pod \<Rightarrow> Container \<Rightarrow> (string \<times> string) list" where
  "secret_mounts pod K = concat (map (\<lambda>m. concat (map (\<lambda>v.
     if vol_Name v = vm_Name m then (case vol_Secret v of None \<Rightarrow> [] | Some n \<Rightarrow> [(vm_MountPath m, n)]) else [])
       (pod_Volumes pod))) (c_VolumeMounts K))"

text \<open>What Kubernetes documents of a volume with a secret: below the mount every key is a file with the
  value as its content.\<close>

definition projects_keys :: "(string \<Rightarrow> Secret \<Rightarrow> files \<Rightarrow> files) \<Rightarrow> bool" where
  "projects_keys kubelet \<longleftrightarrow> (\<forall>m s fs d k v. sec_Data s = Some d \<and> d k = Some v \<longrightarrow> kubelet m s fs (m @ ''/'' @ k) = Some v)"

lemma projects_keys_file:
  assumes "projects_keys kubelet" and "data_get s k = v" and "v \<noteq> []"
  shows "kubelet m s fs (m @ ''/'' @ k) = Some v"
  using assms unfolding projects_keys_def data_get_def by (auto split: option.splits)

section \<open>The injected proxy\<close>

text \<open>A pod asks for the proxy of a claim: the labels name the claim and this controller's class, there
  is no role claim of that name, and the pod has no container and no volume of the sidecar's names.\<close>

definition asks_for_proxy :: "env \<Rightarrow> podAnnotator \<Rightarrow> Pod \<Rightarrow> history \<Rightarrow> DatabaseClaim \<Rightarrow> bool" where
  "asks_for_proxy W a pod hw c \<longleftrightarrow> needs_proxy pod \<and>
     map_get (pod_Labels pod) LabelClaim \<noteq> [] \<and> map_get (pod_Labels pod) LabelClass = pa_class a \<and>
     ''dbproxy'' \<notin> c_Name ` set (pod_Containers pod) \<and> ''dbproxydsn'' \<notin> vol_Name ` set (pod_Volumes pod) \<and>
     fst (getClaim W (pod_Namespace pod) (map_get (pod_Labels pod) LabelClaim) hw) = Ret (Inr c) \<and>
     dc_Name c \<noteq> [] \<and> spec_SecretName (dc_Spec c) \<noteq> [] \<and>
     (\<forall>h. isl (e_GetRoleClaim (e_k8s W) h (pod_Namespace pod) (map_get (pod_Labels pod) LabelClaim)))"

lemma Default_injects_proxy:
  assumes "asks_for_proxy W a pod hw c"
  shows "fst (Default W a pod hw) = Ret (mutatePodProxy pod (spec_SecretName (dc_Spec c)) (pa_dbProxyImg a) (pa_enableReady a) (pa_enableLiveness a))"
proof -
  from assms obtain e where "e_GetRoleClaim (e_k8s W) (K8s (EvGetClaim (pod_Namespace pod) (map_get (pod_Labels pod) LabelClaim) (Inr c)) # hw)
      (pod_Namespace pod) (map_get (pod_Labels pod) LabelClaim) = Inl e"
    unfolding asks_for_proxy_def by (meson isl_def)
  with assms show ?thesis
    by (simp add: asks_for_proxy_def Default_def k8s_calls prog_simps found_def getSecretNameClass_def inject_needs Let_def)
qed

lemma injected_proxy:
  assumes "asks_for_proxy W a pod hw c" and "fst (Default W a pod hw) = Ret (pod', None)"
    and "K \<in> set (pod_Containers pod')" and "c_Name K = ''dbproxy''"
  shows "secret_mounts pod' K = [(''/dbproxy'', spec_SecretName (dc_Spec c))]"
    and "Getenv K ''DBPROXY_CREDENTIAL'' = ''/dbproxy'' @ ''/'' @ DSNURIKey"
proof -
  let ?K = "proxy_container (pa_dbProxyImg a) (pa_enableReady a) (pa_enableLiveness a)"
  have new: "''dbproxy'' \<notin> c_Name ` set (pod_Containers pod)" "''dbproxydsn'' \<notin> vol_Name ` set (pod_Volumes pod)"
    using assms(1) by (simp_all add: asks_for_proxy_def)
  from assms(2) Default_injects_proxy [OF assms(1)] new
  have parts: "pod_Containers pod' = pod_Containers pod @ [?K]"
    "pod_Volumes pod' = pod_Volumes pod @ [\<lparr>vol_Name = ''dbproxydsn'', vol_Secret = Some (spec_SecretName (dc_Spec c))\<rparr>]"
    by (auto simp: mutatePodProxy_def annotate_def add_container_def add_secret_volume_def)
  from assms(3,4) new(1) have K: "K = ?K" by (auto simp: parts image_iff)
  have "concat (map (\<lambda>v. if vol_Name v = ''dbproxydsn'' then f v else []) (pod_Volumes pod)) = []" for f :: "Volume \<Rightarrow> (string \<times> string) list"
    using new(2) by (auto simp: image_iff)
  then show "secret_mounts pod' K = [(''/dbproxy'', spec_SecretName (dc_Spec c))]"
    by (simp add: secret_mounts_def parts K proxy_container_def)
  show "Getenv K ''DBPROXY_CREDENTIAL'' = ''/dbproxy'' @ ''/'' @ DSNURIKey"
    by (simp add: K proxy_container_def Getenv_def)
qed

lemma proxy_main_paths:
  assumes "proxy_New sees (proxy_main_config (Getenv K) Map.empty) = Some (Inr cfg)"
    and "Getenv K ''DBPROXY_CREDENTIAL'' = ''/dbproxy'' @ ''/'' @ DSNURIKey"
  shows "px_DBCredentialPath cfg = ''/dbproxy'' @ ''/'' @ DSNURIKey"
    and "distinct [px_PGCredentialPath cfg, Join2 (Dir (px_PGCredentialPath cfg)) ''userlist.txt'', px_DBCredentialPath cfg]"
proof -
  have cfg: "px_DBCredentialPath cfg = ''/dbproxy'' @ ''/'' @ DSNURIKey" "px_PGCredentialPath cfg = ''./pgbouncer.ini''"
    using assms by (auto simp: proxy_New_def proxy_main_config_def StringVar_def Let_def split: option.splits)
  then show "px_DBCredentialPath cfg = ''/dbproxy'' @ ''/'' @ DSNURIKey" by simp
  have "distinct [''./pgbouncer.ini'', Join2 (Dir ''./pgbouncer.ini'') ''userlist.txt'', ''/dbproxy'' @ ''/'' @ DSNURIKey]"
    by code_simp
  then show "distinct [px_PGCredentialPath cfg, Join2 (Dir (px_PGCredentialPath cfg)) ''userlist.txt'', px_DBCredentialPath cfg]"
    by (simp only: cfg)
qed

text \<open>
  C8: a published connection reaches pgbouncer. When the webhook has injected the proxy into a pod of a
  claim, the proxy runs with the configuration of its container, and the controller then publishes a
  connection with another user or another password in the secret of the claim, then the one secret
  that the sidecar mounts is that secret, and the next event of the mounted file, if no operation on the
  watch and the files fails in its turn, makes pgbouncer's configuration and user list those of the
  published connection and runs the reload script with them.
\<close>

theorem published_connection_reaches_pgbouncer:
  assumes cluster: "reads_own_writes E" "projects_keys kubelet"
    and injected: "asks_for_proxy W a pod hw c" "fst (Default W a pod hw) = Ret (pod', None)"
      "K \<in> set (pod_Containers pod')" "c_Name K = ''dbproxy''"
    and runs: "proxy_New sees (proxy_main_config (Getenv K) Map.empty) = Some (Inr cfg)" "proxying cfg px ds"
      "pgb_hash (px_cfg px) = config_sum (px_cfg px)"
    and published: "createOrUpdateSecret E c ci cloud h = (Ret None, h')" "spec_DSNName (dc_Spec c) \<in> {[], DSNKey}"
    and conn: "uri_safe ci" "Atoi (ci_Port ci) = Some p"
      "(ci_Username ci, ci_Password ci) \<noteq> (pgb_UserName (px_cfg px), pgb_Password (px_cfg px))"
    and turn: "te_remove T = None \<or> te_remove T = Some NonExistentWatch" "te_add T = None" "te_faults T = no_faults"
  shows "\<exists>m s px'. secret_mounts pod' K = [(m, spec_SecretName (dc_Spec c))] \<and>
    last_secret (dc_Namespace c) (spec_SecretName (dc_Spec c)) h' = Some s \<and>
    proxy_turn (FileEvent T) (px\<lparr>px_files := kubelet m s (px_files px)\<rparr>) = (GoesOn, px') \<and>
    px_files px' (pgb_configPath (px_cfg px)) = Some (templateText (config_for (px_cfg px) ci p)) \<and>
    px_files px' (pgb_authPath (px_cfg px)) = Some (userBS (config_for (px_cfg px) ci p)) \<and>
    px_ran px' = \<lparr>run_Path = px_PGBReloadScript cfg, run_Config = Some (templateText (config_for (px_cfg px) ci p)),
      run_Users = Some (userBS (config_for (px_cfg px) ci p)), run_Error = pgbouncer_Reload (te_reload T)\<rparr> # px_ran px"
proof -
  note side = injected_proxy [OF injected]
  note paths = proxy_main_paths [OF runs(1) side(2)]
  from last_secret_written [OF cluster(1) published] obtain s
    where s: "last_secret (dc_Namespace c) (spec_SecretName (dc_Spec c)) h' = Some s" and uri: "data_get s DSNURIKey = Uri (Some ci)"
    by blast
  have "kubelet ''/dbproxy'' s (px_files px) (px_DBCredentialPath cfg) = Some (Uri (Some ci))"
    unfolding paths(1) by (rule projects_keys_file [OF cluster(2) uri]) (rule Uri_nonempty)
  from rotation_taken_up [where fs = "kubelet ''/dbproxy'' s (px_files px)", OF runs(2) paths(2) runs(3) conn turn this] side(1) s show ?thesis by blast
qed

section \<open>Witness\<close>

text \<open>A kubelet that keeps the files outside the mount.\<close>

definition sample_kubelet :: "string \<Rightarrow> Secret \<Rightarrow> files \<Rightarrow> files" where
  "sample_kubelet m s fs p = (if take (length m + 1) p = m @ ''/'' then (case sec_Data s of None \<Rightarrow> None | Some d \<Rightarrow> d (drop (length m + 1) p)) else fs p)"

lemma sample_kubelet_projects: "projects_keys sample_kubelet"
  by (simp add: projects_keys_def sample_kubelet_def)

definition app_pod :: Pod where
  "app_pod = \<lparr>pod_Namespace = ''shop'', pod_Name = ''app'', pod_Labels = [LabelClaim \<mapsto> ''orders'', LabelClass \<mapsto> ''default'',
     LabelCheckProxy \<mapsto> ''enabled''], pod_Annotations = Map.empty, pod_Volumes = [], pod_Containers = []\<rparr>"

definition app_annotator :: podAnnotator where
  "app_annotator = \<lparr>pa_class = ''default'', pa_namespace = ''db'', pa_dbProxyImg = ''dbproxy:1'', pa_dsnExecImg = ''dsnexec:1'',
     pa_enableReady = True, pa_enableLiveness = True\<rparr>"

definition app_env :: env where
  "app_env = sample_env\<lparr>e_k8s := sample_k8s\<lparr>e_GetClaim := \<lambda>h ns n. Inr sample_claim,
     e_GetRoleClaim := \<lambda>h ns n. Inl (NotFound n)\<rparr>\<rparr>"

lemma app_pod_asks: "asks_for_proxy app_env app_annotator app_pod [] sample_claim"
  by (simp add: asks_for_proxy_def needs_proxy_def map_get_def app_pod_def app_annotator_def app_env_def k8s_calls prog_simps
      sample_claim_def LabelClaim_def LabelClass_def LabelCheckProxy_def)

lemma app_pod_injected:
  obtains pod' K where "fst (Default app_env app_annotator app_pod []) = Ret (pod', None)"
    and "K \<in> set (pod_Containers pod')" and "c_Name K = ''dbproxy''"
    and "Getenv K ''DBPROXY_CREDENTIAL'' = ''/dbproxy'' @ ''/'' @ DSNURIKey"
proof -
  let ?K = "proxy_container (pa_dbProxyImg app_annotator) (pa_enableReady app_annotator) (pa_enableLiveness app_annotator)"
  let ?pod = "fst (mutatePodProxy app_pod (spec_SecretName (dc_Spec sample_claim)) (pa_dbProxyImg app_annotator)
    (pa_enableReady app_annotator) (pa_enableLiveness app_annotator))"
  have run: "fst (Default app_env app_annotator app_pod []) = Ret (?pod, None)"
    by (simp add: Default_injects_proxy [OF app_pod_asks] mutatePodProxy_def)
  have K: "?K \<in> set (pod_Containers ?pod)"
    by (simp add: mutatePodProxy_def annotate_def add_container_def add_secret_volume_def app_pod_def)
  show thesis by (rule that [OF run K _ injected_proxy(2) [OF app_pod_asks run K]]) simp_all
qed

lemma app_proxy_New:
  assumes "Getenv K ''DBPROXY_CREDENTIAL'' = ''/dbproxy'' @ ''/'' @ DSNURIKey"
  shows "proxy_New (\<lambda>p i. Regular) (proxy_main_config (Getenv K) Map.empty) = Some (Inr sample_proxy)"
  using waitForFile_returns [of "\<lambda>i. Regular" 0 "''/dbproxy'' @ ''/'' @ DSNURIKey"] assms
  by (simp add: proxy_New_def waitForFiles_def decisive_def proxy_main_config_def StringVar_def sample_proxy_def Let_def)

theorem published_connection_reaches_pgbouncer_witness:
  "\<exists>h' px px' s c. createOrUpdateSecret store_env sample_claim (Pgbouncer.sample_conn ''app_b'') ''gcp'' [] = (Ret None, h') \<and>
     last_secret ''shop'' ''orders-secret'' h' = Some s \<and>
     proxying sample_proxy px {Uri (Some (Pgbouncer.sample_conn ''app_a''))} \<and>
     proxy_turn (FileEvent sample_turn) (px\<lparr>px_files := sample_kubelet ''/dbproxy'' s (px_files px)\<rparr>) = (GoesOn, px') \<and>
     hd (px_ran px') = \<lparr>run_Path = px_PGBReloadScript sample_proxy, run_Config = Some (templateText c),
       run_Users = Some (userBS c), run_Error = None\<rparr> \<and> pgb_UserName c = ''app_b''"
proof -
  obtain pod' K where side: "fst (Default app_env app_annotator app_pod []) = Ret (pod', None)"
    "K \<in> set (pod_Containers pod')" "c_Name K = ''dbproxy''" and env: "Getenv K ''DBPROXY_CREDENTIAL'' = ''/dbproxy'' @ ''/'' @ DSNURIKey"
    by (rule app_pod_injected)
  obtain px where run: "proxying sample_proxy px {Uri (Some (Pgbouncer.sample_conn ''app_a''))}"
    and px: "pgb_hash (px_cfg px) = config_sum (px_cfg px)" "pgb_UserName (px_cfg px) = ''app_a''"
    by (rule sample_proxying)
  obtain h' where pub: "createOrUpdateSecret store_env sample_claim (Pgbouncer.sample_conn ''app_b'') ''gcp'' [] = (Ret None, h')"
    using sample_secret_written by blast
  have dsn: "spec_DSNName (dc_Spec sample_claim) \<in> {[], DSNKey}" by (simp add: sample_claim_def)
  have rot: "(ci_Username (Pgbouncer.sample_conn ''app_b''), ci_Password (Pgbouncer.sample_conn ''app_b'')) \<noteq> (pgb_UserName (px_cfg px), pgb_Password (px_cfg px))"
    by (simp add: px(2) Pgbouncer.sample_conn_def)
  have user: "pgb_UserName (config_for (px_cfg px) (Pgbouncer.sample_conn ''app_b'') 5432) = ''app_b''"
    by (simp add: config_for_def Pgbouncer.sample_conn_def)
  from published_connection_reaches_pgbouncer [OF store_env_reads sample_kubelet_projects app_pod_asks side app_proxy_New [OF env]
      run px(1) pub dsn sample_conn_safe(2,3) rot, of sample_turn] injected_proxy(1) [OF app_pod_asks side]
  obtain s px' where "last_secret (dc_Namespace sample_claim) (spec_SecretName (dc_Spec sample_claim)) h' = Some s"
    "proxy_turn (FileEvent sample_turn) (px\<lparr>px_files := sample_kubelet ''/dbproxy'' s (px_files px)\<rparr>) = (GoesOn, px')"
    "px_ran px' = \<lparr>run_Path = px_PGBReloadScript sample_proxy,
       run_Config = Some (templateText (config_for (px_cfg px) (Pgbouncer.sample_conn ''app_b'') 5432)),
       run_Users = Some (userBS (config_for (px_cfg px) (Pgbouncer.sample_conn ''app_b'') 5432)), run_Error = None\<rparr> # px_ran px"
    by (auto simp: sample_turn_def)
  with pub run user show ?thesis
    by (intro exI [of _ h'] exI [of _ px] exI [of _ px'] exI [of _ s]
        exI [of _ "config_for (px_cfg px) (Pgbouncer.sample_conn ''app_b'') 5432"]) (auto simp: sample_claim_def)
qed

end
