(* ===== verification/Proxymain.thy ===== *)
theory Proxymain
  imports Sidecar "HOL-Library.Sublist"
begin

text \<open>
  The proxy's process (\<^verbatim>\<open>dbproxy/cmd/dbproxy/main.go\<close>): \<^verbatim>\<open>main\<close> runs the proxy, and a second thread, started
  by \<^verbatim>\<open>catch\<close>, waits for a signal and then kills pgbouncer and prints its log. The process ends when either of
  them ends it. The two threads are functions of one step each; the inductive relation \<open>proc_step\<close>
  interleaves them.
\<close>

section \<open>The two threads\<close>

datatype main_state = Serving proxy | Stopped

datatype signal_state = Waiting | Cancelled | Kill int | ShowLog | HandlerDone

record proc =
  pr_main :: main_state
  pr_handler :: signal_state
  pr_commands :: "string list"
  pr_exit :: "int option"

text \<open>The environment of the handler: the file with pgbouncer's process id. What the two commands answer is only
  logged.\<close>

definition kill_command :: "int \<Rightarrow> string" where
  "kill_command pid = ''kill -s 9 '' @ Itoa pid"

definition log_command :: string where
  "log_command = ''cat pgbouncer.log''"

definition catch_step :: "goerror + string \<Rightarrow> proc \<Rightarrow> proc" where
  "catch_step pid_file p = (case pr_handler p of
     Waiting \<Rightarrow> p\<lparr>pr_handler := Cancelled\<rparr>
   | Cancelled \<Rightarrow> (case pid_file of
       Inl _ \<Rightarrow> p\<lparr>pr_exit := Some 1\<rparr>
     | Inr bs \<Rightarrow> (case Atoi (TrimSpace bs) of
         None \<Rightarrow> p\<lparr>pr_exit := Some 1\<rparr>
       | Some pid \<Rightarrow> p\<lparr>pr_handler := Kill pid\<rparr>))
   | Kill pid \<Rightarrow> p\<lparr>pr_handler := ShowLog, pr_commands := pr_commands p @ [kill_command pid]\<rparr>
   | ShowLog \<Rightarrow> p\<lparr>pr_handler := HandlerDone, pr_commands := pr_commands p @ [log_command], pr_exit := Some 0\<rparr>
   | HandlerDone \<Rightarrow> p)"

definition main_step :: "watched \<Rightarrow> proc \<Rightarrow> proc" where
  "main_step w p = (case pr_main p of
     Serving px \<Rightarrow> (case proxy_turn w px of
       (GoesOn, px') \<Rightarrow> p\<lparr>pr_main := Serving px'\<rparr>
     | (Ends, px') \<Rightarrow> p\<lparr>pr_main := Stopped\<rparr>
     | (ExitsProcess, px') \<Rightarrow> p\<lparr>pr_exit := Some 1\<rparr>)
   | Stopped \<Rightarrow> p\<lparr>pr_exit := Some 0\<rparr>)"

text \<open>\<^verbatim>\<open>main\<close> up to the loop. \<open>None\<close>: the wait for the file of the connection string does not end. That the proxy does not
  start is logged, and \<^verbatim>\<open>main\<close> returns.\<close>

definition ended :: "int \<Rightarrow> proc" where
  "ended n = \<lparr>pr_main = Stopped, pr_handler = Waiting, pr_commands = [], pr_exit = Some n\<rparr>"

definition serving :: "proxy \<Rightarrow> proc" where
  "serving px = \<lparr>pr_main = Serving px, pr_handler = Waiting, pr_commands = [], pr_exit = None\<rparr>"

definition proxy_main ::
  "(string \<Rightarrow> nat \<Rightarrow> probe) \<Rightarrow> start_env \<Rightarrow> (string \<Rightarrow> string) \<Rightarrow> (string \<rightharpoonup> string) \<Rightarrow> files \<Rightarrow> proc option" where
  "proxy_main sees E getenv flags fs = (case proxy_New sees (proxy_main_config getenv flags) of
     None \<Rightarrow> None
   | Some (Inl _) \<Rightarrow> Some (ended 1)
   | Some (Inr cfg) \<Rightarrow> Some (case proxy_Start E cfg fs of
       StartError _ \<Rightarrow> ended 0
     | StartExit \<Rightarrow> ended 1
     | Running px \<Rightarrow> serving px))"

inductive proc_step :: "goerror + string \<Rightarrow> proc \<Rightarrow> proc \<Rightarrow> bool" for pid_file where
  handler: "pr_exit p = None \<Longrightarrow> proc_step pid_file p (catch_step pid_file p)"
| main: "pr_exit p = None \<Longrightarrow> w = ContextDone \<longrightarrow> pr_handler p \<noteq> Waiting \<Longrightarrow> proc_step pid_file p (main_step w p)"

inductive_cases proc_stepE: "proc_step pid_file p q"

abbreviation proc_runs :: "goerror + string \<Rightarrow> proc \<Rightarrow> proc \<Rightarrow> bool" where
  "proc_runs pid_file \<equiv> (proc_step pid_file)\<^sup>*\<^sup>*"

section \<open>Properties\<close>

text \<open>How far the handler has come, by the commands it has run: it only ever kills the process that the
  file names, and prints the log after that.\<close>

definition handled :: "goerror + string \<Rightarrow> proc \<Rightarrow> bool" where
  "handled pid_file p \<longleftrightarrow> (case pr_handler p of
     Waiting \<Rightarrow> pr_commands p = []
   | Cancelled \<Rightarrow> pr_commands p = []
   | Kill pid \<Rightarrow> pr_commands p = [] \<and> (\<exists>bs. pid_file = Inr bs \<and> Atoi (TrimSpace bs) = Some pid)
   | ShowLog \<Rightarrow> \<exists>bs pid. pid_file = Inr bs \<and> Atoi (TrimSpace bs) = Some pid \<and> pr_commands p = [kill_command pid]
   | HandlerDone \<Rightarrow> \<exists>bs pid. pid_file = Inr bs \<and> Atoi (TrimSpace bs) = Some pid \<and>
       pr_commands p = [kill_command pid, log_command] \<and> pr_exit p = Some 0)"

lemma handled_step: "proc_step pid_file p q \<Longrightarrow> handled pid_file p \<Longrightarrow> handled pid_file q"
  by (erule proc_stepE)
    (auto simp: handled_def catch_step_def main_step_def split: signal_state.splits main_state.splits sum.splits option.splits
       prod.splits turn_result.splits)

lemma handled_runs:
  assumes "proc_runs pid_file (serving px) p"
  shows "handled pid_file p"
  using assms
proof (induction rule: rtranclp_induct)
  case base
  then show ?case by (simp add: handled_def serving_def)
qed (rule handled_step)

lemma catch_run:
  assumes "Atoi (TrimSpace bs) = Some pid"
  shows "proc_runs (Inr bs) (serving px)
    \<lparr>pr_main = Serving px, pr_handler = HandlerDone, pr_commands = [kill_command pid, log_command], pr_exit = Some 0\<rparr>"
proof -
  let ?f = "catch_step (Inr bs)"
  have step: "proc_runs (Inr bs) (serving px) (?f q)" if "proc_runs (Inr bs) (serving px) q" "pr_exit q = None" for q
    using that by (auto intro: rtranclp.rtrancl_into_rtrancl handler)
  have "proc_runs (Inr bs) (serving px) (?f (?f (?f (?f (serving px)))))"
    by (intro step) (use assms in \<open>simp_all add: catch_step_def serving_def\<close>)
  with assms show ?thesis by (simp add: catch_step_def serving_def)
qed

lemma race_run:
  "proc_runs pid_file (serving px) \<lparr>pr_main = Stopped, pr_handler = Cancelled, pr_commands = [], pr_exit = Some 0\<rparr>"
proof -
  have step: "proc_runs pid_file (serving px) (main_step ContextDone q)"
    if "proc_runs pid_file (serving px) q" "pr_exit q = None" "pr_handler q \<noteq> Waiting" for q
    using that by (auto intro: rtranclp.rtrancl_into_rtrancl main)
  have "proc_runs pid_file (serving px) (catch_step pid_file (serving px))"
    by (rule r_into_rtranclp, rule handler) (simp add: serving_def)
  then have "proc_runs pid_file (serving px) (main_step ContextDone (main_step ContextDone (catch_step pid_file (serving px))))"
    by (intro step) (simp_all add: catch_step_def main_step_def serving_def proxy_turn_def)
  then show ?thesis by (simp add: catch_step_def main_step_def serving_def proxy_turn_def)
qed

text \<open>
  C38: a signal may leave pgbouncer running. The handler cancels the context before it kills pgbouncer, and
  the cancelled loop makes \<^verbatim>\<open>main\<close> return, which ends the process. However the threads interleave, the handler
  runs only the kill of the process named in the file and then the printing of the log; the
  process can end with status 0 after both, and it can end with status 0 after the signal without
  having run either.
\<close>

theorem shutdown_race:
  assumes "Atoi (TrimSpace bs) = Some pid"
  shows "(\<forall>p. proc_runs (Inr bs) (serving px) p \<longrightarrow> prefix (pr_commands p) [kill_command pid, log_command]) \<and>
    (\<exists>p. proc_runs (Inr bs) (serving px) p \<and> pr_exit p = Some 0 \<and> pr_commands p = [kill_command pid, log_command]) \<and>
    (\<exists>p. proc_runs (Inr bs) (serving px) p \<and> pr_exit p = Some 0 \<and> pr_handler p \<noteq> Waiting \<and> pr_commands p = [])"
proof (intro conjI allI impI)
  fix p
  assume "proc_runs (Inr bs) (serving px) p"
  from handled_runs [OF this] assms show "prefix (pr_commands p) [kill_command pid, log_command]"
    by (auto simp: handled_def split: signal_state.splits)
next
  show "\<exists>p. proc_runs (Inr bs) (serving px) p \<and> pr_exit p = Some 0 \<and> pr_commands p = [kill_command pid, log_command]"
    by (intro exI conjI) (rule catch_run [OF assms], simp_all)
  show "\<exists>p. proc_runs (Inr bs) (serving px) p \<and> pr_exit p = Some 0 \<and> pr_handler p \<noteq> Waiting \<and> pr_commands p = []"
    by (intro exI conjI) (rule race_run, simp_all)
qed

theorem shutdown_race_witness:
  "\<exists>px ds p. proxying sample_proxy px ds \<and> proc_runs (Inr ''17'') (serving px) p \<and> pr_exit p = Some 0 \<and>
    pr_handler p \<noteq> Waiting \<and> pr_commands p = []"
proof -
  obtain px ds where "proxying sample_proxy px ds" by (rule sample_proxying)
  moreover have "Atoi (TrimSpace ''17'') = Some 17" by code_simp
  from shutdown_race [OF this, of px] obtain p where "proc_runs (Inr ''17'') (serving px) p" "pr_exit p = Some 0"
    "pr_handler p \<noteq> Waiting" "pr_commands p = []" by blast
  ultimately show ?thesis by blast
qed

text \<open>A proxy that cannot be started ends its process with status 0.\<close>

lemma failed_start_status:
  assumes "proxy_New sees (proxy_main_config getenv flags) = Some (Inr cfg)" and "proxy_Start E cfg fs = StartError e"
  shows "proxy_main sees E getenv flags fs = Some (ended 0)"
  using assms by (simp add: proxy_main_def)

end
