(* ===== verification/Progress.thy ===== *)
theory Progress
  imports Migration
begin

text \<open>
  A migration comes to its end where nothing stands in its way. \<open>healthy\<close> says what the two
  databases answer while nothing is wrong with them, \<open>obliging\<close> what the cluster does; under both,
  one run of the loop takes a migration from any state before the wait up to the wait, and one run
  takes it from there to the switch.
\<close>

section \<open>Databases and a cluster that serve\<close>

text \<open>The catalogue of subscriptions that the statements of a history leave.\<close>

fun subscribed :: "string \<Rightarrow> string \<Rightarrow> history \<Rightarrow> bool" where
  "subscribed db sub [] = False"
| "subscribed db sub (Sql (EvExec d (CREATE_SUBSCRIPTION s conn pub) None) # h) =
     (if d = db \<and> s = sub then True else subscribed db sub h)"
| "subscribed db sub (Sql (EvExec d (DROP_SUBSCRIPTION s) None) # h) =
     (if d = db \<and> s = sub then False else subscribed db sub h)"
| "subscribed db sub (e # h) = subscribed db sub h"

definition healthy :: "env \<Rightarrow> Config \<Rightarrow> bool" where
  "healthy E cfg \<longleftrightarrow>
     (\<forall>h db. e_Open (e_sql E) h db = None \<and> e_Ping (e_sql E) h db = None) \<and>
     (\<forall>h db q. e_Exec (e_sql E) h db q = None) \<and>
     (\<forall>h db. e_QueryBool (e_sql E) h db Q_IsSuperuser = Inr True \<and> e_QueryBool (e_sql E) h db Q_WalLogical = Inr True) \<and>
     (\<forall>h db pub. e_QueryBool (e_sql E) h db (Q_PublicationExists pub) \<in> range Inr) \<and>
     (\<forall>h db sub. e_QueryBool (e_sql E) h db (Q_SubscriptionExists sub) = Inr (subscribed db sub h)) \<and>
     (\<forall>h db pub. e_QueryBool (e_sql E) h db (Q_TemporarySlots pub) = Inr False) \<and>
     (\<forall>h db sub. e_QueryInt (e_sql E) h db (Q_UnsyncedRelations sub) = Inr 0) \<and>
     (\<forall>h db. e_QueryStrings (e_sql E) h db Q_Sequences \<in> range (\<lambda>names. Inr (names, None))) \<and>
     (\<forall>h db seq. e_QueryInt (e_sql E) h db (Q_SequenceNext seq) \<in> range Inr) \<and>
     (\<forall>h. \<exists>rows. e_QueryCounts (e_sql E) h (cfg_SourceDBUserDsn cfg) Q_SourceTableCounts = Inr (rows, None) \<and>
        (\<forall>h'. \<forall>(t, n) \<in> set rows. \<exists>k \<ge> n. e_QueryInt (e_sql E) h' (cfg_TargetDBUserDsn cfg) (Q_TableCount t) = Inr k)) \<and>
     (\<forall>h args. e_PgDump (e_sys E) h args = ExecOk) \<and> (\<forall>h s f. e_Sed (e_sys E) h s f = None) \<and>
     (\<forall>h args. e_PsqlRestore (e_sys E) h args = None)"

text \<open>The connection strings are there and parse.\<close>

definition configured :: "Config \<Rightarrow> bool" where
  "configured cfg \<longleftrightarrow> cfg_SourceDBAdminDsn cfg \<noteq> [] \<and> cfg_TargetDBAdminDsn cfg \<noteq> [] \<and> cfg_SourceDBUserDsn cfg \<noteq> [] \<and>
     cfg_TargetDBUserDsn cfg \<noteq> [] \<and> Parse (cfg_SourceDBUserDsn cfg) \<in> range Inr \<and> Parse (cfg_TargetDBUserDsn cfg) \<in> range Inr"

definition obliging :: "env \<Rightarrow> bool" where
  "obliging E \<longleftrightarrow>
     (\<forall>h c. e_UpdateClaimStatus (e_k8s E) h c \<in> range Inr) \<and>
     (\<forall>h ns n. case e_GetSecret (e_k8s E) h ns n of Inl e \<Rightarrow> IsNotFound e | Inr s \<Rightarrow> sec_Data s \<noteq> None) \<and>
     (\<forall>h s. e_CreateSecret (e_k8s E) h s = None \<and> e_UpdateSecret (e_k8s E) h s = None) \<and>
     (\<forall>h ns. \<exists>items. e_ListRoleClaims (e_k8s E) h ns = Inr items \<and>
        (\<forall>rc \<in> set items. rcs_SourceDatabaseClaim (rc_Spec rc) \<noteq> None)) \<and>
     (\<forall>h rc. e_CreateRoleClaim (e_k8s E) h rc = None)"

text \<open>A claim whose secret may be rewritten.\<close>

definition movable :: "DatabaseClaim \<Rightarrow> bool" where
  "movable c \<longleftrightarrow> spec_Type (dc_Spec c) \<in> {Postgres, AuroraPostgres} \<and> st_ConnectionInfo (dc_ActiveDB c) \<noteq> None"

section \<open>Every state is left\<close>

lemma read_sequences_ok:
  assumes "healthy E cfg"
  shows "\<exists>vs h'. read_sequences E db names seqs h = (Ret (Inr vs), h')"
proof (induction names arbitrary: seqs h)
  case Nil
  then show ?case by (simp add: run_ret)
next
  case (Cons s names)
  have "e_QueryInt (e_sql E) h db (Q_SequenceNext s) \<in> range Inr" using assms by (simp add: healthy_def)
  then obtain v where "e_QueryInt (e_sql E) h db (Q_SequenceNext s) = Inr v" by blast
  with Cons show ?case by (simp add: sql_calls prog_simps)
qed

lemma set_sequences_ok:
  assumes "healthy E cfg"
  shows "\<exists>h'. for_each seqs (\<lambda>(n, v). sql_exec E db (SETVAL n v)) h = (Ret None, h')"
  using assms by (induction seqs arbitrary: h) (auto simp: healthy_def sql_calls prog_simps)

lemma compare_counts_ok:
  assumes "\<forall>h. \<forall>(t, n) \<in> set rows. \<exists>k \<ge> n. e_QueryInt (e_sql E) h db (Q_TableCount t) = Inr k"
  shows "\<exists>h'. compare_counts E db rows True h = (Ret (Inr True), h')"
  using assms
proof (induction rows arbitrary: h)
  case Nil
  then show ?case by (simp add: run_ret)
next
  case (Cons r rows)
  obtain t n where r: "r = (t, n)" by (cases r)
  from spec [OF Cons.prems, of h] r obtain k where "k \<ge> n" "e_QueryInt (e_sql E) h db (Q_TableCount t) = Inr k" by auto
  with Cons r show ?case by (simp add: sql_calls prog_simps)
qed

lemma healthy_answers:
  assumes "healthy E cfg"
  shows "e_Open (e_sql E) h db = None" "e_Ping (e_sql E) h db = None" "e_Exec (e_sql E) h db q = None"
    "e_QueryBool (e_sql E) h db Q_IsSuperuser = Inr True" "e_QueryBool (e_sql E) h db Q_WalLogical = Inr True"
    "e_QueryBool (e_sql E) h db (Q_SubscriptionExists sub) = Inr (subscribed db sub h)"
    "e_QueryBool (e_sql E) h db (Q_TemporarySlots pub) = Inr False"
    "e_QueryInt (e_sql E) h db (Q_UnsyncedRelations sub) = Inr 0"
    "e_PgDump (e_sys E) h args = ExecOk" "e_Sed (e_sys E) h e f = None" "e_PsqlRestore (e_sys E) h args = None"
  using assms by (simp_all add: healthy_def)

lemma healthy_publication:
  assumes "healthy E cfg"
  obtains b where "e_QueryBool (e_sql E) h db (Q_PublicationExists pub) = Inr b"
proof -
  have "e_QueryBool (e_sql E) h db (Q_PublicationExists pub) \<in> range Inr" using assms by (simp add: healthy_def)
  then show thesis using that by blast
qed

lemma healthy_sequences:
  assumes "healthy E cfg"
  obtains names where "e_QueryStrings (e_sql E) h db Q_Sequences = Inr (names, None)"
proof -
  have "e_QueryStrings (e_sql E) h db Q_Sequences \<in> range (\<lambda>names. Inr (names, None))" using assms by (simp add: healthy_def)
  then show thesis using that by blast
qed

lemma healthy_counts:
  assumes "healthy E cfg"
  obtains rows where "e_QueryCounts (e_sql E) h (cfg_SourceDBUserDsn cfg) Q_SourceTableCounts = Inr (rows, None)"
    and "\<forall>h'. \<forall>(t, n) \<in> set rows. \<exists>k \<ge> n. e_QueryInt (e_sql E) h' (cfg_TargetDBUserDsn cfg) (Q_TableCount t) = Inr k"
proof -
  have "\<exists>rows. e_QueryCounts (e_sql E) h (cfg_SourceDBUserDsn cfg) Q_SourceTableCounts = Inr (rows, None) \<and>
      (\<forall>h'. \<forall>(t, n) \<in> set rows. \<exists>k \<ge> n. e_QueryInt (e_sql E) h' (cfg_TargetDBUserDsn cfg) (Q_TableCount t) = Inr k)"
    using assms unfolding healthy_def by blast
  then show thesis using that by blast
qed

lemma getDB_ok:
  assumes "healthy E cfg"
  shows "getDB E db h = (Ret (Inr db), Sql (EvPing db None) # Sql (EvOpen db None) # h)"
  using assms by (simp add: getDB_def sql_calls prog_simps healthy_answers [of E cfg])

abbreviation sub_made :: "Config \<Rightarrow> history \<Rightarrow> bool" where
  "sub_made cfg h \<equiv> subscribed (cfg_TargetDBAdminDsn cfg) DefaultSubName h"

text \<open>A state from which the machine can go on: the subscription that is to be enabled exists.\<close>

definition ready :: "Config \<Rightarrow> State \<Rightarrow> history \<Rightarrow> bool" where
  "ready cfg s h \<longleftrightarrow> config_of s = cfg \<and> State_Id s \<notin> {S_Completed, S_Retry} \<and>
     (State_Id s = S_EnableSubscription \<longrightarrow> sub_made cfg h)"

definition next_of :: "Config \<Rightarrow> State \<Rightarrow> (goerror + State option) go \<times> history \<Rightarrow> bool" where
  "next_of cfg s x \<longleftrightarrow> (\<exists>s' h'. x = (Ret (Inr (Some s')), h') \<and> State_Id s' = following (State_Id s) \<and> config_of s' = cfg \<and>
     (State_Id s' = S_EnableSubscription \<longrightarrow> sub_made cfg h'))"

lemma exec_copy_schema_ok:
  assumes "healthy E cfg" and "configured cfg"
  shows "next_of cfg (copy_schema_state cfg) (exec_copy_schema E cfg h)"
proof -
  from assms(2) obtain u where "Parse (cfg_TargetDBUserDsn cfg) = Inr u" by (auto simp: configured_def)
  with assms(1) show ?thesis
    by (simp add: next_of_def exec_copy_schema_def getDB_ok [of E cfg] healthy_answers [of E cfg] pg_helpers NewDump_def
        sql_calls sys_calls prog_simps Let_def)
qed

lemma exec_reset_target_sequence_ok:
  assumes "healthy E cfg"
  shows "next_of cfg (reset_target_sequence_state cfg) (exec_reset_target_sequence E cfg h)"
proof -
  let ?h1 = "Sql (EvPing (cfg_SourceDBUserDsn cfg) None) # Sql (EvOpen (cfg_SourceDBUserDsn cfg) None) #
    Sql (EvPing (cfg_TargetDBUserDsn cfg) None) # Sql (EvOpen (cfg_TargetDBUserDsn cfg) None) # h"
  obtain names where n: "e_QueryStrings (e_sql E) ?h1 (cfg_SourceDBUserDsn cfg) Q_Sequences = Inr (names, None)"
    by (rule healthy_sequences [OF assms])
  let ?h2 = "Sql (EvQueryStrings (cfg_SourceDBUserDsn cfg) Q_Sequences (Inr (names, None))) # ?h1"
  obtain vs h3 where r: "read_sequences E (cfg_SourceDBUserDsn cfg) names [] ?h2 = (Ret (Inr vs), h3)"
    using read_sequences_ok [OF assms] by blast
  obtain h4 where "for_each vs (\<lambda>(n, v). sql_exec E (cfg_TargetDBUserDsn cfg) (SETVAL n v)) h3 = (Ret None, h4)"
    using set_sequences_ok [OF assms] by blast
  with assms n r show ?thesis
    by (simp add: next_of_def exec_reset_target_sequence_def getDB_ok [of E cfg] sql_strings_def prog_simps)
qed

lemma exec_validate_migration_status_ok:
  assumes "healthy E cfg"
  shows "next_of cfg (validate_migration_status_state cfg) (exec_validate_migration_status E cfg h)"
proof -
  let ?h1 = "Sql (EvPing (cfg_SourceDBUserDsn cfg) None) # Sql (EvOpen (cfg_SourceDBUserDsn cfg) None) #
    Sql (EvPing (cfg_TargetDBUserDsn cfg) None) # Sql (EvOpen (cfg_TargetDBUserDsn cfg) None) # h"
  obtain rows where r: "e_QueryCounts (e_sql E) ?h1 (cfg_SourceDBUserDsn cfg) Q_SourceTableCounts = Inr (rows, None)"
    and k: "\<forall>h'. \<forall>(t, n) \<in> set rows. \<exists>k \<ge> n. e_QueryInt (e_sql E) h' (cfg_TargetDBUserDsn cfg) (Q_TableCount t) = Inr k"
    by (rule healthy_counts [OF assms, of ?h1])
  from compare_counts_ok [OF k] obtain h2 where
    "compare_counts E (cfg_TargetDBUserDsn cfg) rows True
      (Sql (EvQueryCounts (cfg_SourceDBUserDsn cfg) Q_SourceTableCounts (Inr (rows, None))) # ?h1) = (Ret (Inr True), h2)"
    by blast
  with assms r show ?thesis
    by (simp add: next_of_def exec_validate_migration_status_def getDB_ok [of E cfg] sql_counts_def prog_simps)
qed

lemma exec_publication_ok:
  assumes "healthy E cfg"
  shows "next_of cfg (create_publication_state cfg) (exec_create_publication E cfg h)"
    "next_of cfg (delete_publication_state cfg) (exec_delete_publication E cfg h)"
proof -
  let ?db = "cfg_SourceDBAdminDsn cfg"
  obtain b where "e_QueryBool (e_sql E) (Sql (EvPing ?db None) # Sql (EvOpen ?db None) # h) ?db (Q_PublicationExists DefaultPubName) = Inr b"
    by (rule healthy_publication [OF assms])
  with assms show "next_of cfg (create_publication_state cfg) (exec_create_publication E cfg h)"
    "next_of cfg (delete_publication_state cfg) (exec_delete_publication E cfg h)"
    by (simp_all add: next_of_def exec_create_publication_def exec_delete_publication_def getDB_ok [of E cfg]
        healthy_answers [of E cfg] sql_bool_def sql_exec_def prog_simps)
qed

lemma exec_subscription_ok:
  assumes "healthy E cfg"
  shows "next_of cfg (create_subscription_state cfg) (exec_create_subscription E cfg h)"
    "sub_made cfg h \<Longrightarrow> next_of cfg (enable_subscription_state cfg) (exec_enable_subscription E cfg h)"
    "next_of cfg (disable_subscription_state cfg) (exec_disable_subscription E cfg h)"
    "next_of cfg (delete_subscription_state cfg) (exec_delete_subscription E cfg h)"
    "next_of cfg (cut_over_readiness_check_state cfg) (exec_cut_over_readiness_check E cfg h)"
  using assms
  by (simp_all add: next_of_def exec_create_subscription_def exec_enable_subscription_def exec_disable_subscription_def
      exec_delete_subscription_def exec_cut_over_readiness_check_def getDB_ok [of E cfg] healthy_answers [of E cfg]
      sql_bool_def sql_int_def sql_exec_def prog_simps)

lemma exec_checks_ok:
  assumes "healthy E cfg" and "configured cfg"
  shows "next_of cfg (initial_state cfg) (exec_initial cfg h)"
    "next_of cfg (validate_connection_state cfg) (exec_validate_connection E cfg h)"
    "next_of cfg (disable_source_access_state cfg) (exec_disable_source_access E cfg h)"
proof -
  from assms(2) obtain u where "Parse (cfg_SourceDBUserDsn cfg) = Inr u" by (auto simp: configured_def)
  with assms show "next_of cfg (initial_state cfg) (exec_initial cfg h)"
    "next_of cfg (validate_connection_state cfg) (exec_validate_connection E cfg h)"
    "next_of cfg (disable_source_access_state cfg) (exec_disable_source_access E cfg h)"
    by (simp_all add: configured_def next_of_def exec_initial_def exec_validate_connection_def exec_disable_source_access_def
        getDB_ok [of E cfg] healthy_answers [of E cfg] isAdminUser_def isLogical_def sql_bool_def sql_exec_def prog_simps Let_def)
qed

lemma Execute_ok:
  assumes "healthy E cfg" and "configured cfg" and "ready cfg s h"
  shows "next_of cfg s (Execute E s h)"
  using assms exec_checks_ok [OF assms(1,2), of h] exec_subscription_ok [OF assms(1), of h] exec_publication_ok [OF assms(1), of h]
    exec_validate_migration_status_ok [OF assms(1), of h] exec_reset_target_sequence_ok [OF assms(1), of h]
    exec_copy_schema_ok [OF assms(1,2), of h]
  by (cases s) (auto simp: ready_def next_of_def run_ret)

section \<open>Every turn is taken\<close>

lemma store_state_ok:
  assumes "obliging E" and "movable c"
  shows "\<exists>c' h'. store_state E s c h = (Ret (c', None), h') \<and> migration_state c' = State_String s \<and> movable c'"
proof -
  let ?c = "set_migration_state (State_String s) c"
  have "e_UpdateClaimStatus (e_k8s E) h ?c \<in> range Inr" using assms(1) by (simp add: obliging_def)
  then obtain rv where "e_UpdateClaimStatus (e_k8s E) h ?c = Inr rv" by blast
  with assms(2) show ?thesis
    by (simp add: store_state_def UpdateStatus_def updateClaimStatus_def prog_simps written_def movable_def
        set_migration_state_def claim_upds)
qed

lemma rerouteTargetSecret_ok:
  assumes "obliging E" and "movable c"
  shows "\<exists>h'. rerouteTargetSecret E r src tgt c h = (Ret None, h')"
proof -
  have found: "case e_GetSecret (e_k8s E) h ns n of Inl e \<Rightarrow> IsNotFound e | Inr s \<Rightarrow> sec_Data s \<noteq> None" for h ns n
    using assms(1) unfolding obliging_def by blast
  have wr: "e_CreateSecret (e_k8s E) h s = None" "e_UpdateSecret (e_k8s E) h s = None" for h s
    using assms(1) by (simp_all add: obliging_def)
  have "\<exists>h1. setSourceDsnInTempSecret E src c h = (Ret None, h1)"
    using found [of h "dc_Namespace c" "getTempSecretName c"] wr
    by (auto simp: setSourceDsnInTempSecret_def set_in_temp_secret_def getTempSecret_def new_temp_secret_def k8s_calls prog_simps
        split: sum.split option.split)
  then obtain h1 where tmp: "setSourceDsnInTempSecret E src c h = (Ret None, h1)" ..
  have "\<exists>h2. createOrUpdateSecret E c tgt cloud h1 = (Ret None, h2)" for cloud
    using found [of h1 "dc_Namespace c" "spec_SecretName (dc_Spec c)"] wr assms(2)
    by (auto simp: createOrUpdateSecret_def createSecret_def updateSecret_def movable_def k8s_calls prog_simps Let_def
        split: sum.split option.split)
  with tmp show ?thesis by (simp add: rerouteTargetSecret_def prog_simps)
qed

lemma copy_role_claims_ok:
  assumes "obliging E"
  shows "\<exists>h'. copy_role_claims E c h = (Ret None, h')"
proof -
  obtain items where items: "e_ListRoleClaims (e_k8s E) h (dc_Namespace c) = Inr items"
    "\<forall>rc \<in> set items. rcs_SourceDatabaseClaim (rc_Spec rc) \<noteq> None"
    using assms unfolding obliging_def by blast
  have wr: "e_CreateRoleClaim (e_k8s E) h rc = None" for h rc using assms by (simp add: obliging_def)
  have "\<exists>h'. for_each items (copy_role_claim E (dc_Name c)) h1 = (Ret None, h')" for h1
    using items(2)
    by (induction items arbitrary: h1)
      (auto simp: copy_role_claim_def role_claim_copy_def of_go_def k8s_calls prog_simps wr split: sum.split)
  with items(1) show ?thesis by (simp add: copy_role_claims_def k8s_calls prog_simps)
qed

lemma turn_ok:
  assumes "obliging E" and "movable c" and "State_Id nxt \<notin> {S_Completed, S_Retry, S_WaitToDisableSource}"
  shows "\<exists>c' h'. turn E r src tgt nxt c h = (Ret (Inr c'), h') \<and> movable c'"
proof -
  have store: "\<exists>c' h'. bnd (store_state E nxt c) (\<lambda>(c, er). case er of Some e \<Rightarrow> stop_with (SetError E c e) | None \<Rightarrow> ret (Inr c)) h1 =
      (Ret (Inr c'), h') \<and> movable c'" for h1
    using store_state_ok [OF assms(1,2), of nxt h1] by (auto simp: run_bnd run_ret)
  from rerouteTargetSecret_ok [OF assms(1,2), of r src tgt h] obtain h1
    where "rerouteTargetSecret E r src tgt c h = (Ret None, h1)" ..
  with assms(3) store show ?thesis
    by (cases "State_Id nxt") (simp_all add: turn_def run_bnd)
qed

lemma turn_wait:
  assumes "obliging E" and "movable c" and "State_Id nxt = S_WaitToDisableSource"
  shows "\<exists>c' h'. turn E r src tgt nxt c h = (Ret (Inl (Return (c', retry_later, None))), h') \<and>
    migration_state c' = StateEnum_String S_WaitToDisableSource \<and> movable c'"
  using store_state_ok [OF assms(1,2), of nxt h] assms(3) by (auto simp: turn_def run_bnd run_ret State_String_def)

lemma turn_completed:
  assumes "obliging E" and "State_Id nxt = S_Completed"
  shows "\<exists>h'. turn E r src tgt nxt c h = (Ret (Inl (Break c)), h')"
  using copy_role_claims_ok [OF assms(1), of c h] assms(2) by (auto simp: turn_def run_bnd run_ret)

text \<open>The cluster's calls between two states leave the subscriptions alone.\<close>

lemma subscribed_other: "(\<And>e. e \<in> set es \<Longrightarrow> \<forall>x. e \<noteq> Sql x) \<Longrightarrow> subscribed db sub (es @ h) = subscribed db sub h"
proof (induction es)
  case (Cons e es)
  then have "\<forall>x. e \<noteq> Sql x" by simp
  with Cons show ?case by (cases e) simp_all
qed simp

lemma turn_subscribed:
  assumes "turn E r src tgt nxt c h = (t, h')"
  shows "subscribed db sub h' = subscribed db sub h"
proof -
  have "clerical (\<lambda>e. \<forall>x. e \<noteq> Sql x)" by (simp add: clerical_def)
  from emits_run [OF emits_turn [OF this] assms] obtain es
    where "h' = es @ h" "\<And>e. e \<in> set es \<Longrightarrow> \<forall>x. e \<noteq> Sql x" by blast
  then show ?thesis by (simp add: subscribed_other)
qed

section \<open>The loop comes to its end\<close>

lemma migration_loop_progress:
  assumes "healthy E cfg" and "configured cfg" and "obliging E"
    and "movable c" and "ready cfg s h" and "turns (State_Id s) \<le> n"
  shows "\<exists>c' h'. movable c' \<and> (if State_Id s < S_WaitToDisableSource
    then migration_loop n E r src tgt s c h = (Ret (Some (Return (c', retry_later, None))), h') \<and>
      migration_state c' = StateEnum_String S_WaitToDisableSource
    else migration_loop n E r src tgt s c h = (Ret (Some (Break c')), h'))"
  using assms(4-)
proof (induction n arbitrary: s c h)
  case 0
  then show ?case by (cases "State_Id s") simp_all
next
  case (Suc n)
  obtain nxt h1 where ex: "Execute E s h = (Ret (Inr (Some nxt)), h1)" "State_Id nxt = following (State_Id s)"
    "config_of nxt = cfg" "State_Id nxt = S_EnableSubscription \<longrightarrow> sub_made cfg h1"
    using Execute_ok [OF assms(1,2) Suc.prems(2)] unfolding next_of_def by blast
  have live: "State_Id s \<notin> {S_Completed, S_Retry}" using Suc.prems(2) by (simp add: ready_def)
  consider (wait) "State_Id nxt = S_WaitToDisableSource" | (completed) "State_Id nxt = S_Completed"
    | (on) "State_Id nxt \<notin> {S_Completed, S_Retry, S_WaitToDisableSource}"
    using live ex(2) by (cases "State_Id s") auto
  then show ?case
  proof cases
    case wait
    with live ex(2) have "State_Id s < S_WaitToDisableSource" by (cases "State_Id s") (simp_all add: state_order)
    with turn_wait [OF assms(3) Suc.prems(1) wait, of r src tgt h1] ex(1) show ?thesis
      by (auto simp: run_bnd run_ret)
  next
    case completed
    with live ex(2) have "\<not> State_Id s < S_WaitToDisableSource" by (cases "State_Id s") (simp_all add: state_order)
    with turn_completed [OF assms(3) completed, of r src tgt c h1] ex(1) Suc.prems(1) show ?thesis
      by (auto simp: run_bnd run_ret)
  next
    case on
    obtain c1 h2 where turn: "turn E r src tgt nxt c h1 = (Ret (Inr c1), h2)" "movable c1"
      using turn_ok [OF assms(3) Suc.prems(1) on] by blast
    have "ready cfg nxt h2" using ex on turn_subscribed [OF turn(1)] by (simp add: ready_def)
    moreover have "turns (State_Id nxt) \<le> n" using turns_next [OF ex(1)] on Suc.prems(3) by simp
    moreover have "State_Id nxt < S_WaitToDisableSource \<longleftrightarrow> State_Id s < S_WaitToDisableSource"
      using on live ex(2) by (cases "State_Id s") (simp_all add: state_order)
    ultimately show ?thesis using Suc.IH [OF turn(2), of nxt h2] ex(1) turn(1)
      by (cases "State_Id s < S_WaitToDisableSource") (simp_all add: run_bnd)
  qed
qed

lemma GetReplicatorState_config: "GetReplicatorState name cfg = Inr s \<Longrightarrow> config_of s = cfg \<and> State_Id s \<noteq> S_Retry"
  by (auto simp: GetReplicatorState_def split: sum.splits StateEnum.splits)

text \<open>
  C5: a migration is completed. Let the databases serve (statements succeed, the catalogue of
  subscriptions is true to the statements, replication has caught up, the target has the rows of the
  source) and let the cluster accept what is written. From whatever state the claim records, the loop
  never gets stuck, retries or fails: before the wait for the source it leads to the wait, recorded in
  the claim, and asks for the next reconciliation, and whatever has happened until then, that one
  leads to the switch to the new database; after the wait it leads there at once.
\<close>

theorem migration_completes:
  assumes "healthy E cfg" and "configured cfg" and "obliging E" and "movable c"
    and "GetReplicatorState (s_MigrationState (dc_Status c)) cfg = Inr s" and "State_Id s \<noteq> S_Completed"
    and "State_Id s = S_EnableSubscription \<Longrightarrow> subscribed (cfg_TargetDBAdminDsn cfg) DefaultSubName h"
  shows "if State_Id s < S_WaitToDisableSource
    then \<exists>c1 h1. migration_loop 16 E r src tgt s c h = (Ret (Some (Return (c1, retry_later, None))), h1) \<and>
      (\<forall>h2. \<exists>s2 c2 h3. GetReplicatorState (s_MigrationState (dc_Status c1)) cfg = Inr s2 \<and>
        migration_loop 16 E r src tgt s2 c1 h2 = (Ret (Some (Break c2)), h3))
    else \<exists>c1 h1. migration_loop 16 E r src tgt s c h = (Ret (Some (Break c1)), h1)"
proof -
  have fuel: "turns i \<le> 16" for i using turns_bound [of i] by simp
  note run = migration_loop_progress [OF assms(1-3) _ _ fuel]
  have "ready cfg s h" using assms(5-7) GetReplicatorState_config [OF assms(5)] by (simp add: ready_def)
  from run [OF assms(4) this, of r src tgt] obtain c1 h1 where c1: "movable c1"
    and first: "if State_Id s < S_WaitToDisableSource
      then migration_loop 16 E r src tgt s c h = (Ret (Some (Return (c1, retry_later, None))), h1) \<and>
        migration_state c1 = StateEnum_String S_WaitToDisableSource
      else migration_loop 16 E r src tgt s c h = (Ret (Some (Break c1)), h1)"
    by blast
  show ?thesis
  proof (cases "State_Id s < S_WaitToDisableSource")
    case True
    let ?w = "wait_to_disable_source_state cfg"
    have "\<exists>c2 h3. migration_loop 16 E r src tgt ?w c1 h2 = (Ret (Some (Break c2)), h3)" for h2
      using run [OF c1, of ?w h2 r src tgt] by (auto simp: ready_def state_order)
    moreover have "GetReplicatorState (s_MigrationState (dc_Status c1)) cfg = Inr ?w"
      using first True by (simp add: GetReplicatorState_def GetStateEnum_def stateMap_def)
    ultimately show ?thesis using first True by auto
  qed (use first in auto)
qed

section \<open>A witness\<close>

definition serving_sql :: sql_api where
  "serving_sql = sample_sql\<lparr>e_QueryBool := (\<lambda>h d q. Inr (case q of
     Q_TemporarySlots _ \<Rightarrow> False | Q_SubscriptionExists sub \<Rightarrow> subscribed d sub h | _ \<Rightarrow> True))\<rparr>"

lemma serving_healthy: "healthy (sample_env\<lparr>e_sql := serving_sql\<rparr>) cfg"
  unfolding healthy_def by (intro conjI) (simp_all add: serving_sql_def sample_defs)

lemma sample_obliging: "obliging (sample_env\<lparr>e_sql := q\<rparr>)"
  by (simp add: obliging_def sample_defs)

lemma sample_configured: "configured sample_config"
  using Parse_sample by (auto simp: configured_def sample_config_def)

theorem migration_completes_witness:
  "\<exists>c c1 h1. migration_loop 16 (sample_env\<lparr>e_sql := serving_sql\<rparr>) sample_config_r [] sample_ci (initial_state sample_config) c [] =
     (Ret (Some (Return (c1, retry_later, None))), h1) \<and>
   (\<exists>s2 c2 h3. GetReplicatorState (s_MigrationState (dc_Status c1)) sample_config = Inr s2 \<and>
      migration_loop 16 (sample_env\<lparr>e_sql := serving_sql\<rparr>) sample_config_r [] sample_ci s2 c1 h1 = (Ret (Some (Break c2)), h3))"
proof -
  let ?c = "upd_active (\<lambda>st. st\<lparr>st_ConnectionInfo := Some sample_ci\<rparr>) sample_claim"
  have c: "movable ?c" by (simp add: movable_def sample_claim_def claim_upds)
  have s: "GetReplicatorState (s_MigrationState (dc_Status ?c)) sample_config = Inr (initial_state sample_config)"
    by (simp add: sample_claim_def claim_upds GetReplicatorState_def GetStateEnum_def stateMap_def)
  from migration_completes [OF serving_healthy sample_configured sample_obliging c s, of "[]" sample_config_r "[]" sample_ci]
  obtain c1 h1 where "migration_loop 16 (sample_env\<lparr>e_sql := serving_sql\<rparr>) sample_config_r [] sample_ci (initial_state sample_config) ?c [] =
     (Ret (Some (Return (c1, retry_later, None))), h1)"
    "\<forall>h2. \<exists>s2 c2 h3. GetReplicatorState (s_MigrationState (dc_Status c1)) sample_config = Inr s2 \<and>
        migration_loop 16 (sample_env\<lparr>e_sql := serving_sql\<rparr>) sample_config_r [] sample_ci s2 c1 h2 = (Ret (Some (Break c2)), h3)"
    by (auto simp: state_order)
  then show ?thesis by blast
qed

end
