(* ===== verification/Dsnexec.thy ===== *)
theory Dsnexec
  imports Api_Types "HOL-Library.Word" "HOL-Library.AList"
begin

text \<open>
  dsnexec, the sidecar that executes commands whenever a connection string changes
  (\<^verbatim>\<open>dsnexec/pkg/dsnexec\<close>, \<^verbatim>\<open>dsnexec/pkg/fdsnexec\<close>, \<^verbatim>\<open>dsnexec/pkg/shelldb\<close>): validation of its configuration, the
  parsers of sources, the conversion of arguments, the handler with its lock and the loop of a
  configuration. Code outside the repository is a field of \<open>dsn_libs\<close>: the connection string parser of
  dsnutil, the decoders of JSON and YAML texts, and templates, which use the functions of sprig.
\<close>

section \<open>Configuration\<close>

record Command =
  cmd_Command :: string
  cmd_Args :: "string list"

record DBConnInfo =
  dbc_Driver :: string
  dbc_DSN :: string

text \<open>The map of sources is an association list, in the order a loop over the map takes; its keys are
  distinct.\<close>

record DsnConfig =
  dx_Sources :: "(string \<times> DBConnInfo) list"
  dx_Destination :: DBConnInfo
  dx_Commands :: "Command list"

definition DBConnInfo_Validate :: "DBConnInfo \<Rightarrow> goerror option" where
  "DBConnInfo_Validate c = (if dbc_Driver c = [] then Some (ErrMsg ''type must be set on db conn info'') else None)"

definition validate_source :: "string \<times> DBConnInfo \<Rightarrow> goerror option" where
  "validate_source = (\<lambda>(k, v).
     if k = [] then Some (ErrMsg ''file key must be set'')
     else if DBConnInfo_Validate v \<noteq> None then Some (ErrMsg ''file value must be set'')
     else None)"

definition validate_command :: "Command \<Rightarrow> goerror option" where
  "validate_command v = (if cmd_Command v = [] then Some (ErrMsg ''command_str must be set'') else None)"

text \<open>\<open>first_error\<close>: the error with which a loop that returns on the first one returns.\<close>

definition first_error :: "('a \<Rightarrow> goerror option) \<Rightarrow> 'a list \<Rightarrow> goerror option" where
  "first_error f xs = (case filter (\<lambda>x. f x \<noteq> None) xs of [] \<Rightarrow> None | x # _ \<Rightarrow> f x)"

definition Config_Validate :: "DsnConfig \<Rightarrow> goerror option" where
  "Config_Validate c =
     (if dx_Sources c = [] then Some (ErrMsg ''sources must be set'')
      else case first_error validate_source (dx_Sources c) of
        Some e \<Rightarrow> Some e
      | None \<Rightarrow>
          if dx_Commands c = [] then Some (ErrMsg ''commands must be set'')
          else (case first_error validate_command (dx_Commands c) of
             Some e \<Rightarrow> Some e
           | None \<Rightarrow> (case DBConnInfo_Validate (dx_Destination c) of
                Some e \<Rightarrow> Some (Wrapped ''database_dsn must be set: '' e [])
              | None \<Rightarrow> None)))"

section \<open>Parsers of sources\<close>

text \<open>A decoded JSON or YAML value, and what \<^verbatim>\<open>fmt.Sprintf\<close> makes of it for the verb \<^verbatim>\<open>%s\<close>: only texts
  stand for themselves.\<close>

datatype jvalue = JString string | JInt int | JFloat string | JBool bool | JNil

primrec sprint_json :: "jvalue \<Rightarrow> string" where
  "sprint_json (JString s) = s"
| "sprint_json (JInt i) = ''%!s(int='' @ Itoa i @ '')''"
| "sprint_json (JFloat x) = ''%!s(float64='' @ x @ '')''"
| "sprint_json (JBool b) = ''%!s(bool='' @ (if b then ''true'' else ''false'') @ '')''"
| "sprint_json JNil = ''%!s(<nil>)''"

type_synonym dsn_opts = "string \<rightharpoonup> string"
type_synonym dsn_context = "string \<rightharpoonup> dsn_opts"

record dsn_libs =
  lib_pg_ParseURL :: "string \<Rightarrow> goerror + string"
  lib_pg_ParseOpts :: "string \<Rightarrow> goerror + dsn_opts"
  lib_json :: "string \<Rightarrow> goerror + (string \<rightharpoonup> jvalue)"
  lib_yaml :: "string \<Rightarrow> goerror + (string \<rightharpoonup> jvalue)"
  lib_template :: "string \<Rightarrow> goerror + (dsn_context \<Rightarrow> goerror + string)"

definition parseNone :: "string \<Rightarrow> goerror + dsn_opts" where
  "parseNone dsn = Inr Map.empty"

definition parseJSON :: "dsn_libs \<Rightarrow> string \<Rightarrow> goerror + dsn_opts" where
  "parseJSON L dsn = map_sum id (\<lambda>imap. map_option sprint_json \<circ> imap) (lib_json L dsn)"

definition parseYAML :: "dsn_libs \<Rightarrow> string \<Rightarrow> goerror + dsn_opts" where
  "parseYAML L dsn = map_sum id (\<lambda>imap. map_option sprint_json \<circ> imap) (lib_yaml L dsn)"

definition parsePostgresDSN :: "dsn_libs \<Rightarrow> string \<Rightarrow> goerror + dsn_opts" where
  "parsePostgresDSN L dsn =
     (if HasPrefix dsn ''postgres://'' \<or> HasPrefix dsn ''postgresql://'' then
        (case lib_pg_ParseURL L dsn of Inl e \<Rightarrow> Inl e | Inr dsn \<Rightarrow> lib_pg_ParseOpts L dsn)
      else lib_pg_ParseOpts L dsn)"

definition parsers :: "dsn_libs \<Rightarrow> string \<Rightarrow> (string \<Rightarrow> goerror + dsn_opts) option" where
  "parsers L = [''postgres'' \<mapsto> parsePostgresDSN L, ''json'' \<mapsto> parseJSON L, ''yaml'' \<mapsto> parseYAML L,
     ''none'' \<mapsto> parseNone, [] \<mapsto> parseNone]"

section \<open>Arguments\<close>

text \<open>What \<^verbatim>\<open>cast\<close> returns in its \<^verbatim>\<open>interface{}\<close>; \<^verbatim>\<open>int\<close> has 64 bits.\<close>

datatype arg_value = VStr string | VInt64 "64 word" | VInt32 "32 word" | VInt16 "16 word" | VInt8 "8 word" | VInt "64 word"

definition parse_as :: "(int \<Rightarrow> arg_value) \<Rightarrow> string \<Rightarrow> nat \<Rightarrow> goerror + arg_value" where
  "parse_as mk s bits = (case ParseInt s bits of
     None \<Rightarrow> Inl (ErrMsg (''strconv.ParseInt: parsing '' @ s)) | Some i \<Rightarrow> Inr (mk i))"

definition cast :: "string \<Rightarrow> goerror + arg_value" where
  "cast s =
     (if HasPrefix s ''int64:'' then parse_as (\<lambda>i. VInt64 (word_of_int i)) (drop 6 s) 64
      else if HasPrefix s ''int32:'' then parse_as (\<lambda>i. VInt32 (word_of_int i)) (drop 6 s) 32
      else if HasPrefix s ''int16:'' then parse_as (\<lambda>i. VInt16 (word_of_int i)) (drop 6 s) 16
      else if HasPrefix s ''int8:'' then parse_as (\<lambda>i. VInt8 (word_of_int i)) (drop 5 s) 8
      else if HasPrefix s ''int:'' then parse_as (\<lambda>i. VInt (word_of_int i)) (drop 4 s) 64
      else Inr (VStr s))"

section \<open>The handler\<close>

text \<open>What the destination is asked to do, and its answers.\<close>

datatype dx_event =
    DxOpen string string "goerror option"
  | DxExec string string "arg_value list" "goerror option"

record dx_env =
  dx_libs :: dsn_libs
  e_sqlOpen :: "dx_event list \<Rightarrow> string \<Rightarrow> string \<Rightarrow> goerror option"
  e_dbExec :: "dx_event list \<Rightarrow> string \<Rightarrow> string \<Rightarrow> arg_value list \<Rightarrow> goerror option"

type_synonym 'a dx_prog = "(dx_event, 'a) prog"

fun build_context :: "dsn_libs \<Rightarrow> (string \<times> DBConnInfo) list \<Rightarrow> dsn_context \<Rightarrow> goerror + dsn_context" where
  "build_context L [] ctx = Inr ctx"
| "build_context L ((name, source) # rest) ctx =
     (case parsers L (dbc_Driver source) of
        None \<Rightarrow> Inl (ErrMsg (''unsupported source driver: '' @ dbc_Driver source))
      | Some parse \<Rightarrow>
          (case parse (dbc_DSN source) of
             Inl e \<Rightarrow> Inl (Wrapped ''failed to parse dsn: '' e [])
           | Inr opts \<Rightarrow> build_context L rest (ctx(name \<mapsto> opts(''raw_dsn'' \<mapsto> dbc_DSN source)))))"

definition render :: "dsn_libs \<Rightarrow> string \<Rightarrow> dsn_context \<Rightarrow> string \<Rightarrow> goerror + string" where
  "render L what ctx t = (case lib_template L t of
     Inl e \<Rightarrow> Inl (Wrapped (''failed to parse '' @ what @ '' template '' @ t @ '': '') e [])
   | Inr tmpl \<Rightarrow> (case tmpl ctx of
       Inl e \<Rightarrow> Inl (Wrapped (''failed to render '' @ what @ '' template: '' @ t @ '': '') e [])
     | Inr s \<Rightarrow> Inr s))"

fun render_args :: "dsn_libs \<Rightarrow> dsn_context \<Rightarrow> string list \<Rightarrow> goerror + arg_value list" where
  "render_args L ctx [] = Inr []"
| "render_args L ctx (arg # rest) =
     (case render L ''argument'' ctx arg of
        Inl e \<Rightarrow> Inl e
      | Inr s \<Rightarrow>
          (case cast s of
             Inl e \<Rightarrow> Inl (Wrapped (''failt to cast argument: '' @ s @ '': '') e [])
           | Inr v \<Rightarrow> map_sum id (Cons v) (render_args L ctx rest)))"

definition db_exec :: "dx_env \<Rightarrow> string \<Rightarrow> string \<Rightarrow> arg_value list \<Rightarrow> goerror option dx_prog" where
  "db_exec E dsn cmd args = call (\<lambda>h. e_dbExec E h dsn cmd args) (DxExec dsn cmd args)"

definition run_command :: "dx_env \<Rightarrow> string \<Rightarrow> dsn_context \<Rightarrow> Command \<Rightarrow> goerror option dx_prog" where
  "run_command E dsn ctx v =
     (case render (dx_libs E) ''command'' ctx (cmd_Command v) of
        Inl e \<Rightarrow> ret (Some e)
      | Inr cmd \<Rightarrow>
          if cmd_Args v = [] then
            bnd (db_exec E dsn cmd []) (\<lambda>r. ret (map_option (\<lambda>e. Wrapped ''failed to execute sql: '' e []) r))
          else (case render_args (dx_libs E) ctx (cmd_Args v) of
             Inl e \<Rightarrow> ret (Some e)
           | Inr args \<Rightarrow> bnd (db_exec E dsn cmd args) (\<lambda>r.
               ret (map_option (\<lambda>e. Wrapped (''failed to execute command: command '' @ cmd_Command v @ '' '') e []) r))))"

definition exec :: "dx_env \<Rightarrow> DsnConfig \<Rightarrow> goerror option dx_prog" where
  "exec E cfg =
     (case build_context (dx_libs E) (dx_Sources cfg) Map.empty of
        Inl e \<Rightarrow> ret (Some e)
      | Inr ctx \<Rightarrow>
          (let dest = dx_Destination cfg in
           bnd (call (\<lambda>h. e_sqlOpen E h (dbc_Driver dest) (dbc_DSN dest)) (DxOpen (dbc_Driver dest) (dbc_DSN dest))) (\<lambda>r.
             case r of Some e \<Rightarrow> ret (Some (Wrapped ''failed to open destination database: '' e []))
             | None \<Rightarrow> for_each (dx_Commands cfg) (run_command E (dbc_DSN dest) ctx))))"

definition NewHanlder :: "DsnConfig \<Rightarrow> goerror + DsnConfig" where
  "NewHanlder c = (case Config_Validate c of Some e \<Rightarrow> Inl e | None \<Rightarrow> Inr c)"

text \<open>The write under the write lock: a source that was not there before gets the empty driver.\<close>

definition put_source :: "string \<Rightarrow> string \<Rightarrow> DsnConfig \<Rightarrow> DsnConfig" where
  "put_source path content c =
     (let driver = (case map_of (dx_Sources c) path of None \<Rightarrow> [] | Some s \<Rightarrow> dbc_Driver s)
      in c\<lparr>dx_Sources := AList.update path \<lparr>dbc_Driver = driver, dbc_DSN = content\<rparr> (dx_Sources c)\<rparr>)"

text \<open>An update on its own: the source is put under the write lock and the commands are executed under the read
  lock. Go releases the one before it takes the other, so that an update of another source may come between
  them; what handlers that run at the same time may do is the subject of \<open>handling\<close> below.\<close>

definition UpdateDSN :: "dx_env \<Rightarrow> string \<Rightarrow> string \<Rightarrow> DsnConfig \<Rightarrow> (DsnConfig \<times> goerror option) dx_prog" where
  "UpdateDSN E path content c =
     (let c = put_source path content c
      in bnd (exec E c) (\<lambda>r. ret (c, map_option (\<lambda>e. Wrapped ''failed initial execute: '' e []) r)))"

section \<open>The shell driver\<close>

text \<open>\<^verbatim>\<open>database/sql\<close> hands integers of every width to a driver as \<^verbatim>\<open>int64\<close>; the driver formats each
  argument with the verb \<^verbatim>\<open>%s\<close>.\<close>

primrec sprint_arg :: "arg_value \<Rightarrow> string" where
  "sprint_arg (VStr s) = s"
| "sprint_arg (VInt64 w) = ''%!s(int64='' @ Itoa (sint w) @ '')''"
| "sprint_arg (VInt32 w) = ''%!s(int64='' @ Itoa (sint w) @ '')''"
| "sprint_arg (VInt16 w) = ''%!s(int64='' @ Itoa (sint w) @ '')''"
| "sprint_arg (VInt8 w) = ''%!s(int64='' @ Itoa (sint w) @ '')''"
| "sprint_arg (VInt w) = ''%!s(int64='' @ Itoa (sint w) @ '')''"

definition shell_argv :: "string \<Rightarrow> arg_value list \<Rightarrow> string list" where
  "shell_argv query args = (if args = [] then [query] else query # map sprint_arg args)"

section \<open>Watching the sources\<close>

record FSource =
  src_Driver :: string
  src_Filename :: string

record FConfig =
  fc_Disabled :: bool
  fc_Sources :: "FSource list"
  fc_Destination :: DBConnInfo
  fc_Commands :: "Command list"

text \<open>What the loop of a configuration receives.\<close>

datatype fevent = FDone | FUpdate string string

text \<open>\<open>None\<close>: the loop is waiting for the next event.\<close>

fun update_loop :: "dx_env \<Rightarrow> DsnConfig \<Rightarrow> fevent list \<Rightarrow> goerror option option dx_prog" where
  "update_loop E c [] = ret None"
| "update_loop E c (FDone # _) = ret (Some None)"
| "update_loop E c (FUpdate filename value # es) =
     bnd (UpdateDSN E filename value c) (\<lambda>(c, err). case err of
       Some e \<Rightarrow> ret (Some (Some (Wrapped ''failed to update dsn: '' e [])))
     | None \<Rightarrow> update_loop E c es)"

fun watch_sources :: "(string \<Rightarrow> goerror + string) \<Rightarrow> FSource list \<Rightarrow> (string \<times> DBConnInfo) list \<Rightarrow>
    goerror + (string \<times> DBConnInfo) list" where
  "watch_sources watch [] acc = Inr acc"
| "watch_sources watch (s # rest) acc = (case watch (src_Filename s) of
     Inl e \<Rightarrow> Inl e
   | Inr val \<Rightarrow> watch_sources watch rest
       (AList.update (src_Filename s) \<lparr>dbc_Driver = src_Driver s, dbc_DSN = val\<rparr> acc))"

definition run_config :: "dx_env \<Rightarrow> (string \<Rightarrow> goerror + string) \<Rightarrow> FConfig \<Rightarrow> fevent list \<Rightarrow> goerror option option dx_prog" where
  "run_config E watch c es =
     (case watch_sources watch (fc_Sources c) [] of
        Inl e \<Rightarrow> ret (Some (Some e))
      | Inr sources \<Rightarrow>
          (case NewHanlder \<lparr>dx_Sources = sources, dx_Destination = fc_Destination c, dx_Commands = fc_Commands c\<rparr> of
             Inl e \<Rightarrow> ret (Some (Some e))
           | Inr handler \<Rightarrow>
               bnd (exec E handler) (\<lambda>r. case r of
                 Some e \<Rightarrow> ret (Some (Some (Wrapped ''failed initial execute: '' e [])))
               | None \<Rightarrow> update_loop E handler es)))"

text \<open>\<^verbatim>\<open>Handler.Run\<close> starts the configurations that are not disabled; a nil configuration panics. The
  flags of the command line are applied before.\<close>

type_synonym input_file = "(string \<times> FConfig option) list"

fun set_disabled :: "bool \<Rightarrow> string list \<Rightarrow> input_file \<Rightarrow> input_file go" where
  "set_disabled b [] cs = Ret cs"
| "set_disabled b (e # es) cs = (case map_of cs e of
     None \<Rightarrow> set_disabled b es cs
   | Some None \<Rightarrow> Panic
   | Some (Some c) \<Rightarrow> set_disabled b es (AList.update e (Some (c\<lparr>fc_Disabled := b\<rparr>)) cs))"

definition apply_flags :: "string list \<Rightarrow> string list \<Rightarrow> input_file \<Rightarrow> input_file go" where
  "apply_flags enabling disabling cs = (case set_disabled False enabling cs of
     Panic \<Rightarrow> Panic | Ret cs \<Rightarrow> set_disabled True disabling cs)"

fun started :: "input_file \<Rightarrow> (string \<times> FConfig) list go" where
  "started [] = Ret []"
| "started ((k, None) # rest) = Panic"
| "started ((k, Some c) # rest) = (case started rest of
     Panic \<Rightarrow> Panic | Ret cs \<Rightarrow> Ret (if fc_Disabled c then cs else (k, c) # cs))"

text \<open>\<^verbatim>\<open>Handler.Run\<close> then waits for whichever comes first: a configuration that has ended, or the end of the
  context.\<close>

datatype run_event = Exited "goerror option" | RunDone

definition Handler_Run :: "input_file \<Rightarrow> run_event \<Rightarrow> goerror option go" where
  "Handler_Run cs first = (case started cs of
     Panic \<Rightarrow> Panic
   | Ret _ \<Rightarrow> Ret (case first of Exited err \<Rightarrow> err | RunDone \<Rightarrow> None))"

text \<open>The command \<^verbatim>\<open>dsnexec run\<close>; reading and unmarshalling the file are parameters. The answer is the message it dies
  with, if it does.\<close>

definition parseConfig :: "(string \<Rightarrow> goerror + string) \<Rightarrow> (string \<Rightarrow> goerror + input_file) \<Rightarrow> string \<Rightarrow> goerror + input_file" where
  "parseConfig readFile unmarshal f = (case readFile f of Inl e \<Rightarrow> Inl e | Inr bs \<Rightarrow> unmarshal bs)"

definition runCmd ::
  "(string \<Rightarrow> goerror + string) \<Rightarrow> (string \<Rightarrow> goerror + input_file) \<Rightarrow> string \<Rightarrow> string list \<Rightarrow> string list \<Rightarrow> run_event \<Rightarrow> string option go" where
  "runCmd readFile unmarshal confFile enabling disabling first = (case parseConfig readFile unmarshal confFile of
     Inl e \<Rightarrow> Ret (Some (''failed to parse config: '' @ ErrorText e))
   | Inr c \<Rightarrow> (case apply_flags enabling disabling c of
       Panic \<Rightarrow> Panic
     | Ret c \<Rightarrow> (case Handler_Run c first of
         Panic \<Rightarrow> Panic
       | Ret err \<Rightarrow> Ret (map_option (\<lambda>e. ''failed to run handler: '' @ ErrorText e) err))))"

section \<open>Casts are exact\<close>

lemma sint_fits: "fits LENGTH('a::len) n \<Longrightarrow> sint (word_of_int n :: 'a word) = n"
proof -
  assume f: "fits LENGTH('a) n"
  obtain k where k: "LENGTH('a) = Suc k" by (cases "LENGTH('a)") auto
  from f have "- (2 ^ k) \<le> n" "n < 2 ^ k" by (simp_all add: fits_def k)
  then show ?thesis by (simp add: sint_sbintrunc' k signed_take_bit_int_eq_self)
qed

lemma parse_as_ok: "parse_as mk t bits = Inr v \<longleftrightarrow> (\<exists>i. ParseInt t bits = Some i \<and> fits bits i \<and> v = mk i)"
  by (auto simp: parse_as_def dest: ParseInt_fits split: option.splits)

lemma HasPrefixE: "HasPrefix s p \<Longrightarrow> (\<And>t. s = p @ t \<Longrightarrow> P) \<Longrightarrow> P"
  by (auto simp: HasPrefix_def prefix_def)

text \<open>
  C26: an argument has the type its prefix names and the value its digits denote: a conversion never
  wraps around, and an argument without a prefix is the text itself.
\<close>

theorem cast_typed:
  assumes "cast s = Inr v"
  shows "case v of
      VInt64 w \<Rightarrow> \<exists>t. s = ''int64:'' @ t \<and> ParseInt t 64 = Some (sint w)
    | VInt32 w \<Rightarrow> \<exists>t. s = ''int32:'' @ t \<and> ParseInt t 32 = Some (sint w)
    | VInt16 w \<Rightarrow> \<exists>t. s = ''int16:'' @ t \<and> ParseInt t 16 = Some (sint w)
    | VInt8 w \<Rightarrow> \<exists>t. s = ''int8:'' @ t \<and> ParseInt t 8 = Some (sint w)
    | VInt w \<Rightarrow> \<exists>t. s = ''int:'' @ t \<and> ParseInt t 64 = Some (sint w)
    | VStr t \<Rightarrow> t = s \<and> (\<forall>p \<in> {''int64:'', ''int32:'', ''int16:'', ''int8:'', ''int:''}. \<not> HasPrefix s p)"
  using assms
  by (auto simp: cast_def parse_as_ok sint_fits split: if_splits elim!: HasPrefixE)

theorem cast_typed_witness: "\<exists>w. cast ''int8:-128'' = Inr (VInt8 w) \<and> sint w = -128 \<and> (\<exists>e. cast ''int8:128'' = Inl e)"
proof -
  have run: "cast ''int8:-128'' = Inr (VInt8 (word_of_int (-128)))" and err: "\<exists>e. cast ''int8:128'' = Inl e"
    by (simp_all add: cast_def HasPrefix_def parse_as_def ParseInt_def unsigned_decimal_def digit_val_def fits_def)
  from cast_typed [OF run] have "\<exists>t. ''int8:-128'' = ''int8:'' @ t \<and> ParseInt t 8 = Some (sint (word_of_int (-128) :: 8 word))"
    by simp
  then have "ParseInt ''-128'' 8 = Some (sint (word_of_int (-128) :: 8 word))" by auto
  moreover have "ParseInt ''-128'' 8 = Some (-128)"
    by (simp add: ParseInt_def unsigned_decimal_def digit_val_def fits_def)
  ultimately have "sint (word_of_int (-128) :: 8 word) = -128" by simp
  with run err show ?thesis by blast
qed

section \<open>What an execution does\<close>

text \<open>A command as it is sent to the destination.\<close>

definition rendered :: "dsn_libs \<Rightarrow> dsn_context \<Rightarrow> Command \<Rightarrow> string \<times> arg_value list \<Rightarrow> bool" where
  "rendered L ctx v x \<longleftrightarrow> render L ''command'' ctx (cmd_Command v) = Inr (fst x) \<and> render_args L ctx (cmd_Args v) = Inr (snd x)"

lemma run_command_ok:
  "run_command E dsn ctx v h = (Ret None, h') \<longleftrightarrow>
    (\<exists>x. rendered (dx_libs E) ctx v x \<and> e_dbExec E h dsn (fst x) (snd x) = None \<and> h' = DxExec dsn (fst x) (snd x) None # h)"
  by (cases "cmd_Args v")
    (auto simp: run_command_def rendered_def db_exec_def run_bnd run_call run_ret split: sum.splits)

lemma commands_ok:
  "for_each vs (run_command E dsn ctx) h = (Ret None, h') \<Longrightarrow>
    \<exists>xs. list_all2 (rendered (dx_libs E) ctx) vs xs \<and> h' = rev (map (\<lambda>x. DxExec dsn (fst x) (snd x) None) xs) @ h"
proof (induction vs arbitrary: h)
  case Nil
  then show ?case by (simp add: run_ret)
next
  case (Cons v vs)
  from Cons.prems obtain x where x: "rendered (dx_libs E) ctx v x"
    and rest: "for_each vs (run_command E dsn ctx) (DxExec dsn (fst x) (snd x) None # h) = (Ret None, h')"
    unfolding ok_run run_command_ok by blast
  from Cons.IH [OF rest] obtain xs where "list_all2 (rendered (dx_libs E) ctx) vs xs"
    "h' = rev (map (\<lambda>x. DxExec dsn (fst x) (snd x) None) xs) @ DxExec dsn (fst x) (snd x) None # h" by blast
  with x show ?case by (intro exI [of _ "x # xs"]) simp
qed

lemma build_context_keeps:
  "build_context L srcs ctx = Inr ctx' \<Longrightarrow> n \<notin> fst ` set srcs \<Longrightarrow> ctx' n = ctx n"
  by (induction L srcs ctx rule: build_context.induct) (auto split: option.splits sum.splits)

lemma build_context_source:
  assumes "build_context L srcs ctx = Inr ctx'" and "distinct (map fst srcs)" and "(n, s) \<in> set srcs"
  shows "\<exists>opts. ctx' n = Some opts \<and> opts ''raw_dsn'' = Some (dbc_DSN s)"
  using assms
proof (induction L srcs ctx rule: build_context.induct)
  case (2 L name source rest ctx)
  then obtain parse opts where run: "parsers L (dbc_Driver source) = Some parse" "parse (dbc_DSN source) = Inr opts"
    "build_context L rest (ctx(name \<mapsto> opts(''raw_dsn'' \<mapsto> dbc_DSN source))) = Inr ctx'"
    by (auto split: option.splits sum.splits)
  show ?case
  proof (cases "(n, s) = (name, source)")
    case True
    with 2 build_context_keeps [OF run(3), of n] show ?thesis by auto
  next
    case False
    with "2.prems" show ?thesis by (intro "2.IH" [OF run]) auto
  qed
qed simp

text \<open>
  C24: an update is executed with what it brought. When \<open>UpdateDSN\<close> reports success, every command of
  the configuration was sent to the destination, once and in order, and succeeded; each was rendered
  from a context in which every source has its connection string of that moment, the updated source
  the new one.
\<close>

theorem UpdateDSN_executes:
  assumes "UpdateDSN E path content c h = (Ret (c', None), h')" and "distinct (map fst (dx_Sources c))"
  shows "\<exists>ctx xs. list_all2 (rendered (dx_libs E) ctx) (dx_Commands c) xs \<and>
    h' = rev (map (\<lambda>x. DxExec (dbc_DSN (dx_Destination c)) (fst x) (snd x) None) xs) @
      DxOpen (dbc_Driver (dx_Destination c)) (dbc_DSN (dx_Destination c)) None # h \<and>
    (\<forall>n. Option.bind (ctx n) (\<lambda>opts. opts ''raw_dsn'') =
      (if n = path then Some content else map_option dbc_DSN (map_of (dx_Sources c) n)))"
proof -
  let ?c = "put_source path content c"
  from assms(1) have run: "exec E ?c h = (Ret None, h')" and c': "c' = ?c"
    by (auto simp: UpdateDSN_def Let_def bnd_Ret run_ret)
  have dest: "dx_Destination ?c = dx_Destination c" "dx_Commands ?c = dx_Commands c"
    by (simp_all add: put_source_def Let_def)
  obtain ctx where ctx: "build_context (dx_libs E) (dx_Sources ?c) Map.empty = Inr ctx"
    and ex: "for_each (dx_Commands c) (run_command E (dbc_DSN (dx_Destination c)) ctx)
       (DxOpen (dbc_Driver (dx_Destination c)) (dbc_DSN (dx_Destination c)) None # h) = (Ret None, h')"
    using run by (auto simp: exec_def dest run_bnd run_call run_ret Let_def split: sum.splits option.splits)
  have dist: "distinct (map fst (dx_Sources ?c))" using assms(2) by (simp add: put_source_def Let_def distinct_update)
  have src: "map_of (dx_Sources ?c) n = (if n = path then Some \<lparr>dbc_Driver = (case map_of (dx_Sources c) path of None \<Rightarrow> [] | Some s \<Rightarrow> dbc_Driver s),
      dbc_DSN = content\<rparr> else map_of (dx_Sources c) n)" for n
    by (simp add: put_source_def Let_def update_conv')
  have "Option.bind (ctx n) (\<lambda>opts. opts ''raw_dsn'') = map_option dbc_DSN (map_of (dx_Sources ?c) n)" for n
  proof (cases "map_of (dx_Sources ?c) n")
    case None
    then have "n \<notin> fst ` set (dx_Sources ?c)" by (simp add: map_of_eq_None_iff)
    from build_context_keeps [OF ctx this] None show ?thesis by simp
  next
    case (Some s)
    from build_context_source [OF ctx dist map_of_SomeD [OF Some]] Some show ?thesis by auto
  qed
  with src commands_ok [OF ex] show ?thesis by (auto intro!: exI [of _ ctx])
qed

definition plain_libs :: dsn_libs where
  "plain_libs = \<lparr>lib_pg_ParseURL = Inr, lib_pg_ParseOpts = (\<lambda>_. Inr Map.empty), lib_json = (\<lambda>_. Inr Map.empty),
     lib_yaml = (\<lambda>_. Inr Map.empty), lib_template = (\<lambda>t. Inr (\<lambda>_. Inr t))\<rparr>"

definition plain_dx :: dx_env where
  "plain_dx = \<lparr>dx_libs = plain_libs, e_sqlOpen = (\<lambda>_ _ _. None), e_dbExec = (\<lambda>_ _ _ _. None)\<rparr>"

definition sample_dx :: DsnConfig where
  "sample_dx = \<lparr>dx_Sources = [(''app'', \<lparr>dbc_Driver = ''none'', dbc_DSN = ''old''\<rparr>)],
     dx_Destination = \<lparr>dbc_Driver = ''shelldb'', dbc_DSN = ''sh''\<rparr>,
     dx_Commands = [\<lparr>cmd_Command = ''notify'', cmd_Args = [''int8:7'']\<rparr>]\<rparr>"

theorem UpdateDSN_executes_witness:
  "\<exists>c' h' ctx w. UpdateDSN plain_dx ''app'' ''new'' sample_dx [] = (Ret (c', None), h') \<and>
     DxExec ''sh'' ''notify'' [VInt8 w] None \<in> set h' \<and> Option.bind (ctx ''app'') (\<lambda>opts. opts ''raw_dsn'') = Some ''new''"
proof -
  have seven: "cast ''int8:7'' = Inr (VInt8 7)"
    by (simp add: cast_def HasPrefix_def parse_as_def ParseInt_def unsigned_decimal_def digit_val_def fits_def)
  obtain c' h' where run: "UpdateDSN plain_dx ''app'' ''new'' sample_dx [] = (Ret (c', None), h')"
    by (simp add: UpdateDSN_def exec_def put_source_def sample_dx_def plain_dx_def plain_libs_def parsers_def parseNone_def
        run_command_def render_def seven db_exec_def prog_simps Let_def)
  have "distinct (map fst (dx_Sources sample_dx))" by (simp add: sample_dx_def)
  from UpdateDSN_executes [OF run this] obtain ctx xs where
    xs: "list_all2 (rendered (dx_libs plain_dx) ctx) (dx_Commands sample_dx) xs"
    and h': "h' = rev (map (\<lambda>x. DxExec (dbc_DSN (dx_Destination sample_dx)) (fst x) (snd x) None) xs) @
      DxOpen (dbc_Driver (dx_Destination sample_dx)) (dbc_DSN (dx_Destination sample_dx)) None # []"
    and ctx: "\<And>n. Option.bind (ctx n) (\<lambda>opts. opts ''raw_dsn'') =
      (if n = ''app'' then Some ''new'' else map_option dbc_DSN (map_of (dx_Sources sample_dx) n))"
    by blast
  from xs have "xs = [(''notify'', [VInt8 7])]"
    by (auto simp: sample_dx_def plain_dx_def plain_libs_def rendered_def render_def seven list_all2_Cons1)
  with h' have "DxExec ''sh'' ''notify'' [VInt8 7] None \<in> set h'" by (simp add: sample_dx_def)
  with run ctx [of "''app''"] show ?thesis by auto
qed

section \<open>Concurrent updates\<close>

text \<open>Updates run concurrently: each writes its source under the write lock and executes under a read
  lock that it takes afterwards, so that writes of others may come in between. The state counts the
  updates that have written and not yet executed, and remembers the configurations executed, newest
  first.\<close>

record handler_state =
  hs_config :: DsnConfig
  hs_pending :: nat
  hs_executed :: "DsnConfig list"

inductive handling :: "DsnConfig \<Rightarrow> handler_state \<Rightarrow> bool" for c where
  synced: "handling c \<lparr>hs_config = c, hs_pending = 0, hs_executed = [c]\<rparr>"
| writes: "handling c s \<Longrightarrow>
    handling c (s\<lparr>hs_config := put_source path content (hs_config s), hs_pending := Suc (hs_pending s)\<rparr>)"
| executes: "handling c s \<Longrightarrow> hs_pending s = Suc k \<Longrightarrow>
    handling c (s\<lparr>hs_pending := k, hs_executed := hs_config s # hs_executed s\<rparr>)"

lemma handling_last:
  "handling c s \<Longrightarrow> hs_executed s \<noteq> [] \<and> (hd (hs_executed s) = hs_config s \<or> 0 < hs_pending s)"
  by (induction rule: handling.induct) auto

text \<open>When every update has returned, the newest execution was one of the final configuration.\<close>

lemma handling_settles: "handling c s \<Longrightarrow> hs_pending s = 0 \<Longrightarrow> hd (hs_executed s) = hs_config s"
  using handling_last by fastforce

section \<open>Integers in the shell\<close>

text \<open>Every argument with a prefix reaches a program that the shell driver runs in the notation for a
  verb of the wrong type.\<close>

lemma shell_integers:
  assumes "cast s = Inr v" and "v \<noteq> VStr s"
  shows "\<exists>n. sprint_arg v = ''%!s(int64='' @ Itoa n @ '')''"
  using assms by (cases v) (auto simp: cast_def parse_as_ok split: if_splits)

section \<open>Flags\<close>

lemma set_disabled_keys:
  "set_disabled b es cs = Ret cs' \<Longrightarrow> (map_of cs k = None \<longleftrightarrow> map_of cs' k = None)"
  by (induction b es cs rule: set_disabled.induct) (auto simp: update_conv' split: option.splits if_splits)

lemma set_disabled_sets:
  assumes "set_disabled b es cs = Ret cs'" and "map_of cs' k = Some (Some c)"
  shows "(k \<in> set es \<longrightarrow> fc_Disabled c = b) \<and> (k \<notin> set es \<longrightarrow> map_of cs k = Some (Some c))"
  using assms
proof (induction b es cs rule: set_disabled.induct)
  case (2 b e es cs)
  then show ?case
    by (auto simp: update_conv' split: option.splits if_splits dest: set_disabled_keys [of _ _ _ _ e])
qed simp

lemma disabling_wins:
  "apply_flags enabling disabling cs = Ret cs' \<Longrightarrow> map_of cs' k = Some (Some c) \<Longrightarrow> k \<in> set disabling \<Longrightarrow> fc_Disabled c"
  by (auto simp: apply_flags_def split: go.splits dest: set_disabled_sets)

lemma started_enabled: "started cs = Ret run \<Longrightarrow> (k, c) \<in> set run \<Longrightarrow> (k, Some c) \<in> set cs \<and> \<not> fc_Disabled c"
  by (induction cs arbitrary: run rule: started.induct) (auto split: go.splits if_splits)

lemma set_disabled_distinct: "set_disabled b es cs = Ret cs' \<Longrightarrow> distinct (map fst cs) \<Longrightarrow> distinct (map fst cs')"
  by (induction b es cs rule: set_disabled.induct) (auto simp: distinct_update split: option.splits)

text \<open>A configuration that the command line disables is not started, even where it enables it too.\<close>

lemma disabled_not_started:
  assumes "distinct (map fst cs)" and "apply_flags enabling disabling cs = Ret cs'" and "started cs' = Ret run"
    and "k \<in> set disabling"
  shows "k \<notin> fst ` set run"
proof
  assume "k \<in> fst ` set run"
  then obtain c where "(k, c) \<in> set run" by auto
  with started_enabled [OF assms(3)] have c: "(k, Some c) \<in> set cs'" "\<not> fc_Disabled c" by blast+
  have "distinct (map fst cs')"
    using assms(1,2) by (auto simp: apply_flags_def split: go.splits dest: set_disabled_distinct)
  with c disabling_wins [OF assms(2) _ assms(4)] show False by (auto simp: map_of_eq_Some_iff)
qed

end
