(* ===== verification/Fprintf.thy ===== *)
theory Fprintf
  imports Dsnexec Pgbouncer
begin

text \<open>
  The driver of dsnexec that writes files (\<^verbatim>\<open>dsnexec/pkg/fprintf\<close>): a connection names a file and a
  templater, and every statement is formatted into a temporary file that then takes the place of the
  named one. Files are those of \<open>Pgbouncer\<close>; templaters are registered at run time, so the registry
  is an argument.
\<close>

section \<open>Connections\<close>

type_synonym templater = "string \<Rightarrow> string list \<Rightarrow> goerror + string"

record fconn =
  fc_filename :: string
  fc_handler :: string
  fc_templater :: templater

text \<open>The registries as \<^verbatim>\<open>init\<close> leaves them, and later registrations, which panic on a name that is
  taken.\<close>

definition init_fileHandlers :: "string set" where
  "init_fileHandlers = {''file''}"

definition init_templaters :: "templater \<Rightarrow> string \<rightharpoonup> templater" where
  "init_templaters Fprintf = [''fprintf'' \<mapsto> Fprintf, [] \<mapsto> Fprintf]"

definition RegisterFileHandler :: "string \<Rightarrow> string set \<Rightarrow> string set go" where
  "RegisterFileHandler name hs = (if name \<in> hs then Panic else Ret (insert name hs))"

definition RegisterTemplater :: "string \<Rightarrow> templater \<Rightarrow> (string \<rightharpoonup> templater) \<Rightarrow> (string \<rightharpoonup> templater) go" where
  "RegisterTemplater name f ts = (if ts name \<noteq> None then Panic else Ret (ts(name \<mapsto> f)))"

definition fprintf_Open :: "string set \<Rightarrow> (string \<rightharpoonup> templater) \<Rightarrow> string \<Rightarrow> goerror + fconn" where
  "fprintf_Open fileHandlers templaters name =
     (case Parse name of
        Inl e \<Rightarrow> Inl (UrlError e)
      | Inr uri \<Rightarrow>
          if Scheme uri \<notin> fileHandlers then Inl (ErrMsg (''fprintf: unsupported file handler '' @ Scheme uri))
          else (case templaters (HostPort uri) of
             None \<Rightarrow> Inl (ErrMsg (''fprintf: unsupported templater '' @ Scheme uri))
           | Some t \<Rightarrow> Inr \<lparr>fc_filename = Path uri, fc_handler = Scheme uri, fc_templater = t\<rparr>))"

section \<open>Temporary files\<close>

text \<open>\<^verbatim>\<open>path.Base\<close>.\<close>

definition trim_slashes :: "string \<Rightarrow> string" where
  "trim_slashes p = rev (dropWhile (\<lambda>c. c = CHR ''/'') (rev p))"

definition Base :: "string \<Rightarrow> string" where
  "Base p = (if p = [] then ''.''
     else let q = trim_slashes p;
              b = (case split_last q (CHR ''/'') of None \<Rightarrow> q | Some (_, b) \<Rightarrow> b)
          in if b = [] then ''/'' else b)"

text \<open>\<^verbatim>\<open>os.CreateTemp\<close>: \<open>rand\<close> is the random part of the name, chosen so that no file has it; the
  pattern's last star says where it goes.\<close>

definition temp_name :: "string \<Rightarrow> string \<Rightarrow> string \<Rightarrow> string" where
  "temp_name dir pattern rand =
     (let dir = (if HasSuffix dir ''/'' then dir else dir @ ''/'')
      in case split_last pattern (CHR ''*'') of
        None \<Rightarrow> dir @ pattern @ rand
      | Some (a, b) \<Rightarrow> dir @ a @ rand @ b)"

record file_handler =
  fh_name :: string
  fh_tempTemp :: string

record fp_env =
  fp_tempDir :: string
  fp_rand :: string
  fp_create :: "goerror option"
  fp_write :: "(nat \<times> goerror) option"
  fp_close :: "goerror option"
  fp_rename :: "goerror option"

definition newFileHandler :: "fp_env \<Rightarrow> string \<Rightarrow> files \<Rightarrow> goerror + (file_handler \<times> files)" where
  "newFileHandler E filename fs =
     (let isTemp = HasPrefix filename ''/$tmp/'';
          dirname = (if isTemp then fp_tempDir E else Dir filename);
          filename = (if isTemp then drop 6 filename else filename);
          baseFile = Base filename
      in if CHR ''/'' \<in> set baseFile then Inl (ErrMsg ''pattern contains path separator'')
         else (case fp_create E of
            Some e \<Rightarrow> Inl e
          | None \<Rightarrow>
              (let temp = temp_name dirname baseFile (fp_rand E)
               in Inr (\<lparr>fh_name = (if isTemp then Join2 (fp_tempDir E) baseFile else filename), fh_tempTemp = temp\<rparr>,
                    fs(temp \<mapsto> [])))))"

text \<open>\<^verbatim>\<open>watchTilClose\<close>, once the context is cancelled at the end of the statement. It runs in a goroutine of its
  own, which may remove the file a little after the statement has returned; the model takes the file
  system when that goroutine is done. Nothing else knows the temporary name, and after the rename there is
  nothing left to remove.\<close>

definition removeTemp :: "file_handler \<Rightarrow> files \<Rightarrow> files" where
  "removeTemp fh fs = fs(fh_tempTemp fh := None)"

definition fh_Write :: "fp_env \<Rightarrow> file_handler \<Rightarrow> string \<Rightarrow> files \<Rightarrow> goerror option \<times> files" where
  "fh_Write E fh data fs = (case fp_write E of
     Some (n, e) \<Rightarrow> (Some e, fs(fh_tempTemp fh \<mapsto> take n data))
   | None \<Rightarrow> (None, fs(fh_tempTemp fh \<mapsto> data)))"

definition fh_Close :: "fp_env \<Rightarrow> file_handler \<Rightarrow> files \<Rightarrow> goerror option \<times> files" where
  "fh_Close E fh fs = (case fp_close E of
     Some e \<Rightarrow> (Some e, fs)
   | None \<Rightarrow> (case fp_rename E of
       Some e \<Rightarrow> (Some e, fs)
     | None \<Rightarrow> (None, (fs(fh_name fh := fs (fh_tempTemp fh)))(fh_tempTemp fh := None))))"

section \<open>Statements\<close>

text \<open>The handler that belongs to the scheme of the connection is not asked: every statement goes
  through \<open>newFileHandler\<close>.\<close>

definition fprintf_ExecContext :: "fp_env \<Rightarrow> fconn \<Rightarrow> string \<Rightarrow> arg_value list \<Rightarrow> files \<Rightarrow> goerror option \<times> files" where
  "fprintf_ExecContext E c query args fs =
     (case newFileHandler E (fc_filename c) fs of
        Inl e \<Rightarrow> (Some e, fs)
      | Inr (w, fs) \<Rightarrow>
          (case fc_templater c query (map sprint_arg args) of
             Inl e \<Rightarrow> (Some e, removeTemp w fs)
           | Inr text \<Rightarrow>
               (case fh_Write E w text fs of
                  (Some e, fs) \<Rightarrow> (Some e, removeTemp w fs)
                | (None, fs) \<Rightarrow>
                    (case fh_Close E w fs of
                       (Some e, fs) \<Rightarrow> (Some e, removeTemp w fs)
                     | (None, fs) \<Rightarrow> (None, removeTemp w fs)))))"

text \<open>The name of the file a connection writes.\<close>

definition fp_target :: "fp_env \<Rightarrow> string \<Rightarrow> string" where
  "fp_target E filename = (if HasPrefix filename ''/$tmp/'' then Join2 (fp_tempDir E) (Base (drop 6 filename)) else filename)"

definition fp_temp :: "fp_env \<Rightarrow> string \<Rightarrow> string" where
  "fp_temp E filename = (if HasPrefix filename ''/$tmp/''
     then temp_name (fp_tempDir E) (Base (drop 6 filename)) (fp_rand E)
     else temp_name (Dir filename) (Base filename) (fp_rand E))"

lemma newFileHandler_ok:
  "newFileHandler E filename fs = Inr (fh, fs') \<Longrightarrow>
    fh_name fh = fp_target E filename \<and> fh_tempTemp fh = fp_temp E filename \<and> fs' = fs(fp_temp E filename \<mapsto> [])"
  by (auto simp: newFileHandler_def fp_target_def fp_temp_def Let_def split: if_splits option.splits)

text \<open>
  C25: a statement replaces the file at once or not at all. If it fails, at whatever point, all files
  are as they were; if it succeeds, the named file holds the whole formatted text and every other
  file is as it was.
\<close>

theorem fprintf_atomic:
  assumes run: "fprintf_ExecContext E c query args fs = (err, fs')"
    and fresh: "fs (fp_temp E (fc_filename c)) = None" and other: "fp_temp E (fc_filename c) \<noteq> fp_target E (fc_filename c)"
  shows "(err \<noteq> None \<longrightarrow> fs' = fs) \<and>
    (err = None \<longrightarrow> (\<exists>text. fc_templater c query (map sprint_arg args) = Inr text \<and>
       fs' = fs(fp_target E (fc_filename c) \<mapsto> text)))"
proof (cases "newFileHandler E (fc_filename c) fs")
  case (Inr r)
  obtain w fs1 where r: "r = (w, fs1)" by (cases r)
  from newFileHandler_ok [of E "fc_filename c" fs w fs1] Inr r
  have w: "fh_name w = fp_target E (fc_filename c)" "fh_tempTemp w = fp_temp E (fc_filename c)"
    and fs1: "fs1 = fs(fp_temp E (fc_filename c) \<mapsto> [])" by simp_all
  let ?t = "fp_temp E (fc_filename c)" and ?n = "fp_target E (fc_filename c)"
  have gone: "fs(?t := None) = fs" using fresh by (simp add: fun_upd_idem)
  have moved: "fs(?n := y, ?t := None) = fs(?n := y)" for y using fresh other by (auto simp: fun_eq_iff)
  show ?thesis
    using run Inr r w fs1
    by (auto simp: fprintf_ExecContext_def fh_Write_def fh_Close_def removeTemp_def gone moved
        split: sum.splits option.splits prod.splits)
qed (use run in \<open>auto simp: fprintf_ExecContext_def\<close>)

definition copy_conn :: fconn where
  "copy_conn = \<lparr>fc_filename = ''/out/dsn.txt'', fc_handler = ''file'', fc_templater = (\<lambda>q args. Inr (q @ concat args))\<rparr>"

definition full_disk :: "(nat \<times> goerror) option \<Rightarrow> fp_env" where
  "full_disk w = \<lparr>fp_tempDir = ''/tmp'', fp_rand = ''42'', fp_create = None, fp_write = w, fp_close = None, fp_rename = None\<rparr>"

lemma copy_conn_paths:
  "fp_temp (full_disk w) (fc_filename copy_conn) = ''/out/dsn.txt42''" "fp_target (full_disk w) (fc_filename copy_conn) = ''/out/dsn.txt''"
  by code_simp+

theorem fprintf_atomic_witness:
  "(\<exists>e. fprintf_ExecContext (full_disk (Some (1, ErrMsg ''disk full''))) copy_conn ''dsn '' [VStr ''x''] [''/out/dsn.txt'' \<mapsto> ''old''] =
      (Some e, [''/out/dsn.txt'' \<mapsto> ''old''])) \<and>
   (\<exists>err. fprintf_ExecContext (full_disk None) copy_conn ''dsn '' [VStr ''x''] [''/out/dsn.txt'' \<mapsto> ''old''] =
      (err, [''/out/dsn.txt'' \<mapsto> ''dsn x'']))"
proof -
  note atomic = fprintf_atomic [where fs = "[''/out/dsn.txt'' \<mapsto> ''old'']" and c = copy_conn and query = "''dsn ''" and args = "[VStr ''x'']",
      OF prod.collapse [symmetric]]
  let ?run = "\<lambda>w. fprintf_ExecContext (full_disk w) copy_conn ''dsn '' [VStr ''x''] [''/out/dsn.txt'' \<mapsto> ''old'']"
  have "fst (?run (Some (1, ErrMsg ''disk full''))) \<noteq> None" "fst (?run None) = None" by code_simp+
  moreover have "fc_templater copy_conn ''dsn '' (map sprint_arg [VStr ''x'']) = Inr ''dsn x''" by code_simp
  ultimately have "snd (?run (Some (1, ErrMsg ''disk full''))) = [''/out/dsn.txt'' \<mapsto> ''old'']"
    "snd (?run None) = [''/out/dsn.txt'' \<mapsto> ''dsn x'']" "fst (?run (Some (1, ErrMsg ''disk full''))) \<noteq> None"
    using atomic [of "full_disk (Some (1, ErrMsg ''disk full''))"] atomic [of "full_disk None"]
    by (simp_all add: copy_conn_paths)
  then show ?thesis by (metis not_None_eq prod.collapse)
qed

end
