(* ===== verification/Rdsauth.thy ===== *)
theory Rdsauth
  imports Api_Types
begin

text \<open>
  Tokens for the master user of an RDS database (\<^verbatim>\<open>pkg/rdsauth\<close>): the token that is kept, when it
  counts as expired, and the region an endpoint names. Building a token from the session's
  credentials is done by the AWS library, a parameter here. The lock makes \<open>Get\<close> and \<open>Set\<close> atomic.
\<close>

section \<open>The kept token\<close>

record MasterAuth =
  ma_authToken :: string
  ma_updatedAt :: int

definition NewMasterAuth :: MasterAuth where
  "NewMasterAuth = \<lparr>ma_authToken = [], ma_updatedAt = 0\<rparr>"

text \<open>\<^verbatim>\<open>time.Since\<close>: a difference that does not fit a duration is the largest or the smallest one.\<close>

definition Since :: "int \<Rightarrow> int \<Rightarrow> int" where
  "Since now t = max (- (2 ^ 63)) (min (2 ^ 63 - 1) (now - t))"

abbreviation tokenExpirationTime :: int where "tokenExpirationTime \<equiv> 900 * 10 ^ 9"

definition IsExpired :: "int \<Rightarrow> MasterAuth \<Rightarrow> bool" where
  "IsExpired now ma = (Since now (ma_updatedAt ma) > tokenExpirationTime - 60 * 10 ^ 9)"

definition ma_Get :: "MasterAuth \<Rightarrow> string" where
  "ma_Get ma = ma_authToken ma"

definition ma_Set :: "int \<Rightarrow> string \<Rightarrow> MasterAuth \<Rightarrow> MasterAuth" where
  "ma_Set now newToken ma = ma\<lparr>ma_authToken := newToken, ma_updatedAt := now\<rparr>"

section \<open>Regions\<close>

abbreviation rdsBaseURL :: string where "rdsBaseURL \<equiv> ''rds.amazonaws.com''"

definition parseRegion :: "string \<Rightarrow> goerror + string" where
  "parseRegion endpoint =
     (if \<not> Contains endpoint rdsBaseURL then Inl (ErrMsg (''endpoint '' @ endpoint @ '' is not proper rds endpoint''))
      else let splitted = Split endpoint (CHR ''.'')
           in if length splitted < 4 then Inl (ErrMsg ''endpoint name doesn't contain region'')
              else Inr (splitted ! (length splitted - 4)))"

definition CreateRDSToken :: "(string \<Rightarrow> string \<Rightarrow> string \<Rightarrow> goerror + string) \<Rightarrow> string \<Rightarrow> string \<Rightarrow> goerror + string" where
  "CreateRDSToken buildAuthToken dbEndpoint dbUser =
     (case parseRegion dbEndpoint of Inl e \<Rightarrow> Inl e | Inr region \<Rightarrow> buildAuthToken dbEndpoint region dbUser)"

definition STSCreds :: "string \<Rightarrow> goerror option" where
  "STSCreds roleARN = (if roleARN = [] then Some (ErrMsg ''a role ARN name must be supplied'') else None)"

section \<open>What they promise\<close>

lemma Split_snoc: "Split (a @ c # b) c = Split a c @ Split b c"
proof (induction a c rule: Split.induct)
  case (2 x xs c)
  then show ?case by (cases "Split xs c") auto
qed simp

lemma parseRegion_endpoint:
  assumes "CHR ''.'' \<notin> set region" and "CHR ''.'' \<notin> set port"
  shows "parseRegion (host @ ''.'' @ region @ ''.rds.amazonaws.com'' @ port) = Inr region"
proof -
  have "Split (host @ CHR ''.'' # region @ ''.rds.amazonaws.com'' @ port) (CHR ''.'') =
      Split host (CHR ''.'') @ [region, ''rds'', ''amazonaws'', ''com'' @ port]"
    using assms by (simp add: Split_snoc Split_append Split_no_sep)
  moreover have "Contains (host @ ''.'' @ region @ ''.rds.amazonaws.com'' @ port) rdsBaseURL"
    using Contains_append [of "host @ ''.'' @ region @ ''.''" rdsBaseURL port] by simp
  ultimately show ?thesis by (simp add: parseRegion_def nth_append Let_def)
qed

text \<open>A token counts as expired one minute before it is, and for good; a fresh value holds none.\<close>

lemma IsExpired_iff:
  assumes "0 \<le> now - ma_updatedAt ma" and "now - ma_updatedAt ma < 2 ^ 63"
  shows "IsExpired now ma \<longleftrightarrow> ma_updatedAt ma + 840 * 10 ^ 9 < now"
  using assms by (auto simp: IsExpired_def Since_def)

lemma Set_fresh: "0 \<le> t \<Longrightarrow> t \<le> 840 * 10 ^ 9 \<Longrightarrow> \<not> IsExpired (now + t) (ma_Set now tok ma) \<and> ma_Get (ma_Set now tok ma) = tok"
  by (auto simp: IsExpired_def Since_def ma_Set_def ma_Get_def)

end
