(* ===== verification/Metrics.thy ===== *)
theory Metrics
  imports Hostparams World
begin

text \<open>
  The gauges over all claims (\<^verbatim>\<open>internal/metrics/databaseclaim.go\<close>, with the labels that
  \<^verbatim>\<open>pkg/metrics/metrics.go\<close> declares), the deployment of a claim's exporter (\<^verbatim>\<open>pkg/postgres-exporter\<close>), and
  the role claims that are reconciled when a claim changes (\<^verbatim>\<open>internal/controller\<close>).
\<close>

section \<open>Gauges\<close>

text \<open>A gauge has a value for every list of label values, in the order of the labels' declaration.\<close>

type_synonym gauge = "string list \<Rightarrow> nat"

record gauges =
  g_TotalDatabaseClaims :: gauge
  g_ExistingSourceClaims :: gauge
  g_ErrorStateClaims :: gauge
  g_MigrationStateClaims :: gauge
  g_ActiveDBState :: gauge

definition inc :: "string list \<Rightarrow> gauge \<Rightarrow> gauge" where
  "inc ls g = g(ls := Suc (g ls))"

definition reset_gauges :: gauges where
  "reset_gauges = \<lparr>g_TotalDatabaseClaims = (\<lambda>_. 0), g_ExistingSourceClaims = (\<lambda>_. 0), g_ErrorStateClaims = (\<lambda>_. 0),
     g_MigrationStateClaims = (\<lambda>_. 0), g_ActiveDBState = (\<lambda>_. 0)\<rparr>"

definition or_none :: "string \<Rightarrow> string" where
  "or_none s = (if s = [] then ''none'' else s)"

text \<open>The body of the loop: each claim is counted in two gauges, and in three more if the status says so.\<close>

definition count_claim :: "DatabaseClaim \<Rightarrow> gauges \<Rightarrow> gauges" where
  "count_claim c g =
     (let ns = dc_Namespace c; app = spec_AppID (dc_Spec c); st = dc_Status c;
          g = g\<lparr>g_TotalDatabaseClaims := inc [ns, app, or_none (spec_Type (dc_Spec c)), or_none (spec_DBVersion (dc_Spec c))]
                (g_TotalDatabaseClaims g)\<rparr>;
          g = (if s_Error st \<noteq> [] then g\<lparr>g_ErrorStateClaims := inc [ns, app, s_Error st] (g_ErrorStateClaims g)\<rparr> else g);
          g = (if s_MigrationState st \<noteq> [] then g\<lparr>g_MigrationStateClaims := inc [ns, s_MigrationState st, app] (g_MigrationStateClaims g)\<rparr> else g);
          g = (if st_DbState (s_ActiveDB st) \<noteq> [] then g\<lparr>g_ActiveDBState := inc [ns, st_DbState (s_ActiveDB st), app] (g_ActiveDBState g)\<rparr> else g)
      in if spec_UseExistingSource (dc_Spec c) = Some True
         then g\<lparr>g_ExistingSourceClaims := inc [ns, app, ''true''] (g_ExistingSourceClaims g)\<rparr>
         else g\<lparr>g_ExistingSourceClaims := inc [ns, ''false'', app] (g_ExistingSourceClaims g)\<rparr>)"

definition updateMetrics :: "goerror + DatabaseClaim list \<Rightarrow> gauges \<Rightarrow> gauges" where
  "updateMetrics listed g = (case listed of Inl _ \<Rightarrow> g | Inr claims \<Rightarrow> fold count_claim claims reset_gauges)"

lemma fold_inc: "fold (\<lambda>x. inc (f x)) xs g l = g l + count_list (map f xs) l"
  by (induction xs arbitrary: g) (simp_all add: inc_def)

lemma fold_inc_if:
  "fold (\<lambda>x g. if P x then inc (f x) g else g) xs g l = g l + count_list (map f (filter P xs)) l"
  by (induction xs arbitrary: g) (simp_all add: inc_def)

definition total_labels :: "DatabaseClaim \<Rightarrow> string list" where
  "total_labels c = [dc_Namespace c, spec_AppID (dc_Spec c), or_none (spec_Type (dc_Spec c)), or_none (spec_DBVersion (dc_Spec c))]"

definition migration_labels :: "DatabaseClaim \<Rightarrow> string list" where
  "migration_labels c = [dc_Namespace c, s_MigrationState (dc_Status c), spec_AppID (dc_Spec c)]"

definition existing_labels :: "DatabaseClaim \<Rightarrow> string list" where
  "existing_labels c = (if spec_UseExistingSource (dc_Spec c) = Some True then [dc_Namespace c, spec_AppID (dc_Spec c), ''true'']
     else [dc_Namespace c, ''false'', spec_AppID (dc_Spec c)])"

lemma count_claim_gauges:
  "g_TotalDatabaseClaims (count_claim c g) = inc (total_labels c) (g_TotalDatabaseClaims g)"
  "g_MigrationStateClaims (count_claim c g) =
     (if s_MigrationState (dc_Status c) \<noteq> [] then inc (migration_labels c) (g_MigrationStateClaims g) else g_MigrationStateClaims g)"
  "g_ExistingSourceClaims (count_claim c g) = inc (existing_labels c) (g_ExistingSourceClaims g)"
  by (simp_all add: count_claim_def total_labels_def migration_labels_def existing_labels_def Let_def)

lemma counted:
  "g_TotalDatabaseClaims (fold count_claim cs g) = fold (\<lambda>c. inc (total_labels c)) cs (g_TotalDatabaseClaims g)"
  "g_MigrationStateClaims (fold count_claim cs g) =
     fold (\<lambda>c m. if s_MigrationState (dc_Status c) \<noteq> [] then inc (migration_labels c) m else m) cs (g_MigrationStateClaims g)"
  "g_ExistingSourceClaims (fold count_claim cs g) = fold (\<lambda>c. inc (existing_labels c)) cs (g_ExistingSourceClaims g)"
  by (induction cs arbitrary: g) (simp_all add: count_claim_gauges)

text \<open>\<^verbatim>\<open>StartUpdater\<close>: every minute the claims are listed, until the context is done. Of several things that
  are ready \<^verbatim>\<open>select\<close> takes any; the list holds what it took. The answer says whether the updater has ended.\<close>

datatype tick = UpdaterDone | Tick "goerror + DatabaseClaim list"

fun StartUpdater :: "tick list \<Rightarrow> gauges \<Rightarrow> gauges \<times> bool" where
  "StartUpdater [] g = (g, False)"
| "StartUpdater (UpdaterDone # _) g = (g, True)"
| "StartUpdater (Tick listed # ts) g = StartUpdater ts (updateMetrics listed g)"

text \<open>A failed listing leaves the gauges as they are, so that they always show the last listing that
  succeeded.\<close>

lemma StartUpdater_last:
  assumes "\<forall>t \<in> set ts. \<exists>e. t = Tick (Inl e)"
  shows "StartUpdater (Tick (Inr cs) # ts) g = (fold count_claim cs reset_gauges, False)"
proof -
  have "StartUpdater ts g = (g, False)" for g
    using assms by (induction ts) (auto simp: updateMetrics_def)
  then show ?thesis by (simp add: updateMetrics_def)
qed

text \<open>After an update a gauge holds the number of claims with these labels, whatever it held before.\<close>

lemma updateMetrics_total:
  "g_TotalDatabaseClaims (updateMetrics (Inr cs) g) l = count_list (map total_labels cs) l"
  "g_MigrationStateClaims (updateMetrics (Inr cs) g) l =
     count_list (map migration_labels (filter (\<lambda>c. s_MigrationState (dc_Status c) \<noteq> []) cs)) l"
  by (simp_all add: updateMetrics_def counted fold_inc fold_inc_if reset_gauges_def)

text \<open>
  C36: what the gauge of claims with an existing source counts, series by series. Its labels are
  namespace, use_existing_source and app_id. A claim without an existing source is counted where it
  should be, under the flag \<^verbatim>\<open>false\<close> and its application; one with an existing source is counted under its
  application as the flag and \<^verbatim>\<open>true\<close> as the application. So the series with the flag \<^verbatim>\<open>true\<close> of an
  application counts none of its claims, except for an application that is itself called \<^verbatim>\<open>true\<close>.
\<close>

theorem existing_source_gauge:
  "g_ExistingSourceClaims (updateMetrics (Inr cs) g) [ns, flag, app] =
     (if app = ''true'' then length (filter (\<lambda>c. dc_Namespace c = ns \<and> spec_AppID (dc_Spec c) = flag \<and>
        spec_UseExistingSource (dc_Spec c) = Some True) cs) else 0) +
     (if flag = ''false'' then length (filter (\<lambda>c. dc_Namespace c = ns \<and> spec_AppID (dc_Spec c) = app \<and>
        spec_UseExistingSource (dc_Spec c) \<noteq> Some True) cs) else 0)"
proof -
  have "g_ExistingSourceClaims (updateMetrics (Inr cs) g) [ns, flag, app] =
      count_list (map existing_labels cs) [ns, flag, app]"
    by (simp add: updateMetrics_def counted fold_inc reset_gauges_def)
  also have "\<dots> = (if app = ''true'' then length (filter (\<lambda>c. dc_Namespace c = ns \<and> spec_AppID (dc_Spec c) = flag \<and>
        spec_UseExistingSource (dc_Spec c) = Some True) cs) else 0) +
     (if flag = ''false'' then length (filter (\<lambda>c. dc_Namespace c = ns \<and> spec_AppID (dc_Spec c) = app \<and>
        spec_UseExistingSource (dc_Spec c) \<noteq> Some True) cs) else 0)"
  proof (induction cs)
    case (Cons c cs)
    then show ?case
      by (cases "spec_UseExistingSource (dc_Spec c) = Some True"; cases "app = ''true''"; cases "flag = ''false''")
        (simp_all add: existing_labels_def)
  qed simp
  finally show ?thesis .
qed

section \<open>The exporter of a claim\<close>

record ExporterConfig =
  ex_Name :: string
  ex_Namespace :: string
  ex_ImageRepo :: string
  ex_ImageTag :: string
  ex_Release :: string
  ex_DatabaseName :: string
  ex_Class :: string
  ex_DBClaimOwnerRef :: string
  ex_constantLabels :: "string \<rightharpoonup> string"
  ex_AppendConstantLabels :: "string \<rightharpoonup> string"
  ex_DatasourceSecretName :: string
  ex_DatasourceFileName :: string
  ex_DepYamlPath :: string
  ex_ConfigYamlPath :: string

definition ex_NewConfig :: ExporterConfig where
  "ex_NewConfig = \<lparr>ex_Name = [], ex_Namespace = [], ex_ImageRepo = ''quay.io/prometheuscommunity/postgres-exporter'',
     ex_ImageTag = ''v0.10.1'', ex_Release = ''dbclaim-exporter'', ex_DatabaseName = [], ex_Class = [], ex_DBClaimOwnerRef = [],
     ex_constantLabels = Map.empty, ex_AppendConstantLabels = Map.empty, ex_DatasourceSecretName = [],
     ex_DatasourceFileName = ''uri_dsn.txt'', ex_DepYamlPath = [], ex_ConfigYamlPath = []\<rparr>"

text \<open>The configuration the reconciler makes for a claim.\<close>

definition exporter_config :: "string \<Rightarrow> string \<Rightarrow> string \<Rightarrow> DatabaseClaim \<Rightarrow> ExporterConfig" where
  "exporter_config depYamlPath configYamlPath class c = ex_NewConfig\<lparr>ex_Name := dc_Name c, ex_Namespace := dc_Namespace c,
     ex_DBClaimOwnerRef := m_UID (dc_Meta c), ex_DepYamlPath := depYamlPath, ex_ConfigYamlPath := configYamlPath,
     ex_DatasourceSecretName := spec_SecretName (dc_Spec c), ex_DatasourceFileName := DSNURIKey,
     ex_DatabaseName := spec_DatabaseName (dc_Spec c), ex_Class := class\<rparr>"

definition prepare :: "ExporterConfig \<Rightarrow> ExporterConfig" where
  "prepare cfg = cfg\<lparr>ex_constantLabels := [''dbclaim'' \<mapsto> ex_Name cfg] ++ ex_AppendConstantLabels cfg\<rparr>"

text \<open>Files, templates with the functions of sprig, and the decoder of YAML texts are parameters; an
  object of the cluster has a key and a body.\<close>

record exporter_env =
  xe_ReadFile :: "string \<Rightarrow> goerror + string"
  xe_template :: "string \<Rightarrow> ExporterConfig \<Rightarrow> goerror + string"
  xe_unmarshal :: "string \<Rightarrow> goerror + (string \<times> string)"
  xe_create :: "string \<Rightarrow> goerror option"

definition ex_render :: "exporter_env \<Rightarrow> ExporterConfig \<Rightarrow> string \<Rightarrow> goerror + string" where
  "ex_render E cfg yaml = map_sum id TrimSpace (xe_template E yaml cfg)"

definition Render :: "exporter_env \<Rightarrow> ExporterConfig \<Rightarrow> goerror + (string \<times> string)" where
  "Render E cfg0 =
     (let cfg = prepare cfg0 in
      case xe_ReadFile E (ex_DepYamlPath cfg) of
        Inl e \<Rightarrow> Inl (Wrapped ''unable load depYamlPath: '' e [])
      | Inr bs \<Rightarrow>
          (case ex_render E cfg bs of
             Inl e \<Rightarrow> Inl e
           | Inr depYaml \<Rightarrow>
               (case xe_ReadFile E (ex_ConfigYamlPath cfg) of
                  Inl e \<Rightarrow> Inl e
                | Inr bs \<Rightarrow> map_sum id (Pair depYaml) (ex_render E cfg bs))))"

definition ex_apply :: "exporter_env \<Rightarrow> ExporterConfig \<Rightarrow> goerror + ((string \<times> string) \<times> (string \<times> string))" where
  "ex_apply E cfg = (case Render E cfg of
     Inl e \<Rightarrow> Inl e
   | Inr (depYaml, cfgYaml) \<Rightarrow> (case xe_unmarshal E depYaml of
       Inl e \<Rightarrow> Inl e
     | Inr dep \<Rightarrow> map_sum id (Pair dep) (xe_unmarshal E cfgYaml)))"

text \<open>\<^verbatim>\<open>client.IgnoreAlreadyExists(cli.Create(...))\<close>: the server refuses to create what is there.\<close>

definition create_once :: "exporter_env \<Rightarrow> string \<times> string \<Rightarrow> (string \<rightharpoonup> string) \<Rightarrow> goerror option \<times> (string \<rightharpoonup> string)" where
  "create_once E obj cluster = (case xe_create E (fst obj) of
     Some e \<Rightarrow> (if IsAlreadyExists e then None else Some e, cluster)
   | None \<Rightarrow> if cluster (fst obj) \<noteq> None then (None, cluster) else (None, cluster(fst obj \<mapsto> snd obj)))"

definition Apply :: "exporter_env \<Rightarrow> ExporterConfig \<Rightarrow> (string \<rightharpoonup> string) \<Rightarrow> goerror option \<times> (string \<rightharpoonup> string)" where
  "Apply E cfg cluster = (case ex_apply E cfg of
     Inl e \<Rightarrow> (Some e, cluster)
   | Inr (dep, cm) \<Rightarrow>
       (case create_once E dep cluster of
          (Some e, cluster) \<Rightarrow> (Some e, cluster)
        | (None, cluster) \<Rightarrow> create_once E cm cluster))"

text \<open>Nothing that is in the cluster is changed: a deployment keeps the configuration it was created
  with.\<close>

lemma create_once_keeps: "cluster \<subseteq>\<^sub>m snd (create_once E obj cluster)"
  by (auto simp: create_once_def map_le_def split: option.splits)

lemma Apply_keeps: "cluster \<subseteq>\<^sub>m snd (Apply E cfg cluster)"
proof (cases "ex_apply E cfg")
  case (Inr r)
  obtain dep cm where r: "r = (dep, cm)" by (cases r)
  obtain err cl where run: "create_once E dep cluster = (err, cl)" by (cases "create_once E dep cluster")
  have first: "cluster \<subseteq>\<^sub>m cl" using create_once_keeps [of cluster E dep] run by simp
  with Inr r run show ?thesis
    by (cases err) (auto simp: Apply_def intro: map_le_trans [OF first] create_once_keeps)
qed (simp add: Apply_def)

section \<open>Role claims of a claim\<close>

text \<open>The index of role claims by the name of their claim; a role claim without a source makes the
  indexer panic.\<close>

definition role_claim_index :: "DbRoleClaim \<Rightarrow> string go" where
  "role_claim_index rc = (case rcs_SourceDatabaseClaim (rc_Spec rc) of None \<Rightarrow> Panic | Some (_, n) \<Rightarrow> Ret n)"

definition findObjectsForDatabaseClaim :: "goerror + DbRoleClaim list \<Rightarrow> (string \<times> string) list" where
  "findObjectsForDatabaseClaim listed = (case listed of
     Inl _ \<Rightarrow> [] | Inr items \<Rightarrow> map (\<lambda>rc. (m_Namespace (rc_Meta rc), m_Name (rc_Meta rc))) items)"

text \<open>With the list the index answers, every role claim of a claim is reconciled when the claim
  changes, and with it those of claims of the same name in other namespaces.\<close>

lemma role_claims_found:
  "rc \<in> set all \<Longrightarrow> rcs_SourceDatabaseClaim (rc_Spec rc) = Some (ns, name) \<Longrightarrow>
    (m_Namespace (rc_Meta rc), m_Name (rc_Meta rc)) \<in>
      set (findObjectsForDatabaseClaim (Inr (filter (\<lambda>rc. role_claim_index rc = Ret name) all)))"
  by (auto simp: findObjectsForDatabaseClaim_def role_claim_index_def)

end
