(* ===== verification/Startup.thy ===== *)
theory Startup
  imports Databaseclaim Roleclaim Webhooks
begin

text \<open>
  The start of the controller (\<^verbatim>\<open>cmd/main.go\<close>, \<^verbatim>\<open>pkg/config\<close>, \<^verbatim>\<open>internal/controller\<close> and the set-up of the
  webhooks): what is configured, checked and registered before the manager of the controller runtime
  serves. The manager, the reader of the configuration file and the process environment answer from a
  record of functions, as the environment of the reconcilers does.
\<close>

section \<open>The manager\<close>

text \<open>The flags that \<^verbatim>\<open>main\<close> declares, with the values they have without an argument.\<close>

record Flags =
  fl_metricsAddr :: string
  fl_probeAddr :: string
  fl_enableLeaderElection :: bool
  fl_secureMetrics :: bool
  fl_enableHTTP2 :: bool
  fl_class :: string
  fl_configFile :: string
  fl_dsnExecSidecarConfigPath :: string
  fl_metricsDepYamlPath :: string
  fl_metricsConfigYamlPath :: string
  fl_enableDBProxyWebhook :: bool
  fl_enableDeprecatedConversionWebhook :: bool
  fl_enableSidecarLivenessProbe :: bool
  fl_enableSidecarReadinessProbe :: bool

definition default_Flags :: Flags where
  "default_Flags = \<lparr>fl_metricsAddr = ''0'', fl_probeAddr = '':8081'', fl_enableLeaderElection = False,
     fl_secureMetrics = False, fl_enableHTTP2 = False, fl_class = ''default'',
     fl_configFile = ''/etc/config/config.yaml'',
     fl_dsnExecSidecarConfigPath = ''/etc/config/dsnexec/dsnexecsidecar.json'',
     fl_metricsDepYamlPath = ''/config/postgres-exporter/deployment.yaml'',
     fl_metricsConfigYamlPath = ''/config/postgres-exporter/config.yaml'',
     fl_enableDBProxyWebhook = False, fl_enableDeprecatedConversionWebhook = False,
     fl_enableSidecarLivenessProbe = False, fl_enableSidecarReadinessProbe = False\<rparr>"

text \<open>What the manager is created with; \<open>mo_NextProtos\<close> is what the options leave of the protocols of both servers,
  \<open>None\<close> where the library decides.\<close>

record manager_options =
  mo_MetricsAddr :: string
  mo_SecureServing :: bool
  mo_NextProtos :: "string list option"
  mo_WebhookPort :: nat
  mo_HealthProbeBindAddress :: string
  mo_LeaderElection :: bool
  mo_LeaderElectionID :: string

record podConverter =
  pcv_class :: string
  pcv_namespace :: string

datatype controller = ClaimController DatabaseClaimReconciler | RoleController RoleConfig

datatype hook = ClaimValidator | RoleValidator | PodDefaulter podAnnotator | PodConverter podConverter

datatype start_event =
    ReadConfig string "goerror option"
  | LoadKubeConfig "goerror option"
  | NewManager manager_options "goerror option"
  | IndexField string "goerror option"
  | AddController controller "goerror option"
  | AddWebhook hook "goerror option"
  | AddCheck string "goerror option"
  | GoUpdater
  | Start "goerror option"

type_synonym 'a start_prog = "(start_event, 'a) prog"

record manager_env =
  me_ReadInConfig :: "start_event list \<Rightarrow> string \<Rightarrow> goerror + viper"
  me_GetConfig :: "start_event list \<Rightarrow> goerror option"
  me_NewManager :: "start_event list \<Rightarrow> manager_options \<Rightarrow> goerror option"
  me_IndexField :: "start_event list \<Rightarrow> string \<Rightarrow> goerror option"
  me_Controller :: "start_event list \<Rightarrow> controller \<Rightarrow> goerror option"
  me_Webhook :: "start_event list \<Rightarrow> hook \<Rightarrow> goerror option"
  me_Check :: "start_event list \<Rightarrow> string \<Rightarrow> goerror option"
  me_Start :: "start_event list \<Rightarrow> goerror option"
  me_Getenv :: "string \<Rightarrow> string"

abbreviation add_controller :: "manager_env \<Rightarrow> controller \<Rightarrow> goerror option start_prog" where
  "add_controller M c \<equiv> call (\<lambda>h. me_Controller M h c) (AddController c)"

abbreviation add_webhook :: "manager_env \<Rightarrow> hook \<Rightarrow> goerror option start_prog" where
  "add_webhook M k \<equiv> call (\<lambda>h. me_Webhook M h k) (AddWebhook k)"

abbreviation add_check :: "manager_env \<Rightarrow> string \<Rightarrow> goerror option start_prog" where
  "add_check M n \<equiv> call (\<lambda>h. me_Check M h n) (AddCheck n)"

section \<open>Controllers\<close>

text \<open>The controller of claims holds a configuration that may be nil and the reconciler that its set-up makes.\<close>

record claim_controller =
  ctl_Client :: bool
  ctl_Config :: "DatabaseClaimConfig option"
  ctl_reconciler :: "DatabaseClaimReconciler option"

text \<open>\<^verbatim>\<open>databaseclaim.New\<close> reads the configuration, and so panics where it is nil.\<close>

definition Setup :: "claim_controller \<Rightarrow> claim_controller go" where
  "Setup r = (case ctl_Config r of
     None \<Rightarrow> Panic
   | Some cfg \<Rightarrow> Ret (r\<lparr>ctl_reconciler := Some (databaseclaim_New cfg)\<rparr>))"

definition SetupWithManager :: "manager_env \<Rightarrow> claim_controller \<Rightarrow> goerror option start_prog" where
  "SetupWithManager M r0 = bnd (of_go (Setup r0)) (\<lambda>r.
     if ctl_Config r = None then ret (Some (ErrMsg ''DatabaseClaimConfig is not set''))
     else if \<not> ctl_Client r then ret (Some (ErrMsg ''client is not set''))
     else case ctl_reconciler r of
       None \<Rightarrow> panic
     | Some rec \<Rightarrow> add_controller M (ClaimController rec))"

definition ctl_Reconcile ::
  "(string \<Rightarrow> string) \<Rightarrow> env \<Rightarrow> claim_controller \<Rightarrow> string \<Rightarrow> string \<Rightarrow> reconciled go_prog" where
  "ctl_Reconcile title E r ns n = (case ctl_reconciler r of None \<Rightarrow> panic | Some rec \<Rightarrow> Reconcile title E rec ns n)"

abbreviation dbClaimField :: string where "dbClaimField \<equiv> ''.spec.sourceDatabaseClaim.name''"

definition rc_SetupWithManager :: "manager_env \<Rightarrow> RoleConfig \<Rightarrow> goerror option start_prog" where
  "rc_SetupWithManager M cfg =
     check_err (call (\<lambda>h. me_IndexField M h dbClaimField) (IndexField dbClaimField))
       (add_controller M (RoleController cfg))"

section \<open>Webhooks\<close>

definition SetupDatabaseClaimWebhookWithManager :: "manager_env \<Rightarrow> goerror option start_prog" where
  "SetupDatabaseClaimWebhookWithManager M = add_webhook M ClaimValidator"

definition SetupDbRoleClaimWebhookWithManager :: "manager_env \<Rightarrow> goerror option start_prog" where
  "SetupDbRoleClaimWebhookWithManager M = add_webhook M RoleValidator"

definition setup_defaulter :: "manager_env \<Rightarrow> podAnnotator \<Rightarrow> goerror option start_prog" where
  "setup_defaulter M cfg = (case SetupWebhookWithManager cfg of
     Inl e \<Rightarrow> ret (Some e)
   | Inr p \<Rightarrow> add_webhook M (PodDefaulter p))"

text \<open>The conversion is registered with the webhook server itself, which does not fail.\<close>

definition SetupConversionWebhookWithManager :: "podConverter \<Rightarrow> goerror option start_prog" where
  "SetupConversionWebhookWithManager cfg =
     (if pcv_namespace cfg = [] then ret (Some (ErrMsg ''namespace must be set''))
      else if pcv_class cfg = [] then ret (Some (ErrMsg ''class must be set''))
      else call (\<lambda>_. None) (AddWebhook (PodConverter cfg)))"

section \<open>main\<close>

text \<open>How the process ends: \<^verbatim>\<open>os.Exit\<close> or the return of \<^verbatim>\<open>main\<close>.\<close>

datatype ending = Exit int | Returned

definition or_exit :: "goerror option start_prog \<Rightarrow> ending start_prog \<Rightarrow> ending start_prog" where
  "or_exit m k = bnd m (\<lambda>er. case er of Some _ \<Rightarrow> ret (Exit 1) | None \<Rightarrow> k)"

definition options_of :: "Flags \<Rightarrow> manager_options" where
  "options_of fl = \<lparr>mo_MetricsAddr = fl_metricsAddr fl, mo_SecureServing = fl_secureMetrics fl,
     mo_NextProtos = (if fl_enableHTTP2 fl then None else Some [''http/1.1'']), mo_WebhookPort = 9443,
     mo_HealthProbeBindAddress = fl_probeAddr fl, mo_LeaderElection = fl_enableLeaderElection fl,
     mo_LeaderElectionID = ''32151587.atlas.infoblox.com''\<rparr>"

text \<open>\<^verbatim>\<open>config.NewConfig\<close> ends the process where the file cannot be read.\<close>

definition config_NewConfig :: "manager_env \<Rightarrow> string \<Rightarrow> (viper \<Rightarrow> ending start_prog) \<Rightarrow> ending start_prog" where
  "config_NewConfig M file k =
     bnd (call (\<lambda>h. me_ReadInConfig M h file) (\<lambda>r. ReadConfig file (as_error r))) (\<lambda>r. case r of
       Inl _ \<Rightarrow> ret (Exit 1)
     | Inr v \<Rightarrow> k v)"

definition claim_config :: "Flags \<Rightarrow> viper \<Rightarrow> string \<Rightarrow> DatabaseClaimConfig" where
  "claim_config fl v namespace =
     \<lparr>cfg_Viper = v, cfg_Class = fl_class fl, cfg_Namespace = namespace, cfg_MetricsEnabled = True,
      cfg_MetricsDepYamlPath = fl_metricsDepYamlPath fl, cfg_MetricsConfigYamlPath = fl_metricsConfigYamlPath fl\<rparr>"

definition role_config :: "Flags \<Rightarrow> viper \<Rightarrow> string \<Rightarrow> RoleConfig" where
  "role_config fl v namespace = \<lparr>rcfg_Viper = v, rcfg_Class = fl_class fl, rcfg_Namespace = namespace\<rparr>"

definition annotator_config :: "manager_env \<Rightarrow> Flags \<Rightarrow> string \<Rightarrow> podAnnotator" where
  "annotator_config M fl namespace =
     \<lparr>pa_class = fl_class fl, pa_namespace = namespace, pa_dbProxyImg = me_Getenv M ''DBPROXY_IMAGE'',
      pa_dsnExecImg = me_Getenv M ''DSNEXEC_IMAGE'', pa_enableReady = fl_enableSidecarReadinessProbe fl,
      pa_enableLiveness = fl_enableSidecarLivenessProbe fl\<rparr>"

definition serve :: "manager_env \<Rightarrow> ending start_prog" where
  "serve M = bnd (call (\<lambda>_. ()) (\<lambda>_. GoUpdater)) (\<lambda>_.
     or_exit (call (me_Start M) Start) (ret Returned))"

definition setup_pod_webhooks :: "manager_env \<Rightarrow> Flags \<Rightarrow> string \<Rightarrow> ending start_prog \<Rightarrow> ending start_prog" where
  "setup_pod_webhooks M fl namespace k =
     (if \<not> fl_enableDBProxyWebhook fl then k
      else or_exit (setup_defaulter M (annotator_config M fl namespace))
        (if \<not> fl_enableDeprecatedConversionWebhook fl then k
         else or_exit (SetupConversionWebhookWithManager \<lparr>pcv_class = fl_class fl, pcv_namespace = namespace\<rparr>) k))"

text \<open>\<^verbatim>\<open>main\<close> after the configuration was read.\<close>

definition setup_manager :: "manager_env \<Rightarrow> Flags \<Rightarrow> viper \<Rightarrow> ending start_prog" where
  "setup_manager M fl ctlConfig =
     or_exit (call (me_GetConfig M) LoadKubeConfig)
     (or_exit (call (\<lambda>h. me_NewManager M h (options_of fl)) (NewManager (options_of fl)))
     (if GetString ctlConfig ''env'' = [] then ret (Exit 1) else
      let namespace = me_Getenv M ''SERVICE_NAMESPACE'' in
      if namespace = [] then ret (Exit 1) else
      or_exit (SetupWithManager M \<lparr>ctl_Client = True, ctl_Config = Some (claim_config fl ctlConfig namespace), ctl_reconciler = None\<rparr>)
     (or_exit (rc_SetupWithManager M (role_config fl ctlConfig namespace))
     (or_exit (SetupDatabaseClaimWebhookWithManager M)
     (or_exit (SetupDbRoleClaimWebhookWithManager M)
     (or_exit (add_check M ''healthz'')
     (or_exit (add_check M ''readyz'')
     (setup_pod_webhooks M fl namespace (serve M)))))))))"

definition main :: "manager_env \<Rightarrow> Flags \<Rightarrow> ending start_prog" where
  "main M fl = config_NewConfig M (fl_configFile fl) (setup_manager M fl)"

section \<open>Properties\<close>

text \<open>The webhooks that the flags ask for.\<close>

definition pod_hooks :: "manager_env \<Rightarrow> Flags \<Rightarrow> string \<Rightarrow> start_event list" where
  "pod_hooks M fl ns = (if fl_enableDBProxyWebhook fl
     then AddWebhook (PodDefaulter (annotator_config M fl ns)) None #
       (if fl_enableDeprecatedConversionWebhook fl then [AddWebhook (PodConverter \<lparr>pcv_class = fl_class fl, pcv_namespace = ns\<rparr>) None] else [])
     else [])"

text \<open>What has happened when the manager is started, oldest first: everything was registered once, in this
  order, and nothing failed.\<close>

definition setup_log :: "manager_env \<Rightarrow> Flags \<Rightarrow> viper \<Rightarrow> string \<Rightarrow> start_event list" where
  "setup_log M fl v ns =
     [ReadConfig (fl_configFile fl) None, LoadKubeConfig None, NewManager (options_of fl) None,
      AddController (ClaimController (databaseclaim_New (claim_config fl v ns))) None,
      IndexField dbClaimField None, AddController (RoleController (role_config fl v ns)) None,
      AddWebhook ClaimValidator None, AddWebhook RoleValidator None, AddCheck ''healthz'' None, AddCheck ''readyz'' None] @
     pod_hooks M fl ns @ [GoUpdater]"

text \<open>\<open>serves log m\<close>: a run of \<open>m\<close> exits with status 1 before the manager is started, or it starts the manager, once and
  after exactly the events of \<open>log\<close>; then the status of the process tells what the manager answered.\<close>

definition exit_of :: "goerror option \<Rightarrow> ending" where
  "exit_of er = (if er = None then Returned else Exit 1)"

definition not_started :: "start_event list \<Rightarrow> bool" where
  "not_started es \<longleftrightarrow> (\<forall>er. Start er \<notin> set es)"

definition serves :: "start_event list \<Rightarrow> ending start_prog \<Rightarrow> bool" where
  "serves log m \<longleftrightarrow> (\<forall>h. \<exists>x es. m h = (Ret x, es @ h) \<and>
     (x = Exit 1 \<and> not_started es \<or> (\<exists>er. es = Start er # rev log \<and> x = exit_of er)))"

lemma servesE:
  assumes "serves log m"
  obtains (exits) es where "m h = (Ret (Exit 1), es @ h)" "not_started es"
    | (runs) er where "m h = (Ret (exit_of er), Start er # rev log @ h)"
  using assms unfolding serves_def by (metis append_Cons)

named_theorems serves_intros \<open>what the steps of \<open>main\<close> add to the log\<close>

lemma serves_exit [serves_intros]: "serves log (ret (Exit 1))"
  by (simp add: serves_def ret_def not_started_def)

lemma serves_call [serves_intros]:
  assumes k: "serves log k" and ev: "\<And>x er. ev x \<noteq> Start er"
  shows "serves (ev None # log) (or_exit (call ask ev) k)"
  unfolding serves_def
proof
  fix h
  show "\<exists>x es. or_exit (call ask ev) k h = (Ret x, es @ h) \<and>
     (x = Exit 1 \<and> not_started es \<or> (\<exists>er. es = Start er # rev (ev None # log) \<and> x = exit_of er))"
  proof (cases "ask h")
    case None
    from k show ?thesis
      by (cases rule: servesE [where h = "ev None # h"])
        (use None ev ev [symmetric] in \<open>auto simp: or_exit_def prog_simps not_started_def intro: exI [of _ "es @ [ev None]" for es]\<close>)
  next
    case (Some e)
    with ev show ?thesis by (auto simp: or_exit_def prog_simps not_started_def intro!: exI [of _ "[ev (Some e)]"] dest: sym)
  qed
qed

lemma serves_serve: "serves [GoUpdater] (serve M)"
  by (auto simp: serves_def serve_def or_exit_def prog_simps exit_of_def split: option.split)

lemma or_exit_simps:
  "or_exit (check_err a b) k = or_exit a (or_exit b k)" "or_exit (ret (Some e)) k = ret (Exit 1)"
  by (auto simp: or_exit_def check_err_def bnd_def ret_def fun_eq_iff split: prod.split go.split option.split)

lemma SetupWithManager_config:
  "SetupWithManager M \<lparr>ctl_Client = True, ctl_Config = Some cfg, ctl_reconciler = r\<rparr> =
   add_controller M (ClaimController (databaseclaim_New cfg))"
  by (simp add: SetupWithManager_def Setup_def of_go_def)

text \<open>The test for a nil configuration comes too late.\<close>

lemma SetupWithManager_nil: "ctl_Config r = None \<Longrightarrow> SetupWithManager M r h = (Panic, h)"
  by (simp add: SetupWithManager_def Setup_def of_go_def prog_simps)

definition sidecars_configured :: "manager_env \<Rightarrow> Flags \<Rightarrow> bool" where
  "sidecars_configured M fl \<longleftrightarrow> (fl_enableDBProxyWebhook fl \<longrightarrow>
     fl_class fl \<noteq> [] \<and> me_Getenv M ''DBPROXY_IMAGE'' \<noteq> [] \<and> me_Getenv M ''DSNEXEC_IMAGE'' \<noteq> [])"

lemma serves_pod_webhooks:
  assumes "serves log k" and "ns \<noteq> []" and "sidecars_configured M fl"
  shows "serves (pod_hooks M fl ns @ log) (setup_pod_webhooks M fl ns k)"
  using assms
  by (auto simp: setup_pod_webhooks_def setup_defaulter_def SetupWebhookWithManager_def SetupConversionWebhookWithManager_def
      sidecars_configured_def annotator_config_def pod_hooks_def intro!: serves_intros)

text \<open>Whatever is missing, the process exits before the manager is started.\<close>

definition exits :: "ending start_prog \<Rightarrow> bool" where
  "exits m \<longleftrightarrow> (\<forall>h. \<exists>es. m h = (Ret (Exit 1), es @ h) \<and> not_started es)"

lemma exits_exit: "exits (ret (Exit 1))"
  by (simp add: exits_def ret_def not_started_def)

lemma exits_call:
  assumes k: "exits k" and ev: "\<And>x er. ev x \<noteq> Start er"
  shows "exits (or_exit (call ask ev) k)"
  unfolding exits_def
proof
  fix h
  from k obtain es where es: "k (ev None # h) = (Ret (Exit 1), es @ ev None # h)" "not_started es"
    unfolding exits_def by blast
  show "\<exists>es. or_exit (call ask ev) k h = (Ret (Exit 1), es @ h) \<and> not_started es"
  proof (cases "ask h")
    case None
    with es ev show ?thesis
      by (intro exI [of _ "es @ [ev None]"]) (auto simp: or_exit_def prog_simps not_started_def dest: sym)
  next
    case (Some e)
    with ev show ?thesis
      by (intro exI [of _ "[ev (Some e)]"]) (auto simp: or_exit_def prog_simps not_started_def dest: sym)
  qed
qed

lemmas setup_defs = setup_manager_def SetupWithManager_config rc_SetupWithManager_def SetupDatabaseClaimWebhookWithManager_def
  SetupDbRoleClaimWebhookWithManager_def or_exit_simps Let_def

lemma serves_setup_manager:
  assumes "GetString v ''env'' \<noteq> []" and "me_Getenv M ''SERVICE_NAMESPACE'' \<noteq> []" and "sidecars_configured M fl"
  shows "serves (tl (setup_log M fl v (me_Getenv M ''SERVICE_NAMESPACE''))) (setup_manager M fl v)"
  using assms serves_pod_webhooks [OF serves_serve assms(2,3)]
  by (simp add: setup_defs setup_log_def) (intro serves_intros; simp)

lemma exits_setup_manager:
  assumes "GetString v ''env'' = [] \<or> me_Getenv M ''SERVICE_NAMESPACE'' = [] \<or> \<not> sidecars_configured M fl"
  shows "exits (setup_manager M fl v)"
proof -
  have "setup_pod_webhooks M fl ns k = ret (Exit 1)" if "ns \<noteq> []" "\<not> sidecars_configured M fl" for ns k
    using that by (auto simp: setup_pod_webhooks_def setup_defaulter_def SetupWebhookWithManager_def or_exit_simps
        sidecars_configured_def annotator_config_def)
  with assms show ?thesis unfolding setup_defs
    by (auto intro!: exits_exit exits_call)
qed

text \<open>The reader of the configuration is asked for \<^verbatim>\<open>AutomaticEnv\<close>: a variable of the process environment, where it is set, goes
  before the file. Variables have the names of their keys in capitals.\<close>

definition upper :: "string \<Rightarrow> string" where
  "upper k = map (\<lambda>c. if CHR ''a'' \<le> c \<and> c \<le> CHR ''z'' then char_of ((of_char c :: nat) - 32) else c) k"

definition automatic_env :: "manager_env \<Rightarrow> bool" where
  "automatic_env M \<longleftrightarrow> (\<forall>h f v k. me_ReadInConfig M h f = Inr v \<longrightarrow> me_Getenv M (upper k) \<noteq> [] \<longrightarrow>
     GetString v k = me_Getenv M (upper k))"

lemma automatic_namespace:
  assumes "automatic_env M" and "me_ReadInConfig M h f = Inr v" and "me_Getenv M ''SERVICE_NAMESPACE'' \<noteq> []"
  shows "rec_serviceNS (databaseclaim_New (claim_config fl v (me_Getenv M ''SERVICE_NAMESPACE''))) = me_Getenv M ''SERVICE_NAMESPACE''"
proof -
  have "upper ''SERVICE_NAMESPACE'' = ''SERVICE_NAMESPACE''" by (simp add: upper_def less_eq_char_def)
  with assms show ?thesis by (simp add: automatic_env_def databaseclaim_New_def claim_config_def)
qed

text \<open>
  C18: the controller serves only when it is completely set up. A run of \<^verbatim>\<open>main\<close> never panics; either it exits
  with status 1 and the manager was never started, or the configuration was read and names the
  environment, the class and both images are set where pods are to get sidecars, and when the manager is started
  both controllers, both validators, both checks and exactly the webhooks that the flags ask for have been
  registered, each once and without an error. The reconciler of claims then looks secrets up in
  the namespace it creates them in, although it learns the two from different places. The process
  returns if and only if the manager did without an error.
\<close>

theorem main_serves:
  assumes "automatic_env M"
  shows "\<exists>x es. main M fl h = (Ret x, es @ h) \<and>
     (x = Exit 1 \<and> (\<forall>er. Start er \<notin> set es) \<or>
      (\<exists>v ns r er. me_ReadInConfig M h (fl_configFile fl) = Inr v \<and> GetDBIdentifierPrefix v \<noteq> [] \<and> sidecars_configured M fl \<and>
         ns = me_Getenv M ''SERVICE_NAMESPACE'' \<and> es = Start er # rev (setup_log M fl v ns) \<and>
         r = databaseclaim_New (claim_config fl v ns) \<and> getServiceNamespace r = Inr (rec_serviceNS r) \<and> rec_serviceNS r \<noteq> [] \<and>
         x = (if er = None then Returned else Exit 1)))"
proof -
  let ?ns = "me_Getenv M ''SERVICE_NAMESPACE''" and ?f = "fl_configFile fl"
  note run = main_def config_NewConfig_def prog_simps as_error_def
  show ?thesis
  proof (cases "me_ReadInConfig M h ?f")
    case (Inl e)
    then show ?thesis by (intro exI [of _ "Exit 1"] exI [of _ "[ReadConfig ?f (Some e)]"]) (simp add: run)
  next
    case (Inr v)
    let ?h = "ReadConfig ?f None # h"
    have main: "main M fl h = setup_manager M fl v ?h" using Inr by (simp add: run)
    have log: "setup_log M fl v ?ns = ReadConfig ?f None # tl (setup_log M fl v ?ns)" by (simp add: setup_log_def)
    have exit: ?thesis if "setup_manager M fl v ?h = (Ret (Exit 1), es @ ?h)" "not_started es" for es
      using that unfolding main not_started_def by (intro exI [of _ "Exit 1"] exI [of _ "es @ [ReadConfig ?f None]"]) simp
    show ?thesis
    proof (cases "GetString v ''env'' = [] \<or> ?ns = [] \<or> \<not> sidecars_configured M fl")
      case True
      from exits_setup_manager [OF this] exit show ?thesis unfolding exits_def by blast
    next
      case False
      then have "serves (tl (setup_log M fl v ?ns)) (setup_manager M fl v)" by (intro serves_setup_manager) auto
      then show ?thesis
      proof (cases rule: servesE [where h = ?h])
        case (runs er)
        then have "main M fl h = (Ret (exit_of er), (Start er # rev (setup_log M fl v ?ns)) @ h)"
          unfolding main by (subst log) simp
        moreover have "getServiceNamespace (databaseclaim_New (claim_config fl v ?ns)) = Inr ?ns"
          using False by (simp add: getServiceNamespace_def databaseclaim_New_def claim_config_def)
        ultimately show ?thesis using Inr False automatic_namespace [OF assms Inr]
          by (auto simp: exit_of_def GetDBIdentifierPrefix_def intro!: exI [of _ ?ns])
      qed (rule exit)
    qed
  qed
qed

text \<open>A machine on which everything is set and nothing fails.\<close>

definition sample_manager :: manager_env where
  "sample_manager = \<lparr>me_ReadInConfig = (\<lambda>h f. Inr (sample_viper\<lparr>GetString := \<lambda>k. if upper k = ''SERVICE_NAMESPACE'' then ''db'' else
       if upper k = ''DBPROXY_IMAGE'' then ''proxy:1'' else if upper k = ''DSNEXEC_IMAGE'' then ''exec:1'' else GetString sample_viper k\<rparr>)),
     me_GetConfig = (\<lambda>h. None), me_NewManager = (\<lambda>h opts. None), me_IndexField = (\<lambda>h f. None), me_Controller = (\<lambda>h c. None),
     me_Webhook = (\<lambda>h k. None), me_Check = (\<lambda>h n. None), me_Start = (\<lambda>h. None),
     me_Getenv = (\<lambda>k. if k = ''SERVICE_NAMESPACE'' then ''db'' else if k = ''DBPROXY_IMAGE'' then ''proxy:1'' else
       if k = ''DSNEXEC_IMAGE'' then ''exec:1'' else [])\<rparr>"

theorem main_serves_witness:
  "automatic_env sample_manager \<and> (\<exists>es v. main sample_manager (default_Flags\<lparr>fl_enableDBProxyWebhook := True\<rparr>) [] = (Ret Returned, es) \<and>
     es = Start None # rev (setup_log sample_manager (default_Flags\<lparr>fl_enableDBProxyWebhook := True\<rparr>) v ''db''))"
proof -
  have env: "automatic_env sample_manager" by (auto simp: automatic_env_def sample_manager_def)
  let ?fl = "default_Flags\<lparr>fl_enableDBProxyWebhook := True\<rparr>"
  have "fst (main sample_manager ?fl []) = Ret Returned"
    by (simp add: main_def config_NewConfig_def setup_defs or_exit_def setup_pod_webhooks_def setup_defaulter_def SetupWebhookWithManager_def
      annotator_config_def serve_def sample_manager_def default_Flags_def sample_viper_def prog_simps upper_def less_eq_char_def)
  with main_serves [OF env, of ?fl "[]"] env show ?thesis
    by (auto simp: sample_manager_def split: if_splits)
qed

end
