(* ===== verification/Spec2Isabelle.thy ===== *)
theory Spec2Isabelle
  imports Published Roleclaim Proxymain Progress Fprintf Rdsauth Metrics Startup
begin

text \<open>
  db-controller provisions PostgreSQL databases for Kubernetes applications. An application writes a
  \<^verbatim>\<open>DatabaseClaim\<close>; the controller creates a database in AWS or GCP (through crossplane resources), its
  users and extensions, publishes the connection in a secret, rotates the users' passwords, and moves
  the data of a claim to another database when the claim asks for another engine, shape or version,
  or takes a foreign database over. A \<^verbatim>\<open>DbRoleClaim\<close> asks for further users of a claim's database. Webhooks
  inject a proxy into the pods of an application and guard the deletion of claims; the proxy keeps
  pgbouncer's configuration in step with the published connection, and dsnexec runs commands whenever
  it changes. This library models the two reconcilers and everything of the repository that they call,
  the start of the controller, the webhooks, the proxy and dsnexec.

  \<^bold>\<open>How programs are modelled.\<close> Go code that only computes is a HOL function; strings are lists of
  characters, durations and the checksum keep their width (\<open>Basefunctions\<close>, \<open>Crc32\<close>). Code with effects
  is a program (type \<open>prog\<close> of \<open>Prelude\<close>): a function from the history of calls so far, newest first,
  to an outcome and a longer history; the outcome is a value or a panic, errors are values. What a
  call answers (the Kubernetes API, SQL, the cloud's resources, the clock, the password generator) is
  a field of the record \<open>env\<close> of \<open>World\<close>, a function of the history: every theorem holds for every such
  environment unless it names a hypothesis on it. The two judgements \<open>emits\<close> (every call of a program
  satisfies a predicate) and \<open>returns\<close> (every value it returns does) have introduction rules in the
  collection \<open>trace_intros\<close>, so that facts about a whole reconciliation follow the shape of the code.

  \<^bold>\<open>Theories and sources\<close>
    \<^item> \<open>Prelude\<close>: programs, their equations and judgements, generic lemmas, the contract \<open>codec\<close> of an
      encoder and its decoder. \<open>Keyed_List\<close>: the contract of a list that is kept like a map.
    \<^item> \<open>GoUrl\<close>: what the sources use of Go's \<^verbatim>\<open>net/url\<close>. \<open>Crc32\<close>: the checksum of host names.
    \<^item> \<open>Api_Types\<close> (\<^verbatim>\<open>api/v1\<close>): the resources as records; \<open>Uri\<close> and \<open>ParseUri\<close>, an instance of \<open>codec\<close>.
    \<^item> \<open>World\<close>: the environment, the events of a history, the resources of the cloud.
    \<^item> \<open>Basefunctions\<close>, \<open>Hostparams\<close>, \<open>Dbuser\<close> (\<^verbatim>\<open>pkg/basefunctions\<close>, \<^verbatim>\<open>pkg/hostparams\<close>, \<^verbatim>\<open>pkg/dbuser\<close>):
      configuration, the parameters that name a host, the two users of a role and their rotation.
    \<^item> \<open>Requestinfo\<close>, \<open>Modeenum\<close>, \<open>Claimstatus\<close> (\<^verbatim>\<open>pkg/databaseclaim/requestinfo.go\<close>, \<^verbatim>\<open>modeenum.go\<close>,
      \<^verbatim>\<open>claimstatus.go\<close>): the resolved request, the mode of operation, the status of a claim.
    \<^item> \<open>Pgctl\<close> (\<^verbatim>\<open>pkg/pgctl\<close>): the states of a migration; \<open>Execute\<close> runs one of them. The inductive relation
      \<open>migrating\<close> is the machine with everything that may happen between its steps.
    \<^item> \<open>Dbclient\<close> (\<^verbatim>\<open>pkg/dbclient\<close>), \<open>Auth\<close> (\<^verbatim>\<open>pkg/auth\<close>, \<^verbatim>\<open>pkg/kctlutils\<close>, \<^verbatim>\<open>creds.go\<close>), \<open>Secrets\<close> (\<^verbatim>\<open>secrets.go\<close>),
      \<open>Resources\<close> (tags, backup policy, readiness of resources).
    \<^item> \<open>Awsprovider\<close>, \<open>Gcpprovider\<close> (\<^verbatim>\<open>awsprovider.go\<close>, \<^verbatim>\<open>gcpprovider.go\<close>): provisioning and deletion.
    \<^item> \<open>Claimdb\<close>, \<open>Migration\<close>, \<open>Databaseclaim\<close> (\<^verbatim>\<open>databaseclaim.go\<close>): databases and users of a claim,
      migrations, and \<open>Reconcile\<close>. \<open>Published\<close>: from the users of a database to the secret of the claim. The reconciler is
      the record \<open>DatabaseClaimReconciler\<close> of \<open>Resources\<close>: its configuration, and what is derived from it once.
    \<^item> \<open>Startup\<close> (\<^verbatim>\<open>cmd/main.go\<close>, \<^verbatim>\<open>pkg/config\<close>, \<^verbatim>\<open>internal/controller\<close>): what is checked and registered before the manager
      serves, as a program over the calls to the manager.
    \<^item> \<open>Roleclaim\<close> (\<^verbatim>\<open>pkg/roleclaim\<close>): the reconciler of role claims, \<open>rc_Reconcile\<close>.
    \<^item> \<open>Webhooks\<close> (\<^verbatim>\<open>internal/webhook\<close>): injection of the proxy, conversion of pods with deprecated
      annotations, validation of deletions.
    \<^item> \<open>Md5\<close>, \<open>Pgbouncer\<close>, \<open>Dbproxy\<close> (\<^verbatim>\<open>dbproxy\<close>): Go's \<^verbatim>\<open>crypto/md5\<close>; the configuration of pgbouncer, written
      to a file system that may fail; the event loop, as the inductive relation \<open>proxying\<close>. \<open>Sidecar\<close>: the proxy's
      command, in the container that the webhook injects, fed by the secret that the reconciler writes. \<open>Proxymain\<close>: its
      process, with the thread that waits for a signal, as the inductive relation \<open>proc_step\<close>.
    \<^item> \<open>Dsnexec\<close>, \<open>Fprintf\<close> (\<^verbatim>\<open>dsnexec\<close>): the handler of sources and commands and its loop, casts, the shell
      driver; the driver that replaces files; the command \<^verbatim>\<open>run\<close>. Concurrent updates are the inductive relation \<open>handling\<close>.
    \<^item> \<open>Rdsauth\<close> (\<^verbatim>\<open>pkg/rdsauth\<close>): master tokens. \<open>Metrics\<close> (\<^verbatim>\<open>internal/metrics\<close>, \<^verbatim>\<open>pkg/postgres-exporter\<close>,
      \<^verbatim>\<open>internal/controller\<close>): gauges over claims and their updates, the exporter of a claim, role claims to be reconciled.
    \<^item> \<open>Progress\<close>: what the environment has to do for a migration to be completed, and that it is.

  \<^bold>\<open>What is shown.\<close> A reconciliation deletes only the cloud resources of a claim that may be deleted, or those
  of the old database after a migration, each by name, and gives up the finalizer last. Every claim is in
  exactly the migration workflow that its request and its status call for. A migration drops its subscription and switches the claim to the new
  database only after writes on the source were revoked and rows counted; the loop that runs it
  refines the state machine, resumes where it stopped and ends; where databases and cluster serve, two
  runs of it complete the migration. Provisioning creates only what is
  named after the claim, and settles; a provisioned claim asks for nothing new. Secrets and URIs read
  back as what was written; the user and the password that a claim publishes are those the database
  has, through all of a request; errors are reported to the queue and written to the claim's status. The controller serves only when it is completely set up. Role claims
  write only their secret and themselves, and run only statements about their users, schemas and roles. The webhooks settle after a bounded number of calls.
  The scripts that start and reload pgbouncer are run only with complete files on disk, and the connection
  that the controller publishes reaches these files through the injected sidecar. dsnexec executes every
  command with the connection strings of the moment, and its file driver replaces files as a whole.
  Some theorems state where the code falls short of this: the superuser membership kept
  after a failed copy, the source lost sight of while its secret is rerouted, a password recorded for
  a user that does not exist, panics on answers the code does not expect, claims' secrets that the
  conversion of pods cannot use, an existing source that is never served because its password is in a
  secret, files emptied by a duplicate event, ports that turn negative, a
  gauge with swapped labels, a pgbouncer left running after a signal.

  \<^bold>\<open>Bounds.\<close> The loop over migration states has fuel 16. Each turn either leaves the loop or moves to a
  state with a greater number (the retry of a state leaves the loop too), and there are fewer states
  than that; \<open>Migration\<close> proves that the fuel is never used up and that more of it changes nothing.

  \<^bold>\<open>Simplifications.\<close> A write of a claim that succeeds changes the resource version only (\<open>World\<close> says why the
  server's answer makes no other difference); a patch is recorded as the object it leads to; \<open>DBTags\<close> sorts
  stably; the goroutine that removes a temporary file of the file driver is awaited; an update of dsnexec is
  taken on its own, with the interleavings in \<open>handling\<close>. Hypotheses on the environment are documented
  behaviour of Kubernetes or of the database and have an instance: that a read answers the object of the name
  asked for (\<open>answers_named\<close>, \<open>answers_secrets\<close>) and what was written last (\<open>reads_own_writes\<close>), that a query
  for the roles of a user answers those granted (\<open>answers_roles\<close>), that a secret is projected into files.

  \<^bold>\<open>Not modelled.\<close> Logging, counters and histograms; objects' fields the code neither reads nor sets; the
  generated deep copies (HOL values have no aliases); the
  controller runtime behind the calls of \<open>Startup\<close>, its event filters and the parsing of command lines; what the
  scripts of pgbouncer do and when pgbouncer reads its files; test doubles and test databases; the stubs of
  \<^verbatim>\<open>pkg/providers\<close>, which nothing calls.
\<close>

section \<open>Secrets and the conversion of pods\<close>

text \<open>
  C39: the secret of a claim, as this controller creates it, is of no use to a pod with deprecated
  annotations. The reconciler creates the secret without an owner, the conversion looks the claim up
  by the owners of the secret: whatever else the pod and the cluster have, the conversion of a pod that
  names the secret is answered by an error, and the pod is refused.
\<close>

theorem claim_secret_unconvertible:
  assumes "createOrUpdateSecret E c info cloud h = (Ret None, K8s (EvCreateSecret s None) # rest)"
    and "e_GetSecret (e_k8s E') h2 (pod_Namespace pod) (deprecated_secret pod) = Inr s"
    and "map_get (pod_Annotations pod) DeprecatedAnnotationDBSecretPath \<noteq> []"
    and "map_get (pod_Labels pod) LabelCheckExec \<noteq> ''enabled''" and "map_get (pod_Labels pod) LabelCheckProxy \<noteq> ''enabled''"
  shows "Handle E' class pod h2 = (Ret (Errored (ErrMsg ''unable to find claim owner reference'')),
    K8s (EvGetSecret (pod_Namespace pod) (deprecated_secret pod) (Inr s)) # h2)"
proof -
  from assms(1) have "sec_Owner s = []"
    by (auto simp: createOrUpdateSecret_def createSecret_def updateSecret_def k8s_calls prog_simps Let_def
        split: if_splits sum.splits option.splits)
  with assms(2-) show ?thesis
    by (simp add: Handle_def convertPod_def getClaimName_def claim_owner_def getSecret_def prog_simps Let_def)
qed

theorem claim_secret_unconvertible_witness:
  "\<exists>s h'. createOrUpdateSecret sample_env sample_claim empty_ConnInfo ''aws'' [] = (Ret None, K8s (EvCreateSecret s None) # h') \<and>
     (\<exists>h2. Handle (sample_env\<lparr>e_k8s := sample_k8s\<lparr>e_GetSecret := \<lambda>h ns n. Inr s\<rparr>\<rparr>) ''default'' old_pod [] =
       (Ret (Errored (ErrMsg ''unable to find claim owner reference'')), h2))"
proof -
  obtain s h' where run: "createOrUpdateSecret sample_env sample_claim empty_ConnInfo ''aws'' [] = (Ret None, K8s (EvCreateSecret s None) # h')"
    by (simp add: createOrUpdateSecret_def createSecret_def sample_claim_def k8s_calls prog_simps sample_defs Let_def)
  have pod: "map_get (pod_Annotations old_pod) DeprecatedAnnotationDBSecretPath \<noteq> []"
    "map_get (pod_Labels old_pod) LabelCheckExec \<noteq> ''enabled''" "map_get (pod_Labels old_pod) LabelCheckProxy \<noteq> ''enabled''"
    by (simp_all add: old_pod_def map_get_def)
  from claim_secret_unconvertible [OF run _ pod, of "sample_env\<lparr>e_k8s := sample_k8s\<lparr>e_GetSecret := \<lambda>h ns n. Inr s\<rparr>\<rparr>" "[]"] run
  show ?thesis by auto
qed

end
